(* ===== verification/Prelude.thy ===== *)
theory Prelude
  imports Main "HOL-Library.Word" "HOL-Library.Char_ord" "HOL-Library.List_Lexorder"
    "HOL-Library.Product_Lexorder" "HOL-Library.Sublist" "HOL-Library.Multiset"
begin

text \<open>
  Shared vocabulary of the development: machine integers, byte strings with Rust's
  ordering, the standard-library string and vector operations the sources use
  (decimal printing and parsing, \<^verbatim>\<open>join\<close>, \<^verbatim>\<open>split_whitespace\<close>, \<^verbatim>\<open>trim\<close>,
  \<^verbatim>\<open>sort\<close> followed by \<^verbatim>\<open>dedup\<close>, stable \<^verbatim>\<open>sort_by_key\<close>), and the facts about
  them that the component theories use.

  A Rust string is its UTF-8 byte sequence: a \<^typ>\<open>char\<close> is one byte, and
  the lexicographic order on \<^typ>\<open>string\<close> is \<^verbatim>\<open>str::cmp\<close>. White space is ASCII white
  space. Rust's \<^verbatim>\<open>slice::sort_by\<close> is a stable sort, which is what
  \<^const>\<open>sort_key\<close> is; \<^verbatim>\<open>Vec::dedup\<close> is \<^const>\<open>remdups_adj\<close>.
\<close>

named_theorems component_defs \<open>definitions of operations, unfolded by the component proofs\<close>

type_synonym u8 = "8 word"
type_synonym u32 = "32 word"
type_synonym u64 = "64 word"
type_synonym bytes = "u8 list"

section \<open>Sorting and removing duplicates\<close>

definition sort_dedup :: "'a::linorder list \<Rightarrow> 'a list" where
  "sort_dedup xs = remdups_adj (sort xs)"

lemma set_sort_dedup [simp]: "set (sort_dedup xs) = set xs"
  by (simp add: sort_dedup_def)

lemma remdups_adj_sorted_distinct: "sorted xs \<Longrightarrow> distinct (remdups_adj xs)"
proof (induction xs rule: remdups_adj.induct)
  case (3 x y xs)
  then show ?case by (force simp: Ball_def)
qed auto

lemma sorted_sort_dedup [simp]: "sorted (sort_dedup xs)"
  by (simp add: sort_dedup_def)

lemma distinct_sort_dedup [simp]: "distinct (sort_dedup xs)"
  by (simp add: sort_dedup_def remdups_adj_sorted_distinct)

lemma sort_dedup_eq_sorted_list_of_set: "sort_dedup xs = sorted_list_of_set (set xs)"
  by (rule sorted_distinct_set_unique) auto

lemma sort_dedup_cong_set: "set xs = set ys \<Longrightarrow> sort_dedup xs = sort_dedup ys"
  by (simp add: sort_dedup_eq_sorted_list_of_set)

lemma sort_dedup_idem [simp]: "sort_dedup (sort_dedup xs) = sort_dedup xs"
  by (rule sort_dedup_cong_set) simp

lemma sort_dedup_fixed: "sorted xs \<Longrightarrow> distinct xs \<Longrightarrow> sort_dedup xs = xs"
  by (rule sorted_distinct_set_unique) auto

lemma sort_dedup_Nil [simp]: "sort_dedup [] = []"
  by (simp add: sort_dedup_def)

lemma sort_dedup_Nil_iff [simp]: "sort_dedup xs = [] \<longleftrightarrow> xs = []"
  by (metis set_empty set_sort_dedup)

text \<open>
  A stable sort by a key that separates the elements depends only on the multiset of its
  input: the determinism the sources claim for every ordered report.
\<close>

lemmas sort_key_determined = sort_key_eq_sort_key

lemma map_sort_key: "map k (sort_key k xs) = sort (map k xs)"
  by (rule properties_for_sort [symmetric]) simp_all

section \<open>Options and results\<close>

text \<open>\<^verbatim>\<open>Result\<close> is a sum with \<^const>\<open>Inl\<close> for the error; \<open>res_bind\<close> is the \<^verbatim>\<open>?\<close> operator.\<close>

fun res_bind :: "'e + 'a \<Rightarrow> ('a \<Rightarrow> 'e + 'b) \<Rightarrow> 'e + 'b" where
  "res_bind (Inl e) f = Inl e"
| "res_bind (Inr x) f = f x"

lemma res_bind_Inr_iff: "res_bind r f = Inr y \<longleftrightarrow> (\<exists>x. r = Inr x \<and> f x = Inr y)"
  by (cases r) auto

lemma res_bind_assoc: "res_bind (res_bind r f) g = res_bind r (\<lambda>x. res_bind (f x) g)"
  by (cases r) simp_all

lemma res_bind_Inl_iff:
  "res_bind r f = Inl e \<longleftrightarrow> r = Inl e \<or> (\<exists>x. r = Inr x \<and> f x = Inl e)"
  by (cases r) auto

abbreviation is_ok :: "'e + 'a \<Rightarrow> bool" where
  "is_ok r \<equiv> \<not> isl r"

definition unwrap_or :: "'a option \<Rightarrow> 'a \<Rightarrow> 'a" where
  "unwrap_or x d = (case x of None \<Rightarrow> d | Some v \<Rightarrow> v)"

lemma unwrap_or_simps [simp]: "unwrap_or None d = d" "unwrap_or (Some v) d = v"
  by (simp_all add: unwrap_or_def)

definition or_else :: "'a option \<Rightarrow> 'a option \<Rightarrow> 'a option" where
  "or_else a b = (case a of None \<Rightarrow> b | Some x \<Rightarrow> Some x)"

section \<open>Decimal numerals\<close>

definition digit_char :: "nat \<Rightarrow> char" where
  "digit_char d = char_of (48 + d)"

definition char_digit :: "char \<Rightarrow> nat option" where
  "char_digit c = (let n = of_char c :: nat in if 48 \<le> n \<and> n \<le> 57 then Some (n - 48) else None)"

fun show_nat :: "nat \<Rightarrow> string" where
  "show_nat n = (if n < 10 then [digit_char n] else show_nat (n div 10) @ [digit_char (n mod 10)])"

declare show_nat.simps [simp del]

fun parse_digits :: "nat \<Rightarrow> string \<Rightarrow> nat option" where
  "parse_digits acc [] = Some acc"
| "parse_digits acc (c # cs) =
     (case char_digit c of None \<Rightarrow> None | Some d \<Rightarrow> parse_digits (10 * acc + d) cs)"

text \<open>
  \<^verbatim>\<open>str::parse\<close> for an unsigned integer type with values below \<open>bound\<close>: an optional plus sign,
  at least one digit, an error on overflow.
\<close>

definition parse_unsigned :: "nat \<Rightarrow> string \<Rightarrow> nat option" where
  "parse_unsigned bound s =
     (let ds = (case s of [] \<Rightarrow> [] | c # cs \<Rightarrow> if c = CHR ''+'' then cs else s) in
      if ds = [] then None
      else case parse_digits 0 ds of
             None \<Rightarrow> None
           | Some n \<Rightarrow> if n < bound then Some n else None)"

definition parse_u32 :: "string \<Rightarrow> u32 option" where
  "parse_u32 s = map_option of_nat (parse_unsigned (2 ^ 32) s)"

definition show_u32 :: "u32 \<Rightarrow> string" where
  "show_u32 w = show_nat (unat w)"

definition show_u64 :: "u64 \<Rightarrow> string" where
  "show_u64 w = show_nat (unat w)"

lemma char_digit_digit_char [simp]: "d < 10 \<Longrightarrow> char_digit (digit_char d) = Some d"
  by (simp add: char_digit_def digit_char_def)

lemma parse_digits_append:
  "parse_digits acc (xs @ ys) =
     (case parse_digits acc xs of None \<Rightarrow> None | Some n \<Rightarrow> parse_digits n ys)"
  by (induction acc xs rule: parse_digits.induct) (auto split: option.splits)

lemma parse_digits_show_nat [simp]: "parse_digits 0 (show_nat n) = Some n"
proof (induction n rule: show_nat.induct)
  case (1 n)
  show ?case
  proof (cases "n < 10")
    case True
    then show ?thesis by (simp add: show_nat.simps [of n])
  next
    case False
    with 1 show ?thesis by (simp add: show_nat.simps [of n] parse_digits_append)
  qed
qed

lemma show_nat_not_Nil [simp]: "show_nat n \<noteq> []"
  by (subst show_nat.simps) simp

definition ascii_digit :: "char \<Rightarrow> bool" where
  "ascii_digit c \<longleftrightarrow> 48 \<le> (of_char c :: nat) \<and> of_char c \<le> (57 :: nat)"

lemma digit_char_ascii_digit: "d < 10 \<Longrightarrow> ascii_digit (digit_char d)"
  by (simp add: ascii_digit_def digit_char_def)

lemma set_show_nat: "\<forall>c \<in> set (show_nat n). ascii_digit c"
proof (induction n rule: show_nat.induct)
  case (1 n)
  then show ?case
    using digit_char_ascii_digit [of n] digit_char_ascii_digit [of "n mod 10"]
    by (cases "n < 10") (auto simp: show_nat.simps [of n])
qed

lemma show_nat_lacks: "\<not> ascii_digit c \<Longrightarrow> c \<notin> set (show_nat n)"
  using set_show_nat by blast

lemma parse_unsigned_show_nat: "n < bound \<Longrightarrow> parse_unsigned bound (show_nat n) = Some n"
proof -
  assume "n < bound"
  obtain c cs where "show_nat n = c # cs"
    by (meson neq_Nil_conv show_nat_not_Nil)
  moreover from this have "c \<noteq> CHR ''+''"
    using set_show_nat [of n] by (auto simp: ascii_digit_def)
  ultimately show ?thesis
    using \<open>n < bound\<close> parse_digits_show_nat [of n] by (simp add: parse_unsigned_def)
qed

lemma parse_u32_show_u32 [simp]: "parse_u32 (show_u32 w) = Some w"
proof -
  have "unat w < 2 ^ 32"
    using unsigned_less [of w, where 'a = nat] by simp
  then show ?thesis
    by (simp add: parse_u32_def show_u32_def parse_unsigned_show_nat)
qed

section \<open>Text\<close>

definition ascii_space :: "char \<Rightarrow> bool" where
  "ascii_space c \<longleftrightarrow> of_char c \<in> {9, 10, 11, 12, 13, 32 :: nat}"

definition str_trim :: "string \<Rightarrow> string" where
  "str_trim s = rev (dropWhile ascii_space (rev (dropWhile ascii_space s)))"

fun split_ws :: "string \<Rightarrow> string \<Rightarrow> string list" where
  "split_ws [] cur = (if cur = [] then [] else [cur])"
| "split_ws (c # cs) cur =
     (if ascii_space c then (if cur = [] then split_ws cs [] else cur # split_ws cs [])
      else split_ws cs (cur @ [c]))"

definition split_whitespace :: "string \<Rightarrow> string list" where
  "split_whitespace s = split_ws s []"

fun split_at_char :: "char \<Rightarrow> string \<Rightarrow> string list" where
  "split_at_char d [] = [[]]"
| "split_at_char d (c # cs) =
     (if c = d then [] # split_at_char d cs
      else case split_at_char d cs of [] \<Rightarrow> [[c]] | w # ws \<Rightarrow> (c # w) # ws)"

fun str_join :: "string \<Rightarrow> string list \<Rightarrow> string" where
  "str_join sep [] = []"
| "str_join sep [s] = s"
| "str_join sep (s # t # ss) = s @ sep @ str_join sep (t # ss)"

fun str_contains :: "string \<Rightarrow> string \<Rightarrow> bool" where
  "str_contains [] pat \<longleftrightarrow> pat = []"
| "str_contains (c # cs) pat \<longleftrightarrow> prefix pat (c # cs) \<or> str_contains cs pat"

abbreviation starts_with :: "string \<Rightarrow> string \<Rightarrow> bool" where
  "starts_with s pat \<equiv> prefix pat s"

abbreviation ends_with :: "string \<Rightarrow> string \<Rightarrow> bool" where
  "ends_with s pat \<equiv> suffix pat s"

fun str_find :: "char \<Rightarrow> string \<Rightarrow> nat option" where
  "str_find d [] = None"
| "str_find d (c # cs) = (if c = d then Some 0 else map_option Suc (str_find d cs))"

definition to_ascii_lower :: "char \<Rightarrow> char" where
  "to_ascii_lower c = (let n = of_char c :: nat in if 65 \<le> n \<and> n \<le> 90 then char_of (n + 32) else c)"

definition show_bool :: "bool \<Rightarrow> string" where
  "show_bool b = (if b then ''true'' else ''false'')"

lemma str_contains_iff_sublist: "str_contains s pat \<longleftrightarrow> sublist pat s"
  by (induction s) (auto simp: sublist_Cons_right)

lemma split_ws_word:
  "\<forall>c \<in> set w. \<not> ascii_space c \<Longrightarrow> split_ws (w @ s) cur = split_ws s (cur @ w)"
  by (induction w arbitrary: cur) auto

lemma split_whitespace_word:
  assumes "\<forall>c \<in> set w. \<not> ascii_space c" and "w \<noteq> []" and "ascii_space c"
  shows "split_whitespace (w @ c # s) = w # split_whitespace s"
  using assms by (simp add: split_whitespace_def split_ws_word)

lemma split_whitespace_last:
  assumes "\<forall>c \<in> set w. \<not> ascii_space c" and "w \<noteq> []"
  shows "split_whitespace w = [w]"
  using assms split_ws_word [of w "[]" "[]"] by (simp add: split_whitespace_def)

lemma show_nat_no_space: "\<forall>c \<in> set (show_nat n). \<not> ascii_space c"
  using set_show_nat [of n] by (fastforce simp: ascii_space_def ascii_digit_def)

lemma split_at_char_none: "d \<notin> set s \<Longrightarrow> split_at_char d s = [s]"
  by (induction s) auto

lemma split_at_char_append:
  "d \<notin> set s \<Longrightarrow> split_at_char d (s @ d # t) = s # split_at_char d t"
  by (induction s) auto

lemma str_find_take_drop:
  "str_find d s = Some i \<Longrightarrow> s = take i s @ d # drop (Suc i) s \<and> d \<notin> set (take i s)"
  by (induction s arbitrary: i) (auto split: if_splits)

lemma str_find_append: "d \<notin> set s \<Longrightarrow> str_find d (s @ d # t) = Some (length s)"
  by (induction s) auto

lemma str_find_None_iff: "str_find d s = None \<longleftrightarrow> d \<notin> set s"
  by (induction s) auto

end
