(* ===== verification/Ordered_Map.thy ===== *)
theory Ordered_Map
  imports Prelude
begin

text \<open>
  \<^verbatim>\<open>std::collections::BTreeMap\<close> as the list of its key/value pairs in ascending key order,
  which is the order its iterators produce. The locale \<open>ordered_map\<close> is the interface the
  components rely on (what a lookup returns after an insertion, an in-place update or a
  removal, and that iteration is sorted); the facts about \<^verbatim>\<open>collect\<close> are proved inside it
  and reach the components through the interpretation \<open>bt\<close> on the model.
\<close>

locale ordered_map =
  fixes empty :: 'm
    and insert :: "'k::linorder \<Rightarrow> 'v \<Rightarrow> 'm \<Rightarrow> 'm"
    and adjust :: "'k \<Rightarrow> ('v \<Rightarrow> 'v) \<Rightarrow> 'm \<Rightarrow> 'm"
    and remove :: "'k \<Rightarrow> 'm \<Rightarrow> 'm"
    and lookup :: "'m \<Rightarrow> 'k \<Rightarrow> 'v option"
    and items :: "'m \<Rightarrow> ('k \<times> 'v) list"
    and invar :: "'m \<Rightarrow> bool"
  assumes lookup_empty: "lookup empty k = None"
    and lookup_insert: "invar m \<Longrightarrow> lookup (insert a v m) k = (if k = a then Some v else lookup m k)"
    and lookup_adjust:
      "invar m \<Longrightarrow> lookup (adjust a f m) k = (if k = a then map_option f (lookup m k) else lookup m k)"
    and lookup_remove: "invar m \<Longrightarrow> lookup (remove a m) k = (if k = a then None else lookup m k)"
    and lookup_items: "invar m \<Longrightarrow> lookup m k = map_of (items m) k"
    and items_sorted: "invar m \<Longrightarrow> sorted_wrt (<) (map fst (items m))"
    and invar_empty: "invar empty"
    and invar_insert: "invar m \<Longrightarrow> invar (insert a v m)"
    and invar_adjust: "invar m \<Longrightarrow> invar (adjust a f m)"
    and invar_remove: "invar m \<Longrightarrow> invar (remove a m)"
begin

lemma invar_collect: "invar m \<Longrightarrow> invar (fold (\<lambda>(k, v). insert k v) kvs m)"
  by (induction kvs arbitrary: m) (auto simp: invar_insert)

lemma lookup_collect_onto:
  "invar m \<Longrightarrow>
   lookup (fold (\<lambda>(k, v). insert k v) kvs m) k =
     (case map_of (rev kvs) k of None \<Rightarrow> lookup m k | Some v \<Rightarrow> Some v)"
  by (induction kvs arbitrary: m)
    (auto simp: invar_insert lookup_insert map_add_def split: option.splits)

text \<open>\<^verbatim>\<open>collect\<close> keeps the last value given for a key.\<close>

lemma lookup_collect:
  "lookup (fold (\<lambda>(k, v). insert k v) kvs empty) k = map_of (rev kvs) k"
  by (simp add: lookup_collect_onto invar_empty lookup_empty split: option.splits)

lemma items_distinct: "invar m \<Longrightarrow> distinct (map fst (items m))"
  by (drule items_sorted) (simp add: strict_sorted_iff)

lemma in_items_iff: "invar m \<Longrightarrow> (k, v) \<in> set (items m) \<longleftrightarrow> lookup m k = Some v"
  by (simp add: items_distinct lookup_items)

lemma keys_eq_dom: "invar m \<Longrightarrow> set (map fst (items m)) = {k. lookup m k \<noteq> None}"
  by (auto simp: lookup_items map_of_eq_None_iff)

end

section \<open>The model\<close>

type_synonym ('k, 'v) btree = "('k \<times> 'v) list"

fun bt_insert :: "'k::linorder \<Rightarrow> 'v \<Rightarrow> ('k, 'v) btree \<Rightarrow> ('k, 'v) btree" where
  "bt_insert k v [] = [(k, v)]"
| "bt_insert k v ((a, b) # m) =
     (if k < a then (k, v) # (a, b) # m
      else if k = a then (k, v) # m
      else (a, b) # bt_insert k v m)"

fun bt_adjust :: "'k \<Rightarrow> ('v \<Rightarrow> 'v) \<Rightarrow> ('k, 'v) btree \<Rightarrow> ('k, 'v) btree" where
  "bt_adjust k f [] = []"
| "bt_adjust k f ((a, b) # m) = (if k = a then (a, f b) # m else (a, b) # bt_adjust k f m)"

definition bt_remove :: "'k \<Rightarrow> ('k, 'v) btree \<Rightarrow> ('k, 'v) btree" where
  "bt_remove k m = filter (\<lambda>(a, b). a \<noteq> k) m"

abbreviation bt_get :: "('k, 'v) btree \<Rightarrow> 'k \<Rightarrow> 'v option" where
  "bt_get m k \<equiv> map_of m k"

definition bt_invar :: "('k::linorder, 'v) btree \<Rightarrow> bool" where
  "bt_invar m \<longleftrightarrow> sorted_wrt (<) (map fst m)"

definition bt_collect :: "('k::linorder \<times> 'v) list \<Rightarrow> ('k, 'v) btree" where
  "bt_collect kvs = fold (\<lambda>(k, v). bt_insert k v) kvs []"

definition bt_keys :: "('k, 'v) btree \<Rightarrow> 'k list" where
  "bt_keys m = map fst m"

lemma bt_get_insert: "map_of (bt_insert a v m) k = (if k = a then Some v else map_of m k)"
  by (induction a v m rule: bt_insert.induct) auto

lemma fst_bt_insert: "set (map fst (bt_insert k v m)) = insert k (set (map fst m))"
  by (induction k v m rule: bt_insert.induct) auto

lemma bt_invar_insert: "bt_invar m \<Longrightarrow> bt_invar (bt_insert k v m)"
proof (induction k v m rule: bt_insert.induct)
  case (2 k v a b m)
  then show ?case
    using fst_bt_insert [of k v m] by (auto simp: bt_invar_def)
qed (simp add: bt_invar_def)

lemma map_fst_bt_adjust [simp]: "map fst (bt_adjust k f m) = map fst m"
  by (induction k f m rule: bt_adjust.induct) auto

lemma bt_get_adjust:
  "map_of (bt_adjust a f m) k = (if k = a then map_option f (map_of m k) else map_of m k)"
  by (induction a f m rule: bt_adjust.induct) auto

lemma bt_invar_remove: "bt_invar m \<Longrightarrow> bt_invar (bt_remove k m)"
  by (induction m) (auto simp: bt_invar_def bt_remove_def)

lemma bt_get_remove: "map_of (bt_remove a m) k = (if k = a then None else map_of m k)"
  by (induction m) (auto simp: bt_remove_def)

interpretation bt: ordered_map
  "[] :: ('k::linorder, 'v) btree" bt_insert bt_adjust bt_remove map_of "\<lambda>m. m" bt_invar
  by unfold_locales
    (auto simp: bt_get_insert bt_get_adjust bt_get_remove bt_invar_insert bt_invar_remove,
     auto simp: bt_invar_def)

lemmas bt_simps = bt_get_insert bt_get_adjust bt_get_remove

lemma bt_invar_collect [simp]: "bt_invar (bt_collect kvs)"
  by (simp add: bt_collect_def bt.invar_collect bt.invar_empty)

lemma bt_get_collect: "map_of (bt_collect kvs) k = map_of (rev kvs) k"
  by (simp add: bt_collect_def bt.lookup_collect)

lemma set_bt_keys_collect: "set (bt_keys (bt_collect kvs)) = fst ` set kvs"
proof -
  have "set (map fst (bt_collect kvs)) = {k. map_of (rev kvs) k \<noteq> None}"
    by (simp only: bt.keys_eq_dom [OF bt_invar_collect] bt_get_collect)
  also have "\<dots> = fst ` set kvs"
    by (auto simp: map_of_eq_None_iff)
  finally show ?thesis by (simp add: bt_keys_def)
qed

lemma bt_insert_last: "\<forall>(a, b) \<in> set m. a < k \<Longrightarrow> bt_insert k v m = m @ [(k, v)]"
  by (induction k v m rule: bt_insert.induct) auto

text \<open>Collecting pairs that are already in key order keeps them.\<close>

lemma bt_collect_ordered: "bt_invar kvs \<Longrightarrow> bt_collect kvs = kvs"
proof -
  have "sorted_wrt (<) (map fst (m @ kvs)) \<Longrightarrow> fold (\<lambda>(k, v). bt_insert k v) kvs m = m @ kvs" for m
  proof (induction kvs arbitrary: m)
    case (Cons kv kvs)
    obtain k v where kv: "kv = (k, v)" by fastforce
    have "bt_insert k v m = m @ [(k, v)]"
      using Cons.prems by (intro bt_insert_last) (auto simp: kv sorted_wrt_append)
    with Cons.IH [of "m @ [(k, v)]"] Cons.prems show ?case
      by (simp add: kv)
  qed simp
  then show "bt_invar kvs \<Longrightarrow> bt_collect kvs = kvs"
    by (simp add: bt_invar_def bt_collect_def)
qed

end
