(* ===== verification/Protocol_Types.thy ===== *)
theory Protocol_Types
  imports Ordered_Map
begin

text \<open>
  The wire data of \<^verbatim>\<open>crates/protocol/src/lib.rs\<close>: announcements, fetch sources,
  availability reports, capabilities and the client and server messages. A struct is a
  record whose fields carry a short prefix where Rust reuses a field name; an enum is a
  datatype with the source's constructors. Enums that derive \<^verbatim>\<open>Ord\<close> are instances of
  \<open>linorder\<close>, ordered by declaration position as the derived comparison is.
\<close>

definition PROTOCOL_VERSION :: u32 where
  "PROTOCOL_VERSION = 2"

section \<open>Announcements\<close>

record ResourceAnnouncementSignature =
  sig_algorithm :: string
  sig_key_id :: string
  sig_value :: string

datatype ResourceRequirementLevel = Required | Optional | Recommended

record ResourceFetchSource =
  src_id :: "string option"
  scheme :: string
  uri :: string
  src_size_bytes :: "u64 option"
  src_sha256 :: "string option"
  compression :: "string option"
  media_type :: "string option"
  priority :: "u8 option"
  mirrors :: "string list option"

record AnnouncedResourceFile =
  relative_path :: string
  size_bytes :: u64
  sha256 :: string
  sources :: "ResourceFetchSource list option"

record AnnouncedResource =
  res_name :: string
  res_version :: string
  res_files :: "AnnouncedResourceFile list"
  res_protocol_version :: u32
  requirement_level :: ResourceRequirementLevel

record ResourceAnnouncement =
  ann_resources :: "AnnouncedResource list"
  ann_signature :: "ResourceAnnouncementSignature option"

section \<open>Availability reports\<close>

datatype ResourceAvailabilityStatus = Available | Missing | SizeMismatch | HashMismatch

record ResourceAvailabilityEntry =
  avail_resource_name :: string
  avail_file_path :: string
  avail_status :: ResourceAvailabilityStatus

record ResourceAvailabilityReport =
  avail_resources :: "ResourceAvailabilityEntry list"
  is_fully_available :: bool

section \<open>Policy decisions\<close>

datatype ResourceJoinDecision = Allowed | Blocked | WarningOnly

record ResourcePolicyEvaluation =
  pol_decision :: ResourceJoinDecision
  missing_required :: "string list"
  invalid_required :: "string list"
  missing_optional :: "string list"
  invalid_optional :: "string list"
  missing_recommended :: "string list"
  invalid_recommended :: "string list"

datatype JoinGateMode = DryRun | Enforced

datatype JoinGateOutcome = WouldAllow | WouldWarn | WouldBlock

record JoinGateDecision =
  gate_mode :: JoinGateMode
  gate_outcome :: JoinGateOutcome
  gate_reason :: string
  gate_policy_evaluation :: ResourcePolicyEvaluation

section \<open>Capabilities\<close>

datatype ProtocolCapability =
    CapResourceAnnouncement
  | CapResourceAvailabilityReport
  | CapJoinGateDryRun
  | CapResourceCompatibilityReport
  | CapSignatureMetadata

primrec cap_index :: "ProtocolCapability \<Rightarrow> nat" where
  "cap_index CapResourceAnnouncement = 0"
| "cap_index CapResourceAvailabilityReport = 1"
| "cap_index CapJoinGateDryRun = 2"
| "cap_index CapResourceCompatibilityReport = 3"
| "cap_index CapSignatureMetadata = 4"

lemma cap_index_inj: "cap_index a = cap_index b \<longleftrightarrow> a = b"
  by (cases a; cases b) simp_all

instantiation ProtocolCapability :: linorder
begin

definition less_eq_ProtocolCapability :: "ProtocolCapability \<Rightarrow> ProtocolCapability \<Rightarrow> bool" where
  "a \<le> b \<longleftrightarrow> cap_index a \<le> cap_index b"

definition less_ProtocolCapability :: "ProtocolCapability \<Rightarrow> ProtocolCapability \<Rightarrow> bool" where
  "a < b \<longleftrightarrow> cap_index a < cap_index b"

instance
  by standard
    (auto simp: less_eq_ProtocolCapability_def less_ProtocolCapability_def cap_index_inj
      dest: antisym)

end

lemmas cap_order = less_eq_ProtocolCapability_def less_ProtocolCapability_def

primrec cap_to_name :: "ProtocolCapability \<Rightarrow> string" where
  "cap_to_name CapResourceAnnouncement = ''resource_announcement''"
| "cap_to_name CapResourceAvailabilityReport = ''resource_availability_report''"
| "cap_to_name CapJoinGateDryRun = ''join_gate_dry_run''"
| "cap_to_name CapResourceCompatibilityReport = ''resource_compatibility_report''"
| "cap_to_name CapSignatureMetadata = ''signature_metadata''"

text \<open>The derived \<^verbatim>\<open>Debug\<close> rendering of a capability.\<close>

primrec cap_debug :: "ProtocolCapability \<Rightarrow> string" where
  "cap_debug CapResourceAnnouncement = ''ResourceAnnouncement''"
| "cap_debug CapResourceAvailabilityReport = ''ResourceAvailabilityReport''"
| "cap_debug CapJoinGateDryRun = ''JoinGateDryRun''"
| "cap_debug CapResourceCompatibilityReport = ''ResourceCompatibilityReport''"
| "cap_debug CapSignatureMetadata = ''SignatureMetadata''"

record LoginCapabilities =
  lc_required :: "ProtocolCapability list"
  lc_optional :: "ProtocolCapability list"
  feature_flags :: "string list option"

section \<open>Messages\<close>

datatype ClientMessage =
    Login string u32 LoginCapabilities
  | Ping u64
  | ServerPong u64
  | Chat string
  | AvailabilityReport ResourceAvailabilityReport

datatype DisconnectReason = ProtocolMismatch | InvalidHandshake | ClientClosed

text \<open>A \<^verbatim>\<open>Uuid\<close> is its 16 bytes, in the order \<^verbatim>\<open>as_bytes\<close> gives them.\<close>

type_synonym Uuid = bytes

text \<open>
  The coordinates of a position are \<^verbatim>\<open>f32\<close> numbers. Those the server sends are casts of unsigned
  integers and zero, so a coordinate is the natural number that the \<^verbatim>\<open>f32\<close> stands for.
\<close>

type_synonym f32 = nat

record Position =
  pos_x :: f32
  pos_y :: f32
  pos_z :: f32

record EntityState =
  entity_id :: u32
  owner_id :: Uuid
  position :: Position
  entity_tick :: u64

datatype ServerMessage =
    Welcome Uuid string u32
  | Pong u64
  | ServerPing u64
  | ChatBroadcast string string
  | EntitySnapshot "EntityState list"
  | AnnouncementMsg ResourceAnnouncement
  | JoinGateDecisionMsg JoinGateDecision
  | Disconnect DisconnectReason string
  | ErrorMsg string

end
