(* ===== verification/Session.thy ===== *)
theory Session
  imports Protocol_Types
begin

text \<open>
  The handshake state machine of \<^verbatim>\<open>crates/server/src/session.rs\<close> and the session event log
  of \<^verbatim>\<open>crates/server/src/event_log.rs\<close>. A method that takes \<^verbatim>\<open>&mut self\<close> returns the new
  machine together with its result, so an error with a changed state (a version mismatch, a
  policy that would block) is visible. The step relation \<open>session_step\<close> has a rule per
  method; its reachable machines are the ones a session handler can build.
\<close>

section \<open>States and errors\<close>

datatype SessionState =
    Connected
  | HelloReceived
  | VersionChecked
  | NegotiationDryRunLogged
  | ResourceAnnouncementSent
  | AvailabilityReportReceived
  | ResourcePolicyEvaluated
  | JoinGateDryRunSent
  | ReadyDryRun
  | Failed

primrec state_debug :: "SessionState \<Rightarrow> string" where
  "state_debug Connected = ''Connected''"
| "state_debug HelloReceived = ''HelloReceived''"
| "state_debug VersionChecked = ''VersionChecked''"
| "state_debug NegotiationDryRunLogged = ''NegotiationDryRunLogged''"
| "state_debug ResourceAnnouncementSent = ''ResourceAnnouncementSent''"
| "state_debug AvailabilityReportReceived = ''AvailabilityReportReceived''"
| "state_debug ResourcePolicyEvaluated = ''ResourcePolicyEvaluated''"
| "state_debug JoinGateDryRunSent = ''JoinGateDryRunSent''"
| "state_debug ReadyDryRun = ''ReadyDryRun''"
| "state_debug Failed = ''Failed''"

datatype SessionStateError =
    InvalidTransition SessionState SessionState
  | ProtocolMismatchError u32 u32
  | MissingAnnouncement
  | MissingAvailabilityReport
  | PolicyBlockedDryRun
  | InternalError string

primrec session_error_text :: "SessionStateError \<Rightarrow> string" where
  "session_error_text (InvalidTransition from to) =
     ''invalid state transition: '' @ state_debug from @ '' -> '' @ state_debug to"
| "session_error_text (ProtocolMismatchError client server) =
     ''protocol mismatch: client='' @ show_u32 client @ '' server='' @ show_u32 server"
| "session_error_text MissingAnnouncement = ''resource announcement not available''"
| "session_error_text MissingAvailabilityReport = ''resource availability report not received''"
| "session_error_text PolicyBlockedDryRun =
     ''resource policy would block (dry-run only, not enforced)''"
| "session_error_text (InternalError msg) = ''internal error: '' @ msg"

section \<open>The machine\<close>

record SessionStateMachine =
  sm_state :: SessionState
  failure_reason :: "string option"
  history :: "SessionState list"

definition sm_new :: SessionStateMachine where
  "sm_new = \<lparr>sm_state = Connected, failure_reason = None, history = []\<rparr>"

definition is_valid_transition :: "SessionState \<Rightarrow> SessionState \<Rightarrow> bool" where
  "is_valid_transition from to \<longleftrightarrow>
     (from, to) \<in> set [
       (Connected, HelloReceived),
       (HelloReceived, VersionChecked),
       (VersionChecked, NegotiationDryRunLogged),
       (NegotiationDryRunLogged, ResourceAnnouncementSent),
       (ResourceAnnouncementSent, AvailabilityReportReceived),
       (AvailabilityReportReceived, ResourcePolicyEvaluated),
       (ResourcePolicyEvaluated, JoinGateDryRunSent),
       (JoinGateDryRunSent, ReadyDryRun)]"

type_synonym 'a sm_result = "SessionStateMachine \<times> (SessionStateError + 'a)"

definition transition_to :: "SessionStateMachine \<Rightarrow> SessionState \<Rightarrow> unit sm_result" where
  "transition_to m next =
     (if sm_state m = Failed then (m, Inl (InvalidTransition Failed next))
      else if \<not> is_valid_transition (sm_state m) next
           then (m, Inl (InvalidTransition (sm_state m) next))
      else (m\<lparr>sm_state := next, history := history m @ [sm_state m]\<rparr>, Inr ()))"

definition sm_fail :: "SessionStateMachine \<Rightarrow> string \<Rightarrow> SessionStateMachine" where
  "sm_fail m reason =
     m\<lparr>sm_state := Failed, history := history m @ [sm_state m], failure_reason := Some reason\<rparr>"

definition on_hello_received :: "SessionStateMachine \<Rightarrow> unit sm_result" where
  "on_hello_received m = transition_to m HelloReceived"

definition on_version_checked :: "SessionStateMachine \<Rightarrow> u32 \<Rightarrow> unit sm_result" where
  "on_version_checked m client_version =
     (if client_version \<noteq> PROTOCOL_VERSION then
        let err = ProtocolMismatchError client_version PROTOCOL_VERSION
        in (sm_fail m (session_error_text err), Inl err)
      else transition_to m VersionChecked)"

definition on_negotiation_logged :: "SessionStateMachine \<Rightarrow> unit sm_result" where
  "on_negotiation_logged m = transition_to m NegotiationDryRunLogged"

definition on_resource_announcement_sent :: "SessionStateMachine \<Rightarrow> unit sm_result" where
  "on_resource_announcement_sent m = transition_to m ResourceAnnouncementSent"

definition on_availability_report_received :: "SessionStateMachine \<Rightarrow> unit sm_result" where
  "on_availability_report_received m = transition_to m AvailabilityReportReceived"

definition on_policy_evaluated ::
  "SessionStateMachine \<Rightarrow> ResourceJoinDecision \<Rightarrow> unit sm_result" where
  "on_policy_evaluated m decision =
     (case transition_to m ResourcePolicyEvaluated of
        (m', Inl e) \<Rightarrow> (m', Inl e)
      | (m', Inr _) \<Rightarrow>
          if decision = Blocked then (m', Inl PolicyBlockedDryRun) else (m', Inr ()))"

definition on_join_gate_sent :: "SessionStateMachine \<Rightarrow> unit sm_result" where
  "on_join_gate_sent m = transition_to m JoinGateDryRunSent"

definition mark_ready_dry_run :: "SessionStateMachine \<Rightarrow> unit sm_result" where
  "mark_ready_dry_run m = transition_to m ReadyDryRun"

lemmas sm_event_defs [component_defs] =
  on_hello_received_def on_negotiation_logged_def on_resource_announcement_sent_def
  on_availability_report_received_def on_join_gate_sent_def mark_ready_dry_run_def

lemma transition_to_ok:
  "snd (transition_to m next) = Inr () \<longleftrightarrow>
     sm_state m \<noteq> Failed \<and> is_valid_transition (sm_state m) next"
  by (simp add: transition_to_def)

lemma transition_to_error_unchanged:
  "snd (transition_to m next) \<noteq> Inr () \<Longrightarrow> fst (transition_to m next) = m"
  by (auto simp: transition_to_def split: if_splits)

lemma transition_to_ok_state:
  "snd (transition_to m next) = Inr () \<Longrightarrow>
     sm_state (fst (transition_to m next)) = next \<and>
     history (fst (transition_to m next)) = history m @ [sm_state m] \<and>
     failure_reason (fst (transition_to m next)) = failure_reason m"
  by (auto simp: transition_to_def split: if_splits)

lemma fst_on_policy_evaluated [simp]:
  "fst (on_policy_evaluated m d) = fst (transition_to m ResourcePolicyEvaluated)"
  by (auto simp: on_policy_evaluated_def split: prod.splits sum.splits)

section \<open>Reachable machines\<close>

inductive session_step :: "SessionStateMachine \<Rightarrow> SessionStateMachine \<Rightarrow> bool" where
  transition: "session_step m (fst (transition_to m next))"
| version: "session_step m (fst (on_version_checked m v))"
| policy: "session_step m (fst (on_policy_evaluated m d))"
| fail: "session_step m (sm_fail m reason)"

inductive_cases session_stepE: "session_step m m'"

inductive session_reachable :: "SessionStateMachine \<Rightarrow> bool" where
  new: "session_reachable sm_new"
| step: "session_reachable m \<Longrightarrow> session_step m m' \<Longrightarrow> session_reachable m'"

text \<open>The phases of the handshake in the order the protocol prescribes.\<close>

definition handshake_phases :: "SessionState list" where
  "handshake_phases =
     [Connected, HelloReceived, VersionChecked, NegotiationDryRunLogged,
      ResourceAnnouncementSent, AvailabilityReportReceived, ResourcePolicyEvaluated,
      JoinGateDryRunSent, ReadyDryRun]"

primrec phase_index :: "SessionState \<Rightarrow> nat" where
  "phase_index Connected = 0"
| "phase_index HelloReceived = 1"
| "phase_index VersionChecked = 2"
| "phase_index NegotiationDryRunLogged = 3"
| "phase_index ResourceAnnouncementSent = 4"
| "phase_index AvailabilityReportReceived = 5"
| "phase_index ResourcePolicyEvaluated = 6"
| "phase_index JoinGateDryRunSent = 7"
| "phase_index ReadyDryRun = 8"
| "phase_index Failed = 9"

text \<open>
  The invariant: a machine that has not failed has as its history exactly the phases before
  its state and no failure reason; a failed one has a reason and a history that is a nonempty
  initial run of phases followed by earlier failures.
\<close>

definition sm_invar :: "SessionStateMachine \<Rightarrow> bool" where
  "sm_invar m \<longleftrightarrow>
     (if sm_state m = Failed then
        failure_reason m \<noteq> None \<and>
        (\<exists>k j. 0 < k \<and> k \<le> 9 \<and> history m = take k handshake_phases @ replicate j Failed)
      else failure_reason m = None \<and> history m = take (phase_index (sm_state m)) handshake_phases)"

lemma sm_invar_new: "sm_invar sm_new"
  by (simp add: sm_invar_def sm_new_def)

lemma is_valid_transition_phases:
  "is_valid_transition a b \<Longrightarrow>
     a \<noteq> Failed \<and> b \<noteq> Failed \<and>
     take (phase_index b) handshake_phases = take (phase_index a) handshake_phases @ [a]"
  by (auto simp: is_valid_transition_def handshake_phases_def numeral_eq_Suc)

lemma phase_snoc:
  "s \<noteq> Failed \<Longrightarrow>
     take (phase_index s) handshake_phases @ [s] = take (Suc (phase_index s)) handshake_phases"
  by (cases s) (simp_all add: handshake_phases_def numeral_eq_Suc)

lemma phase_index_less: "s \<noteq> Failed \<Longrightarrow> phase_index s < 9"
  by (cases s) simp_all

lemma sm_invar_transition: "sm_invar m \<Longrightarrow> sm_invar (fst (transition_to m next))"
  using is_valid_transition_phases [of "sm_state m" "next"]
  by (auto simp: sm_invar_def transition_to_def)

lemma sm_invar_failedI:
  assumes "sm_state m = Failed" and "failure_reason m \<noteq> None" and "0 < k" and "k \<le> 9"
    and "history m = take k handshake_phases @ replicate j Failed"
  shows "sm_invar m"
  using assms unfolding sm_invar_def by auto

lemma sm_invar_fail:
  assumes "sm_invar m"
  shows "sm_invar (sm_fail m reason)"
proof (cases "sm_state m = Failed")
  case True
  with assms obtain k j where kj: "0 < k" "k \<le> 9"
    "history m = take k handshake_phases @ replicate j Failed"
    by (auto simp: sm_invar_def)
  then have "history (sm_fail m reason) = take k handshake_phases @ replicate (Suc j) Failed"
    using True by (simp add: sm_fail_def replicate_append_same)
  with kj(1,2) show ?thesis
    by (intro sm_invar_failedI [of _ k "Suc j"]) (simp_all add: sm_fail_def)
next
  case False
  with assms have "history (sm_fail m reason) =
      take (Suc (phase_index (sm_state m))) handshake_phases @ replicate 0 Failed"
    by (simp add: sm_invar_def sm_fail_def phase_snoc)
  then show ?thesis
    using phase_index_less [OF False]
    by (intro sm_invar_failedI [of _ "Suc (phase_index (sm_state m))" 0]) (simp_all add: sm_fail_def)
qed

lemma session_step_invar: "session_step m m' \<Longrightarrow> sm_invar m \<Longrightarrow> sm_invar m'"
  by (induction rule: session_step.induct)
    (auto simp: sm_invar_transition sm_invar_fail on_version_checked_def Let_def)

lemma session_reachable_invar: "session_reachable m \<Longrightarrow> sm_invar m"
  by (induction rule: session_reachable.induct) (auto simp: sm_invar_new session_step_invar)

lemma session_step_failed_absorbing: "session_step m m' \<Longrightarrow> sm_state m = Failed \<Longrightarrow> sm_state m' = Failed"
  by (induction rule: session_step.induct)
    (auto simp: transition_to_def sm_fail_def on_version_checked_def Let_def)

section \<open>Properties\<close>

text \<open>C11: The handshake cannot be skipped. In every machine that any sequence of the methods
  can produce, a state other than failed has been reached by passing through exactly the
  earlier handshake phases, once each and in order; in particular a ready session has been
  greeted, version-checked, negotiated, sent its announcement and its join-gate decision.\<close>

theorem handshake_in_order:
  assumes "session_reachable m" and "sm_state m \<noteq> Failed"
  shows "history m @ [sm_state m] = take (Suc (phase_index (sm_state m))) handshake_phases \<and>
    failure_reason m = None"
  using session_reachable_invar [OF assms(1)] assms(2)
  by (simp add: sm_invar_def phase_snoc)

theorem handshake_in_order_witness:
  "history (fst (on_hello_received sm_new)) @ [HelloReceived] = [Connected, HelloReceived]"
proof -
  let ?m = "fst (on_hello_received sm_new)"
  have "session_reachable ?m"
    using session_reachable.step [OF session_reachable.new session_step.transition [of sm_new HelloReceived]]
    by (simp add: on_hello_received_def)
  moreover have "sm_state ?m = HelloReceived"
    by (simp add: on_hello_received_def transition_to_def sm_new_def is_valid_transition_def)
  ultimately show ?thesis
    using handshake_in_order [of ?m] by (simp add: handshake_phases_def numeral_eq_Suc)
qed

text \<open>Failure is final and explained. Once a session has failed, every further step leaves
  it failed, and every reachable failed machine records a failure reason.\<close>

theorem failed_is_final:
  assumes "session_reachable m" and "sm_state m = Failed"
  shows "failure_reason m \<noteq> None \<and> (\<forall>m'. session_step\<^sup>*\<^sup>* m m' \<longrightarrow> sm_state m' = Failed)"
proof -
  have "sm_state m' = Failed" if "session_step\<^sup>*\<^sup>* m m'" for m'
    using that assms(2) by (induction rule: rtranclp_induct) (auto dest: session_step_failed_absorbing)
  with session_reachable_invar [OF assms(1)] assms(2) show ?thesis
    by (simp add: sm_invar_def)
qed

theorem failed_is_final_witness:
  "failure_reason (fst (on_version_checked sm_new 1)) \<noteq> None"
proof -
  let ?m = "fst (on_version_checked sm_new 1)"
  have "session_reachable ?m"
    by (rule session_reachable.step [OF session_reachable.new session_step.version])
  moreover have "sm_state ?m = Failed"
    by (simp add: on_version_checked_def PROTOCOL_VERSION_def Let_def sm_fail_def)
  ultimately show ?thesis using failed_is_final [of ?m] by simp
qed

section \<open>The event log\<close>

datatype SessionEventKind =
    EvConnected
  | EvHelloReceived
  | EvVersionChecked
  | EvProtocolNegotiationDryRun
  | EvCapabilityGateChecked
  | EvPingReceived
  | EvPongSent
  | EvServerPingSent
  | EvServerPongReceived
  | EvResourceAnnouncementSent
  | EvAvailabilityReportReceived
  | EvResourcePolicyEvaluated
  | EvJoinGateDryRunSent
  | EvReadyDryRun
  | EvFailed

record SessionEvent =
  ev_sequence :: u64
  ev_kind :: SessionEventKind
  ev_state :: SessionState
  ev_message :: string

record SessionEventLog =
  log_events :: "SessionEvent list"
  next_sequence :: u64

definition log_new :: SessionEventLog where
  "log_new = \<lparr>log_events = [], next_sequence = 1\<rparr>"

definition log_record ::
  "SessionEventKind \<Rightarrow> SessionState \<Rightarrow> string \<Rightarrow> SessionEventLog \<Rightarrow> SessionEventLog" where
  "log_record kind st msg log =
     log\<lparr>next_sequence := next_sequence log + 1,
         log_events := log_events log @
           [\<lparr>ev_sequence = next_sequence log, ev_kind = kind, ev_state = st, ev_message = msg\<rparr>]\<rparr>"

definition log_last :: "SessionEventLog \<Rightarrow> SessionEvent option" where
  "log_last log = (if log_events log = [] then None else Some (last (log_events log)))"

definition log_len :: "SessionEventLog \<Rightarrow> nat" where
  "log_len log = length (log_events log)"

definition count_kind :: "SessionEventKind \<Rightarrow> SessionEventLog \<Rightarrow> nat" where
  "count_kind kind log = length (filter (\<lambda>e. ev_kind e = kind) (log_events log))"

lemma log_len_simps [simp]:
  "log_len log_new = 0" "log_len (log_record k s msg log) = Suc (log_len log)"
  by (simp_all add: log_len_def log_new_def log_record_def)

lemma count_kind_simps [simp]:
  "count_kind k log_new = 0"
  "count_kind k' (log_record k s msg log) = count_kind k' log + (if k = k' then 1 else 0)"
  by (simp_all add: count_kind_def log_new_def log_record_def)

lemma log_last_record [simp]:
  "log_last (log_record k s msg log) =
     Some \<lparr>ev_sequence = next_sequence log, ev_kind = k, ev_state = s, ev_message = msg\<rparr>"
  by (simp add: log_last_def log_record_def)

lemma count_kind_le_len: "count_kind k log \<le> log_len log"
  by (simp add: count_kind_def log_len_def)

text \<open>The logs a session can build, and their sequence numbers.\<close>

inductive log_reachable :: "SessionEventLog \<Rightarrow> bool" where
  new: "log_reachable log_new"
| append: "log_reachable log \<Longrightarrow> log_reachable (log_record k s msg log)"

definition log_invar :: "SessionEventLog \<Rightarrow> bool" where
  "log_invar log \<longleftrightarrow>
     next_sequence log = of_nat (Suc (log_len log)) \<and>
     (\<forall>i < log_len log. ev_sequence (log_events log ! i) = of_nat (Suc i))"

lemma log_invar_record: "log_invar log \<Longrightarrow> log_invar (log_record k s msg log)"
  by (auto simp: log_invar_def log_record_def log_len_def nth_append less_Suc_eq add.commute)

lemma log_reachable_invar: "log_reachable log \<Longrightarrow> log_invar log"
  by (induction rule: log_reachable.induct)
    (auto simp: log_invar_record, auto simp: log_invar_def log_new_def log_len_def)

text \<open>Event sequence numbers identify events. Below the wrap-around of the 64-bit counter,
  the events of a log are numbered 1, 2, 3, ... in order, so no two events share a sequence
  number.\<close>

theorem event_sequences_consecutive:
  assumes "log_reachable log" and "log_len log < 2 ^ 64" and "i < log_len log"
  shows "unat (ev_sequence (log_events log ! i)) = Suc i"
proof -
  from log_reachable_invar [OF assms(1)] assms(3)
  have "ev_sequence (log_events log ! i) = of_nat (Suc i)"
    by (simp add: log_invar_def)
  moreover have "Suc i < 2 ^ 64"
    using assms(2,3) by simp
  ultimately show ?thesis
    by (simp add: unat_of_nat del: of_nat_Suc)
qed

theorem event_sequences_consecutive_witness:
  "unat (ev_sequence (log_events (log_record EvFailed Failed ''x''
     (log_record EvConnected Connected ''client connected'' log_new)) ! 1)) = 2"
  using event_sequences_consecutive
    [OF log_reachable.append [OF log_reachable.append [OF log_reachable.new]],
     of EvFailed Failed "''x''" EvConnected Connected "''client connected''" 1]
  by simp

end
