(* ===== verification/Heartbeat.thy ===== *)
theory Heartbeat
  imports Prelude
begin

text \<open>
  The heartbeat planners of \<^verbatim>\<open>crates/server/src/heartbeat_planner.rs\<close>. Counters are 64-bit
  words; \<^verbatim>\<open>saturating_sub\<close> and \<^verbatim>\<open>saturating_add\<close> are written out.
\<close>

datatype HeartbeatPolicy = HbReportOnly | HbStrict

record HeartbeatPlannerInput =
  ping_sent :: u64
  pong_received :: u64
  timeout_or_error :: u64

definition MISSED_HEARTBEAT_DISCONNECT_THRESHOLD :: u64 where
  "MISSED_HEARTBEAT_DISCONNECT_THRESHOLD = 3"

datatype HeartbeatDecision =
    NoHeartbeatObserved
  | HbHealthy
  | WouldWarnNoPongYet
  | WouldWarnTimeout
  | WouldMarkUnhealthy
  | WouldDisconnectMissedHeartbeat

primrec heartbeat_to_text :: "HeartbeatDecision \<Rightarrow> string" where
  "heartbeat_to_text NoHeartbeatObserved = ''heartbeat_decision: no_heartbeat_observed''"
| "heartbeat_to_text HbHealthy = ''heartbeat_decision: healthy''"
| "heartbeat_to_text WouldWarnNoPongYet = ''heartbeat_decision: would_warn no_pong_yet''"
| "heartbeat_to_text WouldWarnTimeout = ''heartbeat_decision: would_warn timeout''"
| "heartbeat_to_text WouldMarkUnhealthy = ''heartbeat_decision: would_mark_unhealthy''"
| "heartbeat_to_text WouldDisconnectMissedHeartbeat =
     ''heartbeat_decision: would_disconnect missed_heartbeat''"

primrec heartbeat_short_label :: "HeartbeatDecision \<Rightarrow> string" where
  "heartbeat_short_label NoHeartbeatObserved = ''no_activity''"
| "heartbeat_short_label HbHealthy = ''healthy''"
| "heartbeat_short_label WouldWarnNoPongYet = ''no_pong_yet''"
| "heartbeat_short_label WouldWarnTimeout = ''warn_timeout''"
| "heartbeat_short_label WouldMarkUnhealthy = ''unhealthy''"
| "heartbeat_short_label WouldDisconnectMissedHeartbeat = ''would_disconnect''"

definition evaluate_heartbeat ::
  "HeartbeatPlannerInput \<Rightarrow> HeartbeatPolicy \<Rightarrow> HeartbeatDecision" where
  "evaluate_heartbeat input policy =
     (if ping_sent input = 0 then NoHeartbeatObserved
      else if pong_received input \<ge> ping_sent input \<and> timeout_or_error input = 0 then HbHealthy
      else if pong_received input = 0 \<and> timeout_or_error input = 0 then WouldWarnNoPongYet
      else if timeout_or_error input > 0 then
        (case policy of
           HbReportOnly \<Rightarrow> WouldWarnTimeout
         | HbStrict \<Rightarrow>
             if timeout_or_error input \<ge> MISSED_HEARTBEAT_DISCONNECT_THRESHOLD
             then WouldDisconnectMissedHeartbeat else WouldWarnTimeout)
      else WouldMarkUnhealthy)"

record ServerHeartbeatPlannerInput =
  pings_sent :: u64
  pongs_received :: u64

definition MISSED_SERVER_PONG_DISCONNECT_THRESHOLD :: u64 where
  "MISSED_SERVER_PONG_DISCONNECT_THRESHOLD = 3"

datatype ServerHeartbeatDecision = NoActivity | SrvHealthy | AwaitingPong | MissedPong | WouldDisconnect

primrec server_heartbeat_short_label :: "ServerHeartbeatDecision \<Rightarrow> string" where
  "server_heartbeat_short_label NoActivity = ''no_activity''"
| "server_heartbeat_short_label SrvHealthy = ''healthy''"
| "server_heartbeat_short_label AwaitingPong = ''awaiting_pong''"
| "server_heartbeat_short_label MissedPong = ''missed_pong''"
| "server_heartbeat_short_label WouldDisconnect = ''would_disconnect''"

definition saturating_sub :: "'a::len word \<Rightarrow> 'a word \<Rightarrow> 'a word" where
  "saturating_sub a b = (if a < b then 0 else a - b)"

definition saturating_add :: "'a::len word \<Rightarrow> 'a word \<Rightarrow> 'a word" where
  "saturating_add a b = (if unat a + unat b < 2 ^ LENGTH('a) then a + b else - 1)"

definition evaluate_server_heartbeat ::
  "ServerHeartbeatPlannerInput \<Rightarrow> HeartbeatPolicy \<Rightarrow> ServerHeartbeatDecision" where
  "evaluate_server_heartbeat input policy =
     (if pings_sent input = 0 then NoActivity
      else let missed = saturating_sub (pings_sent input) (pongs_received input) in
        if missed = 0 then SrvHealthy
        else if policy = HbStrict \<and> missed \<ge> MISSED_SERVER_PONG_DISCONNECT_THRESHOLD
             then WouldDisconnect
        else if pongs_received input = 0 then AwaitingPong
        else MissedPong)"

lemma unat_saturating_sub: "unat (saturating_sub a b) = unat a - unat b"
  by (simp add: saturating_sub_def word_less_nat_alt unat_sub_if_size)

lemma unat_saturating_add:
  fixes a b :: "'a::len word"
  shows "unat (saturating_add a b) = min (unat a + unat b) (2 ^ LENGTH('a) - 1)"
  by (auto simp: saturating_add_def unat_word_ariths unsigned_minus_1_eq_mask mask_eq_exp_minus_1)

lemmas heartbeat_defs =
  evaluate_heartbeat_def evaluate_server_heartbeat_def
  MISSED_HEARTBEAT_DISCONNECT_THRESHOLD_def MISSED_SERVER_PONG_DISCONNECT_THRESHOLD_def

section \<open>Properties\<close>

text \<open>The server heartbeat decision in terms of the true number of missed replies: the
  saturating difference never underflows, a disconnect is decided exactly under the strict
  policy with at least three missed replies, and a client that has answered every ping (or
  sent extra replies) is healthy under either policy.\<close>

theorem server_heartbeat_spec:
  "evaluate_server_heartbeat input policy =
     (let sent = unat (pings_sent input); got = unat (pongs_received input) in
      if sent = 0 then NoActivity
      else if sent \<le> got then SrvHealthy
      else if policy = HbStrict \<and> sent - got \<ge> 3 then WouldDisconnect
      else if got = 0 then AwaitingPong else MissedPong)"
proof -
  have missed: "(saturating_sub a b = 0) = (unat a \<le> unat b)"
    "(3 \<le> saturating_sub a b) = (3 \<le> unat a - unat b)" for a b :: u64
    by (simp_all add: word_le_nat_alt unat_saturating_sub unat_eq_0 [symmetric])
  show ?thesis
    by (simp add: evaluate_server_heartbeat_def Let_def missed
        MISSED_SERVER_PONG_DISCONNECT_THRESHOLD_def unat_eq_0)
qed

text \<open>The server-side view never blames the client-initiated direction: with no recorded
  timeouts, which is all the server can see of its clients' pings, the planner never decides
  a timeout warning or a disconnect, under either policy; and report-only never disconnects.\<close>

theorem client_heartbeat_never_disconnects_without_timeouts:
  "timeout_or_error input = 0 \<Longrightarrow>
     evaluate_heartbeat input policy \<notin> {WouldWarnTimeout, WouldDisconnectMissedHeartbeat}"
  by (simp add: evaluate_heartbeat_def)

theorem client_heartbeat_never_disconnects_without_timeouts_witness:
  "evaluate_heartbeat \<lparr>ping_sent = 5, pong_received = 2, timeout_or_error = 0\<rparr> HbStrict
     \<notin> {WouldWarnTimeout, WouldDisconnectMissedHeartbeat}"
  by (rule client_heartbeat_never_disconnects_without_timeouts) simp

end
