(* ===== verification/Capabilities.thy ===== *)
theory Capabilities
  imports Protocol_Types
begin

text \<open>
  Login capabilities, capability negotiation, version negotiation and capability gates
  (\<^verbatim>\<open>crates/protocol/src/lib.rs\<close>). The Rust functions sort and deduplicate vectors; the
  lemmas show that every report depends only on the sets of capabilities and flags, that
  it is a partition of the policy, and when each decision is reached. Version negotiation
  contains an \<^verbatim>\<open>expect\<close>; its panic is the value \<open>Inl\<close> of the result, and the lemmas say
  exactly when it is reached.
\<close>

section \<open>Normalisation\<close>

definition normalize_login :: "LoginCapabilities \<Rightarrow> LoginCapabilities" where
  "normalize_login c = c\<lparr>
     lc_required := sort_dedup (lc_required c),
     lc_optional := sort_dedup (lc_optional c),
     feature_flags :=
       (case feature_flags c of
          None \<Rightarrow> None
        | Some flags \<Rightarrow> (let fs = sort_dedup flags in if fs = [] then None else Some fs))\<rparr>"

definition current_login_capabilities :: LoginCapabilities where
  "current_login_capabilities = \<lparr>
     lc_required = [CapResourceAnnouncement, CapResourceAvailabilityReport],
     lc_optional = [CapJoinGateDryRun, CapResourceCompatibilityReport, CapSignatureMetadata],
     feature_flags = None\<rparr>"

definition all_login_capabilities :: "LoginCapabilities \<Rightarrow> ProtocolCapability list" where
  "all_login_capabilities c = sort_dedup (lc_required c @ lc_optional c)"

text \<open>
  \<^verbatim>\<open>decode_client_line\<close>: the JSON decoder is a parameter; a decoded login is normalised.
\<close>

definition decode_client_line ::
  "(string \<Rightarrow> string + ClientMessage) \<Rightarrow> string \<Rightarrow> string + ClientMessage" where
  "decode_client_line from_str line =
     res_bind (from_str line)
       (\<lambda>m. Inr (case m of
           Login name version caps \<Rightarrow> Login name version (normalize_login caps)
         | _ \<Rightarrow> m))"

definition encode_line :: "('a \<Rightarrow> string + string) \<Rightarrow> 'a \<Rightarrow> string + string" where
  "encode_line to_string v = res_bind (to_string v) (\<lambda>line. Inr (line @ [CHR 0x0A]))"

record CapabilityNegotiationPolicy =
  np_required :: "ProtocolCapability list"
  np_optional :: "ProtocolCapability list"

definition normalize_policy :: "CapabilityNegotiationPolicy \<Rightarrow> CapabilityNegotiationPolicy" where
  "normalize_policy p =
     p\<lparr>np_required := sort_dedup (np_required p), np_optional := sort_dedup (np_optional p)\<rparr>"

definition current_capability_negotiation_policy :: CapabilityNegotiationPolicy where
  "current_capability_negotiation_policy = normalize_policy \<lparr>
     np_required = lc_required current_login_capabilities,
     np_optional = lc_optional current_login_capabilities\<rparr>"

lemma normalize_login_sel [simp]:
  "lc_required (normalize_login c) = sort_dedup (lc_required c)"
  "lc_optional (normalize_login c) = sort_dedup (lc_optional c)"
  by (simp_all add: normalize_login_def)

lemma normalize_policy_sel [simp]:
  "np_required (normalize_policy p) = sort_dedup (np_required p)"
  "np_optional (normalize_policy p) = sort_dedup (np_optional p)"
  by (simp_all add: normalize_policy_def)

lemma feature_flags_normalize:
  "unwrap_or (feature_flags (normalize_login c)) [] = sort_dedup (unwrap_or (feature_flags c) [])"
  by (simp add: normalize_login_def Let_def split: option.splits)

lemma normalize_login_idem [simp]: "normalize_login (normalize_login c) = normalize_login c"
  by (simp add: normalize_login_def Let_def split: option.splits)

lemma normalize_policy_idem [simp]: "normalize_policy (normalize_policy p) = normalize_policy p"
  by (simp add: normalize_policy_def)

lemma set_all_login_capabilities [simp]:
  "set (all_login_capabilities c) = set (lc_required c) \<union> set (lc_optional c)"
  by (simp add: all_login_capabilities_def)

lemma all_login_capabilities_normalize [simp]:
  "all_login_capabilities (normalize_login c) = all_login_capabilities c"
  unfolding all_login_capabilities_def by (rule sort_dedup_cong_set) simp

section \<open>Capability negotiation\<close>

datatype CapabilityNegotiationDecision = Accepted | AcceptedWithWarnings | WouldReject

datatype CapabilityNegotiationWarning =
    MissingOptionalCapability ProtocolCapability
  | UnknownFeatureFlag string
  | UnsupportedOptionalCapability ProtocolCapability

datatype CapabilityNegotiationViolation = MissingRequiredCapability ProtocolCapability

primrec warning_key :: "CapabilityNegotiationWarning \<Rightarrow> nat \<times> nat \<times> string" where
  "warning_key (MissingOptionalCapability c) = (0, cap_index c, [])"
| "warning_key (UnknownFeatureFlag f) = (1, 0, f)"
| "warning_key (UnsupportedOptionalCapability c) = (2, cap_index c, [])"

lemma warning_key_inj: "warning_key a = warning_key b \<longleftrightarrow> a = b"
  by (cases a; cases b) (auto simp: cap_index_inj)

instantiation CapabilityNegotiationWarning :: linorder
begin

definition less_eq_CapabilityNegotiationWarning ::
  "CapabilityNegotiationWarning \<Rightarrow> CapabilityNegotiationWarning \<Rightarrow> bool" where
  "a \<le> b \<longleftrightarrow> warning_key a \<le> warning_key b"

definition less_CapabilityNegotiationWarning ::
  "CapabilityNegotiationWarning \<Rightarrow> CapabilityNegotiationWarning \<Rightarrow> bool" where
  "a < b \<longleftrightarrow> warning_key a < warning_key b"

instance
  by standard
    (auto simp: less_eq_CapabilityNegotiationWarning_def less_CapabilityNegotiationWarning_def
      warning_key_inj dest: antisym)

end

lemmas warning_order =
  less_eq_CapabilityNegotiationWarning_def less_CapabilityNegotiationWarning_def

instantiation CapabilityNegotiationViolation :: linorder
begin

definition less_eq_CapabilityNegotiationViolation ::
  "CapabilityNegotiationViolation \<Rightarrow> CapabilityNegotiationViolation \<Rightarrow> bool" where
  "a \<le> b \<longleftrightarrow> (case a of MissingRequiredCapability c \<Rightarrow> case b of MissingRequiredCapability d \<Rightarrow> c \<le> d)"

definition less_CapabilityNegotiationViolation ::
  "CapabilityNegotiationViolation \<Rightarrow> CapabilityNegotiationViolation \<Rightarrow> bool" where
  "a < b \<longleftrightarrow> (case a of MissingRequiredCapability c \<Rightarrow> case b of MissingRequiredCapability d \<Rightarrow> c < d)"

instance
  by standard
    (auto simp: less_eq_CapabilityNegotiationViolation_def less_CapabilityNegotiationViolation_def
      split: CapabilityNegotiationViolation.splits)

end

record CapabilityNegotiationReport =
  cn_decision :: CapabilityNegotiationDecision
  required_supported :: "ProtocolCapability list"
  required_missing :: "ProtocolCapability list"
  optional_supported :: "ProtocolCapability list"
  optional_missing :: "ProtocolCapability list"
  unsupported_client_optional :: "ProtocolCapability list"
  unknown_feature_flags :: "string list"
  cn_warnings :: "CapabilityNegotiationWarning list"
  cn_violations :: "CapabilityNegotiationViolation list"

definition evaluate_capability_negotiation ::
  "LoginCapabilities \<Rightarrow> CapabilityNegotiationPolicy \<Rightarrow> CapabilityNegotiationReport" where
  "evaluate_capability_negotiation advertised policy =
     (let na = normalize_login advertised;
          np = normalize_policy policy;
          advertised_all = all_login_capabilities na;
          req_sup = filter (\<lambda>c. c \<in> set advertised_all) (np_required np);
          req_mis = filter (\<lambda>c. c \<notin> set advertised_all) (np_required np);
          opt_sup = filter (\<lambda>c. c \<in> set advertised_all) (np_optional np);
          opt_mis = filter (\<lambda>c. c \<notin> set advertised_all) (np_optional np);
          unsup = sort_dedup (filter (\<lambda>c. c \<notin> set (np_required np) \<and> c \<notin> set (np_optional np))
                    (lc_optional na));
          flags = unwrap_or (feature_flags na) [];
          warnings = sort (map MissingOptionalCapability opt_mis
                     @ map UnsupportedOptionalCapability unsup
                     @ map UnknownFeatureFlag flags);
          violations = sort (map MissingRequiredCapability req_mis);
          decision = (if violations \<noteq> [] then WouldReject
                      else if warnings \<noteq> [] then AcceptedWithWarnings
                      else Accepted)
      in \<lparr>cn_decision = decision,
          required_supported = req_sup, required_missing = req_mis,
          optional_supported = opt_sup, optional_missing = opt_mis,
          unsupported_client_optional = unsup, unknown_feature_flags = flags,
          cn_warnings = warnings, cn_violations = violations\<rparr>)"

lemmas negotiation_defs = evaluate_capability_negotiation_def Let_def

lemma sort_eq_Nil_iff [simp]: "sort xs = [] \<longleftrightarrow> xs = []"
  by (metis set_empty set_sort)

lemma negotiation_lists:
  "set (required_missing (evaluate_capability_negotiation a p)) =
     set (np_required p) - (set (lc_required a) \<union> set (lc_optional a))"
  "set (required_supported (evaluate_capability_negotiation a p)) =
     set (np_required p) \<inter> (set (lc_required a) \<union> set (lc_optional a))"
  "set (optional_missing (evaluate_capability_negotiation a p)) =
     set (np_optional p) - (set (lc_required a) \<union> set (lc_optional a))"
  "set (optional_supported (evaluate_capability_negotiation a p)) =
     set (np_optional p) \<inter> (set (lc_required a) \<union> set (lc_optional a))"
  "set (unsupported_client_optional (evaluate_capability_negotiation a p)) =
     set (lc_optional a) - (set (np_required p) \<union> set (np_optional p))"
  "set (unknown_feature_flags (evaluate_capability_negotiation a p)) =
     set (unwrap_or (feature_flags a) [])"
  by (auto simp: negotiation_defs feature_flags_normalize)

lemma negotiation_violations_Nil:
  "cn_violations (evaluate_capability_negotiation a p) = [] \<longleftrightarrow>
     set (np_required p) \<subseteq> set (lc_required a) \<union> set (lc_optional a)"
  by (auto simp: negotiation_defs filter_empty_conv)

lemma negotiation_warnings_Nil:
  "cn_warnings (evaluate_capability_negotiation a p) = [] \<longleftrightarrow>
     set (np_optional p) \<subseteq> set (lc_required a) \<union> set (lc_optional a) \<and>
     set (lc_optional a) \<subseteq> set (np_required p) \<union> set (np_optional p) \<and>
     unwrap_or (feature_flags a) [] = []"
  by (auto simp: negotiation_defs feature_flags_normalize filter_empty_conv)

lemma negotiation_decision_cases:
  "cn_decision (evaluate_capability_negotiation a p) =
     (if cn_violations (evaluate_capability_negotiation a p) \<noteq> [] then WouldReject
      else if cn_warnings (evaluate_capability_negotiation a p) \<noteq> [] then AcceptedWithWarnings
      else Accepted)"
  by (simp add: negotiation_defs)

lemma normalize_login_cong:
  assumes "set (lc_required a) = set (lc_required b)"
    and "set (lc_optional a) = set (lc_optional b)"
    and "set (unwrap_or (feature_flags a) []) = set (unwrap_or (feature_flags b) [])"
  shows "normalize_login a = normalize_login b"
proof -
  have flags: "feature_flags (normalize_login c) =
      (let fs = sort_dedup (unwrap_or (feature_flags c) []) in if fs = [] then None else Some fs)" for c
    by (simp add: normalize_login_def Let_def split: option.splits)
  have "sort_dedup (lc_required a) = sort_dedup (lc_required b)"
    and "sort_dedup (lc_optional a) = sort_dedup (lc_optional b)"
    and "sort_dedup (unwrap_or (feature_flags a) []) = sort_dedup (unwrap_or (feature_flags b) [])"
    using assms by (auto intro: sort_dedup_cong_set)
  then have "feature_flags (normalize_login a) = feature_flags (normalize_login b)"
    and "lc_required (normalize_login a) = lc_required (normalize_login b)"
    and "lc_optional (normalize_login a) = lc_optional (normalize_login b)"
    by (auto simp: flags)
  then show ?thesis
    by (simp add: LoginCapabilities.equality normalize_login_def)
qed

lemma normalize_policy_cong:
  assumes "set (np_required p) = set (np_required q)" and "set (np_optional p) = set (np_optional q)"
  shows "normalize_policy p = normalize_policy q"
  using assms by (simp add: normalize_policy_def sort_dedup_cong_set [OF assms(1)]
      sort_dedup_cong_set [OF assms(2)])

lemma negotiation_normalized:
  "evaluate_capability_negotiation a p =
   evaluate_capability_negotiation (normalize_login a) (normalize_policy p)"
  by (simp add: evaluate_capability_negotiation_def)

section \<open>Report texts\<close>

primrec decision_to_text :: "CapabilityNegotiationDecision \<Rightarrow> string" where
  "decision_to_text Accepted = ''accepted''"
| "decision_to_text AcceptedWithWarnings = ''accepted_with_warnings''"
| "decision_to_text WouldReject = ''would_reject''"

primrec warning_to_text :: "CapabilityNegotiationWarning \<Rightarrow> string" where
  "warning_to_text (MissingOptionalCapability c) = ''missing optional capability: '' @ cap_to_name c"
| "warning_to_text (UnsupportedOptionalCapability c) =
     ''client advertised unsupported optional capability: '' @ cap_to_name c"
| "warning_to_text (UnknownFeatureFlag f) = ''unknown feature flag: '' @ f"

primrec violation_to_text :: "CapabilityNegotiationViolation \<Rightarrow> string" where
  "violation_to_text (MissingRequiredCapability c) = ''missing required capability: '' @ cap_to_name c"

definition fmt_list :: "string \<Rightarrow> ('a \<Rightarrow> string) \<Rightarrow> 'a list \<Rightarrow> string" where
  "fmt_list sep f xs = (if xs = [] then ''<none>'' else str_join sep (map f xs))"

definition negotiation_report_to_text :: "CapabilityNegotiationReport \<Rightarrow> string" where
  "negotiation_report_to_text r =
     ''capability_negotiation_decision: '' @ decision_to_text (cn_decision r)
     @ [CHR 0x0A] @ ''required_supported: '' @ fmt_list '','' cap_to_name (required_supported r)
     @ [CHR 0x0A] @ ''required_missing: '' @ fmt_list '','' cap_to_name (required_missing r)
     @ [CHR 0x0A] @ ''optional_supported: '' @ fmt_list '','' cap_to_name (optional_supported r)
     @ [CHR 0x0A] @ ''optional_missing: '' @ fmt_list '','' cap_to_name (optional_missing r)
     @ [CHR 0x0A] @ ''unsupported_client_optional: ''
     @ fmt_list '','' cap_to_name (unsupported_client_optional r)
     @ [CHR 0x0A] @ ''unknown_feature_flags: '' @ fmt_list '','' (\<lambda>f. f) (unknown_feature_flags r)
     @ [CHR 0x0A] @ ''warnings: '' @ fmt_list '' | '' warning_to_text (cn_warnings r)
     @ [CHR 0x0A] @ ''violations: '' @ fmt_list '' | '' violation_to_text (cn_violations r)"

section \<open>Version negotiation and gates\<close>

record ProtocolVersionRange =
  vr_min :: u32
  vr_max :: u32

record ProtocolCompatibilityProfile =
  version_range :: ProtocolVersionRange
  capabilities :: "ProtocolCapability list"

datatype ProtocolNegotiationStatus = ExactMatch | CompatibleDryRun | Incompatible

record ProtocolNegotiationResult =
  neg_status :: ProtocolNegotiationStatus
  selected_version :: "u32 option"
  neg_shared_capabilities :: "ProtocolCapability list"
  neg_reason :: string

definition current_protocol_profile :: ProtocolCompatibilityProfile where
  "current_protocol_profile = \<lparr>
     version_range = \<lparr>vr_min = PROTOCOL_VERSION, vr_max = PROTOCOL_VERSION\<rparr>,
     capabilities = all_login_capabilities current_login_capabilities\<rparr>"

definition shared_capabilities ::
  "ProtocolCompatibilityProfile \<Rightarrow> ProtocolCompatibilityProfile \<Rightarrow> ProtocolCapability list" where
  "shared_capabilities client server =
     sort_dedup (filter (\<lambda>c. c \<in> set (capabilities server)) (capabilities client))"

definition protocol_ranges_overlap :: "ProtocolVersionRange \<Rightarrow> ProtocolVersionRange \<Rightarrow> bool" where
  "protocol_ranges_overlap a b \<longleftrightarrow> vr_min a \<le> vr_max b \<and> vr_min b \<le> vr_max a"

text \<open>
  The maximum of the inclusive range \<open>lo ..= hi\<close>: \<^verbatim>\<open>None\<close> when the range is empty.
\<close>

definition range_max :: "u32 \<Rightarrow> u32 \<Rightarrow> u32 option" where
  "range_max lo hi = (if lo \<le> hi then Some hi else None)"

datatype negotiation_panic = OverlapGuaranteesVersion

definition negotiate_protocol_dry_run ::
  "ProtocolCompatibilityProfile \<Rightarrow> ProtocolCompatibilityProfile \<Rightarrow>
   negotiation_panic + ProtocolNegotiationResult" where
  "negotiate_protocol_dry_run client server =
     (let c = version_range client; s = version_range server in
      if \<not> protocol_ranges_overlap c s then
        Inr \<lparr>neg_status = Incompatible, selected_version = None, neg_shared_capabilities = [],
             neg_reason = ''no overlapping protocol version range''\<rparr>
      else if vr_min c \<le> PROTOCOL_VERSION \<and> vr_max c \<ge> PROTOCOL_VERSION
              \<and> vr_min s \<le> PROTOCOL_VERSION \<and> vr_max s \<ge> PROTOCOL_VERSION then
        Inr \<lparr>neg_status = ExactMatch, selected_version = Some PROTOCOL_VERSION,
             neg_shared_capabilities =
               sort_dedup (filter (\<lambda>cap. cap \<in> set (capabilities server)) (capabilities client)),
             neg_reason = ''both profiles include the current protocol version''\<rparr>
      else
        case range_max (max (vr_min c) (vr_min s)) (min (vr_max c) (vr_max s)) of
          None \<Rightarrow> Inl OverlapGuaranteesVersion
        | Some v \<Rightarrow>
            Inr \<lparr>neg_status = CompatibleDryRun, selected_version = Some v,
                 neg_shared_capabilities =
                   sort_dedup (filter (\<lambda>cap. cap \<in> set (capabilities server)) (capabilities client)),
                 neg_reason = ''compatible dry-run only: highest shared version is ''
                              @ show_u32 v @ '', not active''\<rparr>)"

datatype ProtocolCapabilityError = MissingCapability ProtocolCapability

fun capability_error_text :: "ProtocolCapabilityError \<Rightarrow> string" where
  "capability_error_text (MissingCapability c) = ''missing required capability: '' @ cap_debug c"

record CapabilityGateReport =
  gr_capability :: ProtocolCapability
  gr_supported :: bool
  gr_reason :: string

definition profile_supports_capability ::
  "ProtocolCompatibilityProfile \<Rightarrow> ProtocolCapability \<Rightarrow> bool" where
  "profile_supports_capability p c \<longleftrightarrow> c \<in> set (capabilities p)"

definition requires_capability ::
  "ProtocolCapability \<Rightarrow> ProtocolCapability list \<Rightarrow> ProtocolCapabilityError + unit" where
  "requires_capability c shared = (if c \<in> set shared then Inr () else Inl (MissingCapability c))"

definition capability_gate_report ::
  "ProtocolCapability \<Rightarrow> ProtocolCapability list \<Rightarrow> CapabilityGateReport" where
  "capability_gate_report c shared =
     (let supported = c \<in> set shared in
      \<lparr>gr_capability = c, gr_supported = supported,
       gr_reason =
         (if supported then cap_debug c @ '' present in shared capability set''
          else cap_debug c @ '' not in shared capability set; not enforced in this milestone'')\<rparr>)"

lemma set_shared_capabilities [simp]:
  "set (shared_capabilities c s) = set (capabilities c) \<inter> set (capabilities s)"
  by (auto simp: shared_capabilities_def)

lemma shared_capabilities_commute: "shared_capabilities c s = shared_capabilities s c"
  unfolding shared_capabilities_def by (rule sort_dedup_cong_set) auto

definition in_range :: "u32 \<Rightarrow> ProtocolVersionRange \<Rightarrow> bool" where
  "in_range v r \<longleftrightarrow> vr_min r \<le> v \<and> v \<le> vr_max r"

lemmas version_defs =
  negotiate_protocol_dry_run_def protocol_ranges_overlap_def range_max_def in_range_def Let_def

section \<open>Properties\<close>

text \<open>C22: The negotiation decision. A login is rejected exactly when some capability the
  policy requires is advertised neither as required nor as optional; among the others it
  is accepted without warnings exactly when every optional policy capability is advertised,
  every optional client capability is known to the policy and no feature flag is sent.\<close>

theorem negotiation_decision_spec:
  "cn_decision (evaluate_capability_negotiation a p) =
     (if \<not> set (np_required p) \<subseteq> set (lc_required a) \<union> set (lc_optional a) then WouldReject
      else if set (np_optional p) \<subseteq> set (lc_required a) \<union> set (lc_optional a)
              \<and> set (lc_optional a) \<subseteq> set (np_required p) \<union> set (np_optional p)
              \<and> unwrap_or (feature_flags a) [] = []
           then Accepted else AcceptedWithWarnings)"
  by (simp only: negotiation_decision_cases negotiation_violations_Nil negotiation_warnings_Nil)
    auto

text \<open>Determinism of negotiation. The whole report, the order of its lists included, is
  determined by the sets of capabilities and flags: neither the order nor repetitions in the
  login packet or in the policy change it.\<close>

theorem negotiation_order_independent:
  assumes "set (lc_required a) = set (lc_required b)"
    and "set (lc_optional a) = set (lc_optional b)"
    and "set (unwrap_or (feature_flags a) []) = set (unwrap_or (feature_flags b) [])"
    and "set (np_required p) = set (np_required q)"
    and "set (np_optional p) = set (np_optional q)"
  shows "evaluate_capability_negotiation a p = evaluate_capability_negotiation b q"
  using normalize_login_cong [OF assms(1-3)] normalize_policy_cong [OF assms(4,5)]
  by (simp only: negotiation_normalized [of a p] negotiation_normalized [of b q])

theorem negotiation_order_independent_witness:
  "evaluate_capability_negotiation
     \<lparr>lc_required = [CapSignatureMetadata, CapJoinGateDryRun, CapSignatureMetadata],
      lc_optional = [], feature_flags = Some []\<rparr>
     current_capability_negotiation_policy =
   evaluate_capability_negotiation
     \<lparr>lc_required = [CapJoinGateDryRun, CapSignatureMetadata],
      lc_optional = [], feature_flags = None\<rparr>
     current_capability_negotiation_policy"
  by (rule negotiation_order_independent) auto

text \<open>Version negotiation agrees on a usable version. For well-formed ranges it never
  reaches the panic of its \<^verbatim>\<open>expect\<close>; it answers incompatible exactly when no version lies in
  both ranges; otherwise the selected version lies in both, and it is the current protocol
  version if both ranges contain that and the highest common version if not.\<close>

theorem negotiate_selects_common_version:
  assumes "vr_min (version_range c) \<le> vr_max (version_range c)"
    and "vr_min (version_range s) \<le> vr_max (version_range s)"
  shows "\<exists>r. negotiate_protocol_dry_run c s = Inr r \<and>
     (neg_status r = Incompatible \<longleftrightarrow>
        \<not> (\<exists>v. in_range v (version_range c) \<and> in_range v (version_range s))) \<and>
     (neg_status r = Incompatible \<longrightarrow> selected_version r = None) \<and>
     (neg_status r \<noteq> Incompatible \<longrightarrow>
        (\<exists>v. selected_version r = Some v \<and> in_range v (version_range c) \<and>
             in_range v (version_range s) \<and>
             (if in_range PROTOCOL_VERSION (version_range c) \<and>
                 in_range PROTOCOL_VERSION (version_range s)
              then v = PROTOCOL_VERSION
              else \<forall>w. in_range w (version_range c) \<and> in_range w (version_range s) \<longrightarrow> w \<le> v)))"
proof -
  let ?c = "version_range c" and ?s = "version_range s"
  have overlap: "(\<exists>v. in_range v ?c \<and> in_range v ?s) \<longleftrightarrow> protocol_ranges_overlap ?c ?s"
  proof
    assume "protocol_ranges_overlap ?c ?s"
    then have "in_range (max (vr_min ?c) (vr_min ?s)) ?c \<and> in_range (max (vr_min ?c) (vr_min ?s)) ?s"
      using assms by (auto simp: protocol_ranges_overlap_def in_range_def max_def)
    then show "\<exists>v. in_range v ?c \<and> in_range v ?s" by blast
  qed (auto simp: protocol_ranges_overlap_def in_range_def)
  have nonempty: "max (vr_min ?c) (vr_min ?s) \<le> min (vr_max ?c) (vr_max ?s)"
    if "protocol_ranges_overlap ?c ?s"
    using that assms by (auto simp: protocol_ranges_overlap_def)
  show ?thesis
    unfolding overlap using nonempty
    by (auto simp: negotiate_protocol_dry_run_def range_max_def in_range_def Let_def)
qed

theorem negotiate_selects_common_version_witness:
  "\<exists>r. negotiate_protocol_dry_run
      \<lparr>version_range = \<lparr>vr_min = 3, vr_max = 7\<rparr>, capabilities = []\<rparr>
      \<lparr>version_range = \<lparr>vr_min = 1, vr_max = 5\<rparr>, capabilities = []\<rparr> = Inr r
    \<and> selected_version r = Some 5"
proof -
  let ?c = "\<lparr>version_range = \<lparr>vr_min = 3, vr_max = 7\<rparr>, capabilities = []\<rparr>"
  let ?s = "\<lparr>version_range = \<lparr>vr_min = 1, vr_max = 5\<rparr>, capabilities = []\<rparr>"
  have "vr_min (version_range ?c) \<le> vr_max (version_range ?c)"
    and "vr_min (version_range ?s) \<le> vr_max (version_range ?s)" by simp_all
  from negotiate_selects_common_version [OF this] show ?thesis
    by (auto simp: version_defs PROTOCOL_VERSION_def)
qed

text \<open>The panic is reachable from decoded data. Nothing forbids a profile whose range is
  inverted; for it the overlap test can succeed while the common range is empty, and the
  negotiation panics instead of answering.\<close>

theorem negotiate_panics_on_inverted_range:
  "negotiate_protocol_dry_run
      \<lparr>version_range = \<lparr>vr_min = 5, vr_max = 4\<rparr>, capabilities = caps\<rparr>
      \<lparr>version_range = \<lparr>vr_min = 3, vr_max = 9\<rparr>, capabilities = caps'\<rparr>
   = Inl OverlapGuaranteesVersion"
  by (simp add: version_defs PROTOCOL_VERSION_def)

end
