(* ===== verification/Registry.thy ===== *)
theory Registry
  imports Session Heartbeat Capabilities
begin

text \<open>
  The live session registry of \<^verbatim>\<open>crates/server/src/session_registry.rs\<close>: a \<^verbatim>\<open>BTreeMap\<close> from
  monotonic 64-bit session ids to entries, updated in place by the session handlers and read
  by the admin console. Every setter has the shape \<^verbatim>\<open>if let Some(entry) = get_mut(id)\<close>, modelled
  once by \<open>reg_adjust\<close>. The locale \<open>session_store\<close> states what a handler relies on when several
  of them share the registry: an update is visible under its own id and nowhere else.
\<close>

type_synonym SessionId = u64

definition session_id_text :: "SessionId \<Rightarrow> string" where
  "session_id_text sid = ''session-'' @ show_u64 sid"

record SessionRegistryEntry =
  re_id :: SessionId
  re_state :: SessionState
  re_event_count :: nat
  re_ready_dry_run :: bool
  re_failed :: bool
  re_protocol_version :: "u32 option"
  re_login_capabilities :: "LoginCapabilities option"
  re_capability_negotiation :: "CapabilityNegotiationReport option"
  re_ping_received_count :: nat
  re_pong_sent_count :: nat
  re_server_ping_sent_count :: nat
  re_server_pong_received_count :: nat

record SessionRegistry =
  next_id :: u64
  reg_entries :: "(SessionId, SessionRegistryEntry) btree"
  reg_heartbeat_policy :: HeartbeatPolicy

record SessionRegistrySnapshot =
  connected_sessions :: nat
  ready_dry_run_sessions :: nat
  failed_sessions :: nat
  snap_sessions :: "SessionRegistryEntry list"
  snap_heartbeat_policy :: HeartbeatPolicy

definition reg_new :: SessionRegistry where
  "reg_new = \<lparr>next_id = 1, reg_entries = [], reg_heartbeat_policy = HbReportOnly\<rparr>"

definition set_heartbeat_policy :: "HeartbeatPolicy \<Rightarrow> SessionRegistry \<Rightarrow> SessionRegistry" where
  "set_heartbeat_policy policy r = r\<lparr>reg_heartbeat_policy := policy\<rparr>"

definition fresh_entry :: "SessionId \<Rightarrow> SessionRegistryEntry" where
  "fresh_entry sid = \<lparr>re_id = sid, re_state = Connected, re_event_count = 0,
     re_ready_dry_run = False, re_failed = False, re_protocol_version = None,
     re_login_capabilities = None, re_capability_negotiation = None,
     re_ping_received_count = 0, re_pong_sent_count = 0,
     re_server_ping_sent_count = 0, re_server_pong_received_count = 0\<rparr>"

definition create_session :: "SessionRegistry \<Rightarrow> SessionId \<times> SessionRegistry" where
  "create_session r =
     (let sid = next_id r in
      (sid, r\<lparr>next_id := next_id r + 1,
              reg_entries := bt_insert sid (fresh_entry sid) (reg_entries r)\<rparr>))"

definition reg_adjust ::
  "SessionId \<Rightarrow> (SessionRegistryEntry \<Rightarrow> SessionRegistryEntry) \<Rightarrow> SessionRegistry \<Rightarrow> SessionRegistry" where
  "reg_adjust sid f r = r\<lparr>reg_entries := bt_adjust sid f (reg_entries r)\<rparr>"

definition reg_get :: "SessionRegistry \<Rightarrow> SessionId \<Rightarrow> SessionRegistryEntry option" where
  "reg_get r sid = bt_get (reg_entries r) sid"

definition set_protocol_version :: "SessionId \<Rightarrow> u32 \<Rightarrow> SessionRegistry \<Rightarrow> SessionRegistry" where
  "set_protocol_version sid version =
     reg_adjust sid (\<lambda>e. e\<lparr>re_protocol_version := Some version\<rparr>)"

definition set_login_capabilities ::
  "SessionId \<Rightarrow> LoginCapabilities \<Rightarrow> SessionRegistry \<Rightarrow> SessionRegistry" where
  "set_login_capabilities sid caps =
     reg_adjust sid (\<lambda>e. e\<lparr>re_login_capabilities := Some caps\<rparr>)"

definition set_capability_negotiation ::
  "SessionId \<Rightarrow> CapabilityNegotiationReport \<Rightarrow> SessionRegistry \<Rightarrow> SessionRegistry" where
  "set_capability_negotiation sid report =
     reg_adjust sid (\<lambda>e. e\<lparr>re_capability_negotiation := Some report\<rparr>)"

definition update_session_state :: "SessionId \<Rightarrow> SessionState \<Rightarrow> SessionRegistry \<Rightarrow> SessionRegistry" where
  "update_session_state sid st =
     reg_adjust sid (\<lambda>e. e\<lparr>re_ready_dry_run := (st = ReadyDryRun), re_failed := (st = Failed),
                           re_state := st\<rparr>)"

definition update_session_event_count :: "SessionId \<Rightarrow> nat \<Rightarrow> SessionRegistry \<Rightarrow> SessionRegistry" where
  "update_session_event_count sid n = reg_adjust sid (\<lambda>e. e\<lparr>re_event_count := n\<rparr>)"

definition update_session_heartbeat_counts ::
  "SessionId \<Rightarrow> nat \<Rightarrow> nat \<Rightarrow> SessionRegistry \<Rightarrow> SessionRegistry" where
  "update_session_heartbeat_counts sid pings pongs =
     reg_adjust sid (\<lambda>e. e\<lparr>re_ping_received_count := pings, re_pong_sent_count := pongs\<rparr>)"

definition update_server_heartbeat_counts ::
  "SessionId \<Rightarrow> nat \<Rightarrow> nat \<Rightarrow> SessionRegistry \<Rightarrow> SessionRegistry" where
  "update_server_heartbeat_counts sid pings pongs =
     reg_adjust sid (\<lambda>e. e\<lparr>re_server_ping_sent_count := pings, re_server_pong_received_count := pongs\<rparr>)"

definition update_session ::
  "SessionId \<Rightarrow> SessionState \<Rightarrow> nat \<Rightarrow> SessionRegistry \<Rightarrow> SessionRegistry" where
  "update_session sid st n =
     reg_adjust sid (\<lambda>e. e\<lparr>re_ready_dry_run := (st = ReadyDryRun), re_failed := (st = Failed),
                           re_state := st, re_event_count := n\<rparr>)"

definition remove_session :: "SessionId \<Rightarrow> SessionRegistry \<Rightarrow> SessionRegistry" where
  "remove_session sid r = r\<lparr>reg_entries := bt_remove sid (reg_entries r)\<rparr>"

definition snapshot :: "SessionRegistry \<Rightarrow> SessionRegistrySnapshot" where
  "snapshot r =
     (let sessions = map snd (reg_entries r) in
      \<lparr>connected_sessions = length sessions,
       ready_dry_run_sessions = length (filter re_ready_dry_run sessions),
       failed_sessions = length (filter re_failed sessions),
       snap_sessions = sessions,
       snap_heartbeat_policy = reg_heartbeat_policy r\<rparr>)"

lemmas reg_setters =
  set_protocol_version_def set_login_capabilities_def set_capability_negotiation_def
  update_session_state_def update_session_event_count_def update_session_heartbeat_counts_def
  update_server_heartbeat_counts_def update_session_def

section \<open>What handlers rely on\<close>

locale session_store =
  fixes get :: "'r \<Rightarrow> 'i \<Rightarrow> 'e option"
    and adjust :: "'i \<Rightarrow> ('e \<Rightarrow> 'e) \<Rightarrow> 'r \<Rightarrow> 'r"
    and discard :: "'i \<Rightarrow> 'r \<Rightarrow> 'r"
  assumes get_adjust: "get (adjust i f r) j = (if j = i then map_option f (get r j) else get r j)"
    and get_discard: "get (discard i r) j = (if j = i then None else get r j)"
begin

text \<open>A batch of updates to one session acts on that session only, in order.\<close>

lemma get_adjust_batch:
  "get (fold (adjust i) fs r) j = (if j = i then map_option (fold id fs) (get r j) else get r j)"
  by (induction fs arbitrary: r) (auto simp: get_adjust option.map_comp comp_def option.map_id)

lemma adjust_commute: "i \<noteq> j \<Longrightarrow> get (adjust i f (adjust j g r)) = get (adjust j g (adjust i f r))"
  by (auto simp: get_adjust)

lemma discard_after_adjust: "get (discard i (fold (adjust i) fs r)) = get (discard i r)"
  by (auto simp: get_discard get_adjust_batch)

end

interpretation reg: session_store reg_get reg_adjust remove_session
  by unfold_locales
    (simp_all add: reg_get_def reg_adjust_def remove_session_def bt_simps)

section \<open>Invariant\<close>

definition entry_ok :: "SessionId \<Rightarrow> SessionRegistryEntry \<Rightarrow> bool" where
  "entry_ok sid e \<longleftrightarrow>
     re_id e = sid \<and> re_ready_dry_run e = (re_state e = ReadyDryRun) \<and> re_failed e = (re_state e = Failed)"

definition reg_invar :: "SessionRegistry \<Rightarrow> bool" where
  "reg_invar r \<longleftrightarrow>
     bt_invar (reg_entries r) \<and> (\<forall>sid e. reg_get r sid = Some e \<longrightarrow> entry_ok sid e)"

lemma reg_invar_new: "reg_invar reg_new"
  by (simp add: reg_invar_def reg_new_def reg_get_def bt.invar_empty)

lemma reg_get_create:
  "reg_get (snd (create_session r)) sid =
     (if sid = next_id r then Some (fresh_entry sid) else reg_get r sid)"
  by (simp add: create_session_def Let_def reg_get_def bt_simps)

lemma reg_invar_create: "reg_invar r \<Longrightarrow> reg_invar (snd (create_session r))"
  by (auto simp: reg_invar_def reg_get_create entry_ok_def fresh_entry_def)
    (simp add: create_session_def Let_def bt.invar_insert)

lemma reg_invar_adjust:
  assumes "reg_invar r" and "\<And>e. entry_ok sid e \<Longrightarrow> entry_ok sid (f e)"
  shows "reg_invar (reg_adjust sid f r)"
proof -
  have "bt_invar (reg_entries (reg_adjust sid f r))"
    using assms(1) by (simp add: reg_invar_def reg_adjust_def bt.invar_adjust)
  then show ?thesis
    using assms by (auto simp: reg_invar_def reg.get_adjust split: if_splits)
qed

lemma reg_invar_setters:
  assumes "reg_invar r"
  shows "reg_invar (set_protocol_version sid v r)" "reg_invar (set_login_capabilities sid caps r)"
    "reg_invar (set_capability_negotiation sid rep r)" "reg_invar (update_session_state sid st r)"
    "reg_invar (update_session_event_count sid n r)"
    "reg_invar (update_session_heartbeat_counts sid p q r)"
    "reg_invar (update_server_heartbeat_counts sid p q r)" "reg_invar (update_session sid st n r)"
  unfolding reg_setters by (rule reg_invar_adjust [OF assms]; simp add: entry_ok_def)+

lemma reg_invar_remove: "reg_invar r \<Longrightarrow> reg_invar (remove_session sid r)"
  by (auto simp: reg_invar_def reg.get_discard split: if_splits)
    (simp add: remove_session_def bt_invar_remove)

lemma reg_invar_policy: "reg_invar r \<Longrightarrow> reg_invar (set_heartbeat_policy p r)"
  by (simp add: reg_invar_def reg_get_def set_heartbeat_policy_def)

section \<open>Registry histories\<close>

text \<open>\<open>reg_history n r\<close>: \<open>r\<close> results from a new registry by operations of which \<open>n\<close> created sessions.\<close>

inductive reg_history :: "nat \<Rightarrow> SessionRegistry \<Rightarrow> bool" where
  new: "reg_history 0 reg_new"
| create: "reg_history n r \<Longrightarrow> reg_history (Suc n) (snd (create_session r))"
| protocol_version: "reg_history n r \<Longrightarrow> reg_history n (set_protocol_version sid v r)"
| login: "reg_history n r \<Longrightarrow> reg_history n (set_login_capabilities sid caps r)"
| negotiation: "reg_history n r \<Longrightarrow> reg_history n (set_capability_negotiation sid rep r)"
| state: "reg_history n r \<Longrightarrow> reg_history n (update_session_state sid st r)"
| event_count: "reg_history n r \<Longrightarrow> reg_history n (update_session_event_count sid k r)"
| heartbeat: "reg_history n r \<Longrightarrow> reg_history n (update_session_heartbeat_counts sid p q r)"
| server_heartbeat: "reg_history n r \<Longrightarrow> reg_history n (update_server_heartbeat_counts sid p q r)"
| session: "reg_history n r \<Longrightarrow> reg_history n (update_session sid st k r)"
| remove: "reg_history n r \<Longrightarrow> reg_history n (remove_session sid r)"
| policy: "reg_history n r \<Longrightarrow> reg_history n (set_heartbeat_policy pol r)"

lemma reg_history_invar: "reg_history n r \<Longrightarrow> reg_invar r"
  by (induction rule: reg_history.induct)
    (auto simp: reg_invar_new reg_invar_create reg_invar_setters reg_invar_remove reg_invar_policy)

lemma next_id_setters [simp]:
  "next_id (reg_adjust sid f r) = next_id r" "next_id (remove_session sid r) = next_id r"
  "next_id (set_heartbeat_policy p r) = next_id r"
  by (simp_all add: reg_adjust_def remove_session_def set_heartbeat_policy_def)

lemma reg_history_next_id: "reg_history n r \<Longrightarrow> next_id r = of_nat (Suc n)"
  by (induction rule: reg_history.induct)
    (auto simp: reg_setters reg_new_def create_session_def Let_def)

lemma reg_get_policy [simp]: "reg_get (set_heartbeat_policy p r) = reg_get r"
  by (auto simp: reg_get_def set_heartbeat_policy_def)

lemma reg_history_ids:
  "reg_history n r \<Longrightarrow> n < 2 ^ 64 \<Longrightarrow> reg_get r sid \<noteq> None \<Longrightarrow> 0 < unat sid \<and> unat sid \<le> n"
proof (induction arbitrary: sid rule: reg_history.induct)
  case (create n r)
  have "unat (next_id r) = Suc n"
    using create.prems(1) reg_history_next_id [OF create.hyps]
    by (simp add: unat_of_nat del: of_nat_Suc)
  with create show ?case by (fastforce simp: reg_get_create split: if_splits)
qed (auto simp: reg_setters reg.get_adjust reg.get_discard reg_new_def reg_get_def [of "\<lparr>next_id = _, reg_entries = [], reg_heartbeat_policy = _\<rparr>"] split: if_splits)

section \<open>Properties\<close>

text \<open>Session ids are never reused. Whatever the registry has been through, as long as the
  64-bit counter has not wrapped, a new session gets an id under which nothing is registered,
  starts as a fresh connected entry, and leaves every other session as it was.\<close>

theorem create_session_fresh:
  assumes "reg_history n r" and "n < 2 ^ 64 - 1"
  shows "reg_get r (fst (create_session r)) = None \<and>
    reg_get (snd (create_session r)) (fst (create_session r)) = Some (fresh_entry (fst (create_session r))) \<and>
    (\<forall>sid. sid \<noteq> fst (create_session r) \<longrightarrow> reg_get (snd (create_session r)) sid = reg_get r sid)"
proof -
  have "fst (create_session r) = of_nat (Suc n)"
    using reg_history_next_id [OF assms(1)] by (simp add: create_session_def Let_def)
  then have "unat (fst (create_session r)) = Suc n"
    using assms(2) by (simp add: unat_of_nat del: of_nat_Suc)
  then have "reg_get r (fst (create_session r)) = None"
    using reg_history_ids [OF assms(1), of "fst (create_session r)"] assms(2) by fastforce
  then show ?thesis
    using reg_get_create [of r] by (simp add: create_session_def Let_def)
qed

theorem create_session_fresh_witness:
  "reg_get (remove_session 1 (snd (create_session reg_new))) 2 = None"
proof -
  let ?r = "remove_session 1 (snd (create_session reg_new))"
  have "reg_history 1 ?r"
    using reg_history.remove [OF reg_history.create [OF reg_history.new], of 1] by simp
  moreover have "fst (create_session ?r) = 2"
    by (simp add: create_session_def Let_def reg_new_def remove_session_def)
  ultimately show ?thesis using create_session_fresh [of 1 ?r] by simp
qed

lemma snapshot_counts:
  assumes "reg_history n r"
  shows "sorted_wrt (<) (map re_id (snap_sessions (snapshot r))) \<and>
    (e \<in> set (snap_sessions (snapshot r)) \<longleftrightarrow> reg_get r (re_id e) = Some e) \<and>
    connected_sessions (snapshot r) = card {sid. reg_get r sid \<noteq> None} \<and>
    ready_dry_run_sessions (snapshot r) =
      card {sid. \<exists>e. reg_get r sid = Some e \<and> re_state e = ReadyDryRun} \<and>
    failed_sessions (snapshot r) = card {sid. \<exists>e. reg_get r sid = Some e \<and> re_state e = Failed}"
proof (intro conjI)
  from reg_history_invar [OF assms] have bt: "bt_invar (reg_entries r)"
    and ok: "\<And>sid e. (sid, e) \<in> set (reg_entries r) \<Longrightarrow> entry_ok sid e"
    by (auto simp: reg_invar_def reg_get_def bt.items_distinct)
  have ids: "map re_id (map snd (reg_entries r)) = map fst (reg_entries r)"
    using ok by (auto simp: entry_ok_def)
  have "map re_id (snap_sessions (snapshot r)) = map fst (reg_entries r)"
    using ids by (simp add: snapshot_def Let_def)
  then show "sorted_wrt (<) (map re_id (snap_sessions (snapshot r)))"
    using bt by (simp only: bt_invar_def)
  have mem: "reg_get r sid = Some e \<longleftrightarrow> (sid, e) \<in> set (reg_entries r)" for sid e
    using bt.in_items_iff [OF bt] by (simp add: reg_get_def)
  have "e \<in> set (snap_sessions (snapshot r)) \<longleftrightarrow> (\<exists>sid. (sid, e) \<in> set (reg_entries r))"
    by (force simp: snapshot_def Let_def)
  moreover have "(sid, e) \<in> set (reg_entries r) \<Longrightarrow> sid = re_id e" for sid
    using ok [of sid e] by (simp add: entry_ok_def)
  ultimately show "e \<in> set (snap_sessions (snapshot r)) \<longleftrightarrow> reg_get r (re_id e) = Some e"
    unfolding mem by blast
  have count: "length (filter P (map snd (reg_entries r))) =
      card {sid. \<exists>e. reg_get r sid = Some e \<and> P e}" for P
  proof -
    have "distinct (map fst (filter (P \<circ> snd) (reg_entries r)))"
      using bt.items_distinct [OF bt] by (simp add: distinct_map_filter)
    then have "card (set (map fst (filter (P \<circ> snd) (reg_entries r)))) =
        length (filter (P \<circ> snd) (reg_entries r))"
      using distinct_card by fastforce
    moreover have "set (map fst (filter (P \<circ> snd) (reg_entries r))) =
        {sid. \<exists>e. reg_get r sid = Some e \<and> P e}"
      by (force simp: mem)
    ultimately show ?thesis by (simp add: filter_map)
  qed
  show "connected_sessions (snapshot r) = card {sid. reg_get r sid \<noteq> None}"
    using count [of "\<lambda>_. True"] by (simp add: snapshot_def Let_def)
  have flags: "filter re_ready_dry_run (map snd (reg_entries r)) =
      filter (\<lambda>e. re_state e = ReadyDryRun) (map snd (reg_entries r))"
    "filter re_failed (map snd (reg_entries r)) = filter (\<lambda>e. re_state e = Failed) (map snd (reg_entries r))"
    using ok by (auto intro!: filter_cong simp: entry_ok_def)
  show "ready_dry_run_sessions (snapshot r) =
      card {sid. \<exists>e. reg_get r sid = Some e \<and> re_state e = ReadyDryRun}"
    and "failed_sessions (snapshot r) = card {sid. \<exists>e. reg_get r sid = Some e \<and> re_state e = Failed}"
    using count by (simp_all add: snapshot_def Let_def flags)
qed

text \<open>The snapshot the admin console prints is accurate: after any history it lists exactly
  the registered sessions in ascending id order, each once, and its three counters are the
  numbers of registered, ready and failed sessions.\<close>

theorem snapshot_accurate:
  assumes "reg_history n r"
  shows "sorted_wrt (<) (map re_id (snap_sessions (snapshot r))) \<and>
    (e \<in> set (snap_sessions (snapshot r)) \<longleftrightarrow> reg_get r (re_id e) = Some e) \<and>
    connected_sessions (snapshot r) = card {sid. reg_get r sid \<noteq> None} \<and>
    ready_dry_run_sessions (snapshot r) =
      card {sid. \<exists>e. reg_get r sid = Some e \<and> re_state e = ReadyDryRun} \<and>
    failed_sessions (snapshot r) = card {sid. \<exists>e. reg_get r sid = Some e \<and> re_state e = Failed}"
  using assms by (rule snapshot_counts)

theorem snapshot_accurate_witness:
  "connected_sessions (snapshot (snd (create_session reg_new))) =
     card {sid. reg_get (snd (create_session reg_new)) sid \<noteq> None}"
  using snapshot_accurate [OF reg_history.create [OF reg_history.new]] by blast

end
