(* ===== verification/Enforcement.thy ===== *)
theory Enforcement
  imports Session
begin

text \<open>
  Session enforcement (\<^verbatim>\<open>crates/server/src/enforcement.rs\<close> and
  \<^verbatim>\<open>map_decision_to_disconnect\<close> of \<^verbatim>\<open>crates/server/src/lib.rs\<close>). Under the strict policy the
  decision for a failed session is recovered by parsing the failure text that the state
  machine printed; the lemmas show that this parsing inverts the printing.
\<close>

datatype SessionEnforcementPolicy = ReportOnly | Strict

datatype SessionEnforcementDecision =
    Allow
  | WouldDisconnectInvalidFirstMessage
  | WouldDisconnectVersionMismatch u32 u32
  | WouldDisconnectCapabilityGateFailure string
  | WouldDisconnectInvalidStateTransition string string
  | WouldMarkSessionFailed string

primrec enforcement_to_text :: "SessionEnforcementDecision \<Rightarrow> string" where
  "enforcement_to_text Allow = ''decision: allow''"
| "enforcement_to_text WouldDisconnectInvalidFirstMessage =
     ''decision: would_disconnect invalid_first_message''"
| "enforcement_to_text (WouldDisconnectVersionMismatch client server) =
     ''decision: would_disconnect version_mismatch client='' @ show_u32 client
     @ '' server='' @ show_u32 server"
| "enforcement_to_text (WouldDisconnectCapabilityGateFailure capability) =
     ''decision: would_disconnect capability_gate_failure capability='' @ capability"
| "enforcement_to_text (WouldDisconnectInvalidStateTransition from to) =
     ''decision: would_disconnect invalid_state_transition from='' @ from @ '' to='' @ to"
| "enforcement_to_text (WouldMarkSessionFailed reason) =
     ''decision: would_mark_session_failed reason='' @ reason"

text \<open>The value of the first word that starts with \<open>key\<close>, zero when absent or malformed.\<close>

definition extract_field :: "string \<Rightarrow> string \<Rightarrow> u32" where
  "extract_field key reason =
     (case find (\<lambda>part. starts_with part key) (split_whitespace reason) of
        None \<Rightarrow> 0
      | Some part \<Rightarrow>
          (case split_at_char (CHR ''='') part of
             _ # v # _ \<Rightarrow> unwrap_or (parse_u32 v) 0
           | _ \<Rightarrow> 0))"

definition extract_versions :: "string \<Rightarrow> u32 \<times> u32" where
  "extract_versions reason = (extract_field ''client='' reason, extract_field ''server='' reason)"

text \<open>The word after the first occurrence of \<open>w\<close>, empty when there is none.\<close>

fun word_after :: "string \<Rightarrow> string list \<Rightarrow> string" where
  "word_after w [] = []"
| "word_after w (p # ps) =
     (if p = w then (case ps of [] \<Rightarrow> [] | q # _ \<Rightarrow> q) else word_after w ps)"

definition extract_transition :: "string \<Rightarrow> string \<times> string" where
  "extract_transition reason =
     (let parts = split_whitespace reason in (word_after ''transition:'' parts, word_after ''->'' parts))"

definition evaluate_enforcement ::
  "SessionState \<Rightarrow> string option \<Rightarrow> SessionEnforcementPolicy \<Rightarrow> SessionEnforcementDecision" where
  "evaluate_enforcement st failure policy =
     (case policy of
        ReportOnly \<Rightarrow> Allow
      | Strict \<Rightarrow>
          (if st = ReadyDryRun then Allow
           else if st = Connected then WouldDisconnectInvalidFirstMessage
           else if st = Failed then
             (case failure of
                Some reason \<Rightarrow>
                  if str_contains reason ''protocol mismatch'' then
                    (case extract_versions reason of
                       (client, server) \<Rightarrow> WouldDisconnectVersionMismatch client server)
                  else if str_contains reason ''invalid state transition'' then
                    (case extract_transition reason of
                       (from, to) \<Rightarrow> WouldDisconnectInvalidStateTransition from to)
                  else WouldMarkSessionFailed reason
              | None \<Rightarrow> WouldMarkSessionFailed ''unknown failure'')
           else WouldMarkSessionFailed (''handshake incomplete at '' @ state_debug st)))"

text \<open>
  \<^verbatim>\<open>map_decision_to_disconnect\<close>: \<^const>\<open>None\<close> stands for its \<^verbatim>\<open>unreachable!\<close> branch.
\<close>

fun map_decision_to_disconnect :: "SessionEnforcementDecision \<Rightarrow> (DisconnectReason \<times> string) option" where
  "map_decision_to_disconnect Allow = None"
| "map_decision_to_disconnect WouldDisconnectInvalidFirstMessage =
     Some (InvalidHandshake, ''invalid first message'')"
| "map_decision_to_disconnect (WouldDisconnectVersionMismatch client server) =
     Some (ProtocolMismatch, ''protocol mismatch: client='' @ show_u32 client
           @ '' server='' @ show_u32 server)"
| "map_decision_to_disconnect (WouldDisconnectCapabilityGateFailure capability) =
     Some (InvalidHandshake, ''capability gate failure: '' @ capability)"
| "map_decision_to_disconnect (WouldDisconnectInvalidStateTransition from to) =
     Some (InvalidHandshake, ''invalid state transition: '' @ from @ '' -> '' @ to)"
| "map_decision_to_disconnect (WouldMarkSessionFailed reason) = Some (InvalidHandshake, reason)"

section \<open>Parsing inverts printing\<close>

lemma not_ascii_space_simps [simp]:
  "\<not> ascii_space (CHR ''='')" "\<not> ascii_space (CHR ''-'')" "\<not> ascii_space (CHR ''>'')"
  "\<not> ascii_space (CHR '':'')" "ascii_space (CHR '' '')"
  by (simp_all add: ascii_space_def)

lemma ascii_space_show_u32: "\<forall>c \<in> set (show_u32 w). \<not> ascii_space c"
  by (simp add: show_u32_def show_nat_no_space)

lemma equals_notin_show_u32: "CHR ''='' \<notin> set (show_u32 w)"
  by (simp add: show_u32_def show_nat_lacks ascii_digit_def)

lemma split_mismatch_text:
  "split_whitespace (session_error_text (ProtocolMismatchError c s)) =
     [''protocol'', ''mismatch:'', ''client='' @ show_u32 c, ''server='' @ show_u32 s]"
proof -
  have 1: "split_whitespace (''protocol'' @ CHR '' '' # t) = ''protocol'' # split_whitespace t" for t
    by (rule split_whitespace_word) (auto simp: ascii_space_def)
  have 2: "split_whitespace (''mismatch:'' @ CHR '' '' # t) = ''mismatch:'' # split_whitespace t" for t
    by (rule split_whitespace_word) (auto simp: ascii_space_def)
  have 3: "split_whitespace ((''client='' @ show_u32 c) @ CHR '' '' # t) =
      (''client='' @ show_u32 c) # split_whitespace t" for t
    by (rule split_whitespace_word) (use ascii_space_show_u32 [of c] in \<open>auto simp: ascii_space_def\<close>)
  have 4: "split_whitespace (''server='' @ show_u32 s) = [''server='' @ show_u32 s]"
    by (rule split_whitespace_last) (use ascii_space_show_u32 [of s] in \<open>auto simp: ascii_space_def\<close>)
  have "session_error_text (ProtocolMismatchError c s) =
      ''protocol'' @ CHR '' '' # ''mismatch:'' @ CHR '' '' # (''client='' @ show_u32 c) @ CHR '' ''
      # ''server='' @ show_u32 s"
    by simp
  then show ?thesis by (simp only: 1 2 3 4)
qed

lemma split_field:
  "split_at_char (CHR ''='') (''client='' @ show_u32 w) = [''client'', show_u32 w]"
  "split_at_char (CHR ''='') (''server='' @ show_u32 w) = [''server'', show_u32 w]"
  using split_at_char_append [of "CHR ''=''" "''client''" "show_u32 w"]
    split_at_char_append [of "CHR ''=''" "''server''" "show_u32 w"]
    split_at_char_none [OF equals_notin_show_u32]
  by simp_all

lemma extract_versions_mismatch:
  "extract_versions (session_error_text (ProtocolMismatchError c s)) = (c, s)"
  unfolding extract_versions_def extract_field_def split_mismatch_text
  using split_field [of c] split_field [of s] by simp

lemma mismatch_text_contains:
  "str_contains (session_error_text (ProtocolMismatchError c s)) ''protocol mismatch''"
  by simp

lemma state_debug_no_space: "\<forall>c \<in> set (state_debug s). \<not> ascii_space c" "state_debug s \<noteq> []"
  by (cases s, simp_all add: ascii_space_def)+

lemma split_transition_text:
  "split_whitespace (session_error_text (InvalidTransition a b)) =
     [''invalid'', ''state'', ''transition:'', state_debug a, ''->'', state_debug b]"
proof -
  have 1: "split_whitespace (''invalid'' @ CHR '' '' # t) = ''invalid'' # split_whitespace t" for t
    by (rule split_whitespace_word) (auto simp: ascii_space_def)
  have 2: "split_whitespace (''state'' @ CHR '' '' # t) = ''state'' # split_whitespace t" for t
    by (rule split_whitespace_word) (auto simp: ascii_space_def)
  have 3: "split_whitespace (''transition:'' @ CHR '' '' # t) = ''transition:'' # split_whitespace t" for t
    by (rule split_whitespace_word) (auto simp: ascii_space_def)
  have 4: "split_whitespace (state_debug a @ CHR '' '' # t) = state_debug a # split_whitespace t" for t
    by (rule split_whitespace_word) (auto simp: state_debug_no_space)
  have 5: "split_whitespace (''->'' @ CHR '' '' # t) = ''->'' # split_whitespace t" for t
    by (rule split_whitespace_word) (auto simp: ascii_space_def)
  have 6: "split_whitespace (state_debug b) = [state_debug b]"
    by (rule split_whitespace_last) (auto simp: state_debug_no_space)
  have "session_error_text (InvalidTransition a b) =
      ''invalid'' @ CHR '' '' # ''state'' @ CHR '' '' # ''transition:'' @ CHR '' '' #
      state_debug a @ CHR '' '' # ''->'' @ CHR '' '' # state_debug b"
    by simp
  then show ?thesis by (simp only: 1 2 3 4 5 6)
qed

lemma state_debug_neq_arrow: "state_debug s \<noteq> ''->''"
  by (cases s) simp_all

lemma extract_transition_text:
  "extract_transition (session_error_text (InvalidTransition a b)) = (state_debug a, state_debug b)"
  unfolding extract_transition_def split_transition_text
  by (simp add: state_debug_neq_arrow)

lemma state_debug_skip:
  "str_contains (state_debug s @ t) ''protocol mismatch'' = str_contains t ''protocol mismatch''"
  by (cases s) simp_all

lemma transition_text_contains:
  "\<not> str_contains (session_error_text (InvalidTransition a b)) ''protocol mismatch''"
  "str_contains (session_error_text (InvalidTransition a b)) ''invalid state transition''"
  using state_debug_skip [of a "'' -> '' @ state_debug b"] state_debug_skip [of b "[]"]
  by simp_all

section \<open>Properties\<close>

text \<open>Strict enforcement lets exactly the ready sessions through: under the strict policy
  the decision is to allow if and only if the session state is ready, and the report-only
  policy never intervenes.\<close>

theorem enforcement_allows_iff_ready:
  "evaluate_enforcement st failure policy = Allow \<longleftrightarrow> policy = ReportOnly \<or> st = ReadyDryRun"
  by (auto simp: evaluate_enforcement_def split: SessionEnforcementPolicy.splits option.splits prod.splits)

text \<open>The failure text round-trips. When the state machine fails with a version mismatch or
  rejects a transition, strict enforcement recovers from the printed reason the very versions
  (for all 32-bit values) or state names that caused the failure, and the disconnect packet
  it sends repeats the original text.\<close>

theorem enforcement_recovers_cause:
  "evaluate_enforcement Failed (Some (session_error_text (ProtocolMismatchError c s))) Strict =
     WouldDisconnectVersionMismatch c s \<and>
   evaluate_enforcement Failed (Some (session_error_text (InvalidTransition a b))) Strict =
     WouldDisconnectInvalidStateTransition (state_debug a) (state_debug b) \<and>
   map_decision_to_disconnect (evaluate_enforcement Failed
     (Some (session_error_text (ProtocolMismatchError c s))) Strict) =
   Some (ProtocolMismatch, session_error_text (ProtocolMismatchError c s))"
proof (intro conjI)
  show mismatch: "evaluate_enforcement Failed
      (Some (session_error_text (ProtocolMismatchError c s))) Strict = WouldDisconnectVersionMismatch c s"
    using mismatch_text_contains [of c s] extract_versions_mismatch [of c s]
    by (simp only: evaluate_enforcement_def) simp
  show "evaluate_enforcement Failed (Some (session_error_text (InvalidTransition a b))) Strict =
      WouldDisconnectInvalidStateTransition (state_debug a) (state_debug b)"
    using transition_text_contains [of a b] extract_transition_text [of a b]
    by (simp only: evaluate_enforcement_def) simp
  show "map_decision_to_disconnect (evaluate_enforcement Failed
      (Some (session_error_text (ProtocolMismatchError c s))) Strict) =
    Some (ProtocolMismatch, session_error_text (ProtocolMismatchError c s))"
    unfolding mismatch by simp
qed

end
