(* ===== verification/Signatures.thy ===== *)
theory Signatures
  imports Protocol_Types
begin

text \<open>
  Announcement signatures: the metadata checks, the canonical payload and the dry-run plan of
  \<^verbatim>\<open>crates/protocol/src/lib.rs\<close>, the verification engine and the policy gate of
  \<^verbatim>\<open>crates/protocol/src/signature_engine.rs\<close>, and the typestate machine
  \<^verbatim>\<open>Unverified\<close>, \<^verbatim>\<open>Parsed\<close>, \<^verbatim>\<open>PolicyChecked\<close>, \<^verbatim>\<open>Trusted\<close> of
  \<^verbatim>\<open>crates/client/src/trust.rs\<close>.

  The crates \<^verbatim>\<open>ed25519_dalek\<close>, \<^verbatim>\<open>base64\<close> and \<^verbatim>\<open>serde_json\<close> are the fields of the record
  \<open>crypto\<close>, a parameter of every operation that calls them; nothing is assumed about them.
\<close>

section \<open>Signature metadata\<close>

datatype SignatureAlgorithm = Ed25519

datatype SignatureMetadataError =
    UnsupportedAlgorithm string
  | EmptyAlgorithm
  | EmptyKeyId
  | EmptySignature

fun metadata_error_text :: "SignatureMetadataError \<Rightarrow> string" where
  "metadata_error_text (UnsupportedAlgorithm alg) =
     ''unsupported signature algorithm: '' @ [CHR 0x27] @ alg @ [CHR 0x27]"
| "metadata_error_text EmptyAlgorithm = ''signature algorithm is empty''"
| "metadata_error_text EmptyKeyId = ''signature key_id is empty''"
| "metadata_error_text EmptySignature = ''signature value is empty''"

definition known_names :: "string list" where
  "known_names = [''ed25519'']"

definition is_known :: "string \<Rightarrow> bool" where
  "is_known name \<longleftrightarrow> name \<in> set known_names"

primrec algorithm_text :: "SignatureAlgorithm \<Rightarrow> string" where
  "algorithm_text Ed25519 = ''ed25519''"

definition algorithm_from_str :: "string \<Rightarrow> SignatureMetadataError + SignatureAlgorithm" where
  "algorithm_from_str s = (if s = ''ed25519'' then Inr Ed25519 else Inl (UnsupportedAlgorithm s))"

lemma algorithm_known_iff: "is_known s \<longleftrightarrow> (\<exists>a. algorithm_from_str s = Inr a \<and> algorithm_text a = s)"
  by (simp add: is_known_def known_names_def algorithm_from_str_def)

definition validate_signature_metadata ::
  "ResourceAnnouncementSignature \<Rightarrow> SignatureMetadataError + unit" where
  "validate_signature_metadata s =
     (if sig_algorithm s = [] then Inl EmptyAlgorithm
      else if sig_key_id s = [] then Inl EmptyKeyId
      else if sig_value s = [] then Inl EmptySignature
      else res_bind (algorithm_from_str (sig_algorithm s)) (\<lambda>_. Inr ()))"

lemma metadata_valid_iff:
  "validate_signature_metadata s = Inr () \<longleftrightarrow>
     sig_algorithm s = ''ed25519'' \<and> sig_key_id s \<noteq> [] \<and> sig_value s \<noteq> []"
  by (auto simp: validate_signature_metadata_def algorithm_from_str_def)

datatype SignatureVerificationStatus =
  NotProvided | StatusUnsupportedAlgorithm | StatusInvalid | StatusValid | NotChecked

record SignatureVerificationReport =
  sv_status :: SignatureVerificationStatus
  sv_reason :: string

definition check_announcement_signature_stub :: "ResourceAnnouncement \<Rightarrow> SignatureVerificationReport" where
  "check_announcement_signature_stub ann =
     (case ann_signature ann of
        None \<Rightarrow> \<lparr>sv_status = NotProvided, sv_reason = ''resource announcement signature not provided''\<rparr>
      | Some s \<Rightarrow>
          (case validate_signature_metadata s of
             Inl err \<Rightarrow>
               \<lparr>sv_status = (case err of UnsupportedAlgorithm _ \<Rightarrow> StatusUnsupportedAlgorithm | _ \<Rightarrow> StatusInvalid),
                sv_reason = metadata_error_text err\<rparr>
           | Inr _ \<Rightarrow>
               \<lparr>sv_status = NotChecked,
                sv_reason = ''signature metadata is valid: algorithm '' @ [CHR 0x27] @ sig_algorithm s @
                  [CHR 0x27] @ '', key '' @ [CHR 0x27] @ sig_key_id s @ [CHR 0x27] @
                  ''; cryptographic verification not enforced in this milestone''\<rparr>))"

section \<open>The canonical payload\<close>

record CanonicalFilePayload =
  cf_relative_path :: string
  cf_size_bytes :: u64
  cf_sha256 :: string

record CanonicalResourcePayload =
  cr_name :: string
  cr_version :: string
  cr_requirement_level :: ResourceRequirementLevel
  cr_files :: "CanonicalFilePayload list"

record CanonicalAnnouncementPayload =
  cp_protocol_version :: u32
  cp_algorithm :: string
  cp_key_id :: string
  cp_resources :: "CanonicalResourcePayload list"

definition canonical_file :: "AnnouncedResourceFile \<Rightarrow> CanonicalFilePayload" where
  "canonical_file f =
     \<lparr>cf_relative_path = relative_path f, cf_size_bytes = size_bytes f, cf_sha256 = sha256 f\<rparr>"

definition canonical_resource :: "AnnouncedResource \<Rightarrow> CanonicalResourcePayload" where
  "canonical_resource r =
     \<lparr>cr_name = res_name r, cr_version = res_version r, cr_requirement_level = requirement_level r,
      cr_files = sort_key cf_relative_path (map canonical_file (res_files r))\<rparr>"

definition build_canonical_payload :: "ResourceAnnouncement \<Rightarrow> CanonicalAnnouncementPayload option" where
  "build_canonical_payload ann =
     (case ann_signature ann of
        None \<Rightarrow> None
      | Some s \<Rightarrow>
          if sig_algorithm s = [] \<or> sig_key_id s = [] then None
          else Some
            \<lparr>cp_protocol_version =
               (case ann_resources ann of [] \<Rightarrow> 0 | r # _ \<Rightarrow> res_protocol_version r),
             cp_algorithm = sig_algorithm s,
             cp_key_id = sig_key_id s,
             cp_resources = sort_key cr_name (map canonical_resource (ann_resources ann))\<rparr>)"

section \<open>The dry-run verification plan\<close>

record TrustedKey =
  tk_key_id :: string
  tk_algorithm :: string

datatype SignatureVerificationAction =
    VerifySignature
  | MissingSignature
  | PlanUnsupportedAlgorithm
  | PlanUnknownKeyId
  | MalformedSignature
  | WouldRejectUnsigned
  | ResourceDigestMismatchPrecheck

primrec action_text :: "SignatureVerificationAction \<Rightarrow> string" where
  "action_text VerifySignature = ''verify_signature''"
| "action_text MissingSignature = ''missing_signature''"
| "action_text PlanUnsupportedAlgorithm = ''unsupported_algorithm''"
| "action_text PlanUnknownKeyId = ''unknown_key_id''"
| "action_text MalformedSignature = ''malformed_signature''"
| "action_text WouldRejectUnsigned = ''would_reject_unsigned''"
| "action_text ResourceDigestMismatchPrecheck = ''resource_digest_mismatch_precheck''"

record SignatureVerificationPlanEntry =
  vp_resource_name :: string
  vp_action :: SignatureVerificationAction
  vp_reason :: string

type_synonym SignatureVerificationPlan = "SignatureVerificationPlanEntry list"

definition plan_action ::
  "ResourceAnnouncement \<Rightarrow> TrustedKey list \<Rightarrow> bool \<Rightarrow> SignatureVerificationAction \<times> string" where
  "plan_action ann trusted_keys reject_unsigned =
     (case ann_signature ann of
        None \<Rightarrow>
          if reject_unsigned
          then (WouldRejectUnsigned, ''announcement has no signature; policy would reject unsigned'')
          else (MissingSignature, ''announcement has no signature; would skip verification'')
      | Some s \<Rightarrow>
          (case validate_signature_metadata s of
             Inl err \<Rightarrow>
               ((case err of UnsupportedAlgorithm _ \<Rightarrow> PlanUnsupportedAlgorithm | _ \<Rightarrow> MalformedSignature),
                ''signature metadata error: '' @ metadata_error_text err)
           | Inr _ \<Rightarrow>
               if \<exists>k \<in> set trusted_keys. tk_key_id k = sig_key_id s \<and> tk_algorithm k = sig_algorithm s
               then (VerifySignature,
                     ''algorithm '' @ [CHR 0x27] @ sig_algorithm s @ [CHR 0x27] @ '', key '' @ [CHR 0x27] @
                     sig_key_id s @ [CHR 0x27] @ '': trusted, would verify'')
               else (PlanUnknownKeyId,
                     ''algorithm '' @ [CHR 0x27] @ sig_algorithm s @ [CHR 0x27] @ '', key '' @ [CHR 0x27] @
                     sig_key_id s @ [CHR 0x27] @ '': not in trusted key set'')))"

definition build_signature_verification_plan ::
  "ResourceAnnouncement \<Rightarrow> TrustedKey list \<Rightarrow> bool \<Rightarrow> SignatureVerificationPlan" where
  "build_signature_verification_plan ann trusted_keys reject_unsigned =
     sort_key vp_resource_name
       (map (\<lambda>r. case plan_action ann trusted_keys reject_unsigned of
                   (action, reason) \<Rightarrow>
                     \<lparr>vp_resource_name = res_name r, vp_action = action, vp_reason = reason\<rparr>)
         (ann_resources ann))"

definition signature_plan_to_text :: "SignatureVerificationPlan \<Rightarrow> string" where
  "signature_plan_to_text entries =
     (if entries = [] then ''signature verification plan: (empty, no resources)'' @ [CHR 0x0A]
      else ''signature verification plan:'' @ [CHR 0x0A] @
        concat (map (\<lambda>e. ''  ['' @ action_text (vp_action e) @ ''] '' @ vp_resource_name e @ '' '' @
                   [CHR 0xE2, CHR 0x80, CHR 0x94] @ '' '' @ vp_reason e @ [CHR 0x0A]) entries) @
        ''  total: '' @ show_nat (length entries) @ '' resource(s)'' @ [CHR 0x0A])"

section \<open>Trusted keys\<close>

record TrustedPublicKey =
  pk_key_id :: string
  pk_algorithm :: string
  public_key :: bytes

datatype KeyConfigError =
    EmptyConfig
  | DuplicateKeyId string
  | KeyUnsupportedAlgorithm string string
  | KeyMalformedMaterial string string string

fun key_config_error_text :: "KeyConfigError \<Rightarrow> string" where
  "key_config_error_text EmptyConfig = ''trusted key config is empty''"
| "key_config_error_text (DuplicateKeyId k) =
     ''duplicate trusted key ID: '' @ [CHR 0x27] @ k @ [CHR 0x27]"
| "key_config_error_text (KeyUnsupportedAlgorithm k a) =
     ''trusted key '' @ [CHR 0x27] @ k @ [CHR 0x27] @ '' has unsupported algorithm '' @
     [CHR 0x27] @ a @ [CHR 0x27]"
| "key_config_error_text (KeyMalformedMaterial k a d) =
     ''trusted key '' @ [CHR 0x27] @ k @ [CHR 0x27] @ '' has invalid material for '' @
     [CHR 0x27] @ a @ [CHR 0x27] @ '': '' @ d"

fun check_trusted_keys :: "string list \<Rightarrow> TrustedPublicKey list \<Rightarrow> KeyConfigError + unit" where
  "check_trusted_keys seen [] = Inr ()"
| "check_trusted_keys seen (k # ks) =
     (if pk_key_id k \<in> set seen then Inl (DuplicateKeyId (pk_key_id k))
      else if pk_algorithm k \<noteq> ''ed25519''
      then Inl (KeyUnsupportedAlgorithm (pk_key_id k) (pk_algorithm k))
      else if pk_algorithm k = ''ed25519'' \<and> length (public_key k) \<noteq> 32
      then Inl (KeyMalformedMaterial (pk_key_id k) (pk_algorithm k)
             (''expected 32-byte key, got '' @ show_nat (length (public_key k)) @ '' bytes''))
      else check_trusted_keys (pk_key_id k # seen) ks)"

definition validate_trusted_key_config :: "TrustedPublicKey list \<Rightarrow> KeyConfigError + unit" where
  "validate_trusted_key_config ks = (if ks = [] then Inl EmptyConfig else check_trusted_keys [] ks)"

section \<open>Verification\<close>

datatype VerificationError =
    VUnsupportedAlgorithm string
  | UnknownKeyId string
  | InvalidSignature
  | MalformedKeyMaterial string
  | MalformedSignatureBytes string
  | SignedPayloadMismatch string
  | CanonicalPayloadMissing

fun verification_error_text :: "VerificationError \<Rightarrow> string" where
  "verification_error_text (VUnsupportedAlgorithm alg) =
     ''unsupported signature algorithm: '' @ [CHR 0x27] @ alg @ [CHR 0x27]"
| "verification_error_text (UnknownKeyId kid) = ''unknown key ID: '' @ [CHR 0x27] @ kid @ [CHR 0x27]"
| "verification_error_text InvalidSignature = ''signature is invalid''"
| "verification_error_text (MalformedKeyMaterial msg) = ''malformed key material: '' @ msg"
| "verification_error_text (MalformedSignatureBytes msg) = ''malformed signature bytes: '' @ msg"
| "verification_error_text (SignedPayloadMismatch msg) = ''signed payload mismatch: '' @ msg"
| "verification_error_text CanonicalPayloadMissing =
     ''cannot build canonical payload (empty algorithm/key_id)''"

datatype VerificationOutcome = OutcomeValid | OutcomeInvalid VerificationError | OutcomeSkipped string

record VerificationEntry =
  ve_resource_name :: string
  ve_outcome :: VerificationOutcome

type_synonym VerificationReport = "VerificationEntry list"

definition all_valid :: "VerificationReport \<Rightarrow> bool" where
  "all_valid report = list_all (\<lambda>e. ve_outcome e = OutcomeValid) report"

fun outcome_label :: "VerificationOutcome \<Rightarrow> string" where
  "outcome_label OutcomeValid = ''valid''"
| "outcome_label (OutcomeInvalid err) = ''invalid: '' @ verification_error_text err"
| "outcome_label (OutcomeSkipped reason) = ''skipped: '' @ reason"

definition verification_report_to_text :: "VerificationReport \<Rightarrow> string" where
  "verification_report_to_text entries =
     (if entries = [] then ''signature verification report: (empty, no resources)'' @ [CHR 0x0A]
      else ''signature verification report:'' @ [CHR 0x0A] @
        concat (map (\<lambda>e. ''  ['' @ outcome_label (ve_outcome e) @ ''] '' @ ve_resource_name e @ [CHR 0x0A])
          entries) @
        ''  total: '' @ show_nat (length entries) @ '' resource(s), all valid: '' @
        show_bool (all_valid entries) @ [CHR 0x0A])"

text \<open>
  The external functions: parsing of keys and signatures (with the text of the error), the
  verification equation, base64 decoding, and the JSON rendering of a payload.
\<close>

record ('k, 's) crypto =
  verifying_key_from_bytes :: "bytes \<Rightarrow> string + 'k"
  signature_from_slice :: "bytes \<Rightarrow> string + 's"
  dalek_verify :: "'k \<Rightarrow> bytes \<Rightarrow> 's \<Rightarrow> bool"
  base64_decode :: "string \<Rightarrow> string + bytes"
  payload_to_vec :: "CanonicalAnnouncementPayload \<Rightarrow> bytes option"

definition verify_ed25519_raw ::
  "('k, 's) crypto \<Rightarrow> bytes \<Rightarrow> bytes \<Rightarrow> bytes \<Rightarrow> VerificationError + unit" where
  "verify_ed25519_raw c payload sig_bytes pk =
     (if length pk \<noteq> 32
      then Inl (MalformedKeyMaterial (''expected 32-byte Ed25519 public key, got '' @
             show_nat (length pk) @ '' bytes''))
      else case verifying_key_from_bytes c pk of
        Inl err \<Rightarrow> Inl (MalformedKeyMaterial (''failed to parse public key: '' @ err))
      | Inr key \<Rightarrow>
          (case signature_from_slice c sig_bytes of
             Inl err \<Rightarrow> Inl (MalformedSignatureBytes (''failed to parse signature: '' @ err))
           | Inr s \<Rightarrow> if dalek_verify c key payload s then Inr () else Inl InvalidSignature))"

definition verify_ed25519_signature ::
  "('k, 's) crypto \<Rightarrow> bytes \<Rightarrow> string \<Rightarrow> bytes \<Rightarrow> VerificationError + unit" where
  "verify_ed25519_signature c payload signature_b64 pk =
     (case base64_decode c signature_b64 of
        Inl err \<Rightarrow> Inl (MalformedSignatureBytes (''base64 decode failed: '' @ err))
      | Inr sig_bytes \<Rightarrow>
          if length sig_bytes \<noteq> 64
          then Inl (MalformedSignatureBytes (''expected 64-byte Ed25519 signature, got '' @
                 show_nat (length sig_bytes) @ '' bytes''))
          else verify_ed25519_raw c payload sig_bytes pk)"

definition announcement_outcome ::
  "('k, 's) crypto \<Rightarrow> ResourceAnnouncement \<Rightarrow> TrustedPublicKey list \<Rightarrow> VerificationOutcome" where
  "announcement_outcome c ann trusted_keys =
     (case ann_signature ann of
        None \<Rightarrow> OutcomeSkipped ''announcement has no signature''
      | Some s \<Rightarrow>
          (case validate_signature_metadata s of
             Inl err \<Rightarrow>
               OutcomeInvalid (case err of
                   UnsupportedAlgorithm alg \<Rightarrow> VUnsupportedAlgorithm alg
                 | _ \<Rightarrow> MalformedSignatureBytes (metadata_error_text err))
           | Inr _ \<Rightarrow>
               (case find (\<lambda>k. pk_key_id k = sig_key_id s \<and> pk_algorithm k = sig_algorithm s) trusted_keys of
                  None \<Rightarrow> OutcomeInvalid (UnknownKeyId (sig_key_id s))
                | Some key \<Rightarrow>
                    (case build_canonical_payload ann of
                       None \<Rightarrow> OutcomeInvalid CanonicalPayloadMissing
                     | Some payload \<Rightarrow>
                         (case verify_ed25519_signature c (unwrap_or (payload_to_vec c payload) [])
                                 (sig_value s) (public_key key) of
                            Inr _ \<Rightarrow> OutcomeValid
                          | Inl err \<Rightarrow> OutcomeInvalid err)))))"

definition execute_verification_plan ::
  "('k, 's) crypto \<Rightarrow> ResourceAnnouncement \<Rightarrow> SignatureVerificationPlan \<Rightarrow> TrustedPublicKey list \<Rightarrow>
   VerificationReport" where
  "execute_verification_plan c ann plan trusted_keys =
     map (\<lambda>e. \<lparr>ve_resource_name = vp_resource_name e,
              ve_outcome = announcement_outcome c ann trusted_keys\<rparr>) plan"

section \<open>The policy gate\<close>

datatype SignaturePolicy = ReportOnly | Strict

definition evaluate_signature_policy :: "VerificationReport \<Rightarrow> SignaturePolicy \<Rightarrow> string + unit" where
  "evaluate_signature_policy report policy =
     (case policy of
        ReportOnly \<Rightarrow> Inr ()
      | Strict \<Rightarrow>
          if all_valid report \<or> report = [] then Inr ()
          else Inl (''signature policy violation (strict): '' @
                 show_nat (length (filter (\<lambda>e. ve_outcome e \<noteq> OutcomeValid) report)) @ ''/'' @
                 show_nat (length report) @ '' resource(s) rejected'' @ [CHR 0x0A] @
                 ''(report-only: no enforcement was applied to the server, '' @
                 ''this client refuses this announcement)''))"

section \<open>The trust typestate\<close>

text \<open>
  \<^verbatim>\<open>Announcement<S>\<close> carries its state in a phantom type parameter, and so does the model: the
  operations have the types the source gives them, and only the last one yields a
  \<^verbatim>\<open>Trusted\<close> announcement. Errors carry their message. Under \<^verbatim>\<open>ReportOnly\<close> the source also runs
  the verification, but only to log its result, so the model returns at once.
\<close>

datatype Unverified = Unverified
datatype Parsed = Parsed
datatype PolicyChecked = PolicyChecked
datatype Trusted = Trusted

datatype 'state Announcement = Announcement (inner: ResourceAnnouncement)

definition from_raw ::
  "(string \<Rightarrow> string + ResourceAnnouncement) \<Rightarrow> string \<Rightarrow> string + Parsed Announcement" where
  "from_raw from_str raw =
     (case from_str raw of
        Inl err \<Rightarrow> Inl (''failed to parse announcement: '' @ err)
      | Inr ann \<Rightarrow> Inr (Announcement ann))"

definition check_policy ::
  "Parsed Announcement \<Rightarrow> SignaturePolicy \<Rightarrow> TrustedPublicKey list option \<Rightarrow>
   string + PolicyChecked Announcement" where
  "check_policy a policy ks =
     (case (policy, ks) of
        (Strict, None) \<Rightarrow> Inl ''--signature-policy strict requires --trusted-keys <path>''
      | (Strict, Some []) \<Rightarrow> Inl ''--signature-policy strict requires at least one trusted key''
      | _ \<Rightarrow> Inr (Announcement (inner a)))"

definition trusted_key_refs :: "TrustedPublicKey list \<Rightarrow> TrustedKey list" where
  "trusted_key_refs = map (\<lambda>k. \<lparr>tk_key_id = pk_key_id k, tk_algorithm = pk_algorithm k\<rparr>)"

definition resolve_trust ::
  "('k, 's) crypto \<Rightarrow> PolicyChecked Announcement \<Rightarrow> SignaturePolicy \<Rightarrow> TrustedPublicKey list option \<Rightarrow>
   string + Trusted Announcement" where
  "resolve_trust c a policy ks =
     (case policy of
        ReportOnly \<Rightarrow> Inr (Announcement (inner a))
      | Strict \<Rightarrow>
          (case ks of
             None \<Rightarrow> Inl ''strict policy requires trusted keys at resolve_trust''
           | Some keys \<Rightarrow>
               (let plan = build_signature_verification_plan (inner a) (trusted_key_refs keys) True;
                    report = execute_verification_plan c (inner a) plan keys
                in res_bind (evaluate_signature_policy report policy)
                     (\<lambda>_. Inr (Announcement (inner a))))))"

definition trust_rejected_text :: "string \<Rightarrow> string" where
  "trust_rejected_text reason = ''trust rejected: '' @ reason"

definition resolve_announcement_trust ::
  "('k, 's) crypto \<Rightarrow> (string \<Rightarrow> string + ResourceAnnouncement) \<Rightarrow> string \<Rightarrow> SignaturePolicy \<Rightarrow>
   TrustedPublicKey list option \<Rightarrow> string + Trusted Announcement" where
  "resolve_announcement_trust c from_str raw policy ks =
     res_bind (from_raw from_str raw) (\<lambda>parsed.
     res_bind (map_sum trust_rejected_text id (check_policy parsed policy ks)) (\<lambda>checked.
       map_sum trust_rejected_text id (resolve_trust c checked policy ks)))"

section \<open>Lemmas\<close>

lemma check_trusted_keys_ok:
  "check_trusted_keys seen ks = Inr () \<longleftrightarrow>
     distinct (map pk_key_id ks) \<and> set (map pk_key_id ks) \<inter> set seen = {} \<and>
     (\<forall>k \<in> set ks. pk_algorithm k = ''ed25519'' \<and> length (public_key k) = 32)"
  by (induction seen ks rule: check_trusted_keys.induct) auto

lemma set_build_plan:
  "set (build_signature_verification_plan ann tks b) =
   (\<lambda>r. \<lparr>vp_resource_name = res_name r, vp_action = fst (plan_action ann tks b),
         vp_reason = snd (plan_action ann tks b)\<rparr>) ` set (ann_resources ann)"
  by (auto simp: build_signature_verification_plan_def split: prod.splits)

lemma build_plan_Nil: "build_signature_verification_plan ann tks b = [] \<longleftrightarrow> ann_resources ann = []"
  by (metis set_build_plan image_is_empty set_empty)

lemma execute_plan_Nil [simp]: "execute_verification_plan c ann plan ks = [] \<longleftrightarrow> plan = []"
  by (simp add: execute_verification_plan_def)

lemma execute_plan_all_valid:
  "all_valid (execute_verification_plan c ann plan ks) \<longleftrightarrow>
     plan = [] \<or> announcement_outcome c ann ks = OutcomeValid"
  by (cases plan) (auto simp: all_valid_def execute_verification_plan_def list_all_iff)

lemma strict_policy_iff:
  "evaluate_signature_policy (execute_verification_plan c ann
       (build_signature_verification_plan ann tks b) ks) Strict = Inr () \<longleftrightarrow>
     ann_resources ann = [] \<or> announcement_outcome c ann ks = OutcomeValid"
  by (simp add: evaluate_signature_policy_def execute_plan_all_valid build_plan_Nil)

text \<open>When an announcement-level outcome is valid.\<close>

definition signature_checks ::
  "('k, 's) crypto \<Rightarrow> ResourceAnnouncement \<Rightarrow> TrustedPublicKey list \<Rightarrow> bool" where
  "signature_checks c ann ks \<longleftrightarrow>
     (\<exists>s key payload sig_bytes pk parsed_sig.
        ann_signature ann = Some s \<and> sig_algorithm s = ''ed25519'' \<and> sig_key_id s \<noteq> [] \<and> sig_value s \<noteq> [] \<and>
        find (\<lambda>k. pk_key_id k = sig_key_id s \<and> pk_algorithm k = sig_algorithm s) ks = Some key \<and>
        length (public_key key) = 32 \<and> verifying_key_from_bytes c (public_key key) = Inr pk \<and>
        base64_decode c (sig_value s) = Inr sig_bytes \<and> length sig_bytes = 64 \<and>
        signature_from_slice c sig_bytes = Inr parsed_sig \<and>
        build_canonical_payload ann = Some payload \<and>
        dalek_verify c pk (unwrap_or (payload_to_vec c payload) []) parsed_sig)"

lemma verify_signature_iff:
  "verify_ed25519_signature c payload b64 pk = Inr () \<longleftrightarrow>
     (\<exists>sig_bytes key s. base64_decode c b64 = Inr sig_bytes \<and> length sig_bytes = 64 \<and> length pk = 32 \<and>
        verifying_key_from_bytes c pk = Inr key \<and> signature_from_slice c sig_bytes = Inr s \<and>
        dalek_verify c key payload s)"
  by (auto simp: verify_ed25519_signature_def verify_ed25519_raw_def split: sum.splits if_splits)

lemma outcome_valid_iff: "announcement_outcome c ann ks = OutcomeValid \<longleftrightarrow> signature_checks c ann ks"
proof (cases "ann_signature ann")
  case None
  then show ?thesis by (simp add: announcement_outcome_def signature_checks_def)
next
  case sig: (Some s)
  show ?thesis
  proof (cases "validate_signature_metadata s")
    case (Inl err)
    then have "validate_signature_metadata s \<noteq> Inr ()" by simp
    then show ?thesis
      using sig Inl unfolding metadata_valid_iff
      by (auto simp: announcement_outcome_def signature_checks_def)
  next
    case (Inr u)
    then have meta: "sig_algorithm s = ''ed25519'' \<and> sig_key_id s \<noteq> [] \<and> sig_value s \<noteq> []"
      using metadata_valid_iff by simp
    then obtain payload where "build_canonical_payload ann = Some payload"
      using sig by (simp add: build_canonical_payload_def)
    with sig Inr have "announcement_outcome c ann ks = OutcomeValid \<longleftrightarrow>
        (\<exists>key. find (\<lambda>k. pk_key_id k = sig_key_id s \<and> pk_algorithm k = sig_algorithm s) ks = Some key \<and>
           verify_ed25519_signature c (unwrap_or (payload_to_vec c payload) []) (sig_value s) (public_key key)
             = Inr ())"
      by (auto simp: announcement_outcome_def split: option.splits sum.splits)
    also have "\<dots> \<longleftrightarrow> signature_checks c ann ks"
      unfolding signature_checks_def verify_signature_iff
      using sig meta \<open>build_canonical_payload ann = Some payload\<close> by auto
    finally show ?thesis .
  qed
qed

text \<open>What an announcement says, without the order of its resources and files.\<close>

definition resource_contents ::
  "AnnouncedResource \<Rightarrow> string \<times> string \<times> ResourceRequirementLevel \<times> (string \<times> u64 \<times> string) multiset" where
  "resource_contents r =
     (res_name r, res_version r, requirement_level r,
      mset (map (\<lambda>f. (relative_path f, size_bytes f, sha256 f)) (res_files r)))"

lemma resource_contents_canonical:
  "resource_contents r =
     (cr_name (canonical_resource r), cr_version (canonical_resource r), cr_requirement_level (canonical_resource r),
      mset (map (\<lambda>f. (cf_relative_path f, cf_size_bytes f, cf_sha256 f)) (cr_files (canonical_resource r))))"
  by (simp add: resource_contents_def canonical_resource_def canonical_file_def image_mset.compositionality comp_def)

lemma canonical_resource_reorder_files:
  assumes "mset fs = mset (res_files r)" and "distinct (map relative_path (res_files r))"
  shows "canonical_resource (r\<lparr>res_files := fs\<rparr>) = canonical_resource r"
proof -
  have "inj_on relative_path (set (res_files r))" and "set fs = set (res_files r)"
    using assms mset_eq_setD [OF assms(1)] by (simp_all add: distinct_map)
  then have "inj_on cf_relative_path (canonical_file ` set fs)"
    by (intro inj_on_imageI) (simp add: comp_def canonical_file_def)
  moreover have "mset (map canonical_file fs) = mset (map canonical_file (res_files r))"
    using assms(1) by simp
  ultimately have "sort_key cf_relative_path (map canonical_file fs) =
      sort_key cf_relative_path (map canonical_file (res_files r))"
    by (intro sort_key_eq_sort_key) simp_all
  then show ?thesis
    by (simp add: canonical_resource_def)
qed

lemma resolve_strict_iff:
  "resolve_trust c a Strict (Some keys) = Inr t \<longleftrightarrow>
     inner t = inner a \<and> (ann_resources (inner a) = [] \<or> signature_checks c (inner a) keys)"
  using strict_policy_iff [of c "inner a" "trusted_key_refs keys" True keys]
  by (cases t) (auto simp: resolve_trust_def Let_def res_bind_Inr_iff outcome_valid_iff)

lemma trusted_key_ref_found:
  "(\<exists>k \<in> set (trusted_key_refs ks). tk_key_id k = i \<and> tk_algorithm k = a) \<longleftrightarrow>
     find (\<lambda>k. pk_key_id k = i \<and> pk_algorithm k = a) ks \<noteq> None"
  by (auto simp: trusted_key_refs_def find_None_iff)

lemma verify_not_unknown_key: "verify_ed25519_signature c p b pk \<noteq> Inl (UnknownKeyId k)"
  by (auto simp: verify_ed25519_signature_def verify_ed25519_raw_def split: sum.splits)

lemma strict_trust_resolved:
  "resolve_announcement_trust c from_str raw Strict ks = Inr a \<longleftrightarrow>
     (\<exists>keys. ks = Some keys \<and> keys \<noteq> [] \<and> from_str raw = Inr (inner a) \<and>
        (ann_resources (inner a) = [] \<or> signature_checks c (inner a) keys))"
proof (cases "from_str raw")
  case (Inl err)
  then show ?thesis by (simp add: resolve_announcement_trust_def from_raw_def)
next
  case (Inr ann)
  have accepted: "map_sum trust_rejected_text id r = Inr a \<longleftrightarrow> r = Inr a" for r :: "string + Trusted Announcement"
    by (cases r) simp_all
  show ?thesis
  proof (cases "ks = None \<or> ks = Some []")
    case True
    with Inr show ?thesis
      by (auto simp: resolve_announcement_trust_def from_raw_def check_policy_def)
  next
    case False
    then obtain keys where "ks = Some keys" "keys \<noteq> []"
      by (cases ks) auto
    then have "resolve_announcement_trust c from_str raw Strict ks =
        map_sum trust_rejected_text id (resolve_trust c (Announcement ann) Strict ks)"
      using Inr by (simp add: resolve_announcement_trust_def from_raw_def check_policy_def split: list.splits)
    with Inr \<open>ks = Some keys\<close> \<open>keys \<noteq> []\<close> show ?thesis
      by (auto simp: accepted resolve_strict_iff)
  qed
qed

section \<open>Properties\<close>

text \<open>C2: Under the strict policy an announcement becomes trusted exactly when its text parses, at
  least one trusted key is configured, and it either announces no resource at all or carries
  complete ed25519 metadata whose key is configured and whose decoded 64-byte signature
  verifies, under that 32-byte key, over the canonical payload of the announcement itself.
  The announcement that is trusted is the one that was parsed.\<close>

theorem strict_trust_iff:
  "resolve_announcement_trust c from_str raw Strict ks = Inr a \<longleftrightarrow>
     (\<exists>keys. ks = Some keys \<and> keys \<noteq> [] \<and> from_str raw = Inr (inner a) \<and>
        (ann_resources (inner a) = [] \<or> signature_checks c (inner a) keys))"
  by (rule strict_trust_resolved)

text \<open>Report-only trust resolution never rejects: it fails only when the text does not parse, and
  then with the parser's message, whatever keys and signatures are present.\<close>

theorem report_only_never_rejects:
  "resolve_announcement_trust c from_str raw ReportOnly ks =
     (case from_str raw of
        Inl err \<Rightarrow> Inl (''failed to parse announcement: '' @ err)
      | Inr ann \<Rightarrow> Inr (Announcement ann))"
  by (cases "from_str raw")
    (simp_all add: resolve_announcement_trust_def from_raw_def check_policy_def resolve_trust_def)

text \<open>C40: The signed payload does not depend on the order in which the server lists its resources
  and files: for distinct resource names, distinct paths inside each resource and one
  protocol version, any reordering of both levels is signed and verified as the same payload.\<close>

theorem canonical_payload_order_independent:
  assumes "mset (ann_resources b) = mset (map (\<lambda>r. r\<lparr>res_files := shuffle r\<rparr>) (ann_resources a))"
    and "\<forall>r \<in> set (ann_resources a). mset (shuffle r) = mset (res_files r)"
    and "ann_signature b = ann_signature a"
    and "distinct (map res_name (ann_resources a))"
    and "\<forall>r \<in> set (ann_resources a). distinct (map relative_path (res_files r)) \<and> res_protocol_version r = v"
  shows "build_canonical_payload b = build_canonical_payload a"
proof -
  have canon: "mset (map canonical_resource (ann_resources b)) =
      mset (map canonical_resource (ann_resources a))"
  proof -
    have "mset (map canonical_resource (ann_resources b)) =
        image_mset canonical_resource (mset (map (\<lambda>r. r\<lparr>res_files := shuffle r\<rparr>) (ann_resources a)))"
      by (simp only: mset_map assms(1))
    also have "\<dots> = mset (map (\<lambda>r. canonical_resource (r\<lparr>res_files := shuffle r\<rparr>)) (ann_resources a))"
      by (simp add: image_mset.compositionality comp_def)
    also have "map (\<lambda>r. canonical_resource (r\<lparr>res_files := shuffle r\<rparr>)) (ann_resources a) =
        map canonical_resource (ann_resources a)"
      using assms(2,5) by (intro map_cong refl canonical_resource_reorder_files) blast+
    finally show ?thesis .
  qed
  have "inj_on res_name (set (ann_resources a))"
    using assms(4) by (simp add: distinct_map)
  then have "inj_on cr_name (canonical_resource ` set (ann_resources a))"
    by (intro inj_on_imageI) (simp add: comp_def canonical_resource_def)
  then have order: "sort_key cr_name (map canonical_resource (ann_resources b)) =
      sort_key cr_name (map canonical_resource (ann_resources a))"
    using canon mset_eq_setD [OF canon] by (intro sort_key_eq_sort_key) simp_all
  have "set (ann_resources b) = (\<lambda>r. r\<lparr>res_files := shuffle r\<rparr>) ` set (ann_resources a)"
    using mset_eq_setD [OF assms(1)] by simp
  then have "\<forall>r \<in> set (ann_resources b). res_protocol_version r = v"
    using assms(5) by auto
  moreover have "ann_resources b = [] \<longleftrightarrow> ann_resources a = []"
    using arg_cong [OF assms(1), of size] by auto
  ultimately have "(case ann_resources b of [] \<Rightarrow> 0 | r # _ \<Rightarrow> res_protocol_version r) =
      (case ann_resources a of [] \<Rightarrow> 0 | r # _ \<Rightarrow> res_protocol_version r)"
    using assms(5) by (cases "ann_resources a"; cases "ann_resources b") simp_all
  then show ?thesis
    using assms(3) order by (cases "ann_signature a") (simp_all add: build_canonical_payload_def)
qed

definition demo_file :: "string \<Rightarrow> AnnouncedResourceFile" where
  "demo_file path = \<lparr>relative_path = path, size_bytes = 4, sha256 = ''aa'', sources = None\<rparr>"

definition demo_resource :: "string \<Rightarrow> string list \<Rightarrow> AnnouncedResource" where
  "demo_resource name paths =
     \<lparr>res_name = name, res_version = ''1.0'', res_files = map demo_file paths,
      res_protocol_version = 2, requirement_level = Required\<rparr>"

definition demo_announcement :: "AnnouncedResource list \<Rightarrow> ResourceAnnouncement" where
  "demo_announcement rs =
     \<lparr>ann_resources = rs,
      ann_signature = Some \<lparr>sig_algorithm = ''ed25519'', sig_key_id = ''k1'', sig_value = ''c2ln''\<rparr>\<rparr>"

lemmas demo_defs = demo_file_def demo_resource_def demo_announcement_def

theorem canonical_payload_order_independent_witness:
  "build_canonical_payload
     (demo_announcement [demo_resource ''chat'' [''a.lua'', ''z.lua''], demo_resource ''map'' [''m.bin'']]) =
   build_canonical_payload
     (demo_announcement [demo_resource ''map'' [''m.bin''], demo_resource ''chat'' [''z.lua'', ''a.lua'']])"
  by (rule canonical_payload_order_independent [where shuffle = "\<lambda>r. rev (res_files r)" and v = 2])
    (simp_all add: demo_defs add_mset_commute)

text \<open>C39: The signed payload binds what is announced: two announcements with the same payload
  announce the same resources with the same versions, requirement levels, files, sizes and
  digests, under the same algorithm and key.\<close>

theorem canonical_payload_binds_contents:
  assumes "build_canonical_payload a = Some p" and "build_canonical_payload b = Some p"
  shows "mset (map resource_contents (ann_resources a)) = mset (map resource_contents (ann_resources b)) \<and>
    map_option sig_algorithm (ann_signature a) = map_option sig_algorithm (ann_signature b) \<and>
    map_option sig_key_id (ann_signature a) = map_option sig_key_id (ann_signature b)"
proof -
  define g where "g = (\<lambda>r :: CanonicalResourcePayload. (cr_name r, cr_version r, cr_requirement_level r,
      mset (map (\<lambda>f. (cf_relative_path f, cf_size_bytes f, cf_sha256 f)) (cr_files r))))"
  have "mset (cp_resources p) = mset (map canonical_resource (ann_resources x))"
    if "build_canonical_payload x = Some p" for x
    using that by (auto simp: build_canonical_payload_def split: option.splits if_splits)
  then have "image_mset g (mset (map canonical_resource (ann_resources a))) =
      image_mset g (mset (map canonical_resource (ann_resources b)))"
    using assms by metis
  then have "mset (map resource_contents (ann_resources a)) = mset (map resource_contents (ann_resources b))"
    unfolding mset_map resource_contents_canonical [abs_def]
    by (simp add: g_def image_mset.compositionality comp_def)
  then show ?thesis
    using assms by (auto simp: build_canonical_payload_def split: option.splits if_splits)
qed

theorem canonical_payload_binds_contents_witness:
  "mset (map resource_contents [demo_resource ''b'' [''x''], demo_resource ''a'' [''y'']]) =
   mset (map resource_contents [demo_resource ''a'' [''y''], demo_resource ''b'' [''x'']])"
  using canonical_payload_binds_contents
    [of "demo_announcement [demo_resource ''b'' [''x''], demo_resource ''a'' [''y'']]" _
        "demo_announcement [demo_resource ''a'' [''y''], demo_resource ''b'' [''x'']]"]
  by (simp add: demo_defs build_canonical_payload_def canonical_resource_def canonical_file_def)

text \<open>A trusted-key configuration is accepted exactly when it is non-empty, its key identifiers
  are pairwise different, and every key is a 32-byte ed25519 key.\<close>

theorem trusted_key_config_ok:
  "validate_trusted_key_config ks = Inr () \<longleftrightarrow>
     ks \<noteq> [] \<and> distinct (map pk_key_id ks) \<and>
     (\<forall>k \<in> set ks. pk_algorithm k = ''ed25519'' \<and> length (public_key k) = 32)"
  by (auto simp: validate_trusted_key_config_def check_trusted_keys_ok)

theorem trusted_key_config_ok_witness:
  "validate_trusted_key_config
     [\<lparr>pk_key_id = ''a'', pk_algorithm = ''ed25519'', public_key = replicate 32 1\<rparr>,
      \<lparr>pk_key_id = ''b'', pk_algorithm = ''ed25519'', public_key = replicate 32 2\<rparr>] = Inr () \<and>
   validate_trusted_key_config
     [\<lparr>pk_key_id = ''a'', pk_algorithm = ''ed25519'', public_key = [1]\<rparr>] \<noteq> Inr ()"
  unfolding trusted_key_config_ok by simp

text \<open>The dry-run plan predicts the verification: built from the same keys, its action is the
  missing-signature one exactly when verification is skipped, the unknown-key one exactly when
  verification fails for an unknown key, and nothing is reported valid unless the plan said
  that it would be verified.\<close>

theorem plan_predicts_verification:
  "(fst (plan_action ann (trusted_key_refs ks) reject_unsigned) \<in> {MissingSignature, WouldRejectUnsigned} \<longleftrightarrow>
      (\<exists>why. announcement_outcome c ann ks = OutcomeSkipped why)) \<and>
   (fst (plan_action ann (trusted_key_refs ks) reject_unsigned) = PlanUnknownKeyId \<longleftrightarrow>
      (\<exists>k. announcement_outcome c ann ks = OutcomeInvalid (UnknownKeyId k))) \<and>
   (announcement_outcome c ann ks = OutcomeValid \<longrightarrow>
      fst (plan_action ann (trusted_key_refs ks) reject_unsigned) = VerifySignature)"
proof (cases "ann_signature ann")
  case None
  then show ?thesis by (simp add: announcement_outcome_def plan_action_def)
next
  case sig: (Some s)
  show ?thesis
  proof (cases "validate_signature_metadata s")
    case (Inl err)
    with sig show ?thesis
      by (cases err) (simp_all add: announcement_outcome_def plan_action_def)
  next
    case (Inr u)
    then have "build_canonical_payload ann \<noteq> None"
      using sig metadata_valid_iff [of s] by (simp add: build_canonical_payload_def)
    with sig Inr show ?thesis
      by (cases "find (\<lambda>k. pk_key_id k = sig_key_id s \<and> pk_algorithm k = sig_algorithm s) ks")
        (auto simp: announcement_outcome_def plan_action_def trusted_key_ref_found verify_not_unknown_key
          split: option.splits sum.splits)
  qed
qed

definition demo_crypto :: "(bytes, bytes) crypto" where
  "demo_crypto =
     \<lparr>verifying_key_from_bytes = Inr, signature_from_slice = Inr,
      dalek_verify = (\<lambda>key payload s. hd key = hd s),
      base64_decode = (\<lambda>_. Inr (replicate 64 7)), payload_to_vec = (\<lambda>_. Some [1])\<rparr>"

theorem plan_predicts_verification_witness:
  "fst (plan_action (demo_announcement [])
      (trusted_key_refs [\<lparr>pk_key_id = ''k1'', pk_algorithm = ''ed25519'', public_key = replicate 32 7\<rparr>])
      True) = VerifySignature"
proof -
  have "announcement_outcome demo_crypto (demo_announcement [])
      [\<lparr>pk_key_id = ''k1'', pk_algorithm = ''ed25519'', public_key = replicate 32 7\<rparr>] = OutcomeValid"
    by (simp add: announcement_outcome_def demo_defs demo_crypto_def validate_signature_metadata_def
        algorithm_from_str_def build_canonical_payload_def verify_ed25519_signature_def
        verify_ed25519_raw_def)
  then show ?thesis
    using plan_predicts_verification by blast
qed

end
