(* ===== verification/Config.thy ===== *)
theory Config
  imports Enforcement Heartbeat Signatures
begin

text \<open>
  The server configuration of \<^verbatim>\<open>crates/server/src/config.rs\<close>: one record per section, the defaults,
  validation, loading with environment overrides and the start-up summary. The TOML parser, the file
  system, the environment and \<^verbatim>\<open>SocketAddr\<close>'s parser are arguments. The lemmas say what a loaded
  configuration guarantees, which is less than what validation checks: the environment overrides are
  applied afterwards.
\<close>

abbreviation nl :: string where
  "nl \<equiv> [CHR 0x0A]"

section \<open>Sections\<close>

record ServerSection =
  bind_addr :: string
  server_name :: string
  tick_rate :: u64
  motd :: string

definition default_server :: ServerSection where
  "default_server = \<lparr>bind_addr = ''127.0.0.1:7000'', server_name = ''MeowV Local Dev Server'', tick_rate = 10,
     motd = ''welcome to meowv milestone 0''\<rparr>"

datatype CapabilityPolicy = CapReportOnly | CapStrict

record ProtocolSection =
  exact_version_required :: bool
  negotiation_dry_run :: bool
  capability_gates_report_only :: bool
  capability_policy :: CapabilityPolicy

definition default_protocol :: ProtocolSection where
  "default_protocol = \<lparr>exact_version_required = True, negotiation_dry_run = True,
     capability_gates_report_only = True, capability_policy = CapReportOnly\<rparr>"

record ResourcesSection =
  announcement_resource_dir :: string
  cache_dir :: string

definition default_resources :: ResourcesSection where
  "default_resources = \<lparr>announcement_resource_dir = ''examples/resources/chat'',
     cache_dir = ''examples/cache/chat-valid''\<rparr>"

datatype JoinGateConfigMode = JoinGateDryRun

record JoinGateSection =
  jg_mode :: JoinGateConfigMode
  enforce_required_resources :: bool

definition default_join_gate :: JoinGateSection where
  "default_join_gate = \<lparr>jg_mode = JoinGateDryRun, enforce_required_resources = False\<rparr>"

datatype DiagnosticsFormat = DiagText | DiagJsonStub

record DiagnosticsSection =
  print_session_diagnostics :: bool
  print_event_log :: bool
  diagnostics_format :: DiagnosticsFormat

definition default_diagnostics :: DiagnosticsSection where
  "default_diagnostics = \<lparr>print_session_diagnostics = True, print_event_log = False,
     diagnostics_format = DiagText\<rparr>"

datatype LogLevel = LogTrace | LogDebug | LogInfo | LogWarn | LogError

primrec log_level_str :: "LogLevel \<Rightarrow> string" where
  "log_level_str LogTrace = ''trace''"
| "log_level_str LogDebug = ''debug''"
| "log_level_str LogInfo = ''info''"
| "log_level_str LogWarn = ''warn''"
| "log_level_str LogError = ''error''"

datatype LogFormat = LogText | LogJson

record LoggingSection =
  log_level :: LogLevel
  log_format :: LogFormat
  show_targets :: bool

definition default_logging :: LoggingSection where
  "default_logging = \<lparr>log_level = LogInfo, log_format = LogText, show_targets = False\<rparr>"

record AdminSection =
  local_stdin_enabled :: bool

record EnforcementSection =
  enforcement_mode :: SessionEnforcementPolicy

record SignatureSection =
  signature_policy :: SignaturePolicy

record HeartbeatSection =
  heartbeat_policy :: HeartbeatPolicy
  server_ping_interval_ms :: u64

definition default_heartbeat :: HeartbeatSection where
  "default_heartbeat = \<lparr>heartbeat_policy = HbReportOnly, server_ping_interval_ms = 5000\<rparr>"

record ServerConfig =
  cfg_server :: ServerSection
  cfg_protocol :: ProtocolSection
  cfg_resources :: ResourcesSection
  cfg_join_gate :: JoinGateSection
  cfg_diagnostics :: DiagnosticsSection
  cfg_logging :: LoggingSection
  cfg_admin :: AdminSection
  cfg_enforcement :: EnforcementSection
  cfg_signature :: SignatureSection
  cfg_heartbeat :: HeartbeatSection

definition default_config :: ServerConfig where
  "default_config = \<lparr>cfg_server = default_server, cfg_protocol = default_protocol,
     cfg_resources = default_resources, cfg_join_gate = default_join_gate,
     cfg_diagnostics = default_diagnostics, cfg_logging = default_logging,
     cfg_admin = \<lparr>local_stdin_enabled = False\<rparr>,
     cfg_enforcement = \<lparr>enforcement_mode = SessionEnforcementPolicy.ReportOnly\<rparr>,
     cfg_signature = \<lparr>signature_policy = SignaturePolicy.ReportOnly\<rparr>, cfg_heartbeat = default_heartbeat\<rparr>"

section \<open>Validation and loading\<close>

text \<open>The error is the text of \<^verbatim>\<open>ConfigError\<close>; its \<^verbatim>\<open>Display\<close> adds a prefix.\<close>

definition config_error_text :: "string \<Rightarrow> string" where
  "config_error_text msg = ''config validation error: '' @ msg"

definition validate :: "(string \<Rightarrow> bool) \<Rightarrow> ServerConfig \<Rightarrow> string + unit" where
  "validate is_socket_addr cfg =
     (if \<not> exact_version_required (cfg_protocol cfg)
      then Inl (''protocol.exact_version_required must be true; '' @
             ''relaxing version matching is not supported in this milestone'')
      else if \<not> negotiation_dry_run (cfg_protocol cfg)
      then Inl (''protocol.negotiation_dry_run must be true; '' @
             ''active negotiation enforcement is not yet supported'')
      else if enforce_required_resources (cfg_join_gate cfg)
      then Inl (''join_gate.enforce_required_resources cannot be true; '' @
             ''join gate enforcement is not yet supported'')
      else if str_contains (announcement_resource_dir (cfg_resources cfg)) ''..''
      then Inl (''resources.announcement_resource_dir must not contain '' @ [CHR 0x27] @ ''..'' @ [CHR 0x27])
      else if str_contains (cache_dir (cfg_resources cfg)) ''..''
      then Inl (''resources.cache_dir must not contain '' @ [CHR 0x27] @ ''..'' @ [CHR 0x27])
      else if \<not> is_socket_addr (bind_addr (cfg_server cfg))
      then Inl (''server.bind_addr '' @ [CHR 0x27] @ bind_addr (cfg_server cfg) @ [CHR 0x27] @
             '' is not a valid socket address'')
      else Inr ())"

text \<open>
  \<open>read_file\<close> is the file system, \<open>from_toml\<close> the TOML parser with the defaults of absent fields. The
  error texts are those of the added context; the underlying causes are left out.
\<close>

definition load_from_path ::
  "(string \<Rightarrow> bool) \<Rightarrow> (string \<Rightarrow> string option) \<Rightarrow> (string \<Rightarrow> ServerConfig option) \<Rightarrow> string \<Rightarrow> string + ServerConfig" where
  "load_from_path is_socket_addr read_file from_toml path =
     (case read_file path of
        None \<Rightarrow> Inl (''failed to read config file: '' @ path)
      | Some raw \<Rightarrow>
          (case from_toml raw of
             None \<Rightarrow> Inl ''failed to parse config TOML''
           | Some cfg \<Rightarrow>
               (case validate is_socket_addr cfg of
                  Inl e \<Rightarrow> Inl (config_error_text e)
                | Inr _ \<Rightarrow> Inr cfg)))"

definition override_bind :: "(string \<Rightarrow> string option) \<Rightarrow> ServerConfig \<Rightarrow> ServerConfig" where
  "override_bind env cfg =
     (case env ''MEOWV_SERVER_BIND'' of
        None \<Rightarrow> cfg
      | Some bind \<Rightarrow> cfg\<lparr>cfg_server := (cfg_server cfg)\<lparr>bind_addr := bind\<rparr>\<rparr>)"

definition override_tick_rate :: "(string \<Rightarrow> string option) \<Rightarrow> ServerConfig \<Rightarrow> string + ServerConfig" where
  "override_tick_rate env cfg =
     (case env ''MEOWV_TICK_RATE'' of
        None \<Rightarrow> Inr cfg
      | Some t \<Rightarrow>
          (case parse_unsigned (2 ^ 64) t of
             None \<Rightarrow> Inl ''invalid MEOWV_TICK_RATE''
           | Some n \<Rightarrow> Inr (cfg\<lparr>cfg_server := (cfg_server cfg)\<lparr>tick_rate := of_nat n\<rparr>\<rparr>)))"

definition load_with_env ::
  "(string \<Rightarrow> bool) \<Rightarrow> (string \<Rightarrow> string option) \<Rightarrow> (string \<Rightarrow> ServerConfig option) \<Rightarrow> (string \<Rightarrow> string option) \<Rightarrow>
   string option \<Rightarrow> string + ServerConfig" where
  "load_with_env is_socket_addr read_file from_toml env explicit_path =
     res_bind (case or_else explicit_path (env ''MEOWV_CONFIG'') of
         Some path \<Rightarrow> load_from_path is_socket_addr read_file from_toml path
       | None \<Rightarrow> Inr default_config) (\<lambda>cfg.
     override_tick_rate env (override_bind env cfg))"

fun parse_config_flag :: "string list \<Rightarrow> string option" where
  "parse_config_flag [] = None"
| "parse_config_flag (a # as) =
     (if a = ''--config'' then (case as of [] \<Rightarrow> None | p # _ \<Rightarrow> Some p) else parse_config_flag as)"

section \<open>Start-up summary\<close>

definition capability_policy_text :: "CapabilityPolicy \<Rightarrow> string" where
  "capability_policy_text p = (case p of CapReportOnly \<Rightarrow> ''report_only'' | CapStrict \<Rightarrow> ''strict'')"

definition enforcement_policy_text :: "SessionEnforcementPolicy \<Rightarrow> string" where
  "enforcement_policy_text p =
     (case p of SessionEnforcementPolicy.ReportOnly \<Rightarrow> ''report_only'' | SessionEnforcementPolicy.Strict \<Rightarrow> ''strict'')"

definition signature_policy_text :: "SignaturePolicy \<Rightarrow> string" where
  "signature_policy_text p =
     (case p of SignaturePolicy.ReportOnly \<Rightarrow> ''report_only'' | SignaturePolicy.Strict \<Rightarrow> ''strict'')"

definition heartbeat_policy_text :: "HeartbeatPolicy \<Rightarrow> string" where
  "heartbeat_policy_text p = (case p of HbReportOnly \<Rightarrow> ''report_only'' | HbStrict \<Rightarrow> ''strict'')"

definition to_lifecycle_summary_text :: "ServerConfig \<Rightarrow> string" where
  "to_lifecycle_summary_text cfg = str_join nl
     [''server_name: '' @ server_name (cfg_server cfg),
      ''bind_addr: '' @ bind_addr (cfg_server cfg),
      ''protocol_version: '' @ show_u32 PROTOCOL_VERSION,
      ''exact_version_required: '' @ show_bool (exact_version_required (cfg_protocol cfg)),
      ''negotiation_dry_run: '' @ show_bool (negotiation_dry_run (cfg_protocol cfg)),
      ''capability_gates_report_only: '' @ show_bool (capability_gates_report_only (cfg_protocol cfg)),
      ''capability_policy: '' @ capability_policy_text (capability_policy (cfg_protocol cfg)),
      ''resource_announcement_dir: '' @ announcement_resource_dir (cfg_resources cfg),
      ''join_gate_mode: dry_run'',
      ''join_gate_enforcement: disabled'',
      ''diagnostics_print: '' @ show_bool (print_session_diagnostics (cfg_diagnostics cfg)),
      ''diagnostics_format: '' @
        (case diagnostics_format (cfg_diagnostics cfg) of DiagText \<Rightarrow> ''text'' | DiagJsonStub \<Rightarrow> ''json_stub''),
      ''admin_stdin: '' @ (if local_stdin_enabled (cfg_admin cfg) then ''enabled'' else ''disabled''),
      ''log_level: '' @ log_level_str (log_level (cfg_logging cfg)),
      ''log_format: '' @ (case log_format (cfg_logging cfg) of LogText \<Rightarrow> ''text'' | LogJson \<Rightarrow> ''json''),
      ''session_enforcement: '' @ enforcement_policy_text (enforcement_mode (cfg_enforcement cfg)),
      ''signature_policy: '' @ signature_policy_text (signature_policy (cfg_signature cfg)),
      ''heartbeat_policy: '' @ heartbeat_policy_text (heartbeat_policy (cfg_heartbeat cfg))]"

section \<open>What a loaded configuration guarantees\<close>

text \<open>The restrictions of this milestone, which no override touches.\<close>

definition milestone_restrictions :: "ServerConfig \<Rightarrow> bool" where
  "milestone_restrictions cfg \<longleftrightarrow>
     exact_version_required (cfg_protocol cfg) \<and> negotiation_dry_run (cfg_protocol cfg) \<and>
     \<not> enforce_required_resources (cfg_join_gate cfg) \<and>
     \<not> sublist ''..'' (announcement_resource_dir (cfg_resources cfg)) \<and>
     \<not> sublist ''..'' (cache_dir (cfg_resources cfg))"

lemma validate_iff:
  "validate ok cfg = Inr () \<longleftrightarrow> milestone_restrictions cfg \<and> ok (bind_addr (cfg_server cfg))"
  by (simp add: validate_def milestone_restrictions_def str_contains_iff_sublist)

lemma milestone_restrictions_server [simp]:
  "milestone_restrictions (cfg\<lparr>cfg_server := s\<rparr>) = milestone_restrictions cfg"
  by (simp add: milestone_restrictions_def)

lemma default_config_restrictions: "milestone_restrictions default_config"
proof -
  have "\<not> str_contains (announcement_resource_dir default_resources) ''..''"
    "\<not> str_contains (cache_dir default_resources) ''..''"
    by code_simp+
  then show ?thesis
    by (simp add: milestone_restrictions_def default_config_def default_protocol_def default_join_gate_def
        str_contains_iff_sublist)
qed

lemma load_from_path_ok:
  "load_from_path ok read toml path = Inr cfg \<Longrightarrow> validate ok cfg = Inr ()"
  by (auto simp: load_from_path_def split: option.splits sum.splits)

lemma override_tick_rate_ok:
  assumes "override_tick_rate env c = Inr cfg"
  shows "milestone_restrictions cfg = milestone_restrictions c" and "bind_addr (cfg_server cfg) = bind_addr (cfg_server c)"
  using assms by (auto simp: override_tick_rate_def split: option.splits)

lemma override_bind_ok:
  "milestone_restrictions (override_bind env c) = milestone_restrictions c"
  "bind_addr (cfg_server (override_bind env c)) = unwrap_or (env ''MEOWV_SERVER_BIND'') (bind_addr (cfg_server c))"
  by (simp_all add: override_bind_def split: option.splits)

section \<open>Properties\<close>

text \<open>What a started server can rely on: however it was configured, version matching is exact, negotiation
  is a dry run, the join gate does not enforce and both directories are free of parent-directory
  steps; the bind address comes from the environment if set there, and is otherwise a valid socket
  address (given that the default one is).\<close>

theorem loaded_config_restricted:
  assumes "load_with_env is_socket_addr read_file from_toml env path = Inr cfg"
    and "is_socket_addr ''127.0.0.1:7000''"
  shows "exact_version_required (cfg_protocol cfg) \<and> negotiation_dry_run (cfg_protocol cfg) \<and>
    \<not> enforce_required_resources (cfg_join_gate cfg) \<and>
    \<not> sublist ''..'' (announcement_resource_dir (cfg_resources cfg)) \<and>
    \<not> sublist ''..'' (cache_dir (cfg_resources cfg)) \<and>
    (case env ''MEOWV_SERVER_BIND'' of
       None \<Rightarrow> is_socket_addr (bind_addr (cfg_server cfg))
     | Some b \<Rightarrow> bind_addr (cfg_server cfg) = b)"
proof -
  obtain base where base: "override_tick_rate env (override_bind env base) = Inr cfg"
    "milestone_restrictions base \<and> is_socket_addr (bind_addr (cfg_server base))"
    using assms default_config_restrictions
    by (auto simp: load_with_env_def res_bind_Inr_iff default_config_def default_server_def validate_iff
        dest!: load_from_path_ok split: option.splits)
  with override_tick_rate_ok [OF base(1)] have "milestone_restrictions cfg"
    and "bind_addr (cfg_server cfg) = unwrap_or (env ''MEOWV_SERVER_BIND'') (bind_addr (cfg_server base))"
    by (simp_all add: override_bind_ok)
  with base(2) show ?thesis
    by (auto simp: milestone_restrictions_def split: option.splits)
qed

theorem loaded_config_restricted_witness:
  "\<exists>cfg. load_with_env (\<lambda>a. a = ''127.0.0.1:7000'') (\<lambda>_. None) (\<lambda>_. None) (\<lambda>_. None) None = Inr cfg \<and>
     exact_version_required (cfg_protocol cfg) \<and> bind_addr (cfg_server cfg) = ''127.0.0.1:7000''"
proof -
  have "load_with_env (\<lambda>a. a = ''127.0.0.1:7000'') (\<lambda>_. None) (\<lambda>_. None) (\<lambda>_. None) None = Inr default_config"
    by (simp add: load_with_env_def or_else_def override_tick_rate_def override_bind_def)
  from loaded_config_restricted [OF this] this show ?thesis by simp
qed

text \<open>The environment bypasses validation: a bind address that validation rejects in a file is accepted from
  \<^verbatim>\<open>MEOWV_SERVER_BIND\<close>, because the overrides are applied to the validated configuration.\<close>

lemma env_override_bypasses_validation:
  assumes "\<not> is_socket_addr bad" and "env ''MEOWV_SERVER_BIND'' = Some bad"
    and "env ''MEOWV_CONFIG'' = None" and "env ''MEOWV_TICK_RATE'' = None"
  shows "\<exists>cfg. load_with_env is_socket_addr read_file from_toml env None = Inr cfg \<and>
    validate is_socket_addr cfg \<noteq> Inr ()"
  using assms by (simp add: load_with_env_def or_else_def override_tick_rate_def override_bind_def validate_iff)

end
