(* ===== verification/Diagnostics.thy ===== *)
theory Diagnostics
  imports Registry Config
begin

text \<open>
  Session diagnostics of \<^verbatim>\<open>crates/server/src/diagnostics.rs\<close> and the registry text of
  \<^verbatim>\<open>crates/server/src/session_registry.rs\<close>: what the server prints about a session, as text and as
  hand-written JSON. Counters are \<^verbatim>\<open>usize\<close> values, cast to 64 bits for the heartbeat planners. The
  lemmas characterise the JSON string writer against a decoder of JSON string literals.
\<close>

section \<open>Session diagnostics\<close>

primrec event_kind_debug :: "SessionEventKind \<Rightarrow> string" where
  "event_kind_debug EvConnected = ''Connected''"
| "event_kind_debug EvHelloReceived = ''HelloReceived''"
| "event_kind_debug EvVersionChecked = ''VersionChecked''"
| "event_kind_debug EvProtocolNegotiationDryRun = ''ProtocolNegotiationDryRun''"
| "event_kind_debug EvCapabilityGateChecked = ''CapabilityGateChecked''"
| "event_kind_debug EvPingReceived = ''PingReceived''"
| "event_kind_debug EvPongSent = ''PongSent''"
| "event_kind_debug EvServerPingSent = ''ServerPingSent''"
| "event_kind_debug EvServerPongReceived = ''ServerPongReceived''"
| "event_kind_debug EvResourceAnnouncementSent = ''ResourceAnnouncementSent''"
| "event_kind_debug EvAvailabilityReportReceived = ''AvailabilityReportReceived''"
| "event_kind_debug EvResourcePolicyEvaluated = ''ResourcePolicyEvaluated''"
| "event_kind_debug EvJoinGateDryRunSent = ''JoinGateDryRunSent''"
| "event_kind_debug EvReadyDryRun = ''ReadyDryRun''"
| "event_kind_debug EvFailed = ''Failed''"

primrec enforcement_policy_debug :: "SessionEnforcementPolicy \<Rightarrow> string" where
  "enforcement_policy_debug SessionEnforcementPolicy.ReportOnly = ''ReportOnly''"
| "enforcement_policy_debug SessionEnforcementPolicy.Strict = ''Strict''"

record SessionDiagnostics =
  current_session_state :: SessionState
  state_history :: "SessionState list"
  event_count :: nat
  diag_events :: "SessionEvent list"
  last_event_message :: "string option"
  ping_received_count :: nat
  pong_sent_count :: nat
  server_ping_sent_count :: nat
  server_pong_received_count :: nat
  diag_ready_dry_run :: bool
  diag_failure_reason :: "string option"
  enforcement_policy :: "string option"
  enforcement_decision :: "string option"
  heartbeat_decision :: "string option"
  server_heartbeat_decision :: "string option"
  diag_capability_negotiation :: "CapabilityNegotiationReport option"

definition from_parts :: "SessionStateMachine \<Rightarrow> SessionEventLog \<Rightarrow> SessionDiagnostics" where
  "from_parts machine log =
     \<lparr>current_session_state = sm_state machine, state_history = history machine, event_count = log_len log,
      diag_events = log_events log, last_event_message = map_option ev_message (log_last log),
      ping_received_count = count_kind EvPingReceived log, pong_sent_count = count_kind EvPongSent log,
      server_ping_sent_count = count_kind EvServerPingSent log,
      server_pong_received_count = count_kind EvServerPongReceived log,
      diag_ready_dry_run = (sm_state machine = ReadyDryRun), diag_failure_reason = failure_reason machine,
      enforcement_policy = None, enforcement_decision = None, heartbeat_decision = None,
      server_heartbeat_decision = None, diag_capability_negotiation = None\<rparr>"

definition with_capability_negotiation ::
  "CapabilityNegotiationReport \<Rightarrow> SessionDiagnostics \<Rightarrow> SessionDiagnostics" where
  "with_capability_negotiation report d = d\<lparr>diag_capability_negotiation := Some report\<rparr>"

definition with_enforcement :: "SessionEnforcementPolicy \<Rightarrow> SessionDiagnostics \<Rightarrow> SessionDiagnostics" where
  "with_enforcement policy d =
     d\<lparr>enforcement_policy := Some (enforcement_policy_debug policy),
       enforcement_decision := Some (enforcement_to_text
         (evaluate_enforcement (current_session_state d) (diag_failure_reason d) policy))\<rparr>"

definition with_heartbeat_policy :: "HeartbeatPolicy \<Rightarrow> SessionDiagnostics \<Rightarrow> SessionDiagnostics" where
  "with_heartbeat_policy policy d =
     d\<lparr>heartbeat_decision := Some (heartbeat_to_text (evaluate_heartbeat
          \<lparr>ping_sent = of_nat (ping_received_count d), pong_received = of_nat (pong_sent_count d),
           timeout_or_error = 0\<rparr> policy)),
       server_heartbeat_decision := Some (server_heartbeat_short_label (evaluate_server_heartbeat
          \<lparr>pings_sent = of_nat (server_ping_sent_count d),
           pongs_received = of_nat (server_pong_received_count d)\<rparr> policy))\<rparr>"

definition opt_line :: "string \<Rightarrow> string option \<Rightarrow> string" where
  "opt_line label x = (case x of None \<Rightarrow> [] | Some v \<Rightarrow> label @ v @ nl)"

definition event_line :: "SessionEvent \<Rightarrow> string" where
  "event_line e = ''  ['' @ show_u64 (ev_sequence e) @ ''] '' @ event_kind_debug (ev_kind e) @ '' @ '' @
     state_debug (ev_state e) @ '': '' @ ev_message e @ nl"

definition diagnostics_to_text :: "SessionDiagnostics \<Rightarrow> string" where
  "diagnostics_to_text d =
     ''state: '' @ state_debug (current_session_state d) @ nl @
     ''ready_dry_run: '' @ show_bool (diag_ready_dry_run d) @ nl @
     opt_line ''failure_reason: '' (diag_failure_reason d) @
     opt_line ''enforcement_policy: '' (enforcement_policy d) @
     opt_line [] (enforcement_decision d) @
     ''state_history:'' @
     (if state_history d = [] then '' (none)''
      else concat (map (\<lambda>s. '' '' @ state_debug s) (state_history d))) @ nl @
     ''event_count: '' @ show_nat (event_count d) @ nl @
     ''ping_received_count: '' @ show_nat (ping_received_count d) @ nl @
     ''pong_sent_count: '' @ show_nat (pong_sent_count d) @ nl @
     ''server_ping_sent_count: '' @ show_nat (server_ping_sent_count d) @ nl @
     ''server_pong_received_count: '' @ show_nat (server_pong_received_count d) @ nl @
     opt_line [] (heartbeat_decision d) @
     opt_line ''server_heartbeat_decision: '' (server_heartbeat_decision d) @
     opt_line [] (map_option negotiation_report_to_text (diag_capability_negotiation d)) @
     concat (map event_line (diag_events d)) @
     opt_line ''last_event: '' (last_event_message d)"

section \<open>Hand-written JSON\<close>

text \<open>\<^verbatim>\<open>str::replace\<close> with a character pattern.\<close>

definition replace_char :: "char \<Rightarrow> string \<Rightarrow> string \<Rightarrow> string" where
  "replace_char c rep s = concat (map (\<lambda>x. if x = c then rep else [x]) s)"

abbreviation "quote_char \<equiv> CHR 0x22"
abbreviation "backslash \<equiv> CHR 0x5C"

definition json_string :: "string \<Rightarrow> string" where
  "json_string s =
     [quote_char] @
     replace_char CHR 0x09 [backslash, CHR ''t'']
       (replace_char CHR 0x0D [backslash, CHR ''r'']
         (replace_char CHR 0x0A [backslash, CHR ''n'']
           (replace_char quote_char [backslash, quote_char]
             (replace_char backslash [backslash, backslash] s)))) @
     [quote_char]"

definition optional_json_string :: "string option \<Rightarrow> string" where
  "optional_json_string s = (case s of Some v \<Rightarrow> json_string v | None \<Rightarrow> ''null'')"

definition quoted :: "string \<Rightarrow> string" where
  "quoted s = [quote_char] @ s @ [quote_char]"

definition json_field :: "string \<Rightarrow> string \<Rightarrow> string" where
  "json_field name v = quoted name @ '':'' @ v"

definition event_json :: "SessionEvent \<Rightarrow> string" where
  "event_json e = ''{'' @ str_join '',''
     [json_field ''seq'' (show_u64 (ev_sequence e)),
      json_field ''kind'' (quoted (event_kind_debug (ev_kind e))),
      json_field ''state'' (quoted (state_debug (ev_state e))),
      json_field ''message'' (json_string (ev_message e))] @ ''}''"

definition to_json_stub :: "SessionDiagnostics \<Rightarrow> string" where
  "to_json_stub d = ''{'' @ str_join '',''
     [json_field ''current_state'' (quoted (state_debug (current_session_state d))),
      json_field ''ready_dry_run'' (show_bool (diag_ready_dry_run d)),
      json_field ''failure_reason'' (optional_json_string (diag_failure_reason d)),
      json_field ''state_history'' (''['' @ str_join '','' (map (\<lambda>s. quoted (state_debug s)) (state_history d)) @ '']''),
      json_field ''event_count'' (show_nat (event_count d)),
      json_field ''events'' (''['' @ str_join '','' (map event_json (diag_events d)) @ '']''),
      json_field ''last_event_message'' (optional_json_string (last_event_message d)),
      json_field ''ping_received_count'' (show_nat (ping_received_count d)),
      json_field ''pong_sent_count'' (show_nat (pong_sent_count d)),
      json_field ''server_ping_sent_count'' (show_nat (server_ping_sent_count d)),
      json_field ''server_pong_received_count'' (show_nat (server_pong_received_count d)),
      json_field ''enforcement_policy'' (optional_json_string (enforcement_policy d)),
      json_field ''enforcement_decision'' (optional_json_string (enforcement_decision d)),
      json_field ''heartbeat_decision'' (optional_json_string (heartbeat_decision d)),
      json_field ''server_heartbeat_decision'' (optional_json_string (server_heartbeat_decision d)),
      json_field ''capability_negotiation''
        (optional_json_string (map_option negotiation_report_to_text (diag_capability_negotiation d)))] @ ''}''"

section \<open>Registry text\<close>

definition login_caps_text :: "LoginCapabilities option \<Rightarrow> string" where
  "login_caps_text x =
     (case x of
        Some caps \<Rightarrow> ''login_caps=req:'' @ show_nat (length (lc_required caps)) @ '' opt:'' @
          show_nat (length (lc_optional caps)) @ '' flags:'' @ show_nat (length (unwrap_or (feature_flags caps) []))
      | None \<Rightarrow> ''login_caps=unknown'')"

definition cap_negotiation_text :: "CapabilityNegotiationReport option \<Rightarrow> string" where
  "cap_negotiation_text x =
     (case x of
        Some report \<Rightarrow> ''cap_negotiation='' @ decision_to_text (cn_decision report) @ '' warn='' @
          show_nat (length (cn_warnings report)) @ '' viol='' @ show_nat (length (cn_violations report))
      | None \<Rightarrow> ''cap_negotiation=unknown'')"

definition registry_entry_text :: "HeartbeatPolicy \<Rightarrow> SessionRegistryEntry \<Rightarrow> string" where
  "registry_entry_text policy e =
     ''  '' @ session_id_text (re_id e) @ '': state='' @ state_debug (re_state e) @
     ''  events='' @ show_nat (re_event_count e) @ ''  ready_dry_run='' @ show_bool (re_ready_dry_run e) @
     ''  failed='' @ show_bool (re_failed e) @ ''  '' @
     (case re_protocol_version e of Some v \<Rightarrow> ''protocol=v'' @ show_u32 v | None \<Rightarrow> ''protocol=unknown'') @ ''  '' @
     login_caps_text (re_login_capabilities e) @ ''  '' @
     cap_negotiation_text (re_capability_negotiation e) @
     ''  ping_rx='' @ show_nat (re_ping_received_count e) @ ''  pong_tx='' @ show_nat (re_pong_sent_count e) @
     ''  srv_ping_tx='' @ show_nat (re_server_ping_sent_count e) @
     ''  srv_pong_rx='' @ show_nat (re_server_pong_received_count e) @
     ''  heartbeat='' @ heartbeat_short_label (evaluate_heartbeat
        \<lparr>ping_sent = of_nat (re_ping_received_count e), pong_received = of_nat (re_pong_sent_count e),
         timeout_or_error = 0\<rparr> policy) @
     ''  srv_heartbeat='' @ server_heartbeat_short_label (evaluate_server_heartbeat
        \<lparr>pings_sent = of_nat (re_server_ping_sent_count e),
         pongs_received = of_nat (re_server_pong_received_count e)\<rparr> policy)"

definition to_diagnostics_text :: "SessionRegistrySnapshot \<Rightarrow> string" where
  "to_diagnostics_text snap =
     (if snap_sessions snap = []
      then ''sessions: '' @ show_nat (connected_sessions snap) @ nl @ ''(no active sessions)''
      else str_join nl
        ((''sessions: '' @ show_nat (connected_sessions snap) @ ''  ready_dry_run: '' @
            show_nat (ready_dry_run_sessions snap) @ ''  failed: '' @ show_nat (failed_sessions snap)) #
          map (registry_entry_text (snap_heartbeat_policy snap)) (snap_sessions snap)))"

section \<open>Decoding JSON strings\<close>

text \<open>
  A decoder of JSON string literals with the two-character escapes: unescaped quotes and control
  characters are errors, as the grammar of JSON demands.
\<close>

definition control_char :: "char \<Rightarrow> bool" where
  "control_char c \<longleftrightarrow> of_char c < (32 :: nat)"

fun json_body :: "string \<Rightarrow> string option" where
  "json_body [] = None"
| "json_body [c] = (if c = quote_char then Some [] else None)"
| "json_body (c # d # cs) =
     (if c = backslash then
        (if d = backslash \<or> d = quote_char then map_option (Cons d) (json_body cs)
         else if d = CHR ''n'' then map_option (Cons CHR 0x0A) (json_body cs)
         else if d = CHR ''r'' then map_option (Cons CHR 0x0D) (json_body cs)
         else if d = CHR ''t'' then map_option (Cons CHR 0x09) (json_body cs)
         else None)
      else if c = quote_char \<or> control_char c then None
      else map_option (Cons c) (json_body (d # cs)))"

fun json_decode :: "string \<Rightarrow> string option" where
  "json_decode [] = None"
| "json_decode (c # cs) = (if c = quote_char then json_body cs else None)"

definition json_escape :: "char \<Rightarrow> string" where
  "json_escape c =
     (if c = backslash then [backslash, backslash]
      else if c = quote_char then [backslash, quote_char]
      else if c = CHR 0x0A then [backslash, CHR ''n'']
      else if c = CHR 0x0D then [backslash, CHR ''r'']
      else if c = CHR 0x09 then [backslash, CHR ''t'']
      else [c])"

lemma replace_char_concat:
  "replace_char c rep (concat (map f s)) = concat (map (\<lambda>x. replace_char c rep (f x)) s)"
  by (induction s) (simp_all add: replace_char_def)

lemma replace_char_map: "replace_char c rep s = concat (map (\<lambda>x. if x = c then rep else [x]) s)"
  by (simp add: replace_char_def)

text \<open>The five replacements escape each character on its own.\<close>

lemma json_string_escape: "json_string s = [quote_char] @ concat (map json_escape s) @ [quote_char]"
proof -
  have single: "replace_char CHR 0x09 [backslash, CHR ''t''] (replace_char CHR 0x0D [backslash, CHR ''r'']
      (replace_char CHR 0x0A [backslash, CHR ''n''] (replace_char quote_char [backslash, quote_char]
        (if x = backslash then [backslash, backslash] else [x])))) = json_escape x" for x
    by (simp add: replace_char_def json_escape_def)
  show ?thesis
    unfolding json_string_def replace_char_map [of backslash _ s] replace_char_concat single by simp
qed

lemma json_body_escape:
  assumes "rest \<noteq> []"
  shows "json_body (json_escape c @ rest) =
     (if control_char c \<and> c \<notin> {CHR 0x0A, CHR 0x0D, CHR 0x09} then None
      else map_option (Cons c) (json_body rest))"
proof -
  obtain d cs where "rest = d # cs" using assms by (cases rest) auto
  then show ?thesis by (auto simp: json_escape_def control_char_def)
qed

lemma json_body_escaped:
  "json_body (concat (map json_escape s) @ [quote_char]) =
     (if \<exists>c \<in> set s. control_char c \<and> c \<notin> {CHR 0x0A, CHR 0x0D, CHR 0x09} then None else Some s)"
  by (induction s) (auto simp: json_body_escape)

section \<open>Properties\<close>

text \<open>The hand-written JSON string literals. Whatever text is printed, decoding the literal gives the
  text back, unless it contains a control character other than newline, carriage return and tab:
  those are copied unescaped, and the literal is not valid JSON.\<close>

theorem json_string_roundtrip:
  "json_decode (json_string s) =
     (if \<exists>c \<in> set s. control_char c \<and> c \<notin> {CHR 0x0A, CHR 0x0D, CHR 0x09} then None else Some s)"
  by (simp add: json_string_escape json_body_escaped)

end
