(* ===== verification/Admin.thy ===== *)
theory Admin
  imports Diagnostics
begin

text \<open>
  The local admin console: the runtime status of \<^verbatim>\<open>crates/server/src/status.rs\<close>, the shutdown request of
  \<^verbatim>\<open>crates/server/src/shutdown.rs\<close>, the commands of \<^verbatim>\<open>crates/server/src/admin.rs\<close> and the loop
  \<^verbatim>\<open>admin_stdin_loop\<close> of \<^verbatim>\<open>crates/server/src/lib.rs\<close> over the lines it reads, each with the registry at
  that moment. \<^verbatim>\<open>str::trim\<close> is modelled on ASCII white space.
\<close>

section \<open>Runtime status\<close>

record ServerRuntimeStatus =
  st_server_name :: string
  st_bind_addr :: string
  st_protocol_version :: u32
  st_exact_version_required :: bool
  st_negotiation_dry_run :: bool
  st_capability_gates_report_only :: bool
  st_capability_policy :: string
  st_join_gate_mode :: string
  st_connected_sessions :: nat
  st_ready_dry_run_sessions :: nat
  st_failed_sessions :: nat
  st_resource_announcement_dir :: string
  st_diagnostics_enabled :: bool
  st_admin_stdin_enabled :: bool
  st_session_enforcement :: string
  st_signature_policy :: string
  st_heartbeat_policy :: string
  st_capability_required_count :: nat
  st_capability_optional_count :: nat

definition from_config :: "ServerConfig \<Rightarrow> ServerRuntimeStatus" where
  "from_config cfg =
     \<lparr>st_server_name = server_name (cfg_server cfg), st_bind_addr = bind_addr (cfg_server cfg),
      st_protocol_version = PROTOCOL_VERSION,
      st_exact_version_required = exact_version_required (cfg_protocol cfg),
      st_negotiation_dry_run = negotiation_dry_run (cfg_protocol cfg),
      st_capability_gates_report_only = capability_gates_report_only (cfg_protocol cfg),
      st_capability_policy = capability_policy_text (capability_policy (cfg_protocol cfg)),
      st_join_gate_mode = (case jg_mode (cfg_join_gate cfg) of JoinGateDryRun \<Rightarrow> ''dry_run''),
      st_connected_sessions = 0, st_ready_dry_run_sessions = 0, st_failed_sessions = 0,
      st_resource_announcement_dir = announcement_resource_dir (cfg_resources cfg),
      st_diagnostics_enabled = print_session_diagnostics (cfg_diagnostics cfg),
      st_admin_stdin_enabled = local_stdin_enabled (cfg_admin cfg),
      st_session_enforcement = enforcement_policy_text (enforcement_mode (cfg_enforcement cfg)),
      st_signature_policy = signature_policy_text (signature_policy (cfg_signature cfg)),
      st_heartbeat_policy = heartbeat_policy_text (heartbeat_policy (cfg_heartbeat cfg)),
      st_capability_required_count = length (np_required current_capability_negotiation_policy),
      st_capability_optional_count = length (np_optional current_capability_negotiation_policy)\<rparr>"

definition with_session_counts :: "nat \<Rightarrow> nat \<Rightarrow> nat \<Rightarrow> ServerRuntimeStatus \<Rightarrow> ServerRuntimeStatus" where
  "with_session_counts connected ready_dry_run failed st =
     st\<lparr>st_connected_sessions := connected, st_ready_dry_run_sessions := ready_dry_run,
        st_failed_sessions := failed\<rparr>"

text \<open>
  The last two lines of the source's format string lack the line continuation, so their indentation
  is part of the text.
\<close>

definition status_to_text :: "ServerRuntimeStatus \<Rightarrow> string" where
  "status_to_text st = str_join nl
     [''server_name: '' @ st_server_name st,
      ''bind_addr: '' @ st_bind_addr st,
      ''protocol_version: '' @ show_u32 (st_protocol_version st),
      ''exact_version_required: '' @ show_bool (st_exact_version_required st),
      ''negotiation_dry_run: '' @ show_bool (st_negotiation_dry_run st),
      ''capability_gates_report_only: '' @ show_bool (st_capability_gates_report_only st),
      ''capability_policy: '' @ st_capability_policy st,
      ''join_gate_mode: '' @ st_join_gate_mode st,
      ''connected_sessions: '' @ show_nat (st_connected_sessions st),
      ''ready_dry_run_sessions: '' @ show_nat (st_ready_dry_run_sessions st),
      ''failed_sessions: '' @ show_nat (st_failed_sessions st),
      ''resource_announcement_dir: '' @ st_resource_announcement_dir st,
      ''diagnostics_enabled: '' @ show_bool (st_diagnostics_enabled st),
      ''admin_stdin_enabled: '' @ show_bool (st_admin_stdin_enabled st),
      ''session_enforcement: '' @ st_session_enforcement st,
      ''signature_policy: '' @ st_signature_policy st,
      ''heartbeat_policy: '' @ st_heartbeat_policy st,
      ''             capability_required_count: '' @ show_nat (st_capability_required_count st),
      ''             capability_optional_count: '' @ show_nat (st_capability_optional_count st)]"

section \<open>Shutdown\<close>

datatype ShutdownReason = AdminQuit | InternalError | TestRequested

primrec shutdown_reason_text :: "ShutdownReason \<Rightarrow> string" where
  "shutdown_reason_text AdminQuit = ''admin_quit''"
| "shutdown_reason_text InternalError = ''internal_error''"
| "shutdown_reason_text TestRequested = ''test_requested''"

record ShutdownState =
  requested :: bool
  sd_reason :: "ShutdownReason option"

definition shutdown_new :: ShutdownState where
  "shutdown_new = \<lparr>requested = False, sd_reason = None\<rparr>"

definition request :: "ShutdownReason \<Rightarrow> ShutdownState \<Rightarrow> ShutdownState" where
  "request reason s = (if \<not> requested s then s\<lparr>requested := True, sd_reason := Some reason\<rparr> else s)"

record ShutdownSummary =
  summary_reason :: ShutdownReason
  status_dump :: string
  registry_dump :: string

definition status_with_registry :: "ServerConfig \<Rightarrow> SessionRegistrySnapshot \<Rightarrow> ServerRuntimeStatus" where
  "status_with_registry cfg snap =
     with_session_counts (connected_sessions snap) (ready_dry_run_sessions snap) (failed_sessions snap)
       (from_config cfg)"

definition build_shutdown_summary ::
  "ServerConfig \<Rightarrow> SessionRegistrySnapshot \<Rightarrow> ShutdownReason \<Rightarrow> ShutdownSummary" where
  "build_shutdown_summary cfg snap reason =
     \<lparr>summary_reason = reason, status_dump = status_to_text (status_with_registry cfg snap),
      registry_dump = to_diagnostics_text snap\<rparr>"

text \<open>The summary the server logs after the accept loop.\<close>

definition final_summary :: "ServerConfig \<Rightarrow> SessionRegistry \<Rightarrow> ShutdownState \<Rightarrow> ShutdownSummary" where
  "final_summary cfg reg sd = build_shutdown_summary cfg (snapshot reg) (unwrap_or (sd_reason sd) AdminQuit)"

section \<open>Commands\<close>

datatype AdminCommand = Help | Status | Sessions | Resources | Diagnostics | Quit

datatype AdminCommandParseError = EmptyCommand | UnknownCommand string

primrec admin_error_text :: "AdminCommandParseError \<Rightarrow> string" where
  "admin_error_text EmptyCommand = ''empty command''"
| "admin_error_text (UnknownCommand cmd) = ''unknown command: '' @ cmd"

record AdminCommandResult =
  acr_command :: AdminCommand
  acr_message :: string
  should_quit :: bool

definition parse_admin_command :: "string \<Rightarrow> AdminCommandParseError + AdminCommand" where
  "parse_admin_command input =
     (let trimmed = str_trim input in
      if trimmed = [] then Inl EmptyCommand
      else let lower = map to_ascii_lower trimmed in
        if lower = ''help'' then Inr Help
        else if lower = ''status'' then Inr Status
        else if lower = ''sessions'' then Inr Sessions
        else if lower = ''resources'' then Inr Resources
        else if lower = ''diagnostics'' then Inr Diagnostics
        else if lower = ''quit'' then Inr Quit
        else Inl (UnknownCommand lower))"

definition handle_admin_command_with_context ::
  "AdminCommand \<Rightarrow> ServerRuntimeStatus option \<Rightarrow> SessionRegistrySnapshot option \<Rightarrow> AdminCommandResult" where
  "handle_admin_command_with_context command st registry =
     (let (message, quit) =
        (case command of
           Help \<Rightarrow> (''commands: help, status, sessions, resources, diagnostics, quit'', False)
         | Status \<Rightarrow>
             ((case st of Some s \<Rightarrow> status_to_text s
               | None \<Rightarrow> ''server is running (dry-run mode, all policies report-only)''), False)
         | Sessions \<Rightarrow>
             ((case registry of
                 Some r \<Rightarrow> to_diagnostics_text r
               | None \<Rightarrow>
                   (case st of
                      Some s \<Rightarrow> ''connected='' @ show_nat (st_connected_sessions s) @ '' ready_dry_run='' @
                        show_nat (st_ready_dry_run_sessions s) @ '' failed='' @ show_nat (st_failed_sessions s)
                    | None \<Rightarrow> ''live session data not yet available (placeholder)'')), False)
         | Resources \<Rightarrow>
             ((case st of Some s \<Rightarrow> ''announcement_dir='' @ st_resource_announcement_dir s
               | None \<Rightarrow> ''live resource data not yet available (placeholder)''), False)
         | Diagnostics \<Rightarrow>
             ((case registry of Some r \<Rightarrow> to_diagnostics_text r
               | None \<Rightarrow> ''live diagnostics not yet available (placeholder)''), False)
         | Quit \<Rightarrow> (''server shutdown requested via admin command'', True))
      in \<lparr>acr_command = command, acr_message = message, should_quit = quit\<rparr>)"

definition handle_admin_command_with_status ::
  "AdminCommand \<Rightarrow> ServerRuntimeStatus option \<Rightarrow> AdminCommandResult" where
  "handle_admin_command_with_status command st = handle_admin_command_with_context command st None"

definition handle_admin_command :: "AdminCommand \<Rightarrow> AdminCommandResult" where
  "handle_admin_command command = handle_admin_command_with_context command None None"

text \<open>The loop returns the logged lines, the shutdown state and whether the quit signal was sent.\<close>

fun admin_stdin_loop ::
  "ServerConfig \<Rightarrow> (string \<times> SessionRegistry) list \<Rightarrow> ShutdownState \<Rightarrow> string list \<times> ShutdownState \<times> bool" where
  "admin_stdin_loop cfg [] sd = ([], sd, False)"
| "admin_stdin_loop cfg ((line, reg) # rest) sd =
     (case parse_admin_command line of
        Inr cmd \<Rightarrow>
          (let result = handle_admin_command_with_context cmd
                 (Some (status_with_registry cfg (snapshot reg))) (Some (snapshot reg)) in
           if should_quit result then ([acr_message result], request AdminQuit sd, True)
           else case admin_stdin_loop cfg rest sd of (out, sd', q) \<Rightarrow> (acr_message result # out, sd', q))
      | Inl EmptyCommand \<Rightarrow> admin_stdin_loop cfg rest sd
      | Inl e \<Rightarrow> (case admin_stdin_loop cfg rest sd of (out, sd', q) \<Rightarrow> (admin_error_text e # out, sd', q)))"

section \<open>Lemmas\<close>

lemma parse_quit_iff: "parse_admin_command s = Inr Quit \<longleftrightarrow> map to_ascii_lower (str_trim s) = ''quit''"
  by (auto simp: parse_admin_command_def Let_def)

lemma quit_only: "should_quit (handle_admin_command_with_context c st reg) \<longleftrightarrow> c = Quit"
  by (cases c) (simp_all add: handle_admin_command_with_context_def)

lemma admin_loop_result:
  "snd (admin_stdin_loop cfg lines sd) =
     (let q = (\<exists>(l, reg) \<in> set lines. parse_admin_command l = Inr Quit)
      in (if q then request AdminQuit sd else sd, q))"
proof (induction cfg lines sd rule: admin_stdin_loop.induct)
  case (2 cfg line reg rest sd)
  obtain o' s' q' where rest: "admin_stdin_loop cfg rest sd = (o', s', q')"
    by (rule prod_cases3)
  show ?case
  proof (cases "parse_admin_command line")
    case (Inl e)
    with 2 rest show ?thesis by (cases e) (simp_all add: Let_def)
  next
    case (Inr cmd)
    with 2 rest show ?thesis by (cases "cmd = Quit") (simp_all add: quit_only Let_def)
  qed
qed simp

lemma request_requested: "requested s \<Longrightarrow> request r s = s"
  by (simp add: request_def)

lemma fold_request_requested: "requested s \<Longrightarrow> fold request rs s = s"
  by (induction rs) (simp_all add: request_requested)

section \<open>Properties\<close>

text \<open>The console stops the server exactly on request: the loop sends the quit signal if and only if some
  line, trimmed and in lower case, is the quit command; it then records the admin quit as reason
  unless a reason was recorded before, and in every other case leaves the shutdown state alone.\<close>

theorem admin_loop_quits_on_request:
  "admin_stdin_loop cfg lines sd = (out, sd', q) \<Longrightarrow>
     (q \<longleftrightarrow> (\<exists>(l, reg) \<in> set lines. map to_ascii_lower (str_trim l) = ''quit'')) \<and>
     sd' = (if q then request AdminQuit sd else sd)"
  using admin_loop_result [of cfg lines sd] by (simp add: parse_quit_iff)

theorem admin_loop_quits_on_request_witness:
  "snd (snd (admin_stdin_loop default_config [('' QUIT '' @ nl, reg_new)] shutdown_new))"
proof -
  obtain out sd' q where run: "admin_stdin_loop default_config [('' QUIT '' @ nl, reg_new)] shutdown_new = (out, sd', q)"
    using prod_cases3 by blast
  have "map to_ascii_lower (str_trim ('' QUIT '' @ nl)) = ''quit''"
    by code_simp
  with admin_loop_quits_on_request [OF run] run show ?thesis by simp
qed

text \<open>The first shutdown request wins: after any sequence of requests the recorded reason is that of the
  first one, shutdown counts as requested exactly when there was one, and the final summary reports
  that reason.\<close>

theorem first_shutdown_request_wins:
  "sd_reason (fold request rs shutdown_new) = (case rs of [] \<Rightarrow> None | r # _ \<Rightarrow> Some r) \<and>
   requested (fold request rs shutdown_new) = (rs \<noteq> []) \<and>
   summary_reason (final_summary cfg reg (fold request (r # rs) shutdown_new)) = r"
  by (cases rs)
    (simp_all add: shutdown_new_def request_def fold_request_requested final_summary_def build_shutdown_summary_def)

text \<open>The status text of a summary has nineteen lines; the ninth to eleventh show the counts of the snapshot.\<close>

lemma status_text_counts:
  "\<exists>before after. length before = 8 \<and> length after = 8 \<and>
     status_to_text st = str_join nl (before @
       [''connected_sessions: '' @ show_nat (st_connected_sessions st),
        ''ready_dry_run_sessions: '' @ show_nat (st_ready_dry_run_sessions st),
        ''failed_sessions: '' @ show_nat (st_failed_sessions st)] @ after)"
proof -
  obtain xs where xs: "status_to_text st = str_join nl xs" "length xs = 19"
    "xs ! 8 = ''connected_sessions: '' @ show_nat (st_connected_sessions st)"
    "xs ! 9 = ''ready_dry_run_sessions: '' @ show_nat (st_ready_dry_run_sessions st)"
    "xs ! 10 = ''failed_sessions: '' @ show_nat (st_failed_sessions st)"
    by (rule that [OF status_to_text_def]) simp_all
  have "xs = take 8 xs @ [xs ! 8, xs ! 9, xs ! 10] @ drop 11 xs"
    using xs(2) id_take_nth_drop [of 8 xs] Cons_nth_drop_Suc [of 9 xs] Cons_nth_drop_Suc [of 10 xs]
    by (simp add: numeral_eq_Suc)
  then have "status_to_text st = str_join nl (take 8 xs @ [xs ! 8, xs ! 9, xs ! 10] @ drop 11 xs)"
    unfolding xs(1) by (rule arg_cong)
  moreover have "length (take 8 xs) = 8" "length (drop 11 xs) = 8" using xs(2) by simp_all
  ultimately show ?thesis unfolding xs(3-5) by blast
qed

lemma shutdown_status_counts:
  "\<exists>before after. length before = 8 \<and> length after = 8 \<and>
     status_dump (build_shutdown_summary cfg snap reason) = str_join nl (before @
       [''connected_sessions: '' @ show_nat (connected_sessions snap),
        ''ready_dry_run_sessions: '' @ show_nat (ready_dry_run_sessions snap),
        ''failed_sessions: '' @ show_nat (failed_sessions snap)] @ after)"
  using status_text_counts [of "status_with_registry cfg snap"]
  by (simp add: build_shutdown_summary_def status_with_registry_def with_session_counts_def)

end
