(* ===== verification/Resource_Policy.thy ===== *)
theory Resource_Policy
  imports Protocol_Types
begin

text \<open>
  Resource policy evaluation and the join-gate decision of \<^verbatim>\<open>crates/protocol/src/lib.rs\<close>: the
  server compares the announcement with the client's availability report and derives a
  dry-run decision.
\<close>

definition report_map ::
  "ResourceAvailabilityReport \<Rightarrow> (string \<times> string, ResourceAvailabilityStatus) btree" where
  "report_map report =
     bt_collect (map (\<lambda>e. ((avail_resource_name e, avail_file_path e), avail_status e))
       (avail_resources report))"

definition file_id :: "AnnouncedResource \<Rightarrow> AnnouncedResourceFile \<Rightarrow> string" where
  "file_id r f = res_name r @ '':'' @ relative_path f"

definition policy_file ::
  "(string \<times> string, ResourceAvailabilityStatus) btree \<Rightarrow> AnnouncedResource \<Rightarrow>
   AnnouncedResourceFile \<Rightarrow> ResourcePolicyEvaluation \<Rightarrow> ResourcePolicyEvaluation" where
  "policy_file rm r f ev =
     (case (requirement_level r, unwrap_or (bt_get rm (res_name r, relative_path f)) Missing) of
        (_, Available) \<Rightarrow> ev
      | (Required, Missing) \<Rightarrow> ev\<lparr>missing_required := missing_required ev @ [file_id r f]\<rparr>
      | (Required, _) \<Rightarrow> ev\<lparr>invalid_required := invalid_required ev @ [file_id r f]\<rparr>
      | (Optional, Missing) \<Rightarrow> ev\<lparr>missing_optional := missing_optional ev @ [file_id r f]\<rparr>
      | (Optional, _) \<Rightarrow> ev\<lparr>invalid_optional := invalid_optional ev @ [file_id r f]\<rparr>
      | (Recommended, Missing) \<Rightarrow>
          ev\<lparr>missing_recommended := missing_recommended ev @ [file_id r f]\<rparr>
      | (Recommended, _) \<Rightarrow>
          ev\<lparr>invalid_recommended := invalid_recommended ev @ [file_id r f]\<rparr>)"

definition empty_evaluation :: ResourcePolicyEvaluation where
  "empty_evaluation = \<lparr>pol_decision = Allowed, missing_required = [], invalid_required = [],
     missing_optional = [], invalid_optional = [], missing_recommended = [], invalid_recommended = []\<rparr>"

definition decide_policy :: "ResourcePolicyEvaluation \<Rightarrow> ResourceJoinDecision" where
  "decide_policy ev =
     (if missing_required ev \<noteq> [] \<or> invalid_required ev \<noteq> [] then Blocked
      else if missing_optional ev \<noteq> [] \<or> invalid_optional ev \<noteq> []
              \<or> missing_recommended ev \<noteq> [] \<or> invalid_recommended ev \<noteq> [] then WarningOnly
      else Allowed)"

definition evaluate_resource_policy ::
  "ResourceAnnouncement \<Rightarrow> ResourceAvailabilityReport \<Rightarrow> ResourcePolicyEvaluation" where
  "evaluate_resource_policy ann report =
     (let rm = report_map report;
          ev = fold (\<lambda>r. fold (policy_file rm r) (res_files r)) (ann_resources ann) empty_evaluation
      in ev\<lparr>pol_decision := decide_policy ev\<rparr>)"

definition build_join_gate_decision :: "ResourcePolicyEvaluation \<Rightarrow> JoinGateDecision" where
  "build_join_gate_decision ev =
     (case (case pol_decision ev of
              Allowed \<Rightarrow> (WouldAllow, ''all required resources available'')
            | WarningOnly \<Rightarrow>
                (WouldWarn, ''optional or recommended resources are missing or invalid'')
            | Blocked \<Rightarrow> (WouldBlock, ''required resources are missing or invalid''))
      of (outcome, reason) \<Rightarrow>
        \<lparr>gate_mode = DryRun, gate_outcome = outcome, gate_reason = reason, gate_policy_evaluation = ev\<rparr>)"

section \<open>The specification\<close>

text \<open>
  The status of an announced file: the last entry the client sent for it, and missing when
  there is none.
\<close>

definition reported_status ::
  "ResourceAvailabilityReport \<Rightarrow> string \<Rightarrow> string \<Rightarrow> ResourceAvailabilityStatus" where
  "reported_status report name path =
     unwrap_or (map_of (rev (map (\<lambda>e. ((avail_resource_name e, avail_file_path e), avail_status e))
       (avail_resources report))) (name, path)) Missing"

definition announced_files :: "ResourceAnnouncement \<Rightarrow> (AnnouncedResource \<times> AnnouncedResourceFile) list" where
  "announced_files ann = concat (map (\<lambda>r. map (Pair r) (res_files r)) (ann_resources ann))"

definition files_with ::
  "ResourceAnnouncement \<Rightarrow> ResourceAvailabilityReport \<Rightarrow> ResourceRequirementLevel \<Rightarrow>
   (ResourceAvailabilityStatus \<Rightarrow> bool) \<Rightarrow> string list" where
  "files_with ann report level P =
     map (\<lambda>(r, f). file_id r f)
       (filter (\<lambda>(r, f). requirement_level r = level \<and>
                         P (reported_status report (res_name r) (relative_path f)))
         (announced_files ann))"

abbreviation status_invalid :: "ResourceAvailabilityStatus \<Rightarrow> bool" where
  "status_invalid s \<equiv> s = SizeMismatch \<or> s = HashMismatch"

lemma report_map_get:
  "unwrap_or (map_of (report_map report) (name, path)) Missing = reported_status report name path"
  by (simp add: report_map_def reported_status_def bt_get_collect)

lemma nested_fold_flat:
  "fold (\<lambda>r. fold (g r) (res_files r)) rs ev =
   fold (\<lambda>(r, f). g r f) (concat (map (\<lambda>r. map (Pair r) (res_files r)) rs)) ev"
  by (induction rs arbitrary: ev) (simp_all add: fold_map comp_def)

definition collected ::
  "ResourceAvailabilityReport \<Rightarrow> (AnnouncedResource \<times> AnnouncedResourceFile) list \<Rightarrow>
   ResourceRequirementLevel \<Rightarrow> (ResourceAvailabilityStatus \<Rightarrow> bool) \<Rightarrow> string list" where
  "collected report xs level P =
     map (\<lambda>(r, f). file_id r f)
       (filter (\<lambda>(r, f). requirement_level r = level \<and>
                         P (reported_status report (res_name r) (relative_path f))) xs)"

lemma policy_fold_fields:
  fixes report :: ResourceAvailabilityReport
  defines "run \<equiv> \<lambda>xs. fold (\<lambda>(r, f). policy_file (report_map report) r f) xs"
  shows "missing_required (run xs ev) =
      missing_required ev @ collected report xs Required (\<lambda>s. s = Missing)"
    and "invalid_required (run xs ev) = invalid_required ev @ collected report xs Required (\<lambda>s. status_invalid s)"
    and "missing_optional (run xs ev) = missing_optional ev @ collected report xs Optional (\<lambda>s. s = Missing)"
    and "invalid_optional (run xs ev) = invalid_optional ev @ collected report xs Optional (\<lambda>s. status_invalid s)"
    and "missing_recommended (run xs ev) =
      missing_recommended ev @ collected report xs Recommended (\<lambda>s. s = Missing)"
    and "invalid_recommended (run xs ev) =
      invalid_recommended ev @ collected report xs Recommended (\<lambda>s. status_invalid s)"
  unfolding run_def
  by (induction xs arbitrary: ev;
      fastforce simp: policy_file_def report_map_get collected_def
        split: ResourceRequirementLevel.splits ResourceAvailabilityStatus.splits)+

lemma evaluation_fields:
  "missing_required (evaluate_resource_policy ann report) = files_with ann report Required (\<lambda>s. s = Missing)"
  "invalid_required (evaluate_resource_policy ann report) = files_with ann report Required (\<lambda>s. status_invalid s)"
  "missing_optional (evaluate_resource_policy ann report) = files_with ann report Optional (\<lambda>s. s = Missing)"
  "invalid_optional (evaluate_resource_policy ann report) = files_with ann report Optional (\<lambda>s. status_invalid s)"
  "missing_recommended (evaluate_resource_policy ann report) =
     files_with ann report Recommended (\<lambda>s. s = Missing)"
  "invalid_recommended (evaluate_resource_policy ann report) =
     files_with ann report Recommended (\<lambda>s. status_invalid s)"
  by (simp_all add: evaluate_resource_policy_def Let_def nested_fold_flat policy_fold_fields
      empty_evaluation_def files_with_def announced_files_def collected_def)

lemma files_with_Nil:
  "files_with ann report level P = [] \<longleftrightarrow>
     (\<forall>(r, f) \<in> set (announced_files ann). requirement_level r = level \<longrightarrow>
        \<not> P (reported_status report (res_name r) (relative_path f)))"
  by (auto simp: files_with_def filter_empty_conv)

lemma decision_of_fields:
  "pol_decision (evaluate_resource_policy ann report) = decide_policy (evaluate_resource_policy ann report)"
  by (simp add: evaluate_resource_policy_def Let_def decide_policy_def)

lemma in_announced_files:
  "(r, f) \<in> set (announced_files ann) \<longleftrightarrow> r \<in> set (ann_resources ann) \<and> f \<in> set (res_files r)"
  by (auto simp: announced_files_def)

definition level_clean :: "ResourceAnnouncement \<Rightarrow> ResourceAvailabilityReport \<Rightarrow>
    ResourceRequirementLevel \<Rightarrow> bool" where
  "level_clean ann report level =
     (\<forall>r \<in> set (ann_resources ann). requirement_level r = level \<longrightarrow>
        (\<forall>f \<in> set (res_files r). reported_status report (res_name r) (relative_path f) = Available))"

lemma level_clean_fields:
  "level_clean ann report level \<longleftrightarrow>
   files_with ann report level (\<lambda>s. s = Missing) = [] \<and>
   files_with ann report level (\<lambda>s. status_invalid s) = []"
proof -
  have "s = Available \<longleftrightarrow> s \<noteq> Missing \<and> \<not> status_invalid s" for s
    by (cases s) simp_all
  then show ?thesis
    unfolding files_with_Nil level_clean_def by (fastforce simp: in_announced_files)
qed

lemma decide_policy_levels:
  "decide_policy (evaluate_resource_policy ann report) =
     (if \<not> level_clean ann report Required then Blocked
      else if \<not> (level_clean ann report Optional \<and> level_clean ann report Recommended)
      then WarningOnly else Allowed)"
  unfolding decide_policy_def evaluation_fields level_clean_fields by simp

lemma all_levels_clean:
  "level_clean ann report Required \<and> level_clean ann report Optional \<and> level_clean ann report Recommended
   \<longleftrightarrow> (\<forall>r \<in> set (ann_resources ann). \<forall>f \<in> set (res_files r).
          reported_status report (res_name r) (relative_path f) = Available)"
proof -
  have "requirement_level r = Required \<or> requirement_level r = Optional \<or>
      requirement_level r = Recommended" for r :: AnnouncedResource
    by (cases "requirement_level r") simp_all
  then show ?thesis
    unfolding level_clean_def by blast
qed

section \<open>Properties\<close>

text \<open>C21: The join decision. A client is blocked exactly when some file of a required resource is
  not available according to its last report entry (a file it does not mention counts as
  missing); otherwise it is warned exactly when some other announced file is not available.\<close>

theorem resource_policy_decision:
  "pol_decision (evaluate_resource_policy ann report) =
     (if \<exists>r \<in> set (ann_resources ann). requirement_level r = Required \<and>
         (\<exists>f \<in> set (res_files r). reported_status report (res_name r) (relative_path f) \<noteq> Available)
      then Blocked
      else if \<exists>r \<in> set (ann_resources ann).
         \<exists>f \<in> set (res_files r). reported_status report (res_name r) (relative_path f) \<noteq> Available
      then WarningOnly else Allowed)"
proof -
  have required: "(\<exists>r \<in> set (ann_resources ann). requirement_level r = Required \<and>
      (\<exists>f \<in> set (res_files r). reported_status report (res_name r) (relative_path f) \<noteq> Available))
      \<longleftrightarrow> \<not> level_clean ann report Required"
    unfolding level_clean_def by blast
  show ?thesis
    unfolding decision_of_fields decide_policy_levels required
    using all_levels_clean [of ann report] by (simp split: if_splits) blast
qed

text \<open>The gate is faithful and never enforces: for every evaluation of a report the join-gate
  packet carries that evaluation, runs in dry-run mode, and its outcome blocks exactly when
  some required file is listed as missing or invalid.\<close>

theorem join_gate_faithful:
  "gate_mode (build_join_gate_decision (evaluate_resource_policy ann report)) = DryRun \<and>
   gate_policy_evaluation (build_join_gate_decision (evaluate_resource_policy ann report)) =
     evaluate_resource_policy ann report \<and>
   (gate_outcome (build_join_gate_decision (evaluate_resource_policy ann report)) = WouldBlock \<longleftrightarrow>
      missing_required (evaluate_resource_policy ann report) \<noteq> [] \<or>
      invalid_required (evaluate_resource_policy ann report) \<noteq> [])"
  by (auto simp: build_join_gate_decision_def decision_of_fields decide_policy_def
      split: ResourceJoinDecision.splits if_splits)

end
