(* ===== verification/Fetch_Planning.thy ===== *)
theory Fetch_Planning
  imports Resource_Policy Signatures
begin

text \<open>
  Planning of resource downloads in \<^verbatim>\<open>crates/protocol/src/lib.rs\<close>: validation and ordering of
  fetch sources, the source policy, the download preflight plan and the fetch execution plan
  derived from it. Nothing here performs I/O in the source either.
\<close>

section \<open>Fetch sources\<close>

datatype ResourceFetchMetadataError =
    UnsupportedScheme string
  | DigestMismatch string string
  | SourceSizeMismatch u64 u64
  | DuplicateSource string string
  | PathTraversalInFileUri string

fun fetch_metadata_error_text :: "ResourceFetchMetadataError \<Rightarrow> string" where
  "fetch_metadata_error_text (UnsupportedScheme s) = ''unsupported scheme: '' @ s"
| "fetch_metadata_error_text (DigestMismatch expected found) =
     ''digest mismatch: expected '' @ expected @ '', found '' @ found"
| "fetch_metadata_error_text (SourceSizeMismatch expected found) =
     ''size mismatch: expected '' @ show_u64 expected @ '', found '' @ show_u64 found"
| "fetch_metadata_error_text (DuplicateSource sch u) = ''duplicate source: '' @ sch @ '':'' @ u"
| "fetch_metadata_error_text (PathTraversalInFileUri s) =
     ''file:// uri contains path traversal or suspicious components: '' @ s"

definition digest_error ::
  "AnnouncedResourceFile \<Rightarrow> ResourceFetchSource \<Rightarrow> ResourceFetchMetadataError option" where
  "digest_error file s =
     (case src_sha256 s of
        Some sha \<Rightarrow> if sha \<noteq> sha256 file then Some (DigestMismatch (sha256 file) sha) else None
      | None \<Rightarrow> None)"

definition size_error ::
  "AnnouncedResourceFile \<Rightarrow> ResourceFetchSource \<Rightarrow> ResourceFetchMetadataError option" where
  "size_error file s =
     (case src_size_bytes s of
        Some n \<Rightarrow> if n \<noteq> size_bytes file then Some (SourceSizeMismatch (size_bytes file) n) else None
      | None \<Rightarrow> None)"

fun check_sources ::
  "AnnouncedResourceFile \<Rightarrow> (string \<times> string) list \<Rightarrow> ResourceFetchSource list \<Rightarrow>
   ResourceFetchMetadataError + unit" where
  "check_sources file seen [] = Inr ()"
| "check_sources file seen (s # ss) =
     (if scheme s \<notin> {''https'', ''file'', ''ipfs''} then Inl (UnsupportedScheme (scheme s))
      else if (scheme s, uri s) \<in> set seen then Inl (DuplicateSource (scheme s) (uri s))
      else if scheme s = ''file'' \<and> str_contains (uri s) ''..''
      then Inl (PathTraversalInFileUri (uri s))
      else case digest_error file s of
             Some err \<Rightarrow> Inl err
           | None \<Rightarrow>
               (case size_error file s of
                  Some err \<Rightarrow> Inl err
                | None \<Rightarrow> check_sources file ((scheme s, uri s) # seen) ss))"

definition source_key :: "ResourceFetchSource \<Rightarrow> u8 \<times> string \<times> string" where
  "source_key s = (unwrap_or (priority s) 100, unwrap_or (src_id s) [], uri s)"

definition validate_and_order_sources ::
  "AnnouncedResourceFile \<Rightarrow> ResourceFetchMetadataError + ResourceFetchSource list" where
  "validate_and_order_sources file =
     (case sources file of
        None \<Rightarrow> Inr []
      | Some ss \<Rightarrow> res_bind (check_sources file [] ss) (\<lambda>_. Inr (sort_key source_key ss)))"

definition select_fetch_source ::
  "ResourceFetchSource list \<Rightarrow> ResourceFetchSource option \<times> ResourceFetchSource list" where
  "select_fetch_source valid_sources =
     (case valid_sources of [] \<Rightarrow> (None, []) | s # ss \<Rightarrow> (Some s, ss))"

definition DEFAULT_ALLOWED_FETCH_SCHEMES :: "string list" where
  "DEFAULT_ALLOWED_FETCH_SCHEMES = [''https'', ''file'', ''ipfs'']"

datatype ResourceFetchSourcePolicyDecision = SourceAllowed | SourceBlocked string

fun policy_decision_label :: "ResourceFetchSourcePolicyDecision \<Rightarrow> string" where
  "policy_decision_label SourceAllowed = ''allowed''"
| "policy_decision_label (SourceBlocked reason) = ''blocked:'' @ reason"

record ResourceFetchSourcePolicyReport =
  sp_decision :: ResourceFetchSourcePolicyDecision
  sp_scheme :: string
  sp_allowed_schemes :: "string list"

definition evaluate_fetch_source_policy :: "ResourceFetchSource \<Rightarrow> ResourceFetchSourcePolicyReport" where
  "evaluate_fetch_source_policy s =
     \<lparr>sp_decision =
        (if scheme s \<in> set DEFAULT_ALLOWED_FETCH_SCHEMES then SourceAllowed
         else SourceBlocked (''scheme '' @ [CHR 0x27] @ scheme s @ [CHR 0x27] @ '' not in allowed set'')),
      sp_scheme = scheme s,
      sp_allowed_schemes = DEFAULT_ALLOWED_FETCH_SCHEMES\<rparr>"

section \<open>The download preflight plan\<close>

datatype ResourceDownloadPreflightAction =
    AlreadyAvailable
  | FetchMissing
  | ReplaceInvalid
  | BlockedBySignaturePolicy
  | BlockedByResourcePolicy
  | UnsupportedResource
  | WouldVerifyAfterFetch

text \<open>The derived \<^verbatim>\<open>Debug\<close> text of an action, which the plan is ordered by, and its label.\<close>

primrec preflight_action_debug :: "ResourceDownloadPreflightAction \<Rightarrow> string" where
  "preflight_action_debug AlreadyAvailable = ''AlreadyAvailable''"
| "preflight_action_debug FetchMissing = ''FetchMissing''"
| "preflight_action_debug ReplaceInvalid = ''ReplaceInvalid''"
| "preflight_action_debug BlockedBySignaturePolicy = ''BlockedBySignaturePolicy''"
| "preflight_action_debug BlockedByResourcePolicy = ''BlockedByResourcePolicy''"
| "preflight_action_debug UnsupportedResource = ''UnsupportedResource''"
| "preflight_action_debug WouldVerifyAfterFetch = ''WouldVerifyAfterFetch''"

primrec preflight_action_label :: "ResourceDownloadPreflightAction \<Rightarrow> string" where
  "preflight_action_label AlreadyAvailable = ''already_available''"
| "preflight_action_label FetchMissing = ''fetch_missing''"
| "preflight_action_label ReplaceInvalid = ''replace_invalid''"
| "preflight_action_label BlockedBySignaturePolicy = ''blocked_by_signature_policy''"
| "preflight_action_label BlockedByResourcePolicy = ''blocked_by_resource_policy''"
| "preflight_action_label UnsupportedResource = ''unsupported_resource''"
| "preflight_action_label WouldVerifyAfterFetch = ''would_verify_after_fetch''"

primrec join_decision_debug :: "ResourceJoinDecision \<Rightarrow> string" where
  "join_decision_debug Allowed = ''Allowed''"
| "join_decision_debug Blocked = ''Blocked''"
| "join_decision_debug WarningOnly = ''WarningOnly''"

record ResourceDownloadPreflightEntry =
  pf_resource_name :: string
  pf_file_path :: string
  pf_action :: ResourceDownloadPreflightAction
  pf_reason :: string
  source_errors :: "string list"
  valid_sources :: "ResourceFetchSource list"
  selected_source :: "ResourceFetchSource option"
  fallback_sources :: "ResourceFetchSource list"
  source_policy :: "ResourceFetchSourcePolicyReport option"

type_synonym ResourceDownloadPreflightPlan = "ResourceDownloadPreflightEntry list"

definition preflight_plan_to_text :: "ResourceDownloadPreflightPlan \<Rightarrow> string" where
  "preflight_plan_to_text entries =
     (if entries = [] then ''resource download preflight: (empty)''
      else str_join [CHR 0x0A]
        ((''resource download preflight: '' @ show_nat (length entries) @ '' entr'' @
            (if length entries = 1 then ''y'' else ''ies'')) #
         concat (map (\<lambda>e.
           [''  ['' @ preflight_action_label (pf_action e) @ ''] '' @ pf_resource_name e @ '':'' @
              pf_file_path e @ '' - '' @ pf_reason e] @
           map (\<lambda>err. ''    source error: '' @ err) (source_errors e) @
           (if valid_sources e \<noteq> []
            then [''    sources: '' @ show_nat (length (valid_sources e)) @ '' validated''] else []) @
           (case selected_source e of
              Some src \<Rightarrow> [''    selected source: '' @ scheme src @ '' '' @ uri src] | None \<Rightarrow> []) @
           (if fallback_sources e \<noteq> []
            then [''    fallback sources: '' @ show_nat (length (fallback_sources e))] else []) @
           (case source_policy e of
              Some policy \<Rightarrow> [''    source policy: '' @ policy_decision_label (sp_decision policy) @ '' '' @
                             sp_scheme policy]
            | None \<Rightarrow> [])) entries)))"

definition blocked_by_signature :: "SignatureVerificationReport \<Rightarrow> SignaturePolicy \<Rightarrow> bool" where
  "blocked_by_signature signature policy \<longleftrightarrow> policy = Strict \<and> sv_status signature \<noteq> StatusValid"

definition blocked_by_resource_policy :: "ResourcePolicyEvaluation option \<Rightarrow> bool" where
  "blocked_by_resource_policy evaluation =
     (case evaluation of None \<Rightarrow> False | Some ev \<Rightarrow> pol_decision ev = Blocked)"

definition preflight_action ::
  "bool \<Rightarrow> SignatureVerificationReport \<Rightarrow> SignaturePolicy \<Rightarrow> ResourcePolicyEvaluation option \<Rightarrow>
   AnnouncedResource \<Rightarrow> ResourceAvailabilityStatus option \<Rightarrow> ResourceDownloadPreflightAction \<times> string" where
  "preflight_action unsupported signature policy evaluation r status =
     (if unsupported
      then (UnsupportedResource,
            ''resource protocol_version '' @ show_u32 (res_protocol_version r) @
            '' does not match client '' @ show_u32 PROTOCOL_VERSION)
      else if blocked_by_signature signature policy
      then (BlockedBySignaturePolicy, sv_reason signature)
      else if blocked_by_resource_policy evaluation
      then (BlockedByResourcePolicy,
            (case evaluation of
               Some ev \<Rightarrow> ''resource policy decision: '' @ join_decision_debug (pol_decision ev)
             | None \<Rightarrow> ''resource policy blocked''))
      else case status of
             None \<Rightarrow> (FetchMissing, ''resource file missing from local cache'')
           | Some Missing \<Rightarrow> (FetchMissing, ''resource file missing from local cache'')
           | Some Available \<Rightarrow> (AlreadyAvailable, ''resource file already available locally'')
           | Some _ \<Rightarrow> (ReplaceInvalid, ''resource file present but invalid locally''))"

definition preflight_file ::
  "(string \<times> string, ResourceAvailabilityStatus) btree \<Rightarrow> SignatureVerificationReport \<Rightarrow>
   SignaturePolicy \<Rightarrow> ResourcePolicyEvaluation option \<Rightarrow> AnnouncedResource \<Rightarrow> AnnouncedResourceFile \<Rightarrow>
   ResourceDownloadPreflightEntry list" where
  "preflight_file am signature policy evaluation r f =
     (let unsupported = res_protocol_version r \<noteq> PROTOCOL_VERSION;
          status = bt_get am (res_name r, relative_path f);
          (errors, valid) =
            (case validate_and_order_sources f of
               Inr ss \<Rightarrow> ([], ss) | Inl err \<Rightarrow> ([fetch_metadata_error_text err], []));
          (selected, fallbacks) = select_fetch_source valid;
          (action, reason) = preflight_action unsupported signature policy evaluation r status;
          entry = \<lparr>pf_resource_name = res_name r, pf_file_path = relative_path f, pf_action = action,
                   pf_reason = reason, source_errors = errors, valid_sources = valid,
                   selected_source = selected, fallback_sources = fallbacks,
                   source_policy = map_option evaluate_fetch_source_policy selected\<rparr>
      in entry #
         (if \<not> blocked_by_signature signature policy \<and> \<not> blocked_by_resource_policy evaluation \<and>
             \<not> unsupported \<and> status = Some Missing
          then [entry\<lparr>pf_action := WouldVerifyAfterFetch,
                      pf_reason := ''downloaded file would require post-fetch verification''\<rparr>]
          else []))"

definition preflight_key :: "ResourceDownloadPreflightEntry \<Rightarrow> string \<times> string \<times> string" where
  "preflight_key e = (pf_resource_name e, pf_file_path e, preflight_action_debug (pf_action e))"

definition build_resource_download_preflight_plan ::
  "ResourceAnnouncement \<Rightarrow> ResourceAvailabilityReport \<Rightarrow> SignatureVerificationReport \<Rightarrow>
   SignaturePolicy \<Rightarrow> ResourcePolicyEvaluation option \<Rightarrow> ResourceDownloadPreflightPlan" where
  "build_resource_download_preflight_plan ann availability signature policy evaluation =
     sort_key preflight_key
       (concat (map (\<lambda>r. concat (map (preflight_file (report_map availability) signature policy evaluation r)
                                   (res_files r)))
         (ann_resources ann)))"

section \<open>The fetch execution plan\<close>

datatype ResourceFetchExecutionStep =
    UseSelectedSource
  | StageToTemporaryPath
  | EnforceExpectedSize
  | VerifySha256BeforeCacheMove
  | WouldCommitToCacheAfterVerification
  | BlockedBySourcePolicy
  | BlockedByMissingSelectedSource
  | BlockedByUnsupportedScheme

primrec fetch_step_label :: "ResourceFetchExecutionStep \<Rightarrow> string" where
  "fetch_step_label UseSelectedSource = ''use selected source''"
| "fetch_step_label StageToTemporaryPath = ''stage to temporary path''"
| "fetch_step_label EnforceExpectedSize = ''enforce expected size''"
| "fetch_step_label VerifySha256BeforeCacheMove = ''verify sha256 before cache move''"
| "fetch_step_label WouldCommitToCacheAfterVerification = ''would commit to cache after verification''"
| "fetch_step_label BlockedBySourcePolicy = ''blocked by source policy''"
| "fetch_step_label BlockedByMissingSelectedSource = ''blocked by missing selected source''"
| "fetch_step_label BlockedByUnsupportedScheme = ''blocked by unsupported scheme''"

record ResourceFetchExecutionEntry =
  fx_resource_name :: string
  fx_file_path :: string
  fx_action :: ResourceDownloadPreflightAction
  fx_steps :: "ResourceFetchExecutionStep list"
  plan_ok :: bool
  block_reason :: "string option"

type_synonym ResourceFetchExecutionPlan = "ResourceFetchExecutionEntry list"

definition execution_plan_to_text :: "ResourceFetchExecutionPlan \<Rightarrow> string" where
  "execution_plan_to_text entries =
     (if entries = [] then ''resource fetch execution: (empty)''
      else str_join [CHR 0x0A]
        ((''resource fetch execution: '' @ show_nat (length entries) @ '' entr'' @
            (if length entries = 1 then ''y'' else ''ies'')) #
         concat (map (\<lambda>e.
           [''  ['' @ preflight_action_label (fx_action e) @ ''] '' @ fx_resource_name e @ '':'' @
              fx_file_path e @ '' - '' @
              (if plan_ok e
               then (if fx_steps e = [] then ''already available, no fetch needed''
                     else ''plan ok ('' @ show_nat (length (fx_steps e)) @ '' step'' @
                          (if length (fx_steps e) = 1 then [] else ''s'') @ '')'')
               else ''blocked: '' @ unwrap_or (block_reason e) ''unknown'')] @
           map (\<lambda>step. ''    step: '' @ fetch_step_label step) (fx_steps e)) entries)))"

definition fetch_steps_for ::
  "ResourceDownloadPreflightEntry \<Rightarrow> bool \<times> ResourceFetchExecutionStep list \<times> string option" where
  "fetch_steps_for e =
     (case selected_source e of
        None \<Rightarrow> (False, [BlockedByMissingSelectedSource], Some ''no selected source available'')
      | Some s \<Rightarrow>
          if (case source_policy e of Some policy \<Rightarrow> sp_decision policy \<noteq> SourceAllowed | None \<Rightarrow> False)
          then (False, [BlockedBySourcePolicy],
                map_option (\<lambda>policy. policy_decision_label (sp_decision policy)) (source_policy e))
          else if scheme s \<notin> set DEFAULT_ALLOWED_FETCH_SCHEMES
          then (False, [BlockedByUnsupportedScheme],
                Some (''scheme '' @ [CHR 0x27] @ scheme s @ [CHR 0x27] @ '' is not supported for fetch''))
          else (True, [UseSelectedSource, StageToTemporaryPath, EnforceExpectedSize,
                       VerifySha256BeforeCacheMove, WouldCommitToCacheAfterVerification], None))"

definition execution_entry :: "ResourceDownloadPreflightEntry \<Rightarrow> ResourceFetchExecutionEntry" where
  "execution_entry e =
     (case (case pf_action e of
              AlreadyAvailable \<Rightarrow> (True, [], None)
            | FetchMissing \<Rightarrow> fetch_steps_for e
            | ReplaceInvalid \<Rightarrow> fetch_steps_for e
            | WouldVerifyAfterFetch \<Rightarrow> fetch_steps_for e
            | BlockedBySignaturePolicy \<Rightarrow> (False, [], Some ''blocked by signature policy'')
            | BlockedByResourcePolicy \<Rightarrow> (False, [], Some ''blocked by resource policy'')
            | UnsupportedResource \<Rightarrow> (False, [], Some ''unsupported resource protocol version''))
      of (ok, steps, reason) \<Rightarrow>
        \<lparr>fx_resource_name = pf_resource_name e, fx_file_path = pf_file_path e, fx_action = pf_action e,
         fx_steps = steps, plan_ok = ok, block_reason = reason\<rparr>)"

definition build_fetch_execution_plan ::
  "ResourceDownloadPreflightPlan \<Rightarrow> ResourceFetchExecutionPlan" where
  "build_fetch_execution_plan preflight = map execution_entry preflight"

section \<open>Lemmas\<close>

text \<open>What a declared source has to satisfy for its file.\<close>

definition source_acceptable :: "AnnouncedResourceFile \<Rightarrow> ResourceFetchSource \<Rightarrow> bool" where
  "source_acceptable af s \<longleftrightarrow>
     scheme s \<in> {''https'', ''file'', ''ipfs''} \<and>
     \<not> (scheme s = ''file'' \<and> sublist ''..'' (uri s)) \<and>
     src_sha256 s \<in> {None, Some (sha256 af)} \<and>
     src_size_bytes s \<in> {None, Some (size_bytes af)}"

lemma digest_error_None: "digest_error af s = None \<longleftrightarrow> src_sha256 s \<in> {None, Some (sha256 af)}"
  by (auto simp: digest_error_def split: option.splits)

lemma size_error_None: "size_error af s = None \<longleftrightarrow> src_size_bytes s \<in> {None, Some (size_bytes af)}"
  by (auto simp: size_error_def split: option.splits)

lemma check_sources_step:
  "source_acceptable af s \<Longrightarrow> (scheme s, uri s) \<notin> set seen \<Longrightarrow>
     check_sources af seen (s # ss) = check_sources af ((scheme s, uri s) # seen) ss"
  "source_acceptable af s \<Longrightarrow> (scheme s, uri s) \<in> set seen \<Longrightarrow>
     check_sources af seen (s # ss) = Inl (DuplicateSource (scheme s) (uri s))"
  "\<not> source_acceptable af s \<Longrightarrow> \<exists>err. check_sources af seen (s # ss) = Inl err"
  unfolding source_acceptable_def digest_error_None [symmetric] size_error_None [symmetric]
    str_contains_iff_sublist [symmetric]
  by (auto split: option.splits)

lemma check_sources_ok:
  "check_sources af seen ss = Inr () \<longleftrightarrow>
     (\<forall>s \<in> set ss. source_acceptable af s) \<and> distinct (map (\<lambda>s. (scheme s, uri s)) ss) \<and>
     (\<lambda>s. (scheme s, uri s)) ` set ss \<inter> set seen = {}"
proof (induction ss arbitrary: seen)
  case (Cons s ss)
  consider "source_acceptable af s" "(scheme s, uri s) \<notin> set seen"
    | "source_acceptable af s" "(scheme s, uri s) \<in> set seen" | "\<not> source_acceptable af s"
    by blast
  then show ?case
  proof cases
    case 1
    then show ?thesis by (auto simp: check_sources_step(1) Cons.IH simp del: check_sources.simps)
  next
    case 2
    then show ?thesis by (auto simp: check_sources_step(2) simp del: check_sources.simps)
  next
    case 3
    then show ?thesis using check_sources_step(3) [OF 3, of seen ss] by auto
  qed
qed simp

lemma validate_sources_iff:
  "validate_and_order_sources af = Inr ss \<longleftrightarrow>
     ss = sort_key source_key (unwrap_or (sources af) []) \<and>
     (\<forall>s \<in> set (unwrap_or (sources af) []). source_acceptable af s) \<and>
     distinct (map (\<lambda>s. (scheme s, uri s)) (unwrap_or (sources af) []))"
proof (cases "sources af")
  case (Some given)
  have "res_bind (check_sources af [] given) (\<lambda>_. Inr (sort_key source_key given)) = Inr ss \<longleftrightarrow>
      check_sources af [] given = Inr () \<and> ss = sort_key source_key given"
    by (auto simp: res_bind_Inr_iff)
  with Some show ?thesis
    by (auto simp: validate_and_order_sources_def check_sources_ok)
qed (auto simp: validate_and_order_sources_def)

lemma validated_source_acceptable:
  assumes "validate_and_order_sources af = Inr ss" and "s \<in> set ss"
  shows "source_acceptable af s"
  using assms by (simp add: validate_sources_iff)

text \<open>The first of the validated sources is the least of the declared ones.\<close>

lemma validated_declared:
  assumes "validate_and_order_sources af = Inr (s # ss)"
  shows "\<exists>given. sources af = Some given \<and> mset (s # ss) = mset given \<and>
    (\<forall>t \<in> set given. source_acceptable af t \<and>
       (unwrap_or (priority s) 100, unwrap_or (src_id s) [], uri s) \<le>
       (unwrap_or (priority t) 100, unwrap_or (src_id t) [], uri t))"
proof -
  let ?given = "unwrap_or (sources af) []"
  have ss: "s # ss = sort_key source_key ?given" and ok: "\<forall>t \<in> set ?given. source_acceptable af t"
    using assms by (simp_all add: validate_sources_iff)
  have same: "mset (s # ss) = mset ?given" unfolding ss by simp
  have "sorted (map source_key (s # ss))" unfolding ss by simp
  then have "source_key s \<le> source_key t" if "t \<in> set (s # ss)" for t
    using that by auto
  then have "\<forall>t \<in> set ?given. source_key s \<le> source_key t"
    using mset_eq_setD [OF same] by blast
  moreover have "sources af \<noteq> None" using same by (cases "sources af") auto
  ultimately show ?thesis
    using same ok unfolding source_key_def by (intro exI [of _ ?given]) auto
qed

lemma check_sources_error:
  "check_sources af seen ss = Inl err \<Longrightarrow>
   \<exists>pre s post. ss = pre @ s # post \<and> (\<forall>t \<in> set pre. source_acceptable af t) \<and>
     (\<not> source_acceptable af s \<or>
      (err = DuplicateSource (scheme s) (uri s) \<and>
       (scheme s, uri s) \<in> set seen \<union> (\<lambda>t. (scheme t, uri t)) ` set pre))"
proof (induction ss arbitrary: seen)
  case (Cons s ss)
  show ?case
  proof (cases "source_acceptable af s \<and> (scheme s, uri s) \<notin> set seen")
    case True
    then have "check_sources af ((scheme s, uri s) # seen) ss = Inl err"
      using Cons.prems check_sources_step(1) by metis
    from Cons.IH [OF this] obtain pre t post where "ss = pre @ t # post"
      "\<forall>t \<in> set pre. source_acceptable af t"
      "\<not> source_acceptable af t \<or>
        (err = DuplicateSource (scheme t) (uri t) \<and>
         (scheme t, uri t) \<in> set ((scheme s, uri s) # seen) \<union> (\<lambda>t. (scheme t, uri t)) ` set pre)"
      by blast
    with True show ?thesis
      by (intro exI [of _ "s # pre"] exI [of _ t] exI [of _ post]) auto
  next
    case False
    then have "\<not> source_acceptable af s \<or>
        (err = DuplicateSource (scheme s) (uri s) \<and> (scheme s, uri s) \<in> set seen)"
      using Cons.prems check_sources_step(2) [of af s seen ss] by auto
    then show ?thesis
      by (intro exI [of _ "[]"] exI [of _ s] exI [of _ ss]) auto
  qed
qed simp

lemma fst_preflight_action:
  "fst (preflight_action unsupported signature policy evaluation r status) =
     (if unsupported then UnsupportedResource
      else if blocked_by_signature signature policy then BlockedBySignaturePolicy
      else if blocked_by_resource_policy evaluation then BlockedByResourcePolicy
      else if status \<in> {None, Some Missing} then FetchMissing
      else if status = Some Available then AlreadyAvailable else ReplaceInvalid)"
  by (simp add: preflight_action_def split: option.splits ResourceAvailabilityStatus.splits)

lemma preflight_entry_cases:
  assumes "e \<in> set (preflight_file am signature policy evaluation r f)"
  shows "pf_resource_name e = res_name r" and "pf_file_path e = relative_path f"
    and "valid_sources e = (case validate_and_order_sources f of Inr ss \<Rightarrow> ss | Inl _ \<Rightarrow> [])"
    and "selected_source e = (case valid_sources e of [] \<Rightarrow> None | s # _ \<Rightarrow> Some s)"
    and "source_policy e = map_option evaluate_fetch_source_policy (selected_source e)"
    and "pf_action e = fst (preflight_action (res_protocol_version r \<noteq> PROTOCOL_VERSION) signature policy
           evaluation r (bt_get am (res_name r, relative_path f))) \<or>
         pf_action e = WouldVerifyAfterFetch \<and> \<not> blocked_by_signature signature policy \<and>
         \<not> blocked_by_resource_policy evaluation \<and> res_protocol_version r = PROTOCOL_VERSION \<and>
         bt_get am (res_name r, relative_path f) = Some Missing"
    and "fallback_sources e = tl (valid_sources e)"
proof -
  obtain act why where act: "preflight_action (res_protocol_version r \<noteq> PROTOCOL_VERSION) signature policy
      evaluation r (bt_get am (res_name r, relative_path f)) = (act, why)"
    by fastforce
  show "pf_resource_name e = res_name r" "pf_file_path e = relative_path f"
    "valid_sources e = (case validate_and_order_sources f of Inr ss \<Rightarrow> ss | Inl _ \<Rightarrow> [])"
    "selected_source e = (case valid_sources e of [] \<Rightarrow> None | s # _ \<Rightarrow> Some s)"
    "source_policy e = map_option evaluate_fetch_source_policy (selected_source e)"
    "pf_action e = fst (preflight_action (res_protocol_version r \<noteq> PROTOCOL_VERSION) signature policy
       evaluation r (bt_get am (res_name r, relative_path f))) \<or>
     pf_action e = WouldVerifyAfterFetch \<and> \<not> blocked_by_signature signature policy \<and>
     \<not> blocked_by_resource_policy evaluation \<and> res_protocol_version r = PROTOCOL_VERSION \<and>
     bt_get am (res_name r, relative_path f) = Some Missing"
    "fallback_sources e = tl (valid_sources e)"
    using assms
    by (auto simp: preflight_file_def Let_def select_fetch_source_def act
        split: sum.splits list.splits if_splits)
qed

lemma in_preflight_plan:
  "e \<in> set (build_resource_download_preflight_plan ann availability signature policy evaluation) \<longleftrightarrow>
     (\<exists>r \<in> set (ann_resources ann). \<exists>f \<in> set (res_files r).
        e \<in> set (preflight_file (report_map availability) signature policy evaluation r f))"
  by (auto simp: build_resource_download_preflight_plan_def)

lemma execution_ok_cases:
  "plan_ok (execution_entry e) \<longleftrightarrow>
     pf_action e = AlreadyAvailable \<or>
     (pf_action e \<in> {FetchMissing, ReplaceInvalid, WouldVerifyAfterFetch} \<and> fst (fetch_steps_for e))"
  by (cases "pf_action e") (auto simp: execution_entry_def split: prod.splits)

lemma fetch_steps_ok:
  "fst (fetch_steps_for e) \<Longrightarrow>
     (\<exists>s. selected_source e = Some s \<and> scheme s \<in> set DEFAULT_ALLOWED_FETCH_SCHEMES) \<and>
     fetch_steps_for e =
       (True, [UseSelectedSource, StageToTemporaryPath, EnforceExpectedSize,
               VerifySha256BeforeCacheMove, WouldCommitToCacheAfterVerification], None)"
  by (auto simp: fetch_steps_for_def split: option.splits if_splits)

section \<open>Properties\<close>

text \<open>Source validation, both ways: the declared sources of a file are accepted exactly when every
  one of them uses an allowed scheme, contains no parent-directory component if it is a file
  URI, repeats the announced digest and size if it states any, and no scheme/URI pair occurs
  twice; the result is then the declared sources ordered by priority (100 when absent),
  identifier and URI.\<close>

theorem validated_sources_spec:
  "validate_and_order_sources af = Inr ss \<longleftrightarrow>
     ss = sort_key source_key (unwrap_or (sources af) []) \<and>
     (\<forall>s \<in> set (unwrap_or (sources af) []).
        scheme s \<in> {''https'', ''file'', ''ipfs''} \<and>
        \<not> (scheme s = ''file'' \<and> sublist ''..'' (uri s)) \<and>
        src_sha256 s \<in> {None, Some (sha256 af)} \<and>
        src_size_bytes s \<in> {None, Some (size_bytes af)}) \<and>
     distinct (map (\<lambda>s. (scheme s, uri s)) (unwrap_or (sources af) []))"
  unfolding validate_sources_iff source_acceptable_def ..

text \<open>Ordering is deterministic: when the URIs of the sources differ, two announcements that list
  the same sources in different orders select the same primary source and the same fallbacks
  in the same order.\<close>

theorem source_order_input_independent:
  assumes "mset (unwrap_or (sources a) []) = mset (unwrap_or (sources b) [])"
    and "sha256 a = sha256 b" and "size_bytes a = size_bytes b"
    and "distinct (map uri (unwrap_or (sources a) []))"
    and "validate_and_order_sources a = Inr ss"
  shows "validate_and_order_sources b = Inr ss"
proof -
  let ?A = "unwrap_or (sources a) []" and ?B = "unwrap_or (sources b) []"
  have same: "set ?A = set ?B"
    by (rule mset_eq_setD) (rule assms(1))
  have "inj_on uri (set ?A)"
    using assms(4) by (simp add: distinct_map)
  then have "inj_on source_key (set ?A)"
    by (auto simp: inj_on_def source_key_def)
  then have sorted: "sort_key source_key ?A = sort_key source_key ?B"
    using assms(1) by (intro sort_key_eq_sort_key) simp_all
  have "mset (map (\<lambda>s. (scheme s, uri s)) ?A) = mset (map (\<lambda>s. (scheme s, uri s)) ?B)"
    unfolding mset_map assms(1) ..
  then have "distinct (map (\<lambda>s. (scheme s, uri s)) ?A) \<longleftrightarrow> distinct (map (\<lambda>s. (scheme s, uri s)) ?B)"
    by (rule mset_eq_imp_distinct_iff)
  with assms(2,3,5) same sorted show ?thesis
    by (simp add: validate_sources_iff source_acceptable_def)
qed

definition demo_source :: "string \<Rightarrow> string \<Rightarrow> u8 option \<Rightarrow> ResourceFetchSource" where
  "demo_source sch u p =
     \<lparr>src_id = None, scheme = sch, uri = u, src_size_bytes = Some 4, src_sha256 = None,
      compression = None, media_type = None, priority = p, mirrors = None\<rparr>"

definition demo_sourced_file :: "ResourceFetchSource list \<Rightarrow> AnnouncedResourceFile" where
  "demo_sourced_file ss = \<lparr>relative_path = ''a.lua'', size_bytes = 4, sha256 = ''aa'', sources = Some ss\<rparr>"

lemmas demo_source_defs = demo_source_def demo_sourced_file_def

theorem validated_sources_spec_witness:
  "validate_and_order_sources
     (demo_sourced_file [demo_source ''ipfs'' ''b'' None, demo_source ''https'' ''a'' (Some 1)]) =
   Inr [demo_source ''https'' ''a'' (Some 1), demo_source ''ipfs'' ''b'' None]"
  unfolding validated_sources_spec
  by (simp add: demo_source_defs source_key_def)

theorem source_order_input_independent_witness:
  "validate_and_order_sources
     (demo_sourced_file [demo_source ''ipfs'' ''b'' None, demo_source ''https'' ''a'' (Some 1)]) =
   Inr [demo_source ''https'' ''a'' (Some 1), demo_source ''ipfs'' ''b'' None]"
  by (rule source_order_input_independent
      [of "demo_sourced_file [demo_source ''https'' ''a'' (Some 1), demo_source ''ipfs'' ''b'' None]"])
    (simp_all add: demo_source_defs validate_sources_iff source_acceptable_def source_key_def)

text \<open>A rejection is justified: the declared list splits at the offending source, every source
  before it is acceptable, and it is itself unacceptable or repeats the scheme and URI of an
  earlier one, in which case the error names that pair.\<close>

theorem source_rejection_justified:
  assumes "validate_and_order_sources af = Inl err"
  shows "\<exists>pre s post. sources af = Some (pre @ s # post) \<and> (\<forall>t \<in> set pre. source_acceptable af t) \<and>
    (\<not> source_acceptable af s \<or>
     (err = DuplicateSource (scheme s) (uri s) \<and>
      (scheme s, uri s) \<in> (\<lambda>t. (scheme t, uri t)) ` set pre))"
proof -
  obtain ss where "sources af = Some ss" "check_sources af [] ss = Inl err"
    using assms by (auto simp: validate_and_order_sources_def res_bind_Inl_iff split: option.splits)
  then show ?thesis
    using check_sources_error [of af "[]" ss err] by auto
qed

theorem source_rejection_justified_witness:
  "\<exists>pre s post. sources (demo_sourced_file [demo_source ''ftp'' ''x'' None]) = Some (pre @ s # post) \<and>
     \<not> source_acceptable (demo_sourced_file [demo_source ''ftp'' ''x'' None]) s"
proof -
  have "validate_and_order_sources (demo_sourced_file [demo_source ''ftp'' ''x'' None]) =
      Inl (UnsupportedScheme ''ftp'')"
    by (simp add: demo_source_defs validate_and_order_sources_def)
  from source_rejection_justified [OF this] show ?thesis
    by blast
qed

text \<open>A blocked announcement plans no download: under the strict signature policy without a valid
  signature, and whenever the resource policy blocks the join, no entry of the execution plan
  is marked executable and none has a step.\<close>

theorem blocked_announcement_fetches_nothing:
  assumes "policy = Strict \<and> sv_status signature \<noteq> StatusValid \<or>
      (\<exists>ev. evaluation = Some ev \<and> pol_decision ev = Blocked)"
  shows "\<forall>x \<in> set (build_fetch_execution_plan
      (build_resource_download_preflight_plan ann availability signature policy evaluation)).
      \<not> plan_ok x \<and> fx_steps x = []"
proof -
  have blocked: "blocked_by_signature signature policy \<or> blocked_by_resource_policy evaluation"
    using assms by (auto simp: blocked_by_signature_def blocked_by_resource_policy_def)
  have "pf_action e \<in> {UnsupportedResource, BlockedBySignaturePolicy, BlockedByResourcePolicy}"
    if "e \<in> set (preflight_file am signature policy evaluation r f)" for e am r f
    using preflight_entry_cases(6) [OF that] blocked unfolding fst_preflight_action by (auto split: if_splits)
  then have "\<not> plan_ok (execution_entry e) \<and> fx_steps (execution_entry e) = []"
    if "e \<in> set (build_resource_download_preflight_plan ann availability signature policy evaluation)" for e
    using that unfolding in_preflight_plan by (fastforce simp: execution_entry_def)
  then show ?thesis
    by (simp add: build_fetch_execution_plan_def)
qed

definition demo_fetch_announcement :: ResourceAnnouncement where
  "demo_fetch_announcement =
     \<lparr>ann_resources =
        [\<lparr>res_name = ''chat'', res_version = ''1'',
          res_files = [demo_sourced_file [demo_source ''https'' ''a'' None]],
          res_protocol_version = 2, requirement_level = Required\<rparr>],
      ann_signature = None\<rparr>"

theorem blocked_announcement_fetches_nothing_witness:
  "filter (\<lambda>x. plan_ok x \<or> fx_steps x \<noteq> []) (build_fetch_execution_plan
      (build_resource_download_preflight_plan demo_fetch_announcement
        \<lparr>avail_resources = [], is_fully_available = False\<rparr>
        (check_announcement_signature_stub demo_fetch_announcement) Strict None)) = []"
  using blocked_announcement_fetches_nothing
    [of Strict "check_announcement_signature_stub demo_fetch_announcement" None demo_fetch_announcement
      "\<lparr>avail_resources = [], is_fully_available = False\<rparr>"]
  by (simp add: check_announcement_signature_stub_def demo_fetch_announcement_def filter_empty_conv)

text \<open>
  A file that is reported missing and may be fetched has two executable entries in the plan: its own
  and the synthetic one for the verification after the fetch.
\<close>

lemma missing_file_planned_twice:
  assumes "bt_get am (res_name r, relative_path f) = Some Missing" and "res_protocol_version r = PROTOCOL_VERSION"
    and "\<not> blocked_by_signature signature policy" and "\<not> blocked_by_resource_policy evaluation"
    and "validate_and_order_sources f = Inr (s # ss)"
  shows "map (\<lambda>e. (pf_resource_name e, pf_file_path e, plan_ok (execution_entry e)))
      (preflight_file am signature policy evaluation r f) =
    [(res_name r, relative_path f, True), (res_name r, relative_path f, True)]"
proof -
  have "scheme s \<in> set DEFAULT_ALLOWED_FETCH_SCHEMES"
    using validated_source_acceptable [OF assms(5), of s] by (simp add: source_acceptable_def DEFAULT_ALLOWED_FETCH_SCHEMES_def)
  with assms show ?thesis
    by (simp add: preflight_file_def preflight_action_def Let_def select_fetch_source_def execution_entry_def
        fetch_steps_for_def evaluate_fetch_source_policy_def)
qed

text \<open>C16: Every planned download is verified: when the entry at some place of the execution plan is
  executable and has steps, then the preflight entry at that place is for an announced file of a
  resource of the client's protocol version, all declared sources of the file are acceptable for it, the
  selected source is the declared one that comes first by priority (100 if absent), identifier and
  URI, the fallbacks are the others, and the steps stage, check the size and check the digest before the
  commit to the cache.\<close>

theorem planned_fetch_is_verified:
  assumes "preflight = build_resource_download_preflight_plan ann availability signature policy evaluation"
    and "i < length preflight" and "x = build_fetch_execution_plan preflight ! i"
    and "plan_ok x" and "fx_steps x \<noteq> []"
  shows "\<exists>r \<in> set (ann_resources ann). \<exists>f \<in> set (res_files r). \<exists>s ss.
    fx_resource_name x = res_name r \<and> fx_file_path x = relative_path f \<and>
    res_protocol_version r = PROTOCOL_VERSION \<and>
    sources f = Some ss \<and> selected_source (preflight ! i) = Some s \<and>
    mset (s # fallback_sources (preflight ! i)) = mset ss \<and>
    (\<forall>t \<in> set ss. source_acceptable f t \<and>
       (unwrap_or (priority s) 100, unwrap_or (src_id s) [], uri s) \<le>
       (unwrap_or (priority t) 100, unwrap_or (src_id t) [], uri t)) \<and>
    fx_steps x = [UseSelectedSource, StageToTemporaryPath, EnforceExpectedSize,
      VerifySha256BeforeCacheMove, WouldCommitToCacheAfterVerification]"
proof -
  define e where "e = preflight ! i"
  have x: "x = execution_entry e"
    using assms(2,3) by (simp add: build_fetch_execution_plan_def e_def)
  have "e \<in> set (build_resource_download_preflight_plan ann availability signature policy evaluation)"
    using assms(1,2) nth_mem unfolding e_def by blast
  then obtain r f where rf: "r \<in> set (ann_resources ann)" "f \<in> set (res_files r)"
    "e \<in> set (preflight_file (report_map availability) signature policy evaluation r f)"
    unfolding in_preflight_plan by blast
  note entry = preflight_entry_cases [OF rf(3)]
  have action: "pf_action e \<in> {FetchMissing, ReplaceInvalid, WouldVerifyAfterFetch}"
    and "fst (fetch_steps_for e)"
    using assms(4,5) execution_ok_cases [of e] unfolding x by (auto simp: execution_entry_def)
  note steps = fetch_steps_ok [OF this(2)]
  from steps obtain s where s: "selected_source e = Some s" by blast
  then obtain ss where valid: "validate_and_order_sources f = Inr ss" "valid_sources e = ss"
    "ss = s # fallback_sources e"
    using entry(3,4,7) by (auto split: list.splits sum.splits)
  note declared = validated_declared [OF valid(1) [unfolded valid(3)]]
  have "res_protocol_version r = PROTOCOL_VERSION"
    using entry(6) action unfolding fst_preflight_action by (auto split: if_splits)
  moreover have "fx_steps x = fst (snd (fetch_steps_for e))"
    using action by (auto simp: x execution_entry_def split: prod.splits)
  moreover have "fx_resource_name x = res_name r" "fx_file_path x = relative_path f"
    using entry(1,2) by (auto simp: x execution_entry_def split: prod.splits)
  ultimately show ?thesis
    using rf(1,2) steps s declared unfolding e_def [symmetric] by force
qed

definition demo_preflight :: ResourceDownloadPreflightPlan where
  "demo_preflight = build_resource_download_preflight_plan
     demo_fetch_announcement \<lparr>avail_resources = [], is_fully_available = False\<rparr>
     (check_announcement_signature_stub demo_fetch_announcement) ReportOnly None"

theorem planned_fetch_is_verified_witness:
  "selected_source (hd demo_preflight) = Some (demo_source ''https'' ''a'' None)"
proof -
  have plan: "0 < length demo_preflight" "plan_ok (build_fetch_execution_plan demo_preflight ! 0)"
    "fx_steps (build_fetch_execution_plan demo_preflight ! 0) \<noteq> []"
    by (simp_all add: demo_preflight_def demo_fetch_announcement_def demo_source_defs build_fetch_execution_plan_def
        build_resource_download_preflight_plan_def preflight_file_def preflight_action_def
        report_map_def bt_collect_def validate_and_order_sources_def digest_error_def size_error_def
        select_fetch_source_def blocked_by_signature_def blocked_by_resource_policy_def
        evaluate_fetch_source_policy_def DEFAULT_ALLOWED_FETCH_SCHEMES_def PROTOCOL_VERSION_def
        execution_entry_def fetch_steps_for_def)
  from planned_fetch_is_verified [OF demo_preflight_def plan(1) refl plan(2,3)] plan(1) show ?thesis
    by (auto simp: demo_fetch_announcement_def demo_sourced_file_def hd_conv_nth)
qed

end
