(* ===== verification/Manifest.thy ===== *)
theory Manifest
  imports Protocol_Types
begin

text \<open>
  Resource manifests and packs of \<^verbatim>\<open>crates/resource_manifest/src/lib.rs\<close>: manifest validation,
  path checks, the pack index built from a directory, verification of a cache against an index
  and the repair plan, compatibility of a manifest with a game build, and the detection of the
  game edition in \<^verbatim>\<open>crates/game_edition/src/lib.rs\<close>.

  A \<^verbatim>\<open>PathBuf\<close> is the list of its components, which is what its equality and ordering compare.
  A directory tree is the datatype \<open>fs_node\<close>, with directory entries in the order \<^verbatim>\<open>read_dir\<close>
  yields them; SHA-256 is a parameter. Reads that fail for reasons other than the kind of the
  node are not represented.
\<close>

section \<open>Paths\<close>

datatype path_component = RootDir | CurDir | ParentDir | Normal string

type_synonym path = "path_component list"

primrec component_rank :: "path_component \<Rightarrow> nat \<times> string" where
  "component_rank RootDir = (0, [])"
| "component_rank CurDir = (1, [])"
| "component_rank ParentDir = (2, [])"
| "component_rank (Normal n) = (3, n)"

lemma component_rank_inj: "component_rank a = component_rank b \<longleftrightarrow> a = b"
  by (cases a; cases b) simp_all

instantiation path_component :: linorder
begin

definition less_eq_path_component :: "path_component \<Rightarrow> path_component \<Rightarrow> bool" where
  "a \<le> b \<longleftrightarrow> component_rank a \<le> component_rank b"

definition less_path_component :: "path_component \<Rightarrow> path_component \<Rightarrow> bool" where
  "a < b \<longleftrightarrow> component_rank a < component_rank b"

instance
  by standard
    (auto simp only: less_eq_path_component_def less_path_component_def less_le_not_le
      intro: order_trans dest: antisym simp: component_rank_inj linear)

end

definition path_of_string :: "string \<Rightarrow> path" where
  "path_of_string s =
     (let parts = split_at_char CHR ''/'' s;
          front = (if starts_with s ''/'' then [RootDir]
                   else if hd parts = ''.'' then [CurDir] else [])
      in front @ map (\<lambda>p. if p = ''..'' then ParentDir else Normal p)
           (filter (\<lambda>p. p \<noteq> [] \<and> p \<noteq> ''.'') parts))"

definition is_absolute :: "path \<Rightarrow> bool" where
  "is_absolute p \<longleftrightarrow> p \<noteq> [] \<and> hd p = RootDir"

definition validate_resource_file_path :: "path \<Rightarrow> string + unit" where
  "validate_resource_file_path p =
     (if is_absolute p then Inl ''resource file path must be relative''
      else if ParentDir \<in> set p
      then Inl ''resource file path cannot contain parent-directory traversal''
      else Inr ())"

section \<open>Game editions\<close>

datatype GameEdition = GameLegacy | GameEnhanced | GameUnknown
datatype GamePlatform = OnWindows | OnLinux | OnUnknown

record GameBuildInfo =
  edition :: GameEdition
  executable_path :: "path option"
  version_string :: "string option"
  build_platform :: GamePlatform

text \<open>\<^verbatim>\<open>Path::file_name\<close>: the last component, if it is a normal one.\<close>

definition file_name :: "path \<Rightarrow> string option" where
  "file_name p = (if p = [] then None else case last p of Normal n \<Rightarrow> Some n | _ \<Rightarrow> None)"

definition is_enhanced_like_name :: "string \<Rightarrow> bool" where
  "is_enhanced_like_name n \<longleftrightarrow> n \<in> set [''gta5_enhanced.exe'', ''gtav_enhanced.exe'']"

definition is_legacy_like_name :: "string \<Rightarrow> bool" where
  "is_legacy_like_name n \<longleftrightarrow> n \<in> set [''gta5.exe'', ''gtav.exe'']"

text \<open>The target platform is fixed when the program is built, so it is a parameter.\<close>

definition detect_from_path :: "GamePlatform \<Rightarrow> path \<Rightarrow> GameBuildInfo" where
  "detect_from_path target p =
     \<lparr>edition =
        (case map_option (map to_ascii_lower) (file_name p) of
           Some n \<Rightarrow> if is_enhanced_like_name n then GameEnhanced
                     else if is_legacy_like_name n then GameLegacy else GameUnknown
         | None \<Rightarrow> GameUnknown),
      executable_path = Some p, version_string = None, build_platform = target\<rparr>"

definition detect_installed_game :: "GamePlatform \<Rightarrow> GameBuildInfo" where
  "detect_installed_game target =
     \<lparr>edition = GameUnknown, executable_path = None, version_string = None, build_platform = target\<rparr>"

section \<open>Manifests\<close>

datatype EditionCompatibility = EdLegacy | EdEnhanced | EdAny | EdUnknown
datatype PlatformCompatibility = PlWindows | PlLinux | PlAny | PlUnknown

record ResourceManifest =
  mf_name :: string
  mf_version :: string
  mf_description :: "string option"
  mf_authors :: "string list"
  mf_license :: "string option"
  entry_server :: "string option"
  entry_client :: "string option"
  mf_dependencies :: "string list"
  mf_tags :: "string list"
  mf_protocol_version :: u32
  edition_compatibility :: EditionCompatibility
  platform_compatibility :: PlatformCompatibility

definition resource_name_char :: "char \<Rightarrow> bool" where
  "resource_name_char c \<longleftrightarrow>
     (97 \<le> (of_char c :: nat) \<and> of_char c \<le> (122 :: nat)) \<or> ascii_digit c \<or> c = CHR ''-'' \<or> c = CHR ''_''"

definition is_valid_resource_name :: "string \<Rightarrow> bool" where
  "is_valid_resource_name n \<longleftrightarrow> n \<noteq> [] \<and> list_all resource_name_char n"

definition validate_entrypoint_path :: "string \<Rightarrow> string + unit" where
  "validate_entrypoint_path s =
     (if is_absolute (path_of_string s) then Inl ''entrypoint path must be relative''
      else if ParentDir \<in> set (path_of_string s)
      then Inl ''entrypoint path cannot contain parent-directory traversal''
      else Inr ())"

definition validate_manifest :: "ResourceManifest \<Rightarrow> string + unit" where
  "validate_manifest m =
     (if str_trim (mf_name m) = [] then Inl ''resource name cannot be empty''
      else if str_trim (mf_version m) = [] then Inl ''resource version cannot be empty''
      else if \<not> is_valid_resource_name (mf_name m) then Inl ''resource name contains invalid characters''
      else if mf_protocol_version m \<noteq> PROTOCOL_VERSION
      then Inl ''resource protocol_version must match current protocol version''
      else res_bind (case entry_server m of Some s \<Rightarrow> validate_entrypoint_path s | None \<Rightarrow> Inr ()) (\<lambda>_.
           res_bind (case entry_client m of Some s \<Rightarrow> validate_entrypoint_path s | None \<Rightarrow> Inr ()) (\<lambda>_.
           if list_all is_valid_resource_name (mf_dependencies m) then Inr ()
           else Inl ''dependency name contains invalid characters'')))"

text \<open>TOML parsing is external.\<close>

definition parse_manifest_toml ::
  "(string \<Rightarrow> string + ResourceManifest) \<Rightarrow> string \<Rightarrow> string + ResourceManifest" where
  "parse_manifest_toml from_toml input =
     (case from_toml input of
        Inl err \<Rightarrow> Inl ''failed to parse manifest TOML''
      | Inr m \<Rightarrow> res_bind (validate_manifest m) (\<lambda>_. Inr m))"

section \<open>Pack indexes\<close>

text \<open>A link carries the content of the regular file it leads to, if it leads to one.\<close>

datatype fs_node =
    RegularFile bytes
  | Directory "(string \<times> fs_node) list"
  | SymbolicLink "bytes option"
  | SpecialFile

record ResourceFileEntry =
  fe_relative_path :: path
  fe_size_bytes :: u64
  fe_sha256 :: string

record ResourcePackIndex =
  pk_manifest :: ResourceManifest
  pk_files :: "ResourceFileEntry list"
  total_size_bytes :: u64

function collect_files ::
  "(bytes \<Rightarrow> string) \<Rightarrow> path \<Rightarrow> (string \<times> fs_node) list \<Rightarrow> string + ResourceFileEntry list" where
  "collect_files sha here [] = Inr []"
| "collect_files sha here ((name, SymbolicLink leads_to) # es) =
     Inl ''symlinks are not supported in resource packs''"
| "collect_files sha here ((name, Directory sub) # es) =
     res_bind (collect_files sha (here @ [Normal name]) sub) (\<lambda>fs.
     res_bind (collect_files sha here es) (\<lambda>gs. Inr (fs @ gs)))"
| "collect_files sha here ((name, SpecialFile) # es) = collect_files sha here es"
| "collect_files sha here ((name, RegularFile content) # es) =
     res_bind (validate_resource_file_path (here @ [Normal name])) (\<lambda>_.
     res_bind (collect_files sha here es) (\<lambda>gs.
       Inr (\<lparr>fe_relative_path = here @ [Normal name], fe_size_bytes = of_nat (length content),
             fe_sha256 = sha content\<rparr> # gs)))"
  by pat_completeness auto
termination
  by (relation "measure (\<lambda>(sha, here, es). size_list (size_prod (\<lambda>_. 0) size) es)") auto

text \<open>
  \<^verbatim>\<open>is_file\<close> and reading a file follow links while \<open>collect_files\<close> rejects them; \<open>decode\<close> is UTF-8
  decoding and \<open>shown\<close> the displayed path.
\<close>

fun file_content :: "fs_node \<Rightarrow> bytes option" where
  "file_content (RegularFile content) = Some content"
| "file_content (SymbolicLink leads_to) = leads_to"
| "file_content (Directory sub) = None"
| "file_content SpecialFile = None"

definition load_manifest_from_path ::
  "(string \<Rightarrow> string + ResourceManifest) \<Rightarrow> (bytes \<Rightarrow> string option) \<Rightarrow> string \<Rightarrow> bytes \<Rightarrow>
   string + ResourceManifest" where
  "load_manifest_from_path from_toml decode shown content =
     (case decode content of
        None \<Rightarrow> Inl (''failed to read resource manifest: '' @ shown)
      | Some raw \<Rightarrow> parse_manifest_toml from_toml raw)"

definition build_pack_index ::
  "(string \<Rightarrow> string + ResourceManifest) \<Rightarrow> (bytes \<Rightarrow> string option) \<Rightarrow> (bytes \<Rightarrow> string) \<Rightarrow> string \<Rightarrow>
   (string \<times> fs_node) list \<Rightarrow> string + ResourcePackIndex" where
  "build_pack_index from_toml decode sha shown dir =
     (case Option.bind (map_of dir ''resource.toml'') file_content of
        Some content \<Rightarrow>
          res_bind (load_manifest_from_path from_toml decode shown content) (\<lambda>m.
          res_bind (collect_files sha [] dir) (\<lambda>files.
            Inr \<lparr>pk_manifest = m, pk_files = sort_key fe_relative_path files,
                 total_size_bytes = sum_list (map fe_size_bytes (sort_key fe_relative_path files))\<rparr>))
      | None \<Rightarrow> Inl ''resource.toml not found in resource directory'')"

section \<open>Cache verification\<close>

datatype CacheFileStatus = CacheValid | CacheMissing | CacheSizeMismatch | CacheHashMismatch

record CacheVerificationEntry =
  cv_relative_path :: path
  expected_size_bytes :: u64
  actual_size_bytes :: "u64 option"
  expected_sha256 :: string
  actual_sha256 :: "string option"
  cv_status :: CacheFileStatus

record CacheVerificationReport =
  cv_entries :: "CacheVerificationEntry list"
  valid_count :: nat
  missing_count :: nat
  size_mismatch_count :: nat
  hash_mismatch_count :: nat
  is_fully_valid :: bool

text \<open>What \<^verbatim>\<open>symlink_metadata\<close> and a read of the path inside the cache directory give.\<close>

datatype cache_stat = StatNotFound | StatError string | StatSymlink | StatFile bytes | StatOther

definition verify_cache_file ::
  "(bytes \<Rightarrow> string) \<Rightarrow> (path \<Rightarrow> cache_stat) \<Rightarrow> ResourceFileEntry \<Rightarrow> string + CacheVerificationEntry" where
  "verify_cache_file sha stat f =
     res_bind (validate_resource_file_path (fe_relative_path f)) (\<lambda>_.
       let entry = (\<lambda>size digest status.
             \<lparr>cv_relative_path = fe_relative_path f, expected_size_bytes = fe_size_bytes f,
              actual_size_bytes = size, expected_sha256 = fe_sha256 f, actual_sha256 = digest,
              cv_status = status\<rparr>)
       in case stat (fe_relative_path f) of
            StatSymlink \<Rightarrow> Inl ''symlinks are not supported in cache verification''
          | StatOther \<Rightarrow> Inr (entry None None CacheMissing)
          | StatNotFound \<Rightarrow> Inr (entry None None CacheMissing)
          | StatError err \<Rightarrow> Inl (''failed to stat cache file: '' @ err)
          | StatFile content \<Rightarrow>
              (let n = of_nat (length content)
               in if n \<noteq> fe_size_bytes f then Inr (entry (Some n) None CacheSizeMismatch)
                  else if sha content \<noteq> fe_sha256 f
                  then Inr (entry (Some n) (Some (sha content)) CacheHashMismatch)
                  else Inr (entry (Some n) (Some (sha content)) CacheValid)))"

definition count_status :: "CacheFileStatus \<Rightarrow> CacheVerificationReport \<Rightarrow> CacheVerificationReport" where
  "count_status st r =
     (case st of
        CacheValid \<Rightarrow> r\<lparr>valid_count := Suc (valid_count r)\<rparr>
      | CacheMissing \<Rightarrow> r\<lparr>missing_count := Suc (missing_count r)\<rparr>
      | CacheSizeMismatch \<Rightarrow> r\<lparr>size_mismatch_count := Suc (size_mismatch_count r)\<rparr>
      | CacheHashMismatch \<Rightarrow> r\<lparr>hash_mismatch_count := Suc (hash_mismatch_count r)\<rparr>)"

fun verify_cache_loop ::
  "(bytes \<Rightarrow> string) \<Rightarrow> (path \<Rightarrow> cache_stat) \<Rightarrow> ResourceFileEntry list \<Rightarrow> CacheVerificationReport \<Rightarrow>
   string + CacheVerificationReport" where
  "verify_cache_loop sha stat [] acc = Inr acc"
| "verify_cache_loop sha stat (f # fs) acc =
     res_bind (verify_cache_file sha stat f) (\<lambda>e.
       verify_cache_loop sha stat fs
         (count_status (cv_status e) acc\<lparr>cv_entries := cv_entries acc @ [e]\<rparr>))"

definition verify_cache_against_index ::
  "(bytes \<Rightarrow> string) \<Rightarrow> ResourcePackIndex \<Rightarrow> (path \<Rightarrow> cache_stat) \<Rightarrow> string + CacheVerificationReport" where
  "verify_cache_against_index sha index stat =
     res_bind (verify_cache_loop sha stat (pk_files index)
       \<lparr>cv_entries = [], valid_count = 0, missing_count = 0, size_mismatch_count = 0,
        hash_mismatch_count = 0, is_fully_valid = False\<rparr>) (\<lambda>r.
       Inr (r\<lparr>cv_entries := sort_key cv_relative_path (cv_entries r),
             is_fully_valid := missing_count r = 0 \<and> size_mismatch_count r = 0 \<and>
               hash_mismatch_count r = 0\<rparr>))"

definition verify_cache_for_resource ::
  "(string \<Rightarrow> string + ResourceManifest) \<Rightarrow> (bytes \<Rightarrow> string option) \<Rightarrow> (bytes \<Rightarrow> string) \<Rightarrow> string \<Rightarrow>
   (string \<times> fs_node) list \<Rightarrow> (path \<Rightarrow> cache_stat) \<Rightarrow> string + CacheVerificationReport" where
  "verify_cache_for_resource from_toml decode sha shown dir stat =
     res_bind (build_pack_index from_toml decode sha shown dir) (\<lambda>index.
       verify_cache_against_index sha index stat)"

section \<open>The cache repair plan\<close>

datatype CacheRepairAction = RepairNone | RepairFetchMissing | RepairReplaceInvalid | RepairVerifyOnly

record CacheRepairPlanEntry =
  rp_relative_path :: path
  rp_expected_size_bytes :: u64
  rp_expected_sha256 :: string
  rp_action :: CacheRepairAction

record CacheRepairPlan =
  rp_entries :: "CacheRepairPlanEntry list"
  fetch_missing_count :: nat
  replace_invalid_count :: nat
  verify_only_count :: nat
  noop_count :: nat

primrec repair_action :: "CacheFileStatus \<Rightarrow> CacheRepairAction" where
  "repair_action CacheValid = RepairNone"
| "repair_action CacheMissing = RepairFetchMissing"
| "repair_action CacheSizeMismatch = RepairReplaceInvalid"
| "repair_action CacheHashMismatch = RepairReplaceInvalid"

definition repair_step :: "CacheVerificationEntry \<Rightarrow> CacheRepairPlan \<Rightarrow> CacheRepairPlan" where
  "repair_step e plan =
     (let a = repair_action (cv_status e);
          inc = (\<lambda>b. if a = b then 1 else 0)
      in \<lparr>rp_entries = rp_entries plan @
            [\<lparr>rp_relative_path = cv_relative_path e, rp_expected_size_bytes = expected_size_bytes e,
              rp_expected_sha256 = expected_sha256 e, rp_action = a\<rparr>],
          fetch_missing_count = fetch_missing_count plan + inc RepairFetchMissing,
          replace_invalid_count = replace_invalid_count plan + inc RepairReplaceInvalid,
          verify_only_count = verify_only_count plan + inc RepairVerifyOnly,
          noop_count = noop_count plan + inc RepairNone\<rparr>)"

definition build_cache_repair_plan :: "CacheVerificationReport \<Rightarrow> CacheRepairPlan" where
  "build_cache_repair_plan report =
     fold repair_step (cv_entries report)
       \<lparr>rp_entries = [], fetch_missing_count = 0, replace_invalid_count = 0, verify_only_count = 0,
        noop_count = 0\<rparr>"

definition is_noop :: "CacheRepairPlan \<Rightarrow> bool" where
  "is_noop plan \<longleftrightarrow> fetch_missing_count plan = 0 \<and> replace_invalid_count plan = 0"

primrec repair_plan_label :: "CacheRepairAction \<Rightarrow> string" where
  "repair_plan_label RepairNone = ''noop''"
| "repair_plan_label RepairFetchMissing = ''fetch''"
| "repair_plan_label RepairReplaceInvalid = ''replace''"
| "repair_plan_label RepairVerifyOnly = ''verify''"

text \<open>The text of the plan; \<open>path_text\<close> displays a path.\<close>

definition cache_repair_plan_to_text :: "(path \<Rightarrow> string) \<Rightarrow> CacheRepairPlan \<Rightarrow> string" where
  "cache_repair_plan_to_text path_text plan =
     str_join [CHR 0x0A]
       ([''Cache Repair Plan: '' @ show_nat (length (rp_entries plan)) @ '' entries'',
         ''  Fetch Missing: '' @ show_nat (fetch_missing_count plan),
         ''  Replace Invalid: '' @ show_nat (replace_invalid_count plan),
         ''  Verify Only: '' @ show_nat (verify_only_count plan),
         ''  No Action: '' @ show_nat (noop_count plan)] @
        map (\<lambda>e. ''  '' @ path_text (rp_relative_path e) @ '' -> '' @ repair_plan_label (rp_action e) @ '' ('' @
              show_u64 (rp_expected_size_bytes e) @ '' bytes, '' @ rp_expected_sha256 e @ '')'') (rp_entries plan))"

section \<open>Compatibility\<close>

record CompatibilityContext =
  ctx_protocol_version :: u32
  ctx_game_edition :: GameEdition
  ctx_platform :: GamePlatform

datatype CompatibilityStatus = Compatible | Incompatible | CompatUnknown

record CompatibilityIssue =
  issue_code :: string
  issue_message :: string

record CompatibilityReport =
  compat_status :: CompatibilityStatus
  compat_issues :: "CompatibilityIssue list"

definition default_compatibility_context :: "GamePlatform \<Rightarrow> CompatibilityContext" where
  "default_compatibility_context target =
     \<lparr>ctx_protocol_version = PROTOCOL_VERSION, ctx_game_edition = GameUnknown,
      ctx_platform = build_platform (detect_installed_game target)\<rparr>"

definition issue :: "string \<Rightarrow> string \<Rightarrow> CompatibilityIssue" where
  "issue code message = \<lparr>issue_code = code, issue_message = message\<rparr>"

definition edition_issues :: "EditionCompatibility \<Rightarrow> GameEdition \<Rightarrow> CompatibilityIssue list" where
  "edition_issues c g =
     (if c = EdAny \<or> (c, g) \<in> {(EdLegacy, GameLegacy), (EdEnhanced, GameEnhanced)} then []
      else if (c, g) = (EdUnknown, GameUnknown)
      then [issue ''edition_unknown'' ''resource and context editions are both unknown'']
      else if c = EdUnknown \<or> g = GameUnknown
      then [issue ''edition_unknown''
              ''edition compatibility cannot be confirmed with unknown edition context'']
      else [issue ''edition_mismatch'' ''resource edition compatibility does not match context edition''])"

definition platform_issues :: "PlatformCompatibility \<Rightarrow> GamePlatform \<Rightarrow> CompatibilityIssue list" where
  "platform_issues c p =
     (if c = PlAny \<or> (c, p) \<in> {(PlWindows, OnWindows), (PlLinux, OnLinux)} then []
      else if c = PlUnknown \<or> p = OnUnknown
      then [issue ''platform_unknown'' ''platform compatibility is not fully defined in this milestone'']
      else [issue ''platform_mismatch''
              ''resource platform compatibility does not match context platform''])"

definition evaluate_manifest_compatibility ::
  "ResourceManifest \<Rightarrow> CompatibilityContext \<Rightarrow> CompatibilityReport" where
  "evaluate_manifest_compatibility m ctx =
     (let issues =
        (if mf_protocol_version m \<noteq> ctx_protocol_version ctx
         then [issue ''protocol_mismatch''
                (''resource protocol_version='' @ show_u32 (mf_protocol_version m) @
                 '' does not match context protocol_version='' @ show_u32 (ctx_protocol_version ctx))]
         else []) @
        edition_issues (edition_compatibility m) (ctx_game_edition ctx) @
        platform_issues (platform_compatibility m) (ctx_platform ctx)
      in \<lparr>compat_status =
            (if \<exists>i \<in> set issues. ends_with (issue_code i) ''mismatch'' then Incompatible
             else if issues = [] then Compatible else CompatUnknown),
          compat_issues = issues\<rparr>)"

section \<open>Directory trees\<close>

text \<open>The regular files of a tree with their paths and contents, and the links in it.\<close>

function tree_files :: "path \<Rightarrow> (string \<times> fs_node) list \<Rightarrow> (path \<times> bytes) list" where
  "tree_files here [] = []"
| "tree_files here ((name, SymbolicLink leads_to) # es) = tree_files here es"
| "tree_files here ((name, Directory sub) # es) = tree_files (here @ [Normal name]) sub @ tree_files here es"
| "tree_files here ((name, SpecialFile) # es) = tree_files here es"
| "tree_files here ((name, RegularFile content) # es) = (here @ [Normal name], content) # tree_files here es"
  by pat_completeness auto
termination
  by (relation "measure (\<lambda>(here, es). size_list (size_prod (\<lambda>_. 0) size) es)") auto

function has_link :: "(string \<times> fs_node) list \<Rightarrow> bool" where
  "has_link [] = False"
| "has_link ((name, SymbolicLink leads_to) # es) = True"
| "has_link ((name, Directory sub) # es) = (has_link sub \<or> has_link es)"
| "has_link ((name, SpecialFile) # es) = has_link es"
| "has_link ((name, RegularFile content) # es) = has_link es"
  by pat_completeness auto
termination
  by (relation "measure (size_list (size_prod (\<lambda>_. 0) size))") auto

text \<open>No directory lists a name twice.\<close>

function tree_ok :: "(string \<times> fs_node) list \<Rightarrow> bool" where
  "tree_ok [] = True"
| "tree_ok ((name, Directory sub) # es) = (name \<notin> fst ` set es \<and> tree_ok sub \<and> tree_ok es)"
| "tree_ok ((name, SymbolicLink leads_to) # es) = (name \<notin> fst ` set es \<and> tree_ok es)"
| "tree_ok ((name, SpecialFile) # es) = (name \<notin> fst ` set es \<and> tree_ok es)"
| "tree_ok ((name, RegularFile content) # es) = (name \<notin> fst ` set es \<and> tree_ok es)"
  by pat_completeness auto
termination
  by (relation "measure (size_list (size_prod (\<lambda>_. 0) size))") auto

text \<open>What the operating system reports for a path below a tree.\<close>

fun node_stat :: "fs_node \<Rightarrow> cache_stat" where
  "node_stat (RegularFile content) = StatFile content"
| "node_stat (Directory es) = StatOther"
| "node_stat (SymbolicLink leads_to) = StatSymlink"
| "node_stat SpecialFile = StatOther"

fun tree_stat :: "(string \<times> fs_node) list \<Rightarrow> path \<Rightarrow> cache_stat" where
  "tree_stat es [Normal n] = (case map_of es n of None \<Rightarrow> StatNotFound | Some t \<Rightarrow> node_stat t)"
| "tree_stat es (Normal n # c # p) =
     (case map_of es n of
        None \<Rightarrow> StatNotFound
      | Some (Directory sub) \<Rightarrow> tree_stat sub (c # p)
      | Some _ \<Rightarrow> StatError ''Not a directory'')"
| "tree_stat es p = StatOther"

abbreviation safe_path :: "path \<Rightarrow> bool" where
  "safe_path p \<equiv> RootDir \<notin> set p \<and> ParentDir \<notin> set p"

definition file_entry :: "(bytes \<Rightarrow> string) \<Rightarrow> path \<times> bytes \<Rightarrow> ResourceFileEntry" where
  "file_entry sha pc =
     \<lparr>fe_relative_path = fst pc, fe_size_bytes = of_nat (length (snd pc)), fe_sha256 = sha (snd pc)\<rparr>"

lemma validate_path_ok: "safe_path p \<Longrightarrow> validate_resource_file_path p = Inr ()"
  by (cases p) (auto simp: validate_resource_file_path_def is_absolute_def)

lemma collect_files_spec:
  "safe_path here \<Longrightarrow>
   collect_files sha here es =
     (if has_link es then Inl ''symlinks are not supported in resource packs''
      else Inr (map (file_entry sha) (tree_files here es)))"
  by (induction sha here es rule: collect_files.induct)
    (auto simp: validate_path_ok file_entry_def)

lemma tree_files_paths:
  "(p, c) \<in> set (tree_files here es) \<Longrightarrow>
     \<exists>n q. n \<in> fst ` set es \<and> p = here @ Normal n # q \<and> (safe_path here \<longrightarrow> safe_path p)"
  by (induction here es rule: tree_files.induct) (auto simp: image_iff, (fastforce+)?)

lemma tree_stat_skip:
  assumes "tree_stat es q = StatFile c" and "name \<notin> fst ` set es"
  shows "tree_stat ((name, t) # es) q = StatFile c"
proof -
  have none: "map_of es name = None"
    using assms(2) by (simp add: map_of_eq_None_iff)
  show ?thesis
    using assms(1)
    by (cases "(es, q)" rule: tree_stat.cases) (auto simp: none split: option.splits if_splits)
qed

lemma tree_stat_file:
  "(p, c) \<in> set (tree_files here es) \<Longrightarrow> tree_ok es \<Longrightarrow>
     \<exists>q. p = here @ q \<and> q \<noteq> [] \<and> tree_stat es q = StatFile c"
proof (induction here es rule: tree_files.induct)
  case (3 here name sub es)
  from "3.prems"(1) consider "(p, c) \<in> set (tree_files (here @ [Normal name]) sub)"
    | "(p, c) \<in> set (tree_files here es)" by auto
  then show ?case
  proof cases
    case 1
    then obtain q where "p = (here @ [Normal name]) @ q" "q \<noteq> []" "tree_stat sub q = StatFile c"
      using "3.IH"(1) "3.prems"(2) by auto
    then show ?thesis
      by (intro exI [of _ "Normal name # q"]) (cases q; simp)
  next
    case 2
    then show ?thesis
      using "3.IH"(2) "3.prems"(2) tree_stat_skip by (metis tree_ok.simps(2))
  qed
qed (auto, (metis tree_stat_skip)+)

lemma distinct_tree_files: "tree_ok es \<Longrightarrow> distinct (map fst (tree_files here es))"
proof (induction here es rule: tree_files.induct)
  case (3 here name sub es)
  have "fst ` set (tree_files (here @ [Normal name]) sub) \<inter> fst ` set (tree_files here es) = {}"
  proof -
    have False if "(p, c) \<in> set (tree_files (here @ [Normal name]) sub)" "(p, d) \<in> set (tree_files here es)"
      for p c d
      using tree_files_paths [OF that(1)] tree_files_paths [OF that(2)] "3.prems" by auto
    then show ?thesis by force
  qed
  with 3 show ?case by simp
next
  case (5 here name content es)
  have "here @ [Normal name] \<notin> fst ` set (tree_files here es)"
  proof -
    have False if "(here @ [Normal name], d) \<in> set (tree_files here es)" for d
      using tree_files_paths [OF that] "5.prems" by auto
    then show ?thesis by force
  qed
  with 5 show ?case by simp
qed simp_all

section \<open>Lemmas about verification\<close>

lemma verify_cache_file_ok:
  assumes "verify_cache_file sha stat f = Inr e"
  shows "cv_relative_path e = fe_relative_path f"
    and "cv_status e = CacheValid \<longleftrightarrow>
      (\<exists>content. stat (fe_relative_path f) = StatFile content \<and>
         of_nat (length content) = fe_size_bytes f \<and> sha content = fe_sha256 f)"
  using assms
  by (auto simp: verify_cache_file_def Let_def res_bind_Inr_iff split: cache_stat.splits if_splits)

definition count_of :: "CacheFileStatus \<Rightarrow> CacheVerificationEntry list \<Rightarrow> nat" where
  "count_of st es = length (filter (\<lambda>e. cv_status e = st) es)"

definition counts_agree :: "CacheVerificationReport \<Rightarrow> bool" where
  "counts_agree r \<longleftrightarrow>
     valid_count r = count_of CacheValid (cv_entries r) \<and>
     missing_count r = count_of CacheMissing (cv_entries r) \<and>
     size_mismatch_count r = count_of CacheSizeMismatch (cv_entries r) \<and>
     hash_mismatch_count r = count_of CacheHashMismatch (cv_entries r)"

lemma counts_agree_step:
  "counts_agree acc \<Longrightarrow>
   counts_agree (count_status (cv_status e) acc\<lparr>cv_entries := cv_entries acc @ [e]\<rparr>)"
  by (cases "cv_status e") (auto simp: counts_agree_def count_status_def count_of_def)

lemma cv_entries_count_status [simp]: "cv_entries (count_status st r) = cv_entries r"
  by (cases st) (simp_all add: count_status_def)

lemma verify_cache_loop_ok:
  "verify_cache_loop sha stat fs acc = Inr r \<Longrightarrow> counts_agree acc \<Longrightarrow>
   counts_agree r \<and>
   (\<exists>es. cv_entries r = cv_entries acc @ es \<and> list_all2 (\<lambda>f e. verify_cache_file sha stat f = Inr e) fs es)"
proof (induction sha stat fs acc rule: verify_cache_loop.induct)
  case (2 sha stat f fs acc)
  from "2.prems"(1) obtain e where e: "verify_cache_file sha stat f = Inr e"
    "verify_cache_loop sha stat fs (count_status (cv_status e) acc\<lparr>cv_entries := cv_entries acc @ [e]\<rparr>) = Inr r"
    by (auto simp: res_bind_Inr_iff)
  obtain es where "counts_agree r" "cv_entries r = (cv_entries acc @ [e]) @ es"
    "list_all2 (\<lambda>f e. verify_cache_file sha stat f = Inr e) fs es"
    using "2.IH" [OF e(2) counts_agree_step [OF "2.prems"(2)]] by auto
  with e(1) show ?case
    by (intro conjI exI [of _ "e # es"]) simp_all
qed simp

lemma count_of_perm: "mset xs = mset ys \<Longrightarrow> count_of st xs = count_of st ys"
  unfolding count_of_def by (metis mset_filter size_mset)

lemma count_of_total:
  "count_of CacheValid es + count_of CacheMissing es + count_of CacheSizeMismatch es +
   count_of CacheHashMismatch es = length es"
proof (induction es)
  case (Cons e es)
  then show ?case by (cases "cv_status e") (simp_all add: count_of_def)
qed (simp add: count_of_def)

lemma count_of_zero: "count_of st es = 0 \<longleftrightarrow> (\<forall>e \<in> set es. cv_status e \<noteq> st)"
  by (auto simp: count_of_def filter_empty_conv)

lemma all_counted_valid:
  "count_of CacheMissing es = 0 \<and> count_of CacheSizeMismatch es = 0 \<and> count_of CacheHashMismatch es = 0 \<longleftrightarrow>
   (\<forall>e \<in> set es. cv_status e = CacheValid)"
proof -
  have "st = CacheValid \<longleftrightarrow> st \<noteq> CacheMissing \<and> st \<noteq> CacheSizeMismatch \<and> st \<noteq> CacheHashMismatch" for st
    by (cases st) simp_all
  then show ?thesis
    unfolding count_of_zero by blast
qed

lemma verify_cache_report:
  assumes "verify_cache_against_index sha index stat = Inr r"
  shows "counts_agree r" and "sorted (map cv_relative_path (cv_entries r))"
    and "is_fully_valid r \<longleftrightarrow> (\<forall>e \<in> set (cv_entries r). cv_status e = CacheValid)"
    and "\<exists>es. mset (cv_entries r) = mset es \<and>
      list_all2 (\<lambda>f e. verify_cache_file sha stat f = Inr e) (pk_files index) es"
proof -
  define acc where "acc = \<lparr>cv_entries = [], valid_count = 0, missing_count = 0, size_mismatch_count = 0,
    hash_mismatch_count = 0, is_fully_valid = False\<rparr>"
  obtain r0 where r0: "verify_cache_loop sha stat (pk_files index) acc = Inr r0"
    "r = r0\<lparr>cv_entries := sort_key cv_relative_path (cv_entries r0),
             is_fully_valid := missing_count r0 = 0 \<and> size_mismatch_count r0 = 0 \<and> hash_mismatch_count r0 = 0\<rparr>"
    using assms by (auto simp: verify_cache_against_index_def acc_def res_bind_Inr_iff)
  have "counts_agree acc" by (simp add: counts_agree_def acc_def count_of_def)
  from verify_cache_loop_ok [OF r0(1) this] obtain es where agree: "counts_agree r0"
    and es: "cv_entries r0 = es" "list_all2 (\<lambda>f e. verify_cache_file sha stat f = Inr e) (pk_files index) es"
    by (auto simp: acc_def)
  have "count_of st (cv_entries r) = count_of st (cv_entries r0)" for st
    by (rule count_of_perm) (simp add: r0(2))
  with agree show agree': "counts_agree r"
    by (simp add: counts_agree_def r0(2))
  show "sorted (map cv_relative_path (cv_entries r))"
    by (simp add: r0(2))
  have "is_fully_valid r \<longleftrightarrow> missing_count r = 0 \<and> size_mismatch_count r = 0 \<and> hash_mismatch_count r = 0"
    by (simp add: r0(2))
  with agree' show "is_fully_valid r \<longleftrightarrow> (\<forall>e \<in> set (cv_entries r). cv_status e = CacheValid)"
    unfolding all_counted_valid [symmetric] counts_agree_def by simp
  show "\<exists>es. mset (cv_entries r) = mset es \<and>
      list_all2 (\<lambda>f e. verify_cache_file sha stat f = Inr e) (pk_files index) es"
    using es by (auto simp: r0(2))
qed

lemma repair_step_fields:
  "rp_entries (repair_step e plan) = rp_entries plan @
     [\<lparr>rp_relative_path = cv_relative_path e, rp_expected_size_bytes = expected_size_bytes e,
       rp_expected_sha256 = expected_sha256 e, rp_action = repair_action (cv_status e)\<rparr>]"
  "fetch_missing_count (repair_step e plan) =
     fetch_missing_count plan + (if cv_status e = CacheMissing then 1 else 0)"
  "replace_invalid_count (repair_step e plan) =
     replace_invalid_count plan + (if cv_status e = CacheSizeMismatch then 1 else 0) +
     (if cv_status e = CacheHashMismatch then 1 else 0)"
  by (cases "cv_status e"; simp add: repair_step_def Let_def)+

lemma repair_fold:
  "rp_entries (fold repair_step es plan) = rp_entries plan @ map (\<lambda>e.
     \<lparr>rp_relative_path = cv_relative_path e, rp_expected_size_bytes = expected_size_bytes e,
      rp_expected_sha256 = expected_sha256 e, rp_action = repair_action (cv_status e)\<rparr>) es"
  "fetch_missing_count (fold repair_step es plan) = fetch_missing_count plan + count_of CacheMissing es"
  "replace_invalid_count (fold repair_step es plan) =
     replace_invalid_count plan + count_of CacheSizeMismatch es + count_of CacheHashMismatch es"
  by (induction es arbitrary: plan) (simp_all add: repair_step_fields count_of_def)

lemma pack_index_files:
  assumes "build_pack_index from_toml decode sha shown dir = Inr index"
  shows "\<not> has_link dir" and "pk_files index = sort_key fe_relative_path (map (file_entry sha) (tree_files [] dir))"
    and "total_size_bytes index = sum_list (map fe_size_bytes (pk_files index))"
    and "validate_manifest (pk_manifest index) = Inr ()"
  using assms
  by (auto simp: build_pack_index_def collect_files_spec load_manifest_from_path_def parse_manifest_toml_def
      res_bind_Inr_iff split: option.splits fs_node.splits sum.splits if_splits)

lemma cache_report_valid_iff:
  assumes "verify_cache_against_index sha index stat = Inr r"
  shows "is_fully_valid r \<longleftrightarrow>
      (\<forall>f \<in> set (pk_files index). \<exists>content. stat (fe_relative_path f) = StatFile content \<and>
         of_nat (length content) = fe_size_bytes f \<and> sha content = fe_sha256 f)"
proof -
  obtain es where es: "mset (cv_entries r) = mset es"
    "list_all2 (\<lambda>f e. verify_cache_file sha stat f = Inr e) (pk_files index) es"
    using verify_cache_report(4) [OF assms] by blast
  show ?thesis
    unfolding verify_cache_report(3) [OF assms] mset_eq_setD [OF es(1)] using es(2)
  proof (induction rule: list_all2_induct)
    case (Cons f fs e es)
    then show ?case using verify_cache_file_ok(2) [OF Cons.hyps(1)] by simp
  qed simp
qed

section \<open>Properties\<close>

text \<open>A pack index is exact: it is built only for a tree without symbolic links, and then lists
  every regular file of the tree once, in path order, with its size and digest, under a
  relative path without parent-directory components.\<close>

theorem pack_index_exact:
  assumes "build_pack_index from_toml decode sha shown dir = Inr index" and "tree_ok dir"
  shows "\<not> has_link dir \<and>
    map fe_relative_path (pk_files index) = sort (map fst (tree_files [] dir)) \<and>
    distinct (map fe_relative_path (pk_files index)) \<and>
    set (pk_files index) = file_entry sha ` set (tree_files [] dir) \<and>
    (\<forall>f \<in> set (pk_files index). safe_path (fe_relative_path f))"
proof -
  have paths: "map fe_relative_path (map (file_entry sha) xs) = map fst xs" for xs
    by (simp add: file_entry_def)
  have "map fe_relative_path (pk_files index) = sort (map fst (tree_files [] dir))"
    unfolding pack_index_files(2) [OF assms(1)] paths [symmetric] by (rule map_sort_key)
  moreover have "safe_path p" if "(p, c) \<in> set (tree_files [] dir)" for p c
    using tree_files_paths [OF that] by simp
  ultimately show ?thesis
    using pack_index_files [OF assms(1)] distinct_tree_files [OF assms(2), of "[]"]
    by (auto simp: file_entry_def)
qed

definition demo_manifest :: ResourceManifest where
  "demo_manifest =
     \<lparr>mf_name = ''chat'', mf_version = ''1.0'', mf_description = None, mf_authors = [], mf_license = None,
      entry_server = Some ''server/main.js'', entry_client = None, mf_dependencies = [], mf_tags = [],
      mf_protocol_version = PROTOCOL_VERSION, edition_compatibility = EdAny, platform_compatibility = PlAny\<rparr>"

definition demo_tree :: "(string \<times> fs_node) list" where
  "demo_tree =
     [(''resource.toml'', RegularFile [1]), (''client'', Directory [(''main.js'', RegularFile [1, 2])])]"

definition demo_index :: "string + ResourcePackIndex" where
  "demo_index = build_pack_index (\<lambda>_. Inr demo_manifest) (\<lambda>_. Some []) (\<lambda>b. show_nat (length b)) ''d'' demo_tree"

lemma demo_index_ok: "\<exists>index. demo_index = Inr index" and demo_tree_ok: "tree_ok demo_tree"
  by (simp_all add: demo_index_def demo_tree_def build_pack_index_def load_manifest_from_path_def
      parse_manifest_toml_def demo_manifest_def validate_manifest_def str_trim_def ascii_space_def
      is_valid_resource_name_def resource_name_char_def validate_entrypoint_path_def path_of_string_def
      is_absolute_def validate_resource_file_path_def)

theorem pack_index_exact_witness:
  "\<exists>index. demo_index = Inr index \<and> length (pk_files index) = 2 \<and>
     (\<forall>f \<in> set (pk_files index). safe_path (fe_relative_path f))"
proof -
  obtain index where "demo_index = Inr index"
    using demo_index_ok by blast
  moreover from pack_index_exact [OF this [unfolded demo_index_def] demo_tree_ok]
  have "map fe_relative_path (pk_files index) = sort (map fst (tree_files [] demo_tree))"
    and "\<forall>f \<in> set (pk_files index). safe_path (fe_relative_path f)"
    by blast+
  moreover from arg_cong [OF this(1), of length] have "length (pk_files index) = 2"
    by (simp add: demo_tree_def)
  ultimately show ?thesis by blast
qed

text \<open>The cache report is accurate: its counters are the numbers of entries with each status and
  add up to the number of indexed files, and it is fully valid exactly when every indexed file
  is present in the cache as a regular file of the indexed size and digest.\<close>

theorem cache_report_accurate:
  assumes "verify_cache_against_index sha index stat = Inr r"
  shows "valid_count r = count_of CacheValid (cv_entries r) \<and>
    valid_count r + missing_count r + size_mismatch_count r + hash_mismatch_count r =
      length (pk_files index) \<and>
    (is_fully_valid r \<longleftrightarrow>
      (\<forall>f \<in> set (pk_files index). \<exists>content. stat (fe_relative_path f) = StatFile content \<and>
         of_nat (length content) = fe_size_bytes f \<and> sha content = fe_sha256 f))"
proof -
  obtain es where es: "mset (cv_entries r) = mset es"
    "list_all2 (\<lambda>f e. verify_cache_file sha stat f = Inr e) (pk_files index) es"
    using verify_cache_report(4) [OF assms] by blast
  have "length (cv_entries r) = length (pk_files index)"
    using es by (metis list_all2_lengthD size_mset)
  then show ?thesis
    using verify_cache_report(1) [OF assms] cache_report_valid_iff [OF assms] count_of_total [of "cv_entries r"]
    by (simp add: counts_agree_def)
qed

theorem cache_report_accurate_witness:
  "\<exists>index r. demo_index = Inr index \<and>
     verify_cache_against_index (\<lambda>b. show_nat (length b)) index (\<lambda>_. StatNotFound) = Inr r \<and>
     valid_count r + missing_count r + size_mismatch_count r + hash_mismatch_count r = length (pk_files index)"
proof -
  obtain index where index: "demo_index = Inr index"
    using demo_index_ok by blast
  then have "\<exists>r. verify_cache_against_index (\<lambda>b. show_nat (length b)) index (\<lambda>_. StatNotFound) = Inr r"
    by (auto simp: demo_index_def demo_tree_def build_pack_index_def load_manifest_from_path_def
        parse_manifest_toml_def demo_manifest_def validate_manifest_def str_trim_def ascii_space_def
        is_valid_resource_name_def resource_name_char_def validate_entrypoint_path_def path_of_string_def
        is_absolute_def validate_resource_file_path_def verify_cache_against_index_def
        less_eq_path_component_def verify_cache_file_def)
  with index cache_report_accurate show ?thesis by blast
qed

text \<open>C33: Indexing and verifying round-trip: a cache that is a copy of the indexed directory verifies
  without error, as fully valid, and its repair plan has nothing to do.\<close>

theorem pack_index_roundtrip:
  assumes "build_pack_index from_toml decode sha shown dir = Inr index" and "tree_ok dir"
  shows "\<exists>r. verify_cache_for_resource from_toml decode sha shown dir (tree_stat dir) = Inr r \<and>
    is_fully_valid r \<and> is_noop (build_cache_repair_plan r)"
proof -
  have present: "tree_stat dir (fe_relative_path f) = StatFile content \<and> safe_path (fe_relative_path f)"
    if "(p, content) \<in> set (tree_files [] dir)" "f = file_entry sha (p, content)" for f p content
    using tree_stat_file [OF that(1) assms(2)] tree_files_paths [OF that(1)] that(2)
    by (auto simp: file_entry_def)
  have "\<exists>r. verify_cache_loop sha (tree_stat dir) fs acc = Inr r"
    if "set fs \<subseteq> set (pk_files index)" for fs acc
    using that
  proof (induction fs arbitrary: acc)
    case (Cons f fs)
    then obtain p content where "(p, content) \<in> set (tree_files [] dir)" "f = file_entry sha (p, content)"
      using pack_index_files(2) [OF assms(1)] by auto
    from present [OF this] have "\<exists>e. verify_cache_file sha (tree_stat dir) f = Inr e"
      by (simp add: verify_cache_file_def validate_path_ok Let_def)
    with Cons show ?case by auto
  qed simp
  from this [OF order_refl] obtain r where r: "verify_cache_against_index sha index (tree_stat dir) = Inr r"
    by (simp add: verify_cache_against_index_def) (metis res_bind.simps(2))
  have "is_fully_valid r"
    using cache_report_valid_iff [OF r] present pack_index_files(2) [OF assms(1)]
    by (fastforce simp: file_entry_def)
  moreover from this have "is_noop (build_cache_repair_plan r)"
    using verify_cache_report(3) [OF r] all_counted_valid [of "cv_entries r"]
    by (simp add: is_noop_def build_cache_repair_plan_def repair_fold)
  ultimately show ?thesis
    using r assms(1) by (simp add: verify_cache_for_resource_def)
qed

theorem pack_index_roundtrip_witness:
  "\<exists>r. verify_cache_for_resource (\<lambda>_. Inr demo_manifest) (\<lambda>_. Some []) (\<lambda>b. show_nat (length b)) ''d''
     demo_tree (tree_stat demo_tree) = Inr r \<and> is_fully_valid r \<and> is_noop (build_cache_repair_plan r)"
  using demo_index_ok pack_index_roundtrip [OF _ demo_tree_ok] unfolding demo_index_def by blast

text \<open>The repair plan repairs exactly what is broken: it has one entry per verified file in the
  same order, replaces files of wrong size or digest, fetches missing ones, leaves valid ones
  alone, and is a no-op exactly when every entry of the report is valid.\<close>

theorem repair_plan_exact:
  "map rp_relative_path (rp_entries (build_cache_repair_plan report)) =
     map cv_relative_path (cv_entries report) \<and>
   map rp_action (rp_entries (build_cache_repair_plan report)) =
     map (repair_action \<circ> cv_status) (cv_entries report) \<and>
   (is_noop (build_cache_repair_plan report) \<longleftrightarrow>
     (\<forall>e \<in> set (cv_entries report). cv_status e = CacheValid))"
  using all_counted_valid [of "cv_entries report"]
  by (simp add: build_cache_repair_plan_def repair_fold is_noop_def)

theorem repair_plan_exact_witness:
  "is_noop (build_cache_repair_plan
     \<lparr>cv_entries = [], valid_count = 0, missing_count = 0, size_mismatch_count = 0, hash_mismatch_count = 0,
      is_fully_valid = True\<rparr>)"
  using repair_plan_exact by simp

text \<open>Compatibility verdicts: a manifest is compatible with a game build exactly when the protocol
  versions agree and both edition and platform are declared as any or match the known build;
  it is incompatible exactly when the protocol versions differ or a declared edition or
  platform contradicts a known one. Everything else is reported as unknown.\<close>

theorem compatibility_verdict:
  "(compat_status (evaluate_manifest_compatibility m ctx) = Compatible \<longleftrightarrow>
      mf_protocol_version m = ctx_protocol_version ctx \<and>
      (edition_compatibility m = EdAny \<or>
       (edition_compatibility m, ctx_game_edition ctx) \<in> {(EdLegacy, GameLegacy), (EdEnhanced, GameEnhanced)}) \<and>
      (platform_compatibility m = PlAny \<or>
       (platform_compatibility m, ctx_platform ctx) \<in> {(PlWindows, OnWindows), (PlLinux, OnLinux)})) \<and>
   (compat_status (evaluate_manifest_compatibility m ctx) = Incompatible \<longleftrightarrow>
      mf_protocol_version m \<noteq> ctx_protocol_version ctx \<or>
      (edition_compatibility m, ctx_game_edition ctx) \<in> {(EdLegacy, GameEnhanced), (EdEnhanced, GameLegacy)} \<or>
      (platform_compatibility m, ctx_platform ctx) \<in> {(PlWindows, OnLinux), (PlLinux, OnWindows)})"
proof -
  have edition: "edition_issues c g = [] \<longleftrightarrow>
      c = EdAny \<or> (c, g) \<in> {(EdLegacy, GameLegacy), (EdEnhanced, GameEnhanced)}" for c g
    by (simp add: edition_issues_def)
  have platform: "platform_issues c p = [] \<longleftrightarrow>
      c = PlAny \<or> (c, p) \<in> {(PlWindows, OnWindows), (PlLinux, OnLinux)}" for c p
    by (simp add: platform_issues_def)
  have edition_bad: "(\<exists>i \<in> set (edition_issues c g). ends_with (issue_code i) ''mismatch'') \<longleftrightarrow>
      (c, g) \<in> {(EdLegacy, GameEnhanced), (EdEnhanced, GameLegacy)}" for c g
    by (cases c; cases g) (simp_all add: edition_issues_def issue_def suffix_def)
  have platform_bad: "(\<exists>i \<in> set (platform_issues c p). ends_with (issue_code i) ''mismatch'') \<longleftrightarrow>
      (c, p) \<in> {(PlWindows, OnLinux), (PlLinux, OnWindows)}" for c p
    by (cases c; cases p) (simp_all add: platform_issues_def issue_def suffix_def)
  have protocol_bad: "ends_with ''protocol_mismatch'' ''mismatch''"
    by (simp add: suffix_def)
  show ?thesis
    unfolding evaluate_manifest_compatibility_def Let_def
    by (auto simp add: bex_Un edition_bad platform_bad edition platform protocol_bad issue_def simp del: set_simps)
qed

theorem compatibility_verdict_witness:
  "compat_status (evaluate_manifest_compatibility (demo_manifest\<lparr>edition_compatibility := EdLegacy\<rparr>)
     \<lparr>ctx_protocol_version = mf_protocol_version demo_manifest, ctx_game_edition = GameEnhanced,
      ctx_platform = OnLinux\<rparr>) = Incompatible"
  using compatibility_verdict by simp

end
