(* ===== verification/Server.thy ===== *)
theory Server
  imports Admin Fetch_Planning Manifest
begin

text \<open>
  The connection handler of \<^verbatim>\<open>crates/server/src/lib.rs\<close>. A handler is the state \<^verbatim>\<open>handle_client\<close> keeps
  for one connection together with the state shared between connections; every message, end of
  stream, read error and heartbeat tick is one step of it. The steps are cut where the source runs
  from one \<^verbatim>\<open>select!\<close> to the next: a handler changes only its own registry entry and its own row of the
  client table, and \<open>Commuting\<close> shows that the order of events of different connections does not matter.

  \<open>to_client\<close> collects what is written to the connection (directly before the writer task exists,
  through its queue afterwards) and \<open>broadcasts\<close> what is sent to the broadcast channel. During the login the
  handler writes to the socket itself, and a write that fails ends the connection; \<open>write_fails\<close> says
  after how many more writes the socket of the peer breaks, if it does. After the login only the writer
  task of \<open>Writer\<close> writes. Log output is left out. The JSON decoder is an argument.
\<close>

section \<open>State\<close>

record ClientInfo =
  ci_name :: string
  ci_entity_id :: u32
  last_announcement :: "ResourceAnnouncement option"
  shared_caps :: "ProtocolCapability list"

record SharedState =
  clients :: "(Uuid, ClientInfo) btree"
  registry :: SessionRegistry
  shutdown :: ShutdownState

definition default_shared :: SharedState where
  "default_shared = \<lparr>clients = [], registry = reg_new, shutdown = shutdown_new\<rparr>"

record handler =
  shared :: SharedState
  client_id :: Uuid
  session_id :: SessionId
  session :: SessionStateMachine
  event_log :: SessionEventLog
  peer_name :: string
  srv_ping_sequence :: u64
  to_client :: "ServerMessage list"
  broadcasts :: "ServerMessage list"
  write_fails :: "(nat \<times> string) option"

text \<open>How a piece of the handler ends: go on, leave the loop, or return early.\<close>

datatype flow = Proceed | BreakLoop | ReturnOk | ReturnErr string | Panic

definition and_then :: "flow \<times> handler \<Rightarrow> (handler \<Rightarrow> flow \<times> handler) \<Rightarrow> flow \<times> handler" where
  "and_then r f = (case r of (Proceed, h) \<Rightarrow> f h | _ \<Rightarrow> r)"

definition next_entity_id :: "Uuid \<Rightarrow> u32" where
  "next_entity_id u =
     ucast (u ! 0) + 2 ^ 8 * ucast (u ! 1) + 2 ^ 16 * ucast (u ! 2) + 2 ^ 24 * ucast (u ! 3)"

section \<open>Primitives\<close>

definition record_event :: "SessionEventKind \<Rightarrow> SessionState \<Rightarrow> string \<Rightarrow> handler \<Rightarrow> handler" where
  "record_event kind st msg h = h\<lparr>event_log := log_record kind st msg (event_log h)\<rparr>"

definition with_registry :: "(SessionRegistry \<Rightarrow> SessionRegistry) \<Rightarrow> handler \<Rightarrow> handler" where
  "with_registry f h = h\<lparr>shared := (shared h)\<lparr>registry := f (registry (shared h))\<rparr>\<rparr>"

definition publish :: "handler \<Rightarrow> handler" where
  "publish h = with_registry (update_session (session_id h) (sm_state (session h)) (log_len (event_log h))) h"

definition send_to_client :: "ServerMessage \<Rightarrow> handler \<Rightarrow> handler" where
  "send_to_client msg h = h\<lparr>to_client := to_client h @ [msg]\<rparr>"

text \<open>\<^verbatim>\<open>send_direct(..).await?\<close>, and its use before a \<^verbatim>\<open>return Ok(())\<close>.\<close>

definition send_direct :: "ServerMessage \<Rightarrow> handler \<Rightarrow> flow \<times> handler" where
  "send_direct msg h =
     (case write_fails h of
        None \<Rightarrow> (Proceed, send_to_client msg h)
      | Some (0, e) \<Rightarrow> (ReturnErr e, h)
      | Some (Suc n, e) \<Rightarrow> (Proceed, send_to_client msg (h\<lparr>write_fails := Some (n, e)\<rparr>)))"

definition send_and_return :: "ServerMessage \<Rightarrow> handler \<Rightarrow> flow \<times> handler" where
  "send_and_return msg h = and_then (send_direct msg h) (\<lambda>h1. (ReturnOk, h1))"

definition broadcast :: "ServerMessage \<Rightarrow> handler \<Rightarrow> handler" where
  "broadcast msg h = h\<lparr>broadcasts := broadcasts h @ [msg]\<rparr>"

definition fail_session :: "string \<Rightarrow> string \<Rightarrow> handler \<Rightarrow> handler" where
  "fail_session reason event_text h =
     publish (record_event EvFailed Failed event_text (h\<lparr>session := sm_fail (session h) reason\<rparr>))"

definition strict_enforcement :: "ServerConfig \<Rightarrow> bool" where
  "strict_enforcement cfg \<longleftrightarrow> enforcement_mode (cfg_enforcement cfg) = SessionEnforcementPolicy.Strict"

text \<open>\<^verbatim>\<open>handle_enforcement\<close>; its \<^verbatim>\<open>Ok(true)\<close> makes every caller return.\<close>

definition handle_enforcement :: "ServerConfig \<Rightarrow> handler \<Rightarrow> flow \<times> handler" where
  "handle_enforcement cfg h =
     (let decision = evaluate_enforcement (sm_state (session h)) (failure_reason (session h))
            (enforcement_mode (cfg_enforcement cfg)) in
      if \<not> strict_enforcement cfg \<or> decision = Allow then (Proceed, h)
      else
        let h1 = record_event EvFailed Failed (unwrap_or (failure_reason (session h)) ''enforcement triggered'') h;
            h2 = with_registry (update_session (session_id h) Failed (log_len (event_log h1))) h1
        in case map_decision_to_disconnect decision of
             None \<Rightarrow> (Panic, h2)
           | Some (reason, msg) \<Rightarrow> send_and_return (Disconnect reason msg) h2)"

section \<open>Login\<close>

definition handle_connect :: "Uuid \<Rightarrow> SharedState \<Rightarrow> handler" where
  "handle_connect u sh =
     (case create_session (registry sh) of
        (sid, reg) \<Rightarrow>
          record_event EvConnected Connected ''client connected''
            \<lparr>shared = sh\<lparr>registry := reg\<rparr>, client_id = u, session_id = sid, session = sm_new,
             event_log = log_new, peer_name = [], srv_ping_sequence = 1, to_client = [], broadcasts = [],
             write_fails = None\<rparr>)"

definition login_hello :: "string \<Rightarrow> LoginCapabilities \<Rightarrow> handler \<Rightarrow> flow \<times> handler" where
  "login_hello name caps h =
     (case on_hello_received (session h) of
        (m, Inl e) \<Rightarrow>
          send_and_return (Disconnect InvalidHandshake (''session state error: '' @ session_error_text e))
            (fail_session (session_error_text e) (session_error_text e) (h\<lparr>session := m\<rparr>))
      | (m, Inr _) \<Rightarrow>
          (Proceed, publish (record_event EvHelloReceived HelloReceived
            (''login from '' @ name @ '' (required_caps='' @ show_nat (length (lc_required caps)) @
             '' optional_caps='' @ show_nat (length (lc_optional caps)) @
             '' feature_flags='' @ show_nat (length (unwrap_or (feature_flags caps) [])) @ '')'')
            (h\<lparr>session := m\<rparr>))))"

definition mismatch_text :: "u32 \<Rightarrow> string" where
  "mismatch_text v = ''protocol mismatch: client='' @ show_u32 v @ '' server='' @ show_u32 PROTOCOL_VERSION"

definition login_version :: "u32 \<Rightarrow> LoginCapabilities \<Rightarrow> handler \<Rightarrow> flow \<times> handler" where
  "login_version v caps h =
     (case on_version_checked (session h) v of
        (m, Inl e) \<Rightarrow>
          send_and_return (Disconnect ProtocolMismatch (mismatch_text v))
            (publish (record_event EvFailed Failed (mismatch_text v) (h\<lparr>session := m\<rparr>)))
      | (m, Inr _) \<Rightarrow>
          (let h1 = record_event EvVersionChecked VersionChecked
                 (''protocol version '' @ show_u32 v @ '' matched'') (h\<lparr>session := m\<rparr>)
           in (Proceed, publish (with_registry (set_login_capabilities (session_id h1) caps)
                (with_registry (set_protocol_version (session_id h1) v) h1)))))"

definition client_profile :: "u32 \<Rightarrow> LoginCapabilities \<Rightarrow> ProtocolCompatibilityProfile" where
  "client_profile v caps = \<lparr>version_range = \<lparr>vr_min = v, vr_max = v\<rparr>, capabilities = all_login_capabilities caps\<rparr>"

definition login_negotiation :: "LoginCapabilities \<Rightarrow> CapabilityNegotiationReport" where
  "login_negotiation caps = evaluate_capability_negotiation caps current_capability_negotiation_policy"

definition reject_reason :: "CapabilityNegotiationReport \<Rightarrow> string" where
  "reject_reason report =
     (case cn_violations report of
        [] \<Rightarrow> ''capability negotiation rejected under strict policy''
      | v # _ \<Rightarrow> violation_to_text v)"

definition login_negotiate :: "ServerConfig \<Rightarrow> string \<Rightarrow> u32 \<Rightarrow> LoginCapabilities \<Rightarrow> handler \<Rightarrow> flow \<times> handler" where
  "login_negotiate cfg name v caps h =
     (case negotiate_protocol_dry_run (client_profile v caps) current_protocol_profile of
        Inl _ \<Rightarrow> (Panic, h)
      | Inr _ \<Rightarrow>
          let report = login_negotiation caps in
          if capability_policy (cfg_protocol cfg) = CapStrict \<and> cn_decision report = WouldReject then
            let reason = reject_reason report;
                h1 = record_event EvFailed Failed (''capability enforcement: '' @ reason)
                       (h\<lparr>session := sm_fail (session h) reason\<rparr>);
                h2 = publish (with_registry (set_capability_negotiation (session_id h1) report) h1)
            in send_and_return (Disconnect InvalidHandshake (''capability policy strict reject: '' @ reason)) h2
          else case on_negotiation_logged (session h) of
            (m, Inl e) \<Rightarrow>
              if strict_enforcement cfg
              then handle_enforcement cfg (h\<lparr>session := sm_fail m
                     (''negotiation transition failed: '' @ session_error_text e)\<rparr>)
              else (Proceed, h\<lparr>session := m\<rparr>)
          | (m, Inr _) \<Rightarrow>
              let h1 = record_event EvProtocolNegotiationDryRun NegotiationDryRunLogged
                    (''negotiation log processed for '' @ name @ ''; capability_negotiation='' @
                     decision_to_text (cn_decision report) @ '' warnings='' @ show_nat (length (cn_warnings report)) @
                     '' violations='' @ show_nat (length (cn_violations report))) (h\<lparr>session := m\<rparr>)
              in (Proceed, publish (with_registry (set_capability_negotiation (session_id h1) report) h1)))"

definition login_welcome ::
  "ServerConfig \<Rightarrow> ResourceAnnouncement option \<Rightarrow> string \<Rightarrow> u32 \<Rightarrow> LoginCapabilities \<Rightarrow> handler \<Rightarrow> flow \<times> handler" where
  "login_welcome cfg ann name v caps h =
     (let info = \<lparr>ci_name = name, ci_entity_id = next_entity_id (client_id h), last_announcement = ann,
                  shared_caps = shared_capabilities (client_profile v caps) current_protocol_profile\<rparr>;
          h1 = h\<lparr>shared := (shared h)\<lparr>clients := bt_insert (client_id h) info (clients (shared h))\<rparr>,
                 peer_name := name\<rparr>
      in send_direct (Welcome (client_id h) (motd (cfg_server cfg)) PROTOCOL_VERSION) h1)"

definition announcement_sent :: "ServerConfig \<Rightarrow> handler \<Rightarrow> flow \<times> handler" where
  "announcement_sent cfg h =
     (case on_resource_announcement_sent (session h) of
        (m, Inl e) \<Rightarrow>
          if strict_enforcement cfg
          then handle_enforcement cfg (h\<lparr>session := sm_fail m
                 (''resource announcement transition failed: '' @ session_error_text e)\<rparr>)
          else (Proceed, h\<lparr>session := m\<rparr>)
      | (m, Inr _) \<Rightarrow>
          (Proceed, publish (record_event EvResourceAnnouncementSent ResourceAnnouncementSent
            ''resource announcement sent to client'' (h\<lparr>session := m\<rparr>))))"

definition login_announce :: "ServerConfig \<Rightarrow> handler \<Rightarrow> flow \<times> handler" where
  "login_announce cfg h =
     (case bt_get (clients (shared h)) (client_id h) of
        None \<Rightarrow> (Proceed, h)
      | Some info \<Rightarrow>
          (case last_announcement info of
             None \<Rightarrow> (Proceed, h)
           | Some ann \<Rightarrow>
               let gate = capability_gate_report CapResourceAnnouncement (shared_caps info);
                   checked = record_event EvCapabilityGateChecked (sm_state (session h))
                     (''ResourceAnnouncement gate: supported='' @ show_bool (gr_supported gate)) h
               in and_then (send_direct (AnnouncementMsg ann) checked) (announcement_sent cfg)))"

definition login_joined :: "string \<Rightarrow> handler \<Rightarrow> flow \<times> handler" where
  "login_joined name h = (Proceed, broadcast (ChatBroadcast ''server'' (name @ '' joined'')) h)"

definition handle_login ::
  "ServerConfig \<Rightarrow> ResourceAnnouncement option \<Rightarrow> string \<Rightarrow> u32 \<Rightarrow> LoginCapabilities \<Rightarrow> handler \<Rightarrow> flow \<times> handler" where
  "handle_login cfg ann name v caps h =
     and_then (and_then (and_then (and_then (and_then
       (login_hello name caps h)
       (login_version v caps))
       (login_negotiate cfg name v caps))
       (login_welcome cfg ann name v caps))
       (login_announce cfg))
       (login_joined name)"

definition handle_first_line ::
  "ServerConfig \<Rightarrow> (string \<Rightarrow> string + ClientMessage) \<Rightarrow> ResourceAnnouncement option \<Rightarrow> string \<Rightarrow> handler \<Rightarrow> flow \<times> handler" where
  "handle_first_line cfg from_str ann line h =
     (case decode_client_line from_str line of
        Inl err \<Rightarrow>
          send_and_return (Disconnect InvalidHandshake (''invalid login payload: '' @ err)) h
      | Inr (Login name v caps) \<Rightarrow> handle_login cfg ann name v caps h
      | Inr _ \<Rightarrow> send_and_return (Disconnect InvalidHandshake ''first packet must be login'') h)"

section \<open>Messages after the login\<close>

definition on_ping :: "u64 \<Rightarrow> handler \<Rightarrow> flow \<times> handler" where
  "on_ping seq h =
     (let st = sm_state (session h);
          h1 = record_event EvPongSent st (''heartbeat: sent pong '' @ show_u64 seq)
            (broadcast (Pong seq)
              (record_event EvPingReceived st (''heartbeat: received ping '' @ show_u64 seq) h))
      in (Proceed, with_registry (update_session_heartbeat_counts (session_id h1)
           (count_kind EvPingReceived (event_log h1)) (count_kind EvPongSent (event_log h1))) h1))"

definition on_server_pong :: "u64 \<Rightarrow> handler \<Rightarrow> flow \<times> handler" where
  "on_server_pong seq h =
     (let h1 = record_event EvServerPongReceived (sm_state (session h))
            (''server heartbeat: received ServerPong '' @ show_u64 seq) h
      in (Proceed, with_registry (update_server_heartbeat_counts (session_id h1)
           (count_kind EvServerPingSent (event_log h1)) (count_kind EvServerPongReceived (event_log h1))) h1))"

definition on_chat :: "string \<Rightarrow> handler \<Rightarrow> flow \<times> handler" where
  "on_chat msg h =
     (let from = (case bt_get (clients (shared h)) (client_id h) of Some c \<Rightarrow> ci_name c | None \<Rightarrow> ''unknown'')
      in (Proceed, broadcast (ChatBroadcast from msg) h))"

text \<open>
  A transition of the report pipeline: on success the machine, event and registry advance; on failure
  strict enforcement fails the session, tells the client and leaves the loop, and report-only goes on.
\<close>

definition enforced_transition ::
  "ServerConfig \<Rightarrow> string \<Rightarrow> SessionEventKind \<Rightarrow> SessionState \<Rightarrow> string \<Rightarrow> unit sm_result \<Rightarrow> handler \<Rightarrow> flow \<times> handler" where
  "enforced_transition cfg label kind st msg res h =
     (case res of
        (m, Inr _) \<Rightarrow> (Proceed, publish (record_event kind st msg (h\<lparr>session := m\<rparr>)))
      | (m, Inl e) \<Rightarrow>
          if strict_enforcement cfg then
            let reason = label @ '' transition failed: '' @ session_error_text e
            in (BreakLoop, send_to_client (Disconnect InvalidHandshake (''enforcement: '' @ reason))
                 (fail_session reason (''enforcement: '' @ reason) (h\<lparr>session := m\<rparr>)))
          else (Proceed, h\<lparr>session := m\<rparr>))"

definition report_received :: "ServerConfig \<Rightarrow> handler \<Rightarrow> flow \<times> handler" where
  "report_received cfg h =
     enforced_transition cfg ''availability report'' EvAvailabilityReportReceived AvailabilityReportReceived
       ''resource availability report received from client''
       (on_availability_report_received (session h)) h"

definition report_policy :: "ServerConfig \<Rightarrow> ResourceJoinDecision \<Rightarrow> handler \<Rightarrow> flow \<times> handler" where
  "report_policy cfg decision h =
     (case on_policy_evaluated (session h) decision of
        (m, Inl PolicyBlockedDryRun) \<Rightarrow>
          (Proceed, publish (record_event EvResourcePolicyEvaluated ResourcePolicyEvaluated
            (''policy decision: '' @ join_decision_debug decision @ '' (dry-run, not enforced)'') (h\<lparr>session := m\<rparr>)))
      | res \<Rightarrow> enforced_transition cfg ''policy'' EvResourcePolicyEvaluated ResourcePolicyEvaluated
          (''policy decision: '' @ join_decision_debug decision) res h)"

definition report_gate :: "ServerConfig \<Rightarrow> JoinGateDecision \<Rightarrow> ProtocolCapability list \<Rightarrow> handler \<Rightarrow> flow \<times> handler" where
  "report_gate cfg decision caps h =
     (let gate = capability_gate_report CapJoinGateDryRun caps;
          h1 = send_to_client (JoinGateDecisionMsg decision)
            (record_event EvCapabilityGateChecked (sm_state (session h))
              (''JoinGateDryRun gate: supported='' @ show_bool (gr_supported gate)) h)
      in enforced_transition cfg ''join gate'' EvJoinGateDryRunSent JoinGateDryRunSent
           ''join gate dry-run decision sent to client'' (on_join_gate_sent (session h1)) h1)"

definition report_ready :: "ServerConfig \<Rightarrow> handler \<Rightarrow> flow \<times> handler" where
  "report_ready cfg h =
     enforced_transition cfg ''ready'' EvReadyDryRun ReadyDryRun ''handshake pipeline complete (dry-run)''
       (mark_ready_dry_run (session h)) h"

definition on_report :: "ServerConfig \<Rightarrow> ResourceAvailabilityReport \<Rightarrow> handler \<Rightarrow> flow \<times> handler" where
  "on_report cfg report h =
     (case bt_get (clients (shared h)) (client_id h) of
        None \<Rightarrow> (Proceed, h)
      | Some info \<Rightarrow>
          (case last_announcement info of
             None \<Rightarrow> (Proceed, h)
           | Some ann \<Rightarrow>
               let ev = evaluate_resource_policy ann report in
               and_then (and_then (and_then
                 (report_received cfg h)
                 (report_policy cfg (pol_decision ev)))
                 (report_gate cfg (build_join_gate_decision ev) (shared_caps info)))
                 (report_ready cfg)))"

definition handle_line :: "ServerConfig \<Rightarrow> (string \<Rightarrow> string + ClientMessage) \<Rightarrow> string \<Rightarrow> handler \<Rightarrow> flow \<times> handler" where
  "handle_line cfg from_str line h =
     (case decode_client_line from_str line of
        Inl err \<Rightarrow> (ReturnErr err, h)
      | Inr (Ping seq) \<Rightarrow> on_ping seq h
      | Inr (ServerPong seq) \<Rightarrow> on_server_pong seq h
      | Inr (Login _ _ _) \<Rightarrow> (Proceed, h)
      | Inr (Chat msg) \<Rightarrow> on_chat msg h
      | Inr (AvailabilityReport report) \<Rightarrow> on_report cfg report h)"

definition on_ping_tick :: "ServerConfig \<Rightarrow> handler \<Rightarrow> flow \<times> handler" where
  "on_ping_tick cfg h =
     (let h1 = record_event EvServerPingSent (sm_state (session h))
            (''server heartbeat: sent ServerPing '' @ show_u64 (srv_ping_sequence h))
            (send_to_client (ServerPing (srv_ping_sequence h)) h);
          pings = count_kind EvServerPingSent (event_log h1);
          pongs = count_kind EvServerPongReceived (event_log h1);
          h2 = (with_registry (update_server_heartbeat_counts (session_id h1) pings pongs) h1)
            \<lparr>srv_ping_sequence := saturating_add (srv_ping_sequence h) 1\<rparr>
      in if heartbeat_policy (cfg_heartbeat cfg) = HbStrict \<and>
            evaluate_server_heartbeat \<lparr>pings_sent = of_nat pings, pongs_received = of_nat pongs\<rparr> HbStrict = WouldDisconnect
         then
           let missed = show_nat (pings - pongs);
               threshold = show_u64 MISSED_SERVER_PONG_DISCONNECT_THRESHOLD;
               reason = ''server heartbeat enforcement: '' @ missed @ '' missed pong(s), threshold '' @ threshold
           in (BreakLoop, send_to_client
                (Disconnect InvalidHandshake (''server heartbeat: '' @ missed @ '' missed pong(s) exceeded threshold of '' @ threshold))
                (fail_session reason reason h2))
         else (Proceed, h2))"

section \<open>The life of a connection\<close>

text \<open>Dropping the session guard, which happens on every way out of \<^verbatim>\<open>handle_client\<close>.\<close>

definition drop_guard :: "handler \<Rightarrow> handler" where
  "drop_guard h = with_registry (remove_session (session_id h)) h"

definition leave_loop :: "handler \<Rightarrow> handler" where
  "leave_loop h =
     (let h1 = broadcast (ChatBroadcast ''server'' (peer_name h @ '' left''))
            (h\<lparr>shared := (shared h)\<lparr>clients := bt_remove (client_id h) (clients (shared h))\<rparr>\<rparr>)
      in drop_guard (with_registry (update_session_event_count (session_id h1) (log_len (event_log h1))) h1))"

text \<open>\<open>SocketBreaks n e\<close>: the peer's side of the socket goes away, and writes fail with \<open>e\<close> after \<open>n\<close> more.\<close>

datatype client_event = LineRead string | ReadEof | ReadError string | PingTick | SocketBreaks nat string

datatype conn_phase = AwaitLogin | InLoop | Closed

definition finish :: "flow \<times> handler \<Rightarrow> conn_phase \<times> handler" where
  "finish r =
     (case r of
        (Proceed, h) \<Rightarrow> (InLoop, h)
      | (BreakLoop, h) \<Rightarrow> (Closed, leave_loop h)
      | (_, h) \<Rightarrow> (Closed, drop_guard h))"

fun conn_step ::
  "ServerConfig \<Rightarrow> (string \<Rightarrow> string + ClientMessage) \<Rightarrow> ResourceAnnouncement option \<Rightarrow> client_event \<Rightarrow>
   conn_phase \<times> handler \<Rightarrow> conn_phase \<times> handler" where
  "conn_step cfg from_str ann (LineRead line) (AwaitLogin, h) = finish (handle_first_line cfg from_str ann line h)"
| "conn_step cfg from_str ann ReadEof (AwaitLogin, h) = finish (ReturnOk, h)"
| "conn_step cfg from_str ann (ReadError e) (AwaitLogin, h) = finish (ReturnErr e, h)"
| "conn_step cfg from_str ann PingTick (AwaitLogin, h) = (AwaitLogin, h)"
| "conn_step cfg from_str ann (SocketBreaks n e) (AwaitLogin, h) = (AwaitLogin, h\<lparr>write_fails := Some (n, e)\<rparr>)"
| "conn_step cfg from_str ann (LineRead line) (InLoop, h) = finish (handle_line cfg from_str line h)"
| "conn_step cfg from_str ann ReadEof (InLoop, h) = finish (BreakLoop, h)"
| "conn_step cfg from_str ann (ReadError e) (InLoop, h) = finish (ReturnErr e, h)"
| "conn_step cfg from_str ann PingTick (InLoop, h) =
     (if server_ping_interval_ms (cfg_heartbeat cfg) > 0 then finish (on_ping_tick cfg h) else (InLoop, h))"
| "conn_step cfg from_str ann (SocketBreaks n e) (InLoop, h) = (InLoop, h)"
| "conn_step cfg from_str ann ev (Closed, h) = (Closed, h)"

section \<open>The announced resource\<close>

definition announced_resource :: "(path \<Rightarrow> string) \<Rightarrow> ResourcePackIndex \<Rightarrow> ResourceAnnouncement" where
  "announced_resource path_text index =
     \<lparr>ann_resources =
        [\<lparr>res_name = mf_name (pk_manifest index), res_version = mf_version (pk_manifest index),
          res_files = map (\<lambda>f. \<lparr>relative_path = path_text (fe_relative_path f), size_bytes = fe_size_bytes f,
            sha256 = fe_sha256 f, sources = None\<rparr>) (pk_files index),
          res_protocol_version = mf_protocol_version (pk_manifest index), requirement_level = Required\<rparr>],
      ann_signature = None\<rparr>"

definition build_example_resource_announcement ::
  "(path \<Rightarrow> string) \<Rightarrow> (string \<Rightarrow> string + ResourceManifest) \<Rightarrow> (bytes \<Rightarrow> string option) \<Rightarrow> (bytes \<Rightarrow> string) \<Rightarrow> string \<Rightarrow>
   (string \<times> fs_node) list \<Rightarrow> ResourceAnnouncement option" where
  "build_example_resource_announcement path_text from_toml decode sha shown dir =
     (case build_pack_index from_toml decode sha shown dir of
        Inl _ \<Rightarrow> None
      | Inr index \<Rightarrow> Some (announced_resource path_text index))"

end
