(* ===== verification/Handler.thy ===== *)
theory Handler
  imports Server
begin

text \<open>
  What the pieces of the connection handler do. Every piece moves its own session machine by its own
  transitions, touches only its own registry entry and client row, and leaves the registry entry in
  step with the machine; the login is admitted or turned away as its version, its capabilities and the
  socket of the client decide.
\<close>

section \<open>What a handler may change\<close>

definition own_update :: "SessionId \<Rightarrow> (SessionRegistry \<Rightarrow> SessionRegistry) \<Rightarrow> bool" where
  "own_update sid f \<longleftrightarrow>
     (\<forall>r n. reg_history n r \<longrightarrow> reg_history n (f r)) \<and>
     (\<forall>r j. j \<noteq> sid \<longrightarrow> reg_get (f r) j = reg_get r j) \<and>
     (\<forall>r. reg_get (f r) sid = None \<longleftrightarrow> reg_get r sid = None) \<and>
     (\<forall>r. next_id (f r) = next_id r \<and> reg_heartbeat_policy (f r) = reg_heartbeat_policy r)"

lemma own_update_setters [intro]:
  "own_update sid (set_protocol_version sid v)" "own_update sid (set_login_capabilities sid caps)"
  "own_update sid (set_capability_negotiation sid rep)" "own_update sid (update_session_event_count sid k)"
  "own_update sid (update_session_heartbeat_counts sid p q)"
  "own_update sid (update_server_heartbeat_counts sid p q)" "own_update sid (update_session sid st k)"
  unfolding own_update_def
  by (auto intro: reg_history.intros) (auto simp: reg_setters reg.get_adjust reg_adjust_def reg_get_def bt_get_adjust)

text \<open>What no handler changes: the shutdown state, the id counter and the heartbeat policy of the registry.\<close>

definition globals :: "SharedState \<Rightarrow> ShutdownState \<times> u64 \<times> HeartbeatPolicy" where
  "globals sh = (shutdown sh, next_id (registry sh), reg_heartbeat_policy (registry sh))"

definition registered :: "handler \<Rightarrow> bool" where
  "registered h \<longleftrightarrow> reg_get (registry (shared h)) (session_id h) \<noteq> None"

text \<open>The client table: sorted, and every row with the entity id of its client.\<close>

definition rows_ok :: "(Uuid, ClientInfo) btree \<Rightarrow> bool" where
  "rows_ok cs \<longleftrightarrow> bt_invar cs \<and> (\<forall>u c. bt_get cs u = Some c \<longrightarrow> ci_entity_id c = next_entity_id u)"

lemma rows_ok_insert: "rows_ok cs \<Longrightarrow> ci_entity_id c = next_entity_id u \<Longrightarrow> rows_ok (bt_insert u c cs)"
  by (simp add: rows_ok_def bt_invar_insert bt_get_insert)

lemma rows_ok_remove: "rows_ok cs \<Longrightarrow> rows_ok (bt_remove u cs)"
  by (simp add: rows_ok_def bt_invar_remove bt_get_remove)

definition evolves :: "handler \<Rightarrow> handler \<Rightarrow> bool" where
  "evolves h h' \<longleftrightarrow>
     client_id h' = client_id h \<and> session_id h' = session_id h \<and>
     session_step\<^sup>*\<^sup>* (session h) (session h') \<and>
     (log_reachable (event_log h) \<longrightarrow> log_reachable (event_log h')) \<and>
     (\<forall>n. reg_history n (registry (shared h)) \<longrightarrow> reg_history n (registry (shared h'))) \<and>
     (\<forall>j. j \<noteq> session_id h \<longrightarrow> reg_get (registry (shared h')) j = reg_get (registry (shared h)) j) \<and>
     (reg_get (registry (shared h')) (session_id h) = None \<longleftrightarrow> reg_get (registry (shared h)) (session_id h) = None) \<and>
     (\<forall>u. u \<noteq> client_id h \<longrightarrow> bt_get (clients (shared h')) u = bt_get (clients (shared h)) u) \<and>
     (bt_get (clients (shared h)) (client_id h) \<noteq> None \<longrightarrow> bt_get (clients (shared h')) (client_id h) \<noteq> None) \<and>
     (rows_ok (clients (shared h)) \<longrightarrow> rows_ok (clients (shared h'))) \<and> globals (shared h') = globals (shared h)"

text \<open>The registry shows the state of the session machine.\<close>

definition synced :: "handler \<Rightarrow> bool" where
  "synced h \<longleftrightarrow>
     (\<exists>e. reg_get (registry (shared h)) (session_id h) = Some e \<and> re_state e = sm_state (session h))"

lemma synced_registered: "synced h \<Longrightarrow> registered h"
  by (auto simp: synced_def registered_def)

lemmas primitive_defs = record_event_def with_registry_def send_to_client_def broadcast_def

lemma primitive_sel [simp]:
  "session (record_event k s m h) = session h" "session (with_registry f h) = session h"
  "session (send_to_client x h) = session h" "session (broadcast x h) = session h" "session (publish h) = session h"
  "session_id (record_event k s m h) = session_id h" "session_id (with_registry f h) = session_id h"
  "session_id (send_to_client x h) = session_id h" "session_id (broadcast x h) = session_id h"
  "session_id (publish h) = session_id h"
  "client_id (record_event k s m h) = client_id h" "client_id (with_registry f h) = client_id h"
  "client_id (send_to_client x h) = client_id h" "client_id (broadcast x h) = client_id h"
  "client_id (publish h) = client_id h"
  "clients (shared (record_event k s m h)) = clients (shared h)"
  "clients (shared (with_registry f h)) = clients (shared h)"
  "clients (shared (send_to_client x h)) = clients (shared h)" "clients (shared (broadcast x h)) = clients (shared h)"
  "clients (shared (publish h)) = clients (shared h)"
  "write_fails (record_event k s m h) = write_fails h" "write_fails (with_registry f h) = write_fails h"
  "write_fails (send_to_client x h) = write_fails h" "write_fails (publish h) = write_fails h"
  by (simp_all add: primitive_defs publish_def)

lemma evolves_refl [simp]: "evolves h h"
  by (simp add: evolves_def)

lemma evolves_trans: "evolves a b \<Longrightarrow> evolves b c \<Longrightarrow> evolves a c"
  unfolding evolves_def
  by (elim conjE, intro conjI) (auto intro: rtranclp_trans)

lemma evolves_quiet:
  "evolves h h' \<Longrightarrow> evolves h (send_to_client x h')"
  "evolves h h' \<Longrightarrow> evolves h (broadcast x h')"
  "evolves h h' \<Longrightarrow> evolves h (h'\<lparr>srv_ping_sequence := q\<rparr>)"
  "evolves h h' \<Longrightarrow> evolves h (h'\<lparr>write_fails := w\<rparr>)"
  by (simp_all add: evolves_def primitive_defs)

lemma evolves_record: "evolves h h' \<Longrightarrow> evolves h (record_event k s m h')"
  by (auto simp: evolves_def primitive_defs intro: log_reachable.append)

lemma evolves_registry:
  "evolves h h' \<Longrightarrow> own_update (session_id h') f \<Longrightarrow> evolves h (with_registry f h')"
  by (auto simp: evolves_def primitive_defs own_update_def globals_def)

lemma evolves_publish: "evolves h h' \<Longrightarrow> evolves h (publish h')"
  unfolding publish_def by (rule evolves_registry) auto

lemma evolves_session:
  "evolves h h' \<Longrightarrow> session_step\<^sup>*\<^sup>* (session h') m \<Longrightarrow> evolves h (h'\<lparr>session := m\<rparr>)"
  by (auto simp: evolves_def intro: rtranclp_trans)

lemmas evolves_intros = evolves_quiet evolves_record evolves_registry evolves_publish evolves_session

lemma synced_quiet [simp]:
  "synced (send_to_client x h) = synced h" "synced (broadcast x h) = synced h"
  "synced (record_event k s m h) = synced h" "synced (h\<lparr>srv_ping_sequence := q\<rparr>) = synced h"
  "synced (h\<lparr>write_fails := w\<rparr>) = synced h"
  by (simp_all add: synced_def primitive_defs)

lemma synced_counts [simp]:
  "sid = session_id h \<Longrightarrow> synced (with_registry (update_session_heartbeat_counts sid p q) h) = synced h"
  "sid = session_id h \<Longrightarrow> synced (with_registry (update_server_heartbeat_counts sid p q) h) = synced h"
  "sid = session_id h \<Longrightarrow> synced (with_registry (set_capability_negotiation sid rep) h) = synced h"
  by (auto simp: synced_def primitive_defs reg_setters reg.get_adjust)

lemma synced_update:
  "registered h \<Longrightarrow> sm_state (session h) = st \<Longrightarrow> synced (with_registry (update_session (session_id h) st n) h)"
  by (auto simp: synced_def registered_def primitive_defs reg_setters reg.get_adjust)

lemma synced_publish: "evolves h0 h \<Longrightarrow> synced h0 \<Longrightarrow> synced (publish h)"
  unfolding publish_def by (rule synced_update) (auto simp: evolves_def registered_def dest: synced_registered)

lemma session_steps:
  "transition_to m s = (m', r) \<Longrightarrow> session_step\<^sup>*\<^sup>* m m'"
  "on_version_checked m v = (m', r) \<Longrightarrow> session_step\<^sup>*\<^sup>* m m'"
  "on_policy_evaluated m d = (m', r) \<Longrightarrow> session_step\<^sup>*\<^sup>* m m'"
  "session_step\<^sup>*\<^sup>* m (sm_fail m reason)"
  by (metis fst_conv session_step.transition r_into_rtranclp, metis fst_conv session_step.version r_into_rtranclp,
      metis fst_conv session_step.policy r_into_rtranclp, simp add: r_into_rtranclp session_step.fail)

lemma transition_error_same: "transition_to m s = (m', Inl e) \<Longrightarrow> m' = m"
  using transition_to_error_unchanged [of m s] by auto

lemma synced_session_same: "synced (h\<lparr>session := session h\<rparr>) = synced h"
  by simp

section \<open>Every piece of the handler\<close>

definition piece_ok :: "(handler \<Rightarrow> flow \<times> handler) \<Rightarrow> bool" where
  "piece_ok f \<longleftrightarrow> (\<forall>h. synced h \<longrightarrow> evolves h (snd (f h)) \<and> synced (snd (f h)))"

lemma piece_okI:
  "(\<And>h. synced h \<Longrightarrow> evolves h (snd (f h))) \<Longrightarrow> (\<And>h. synced h \<Longrightarrow> synced (snd (f h))) \<Longrightarrow> piece_ok f"
  by (simp add: piece_ok_def)

lemma and_then_Proceed [simp]: "and_then (Proceed, h) f = f h"
  by (simp add: and_then_def)

lemma and_then_other: "fl \<noteq> Proceed \<Longrightarrow> and_then (fl, h) f = (fl, h)"
  by (cases fl) (simp_all add: and_then_def)

text \<open>How many more messages can be written to the socket.\<close>

definition writable :: "nat \<Rightarrow> handler \<Rightarrow> bool" where
  "writable n h \<longleftrightarrow> (case write_fails h of None \<Rightarrow> True | Some (k, _) \<Rightarrow> n \<le> k)"

lemma send_direct_cases:
  obtains (sent) w where "send_direct msg h = (Proceed, send_to_client msg (h\<lparr>write_fails := w\<rparr>))" and "writable 1 h"
    and "\<And>n. writable n (h\<lparr>write_fails := w\<rparr>) \<longleftrightarrow> writable (Suc n) h" and "map_option snd w = map_option snd (write_fails h)"
  | (broken) e where "send_direct msg h = (ReturnErr e, h)" and "write_fails h = Some (0, e)" and "\<not> writable 1 h"
proof (cases "write_fails h")
  case None
  then have same: "h\<lparr>write_fails := None\<rparr> = h" by (cases h) simp
  show thesis by (rule sent [of None, unfolded same]) (simp_all add: None send_direct_def writable_def)
next
  case (Some w)
  then show thesis using sent broken by (cases w; cases "fst w") (auto simp: send_direct_def writable_def)
qed

lemma send_direct_result:
  "evolves g h \<Longrightarrow> evolves g (snd (send_direct msg h))" "synced (snd (send_direct msg h)) = synced h"
  "session (snd (send_direct msg h)) = session h" "client_id (snd (send_direct msg h)) = client_id h"
  "clients (shared (snd (send_direct msg h))) = clients (shared h)"
  "fst (send_direct msg h) = Proceed \<longleftrightarrow> writable 1 h"
  by (cases rule: send_direct_cases [of msg h]; simp add: evolves_quiet)+

lemma send_and_return_result:
  "evolves g h \<Longrightarrow> evolves g (snd (send_and_return msg h))" "synced (snd (send_and_return msg h)) = synced h"
  "clients (shared (snd (send_and_return msg h))) = clients (shared h)"
  "fst (send_and_return msg h) \<noteq> Proceed"
  "fst (send_and_return msg h) = ReturnOk \<or> (\<exists>e. fst (send_and_return msg h) = ReturnErr e \<and> map_option snd (write_fails h) = Some e)"
  by (cases rule: send_direct_cases [of msg h]; simp add: send_and_return_def and_then_def evolves_quiet)+

lemmas send_results [simp] = send_direct_result(2-) send_and_return_result(2-4)

lemma piece_ok_and_then:
  assumes "piece_ok f" and "piece_ok g"
  shows "piece_ok (\<lambda>h. and_then (f h) g)"
  unfolding piece_ok_def
proof (intro allI impI)
  fix h assume "synced h"
  with assms(1) have f: "evolves h (snd (f h))" "synced (snd (f h))"
    by (auto simp: piece_ok_def)
  show "evolves h (snd (and_then (f h) g)) \<and> synced (snd (and_then (f h) g))"
  proof (cases "fst (f h) = Proceed")
    case True
    then have "and_then (f h) g = g (snd (f h))"
      by (metis and_then_Proceed prod.collapse)
    with f assms(2) show ?thesis
      unfolding piece_ok_def by (metis evolves_trans)
  next
    case False
    then have "and_then (f h) g = f h"
      by (metis and_then_other prod.collapse)
    with f show ?thesis by simp
  qed
qed

lemma fail_session_ok:
  assumes "evolves h0 h" and "synced h0"
  shows "evolves h0 (fail_session reason msg h)" and "synced (fail_session reason msg h)"
proof -
  have "evolves h0 (record_event EvFailed Failed msg (h\<lparr>session := sm_fail (session h) reason\<rparr>))"
    using assms(1) by (intro evolves_intros) (simp_all add: session_steps)
  then show "evolves h0 (fail_session reason msg h)" and "synced (fail_session reason msg h)"
    unfolding fail_session_def using assms(2) by (auto intro: evolves_publish synced_publish)
qed

lemma enforced_transition_ok:
  assumes "synced h" and "session_step\<^sup>*\<^sup>* (session h) m" and "\<And>e. r = Inl e \<Longrightarrow> m = session h"
  shows "evolves h (snd (enforced_transition cfg label kind st msg (m, r) h))"
    and "synced (snd (enforced_transition cfg label kind st msg (m, r) h))"
proof -
  have step: "evolves h (h\<lparr>session := m\<rparr>)"
    using assms(2) by (intro evolves_session) simp_all
  have advance: "evolves h (publish (record_event kind st msg (h\<lparr>session := m\<rparr>)))"
    "synced (publish (record_event kind st msg (h\<lparr>session := m\<rparr>)))"
    using step assms(1) by (auto intro: evolves_publish evolves_record synced_publish)
  show "evolves h (snd (enforced_transition cfg label kind st msg (m, r) h))"
    using advance(1) fail_session_ok(1) [OF step assms(1)] step
    by (cases r) (auto simp: enforced_transition_def Let_def intro: evolves_quiet)
  show "synced (snd (enforced_transition cfg label kind st msg (m, r) h))"
    using advance(2) fail_session_ok(2) [OF step assms(1)] assms(1,3)
    by (cases r) (auto simp: enforced_transition_def Let_def)
qed

lemma transition_piece_ok:
  assumes "\<And>h. res h = transition_to (session h) s"
  shows "piece_ok (\<lambda>h. enforced_transition cfg label kind st msg (res h) h)"
proof (rule piece_okI)
  fix h assume "synced h"
  obtain m r where mr: "transition_to (session h) s = (m, r)" by fastforce
  have same: "m = session h" if "r = Inl e" for e
    using mr that transition_error_same by simp
  show "evolves h (snd (enforced_transition cfg label kind st msg (res h) h))"
    unfolding assms mr by (rule enforced_transition_ok [OF \<open>synced h\<close> session_steps(1) [OF mr] same])
  show "synced (snd (enforced_transition cfg label kind st msg (res h) h))"
    unfolding assms mr by (rule enforced_transition_ok [OF \<open>synced h\<close> session_steps(1) [OF mr] same])
qed

lemma report_received_ok: "piece_ok (report_received cfg)"
  unfolding report_received_def by (rule transition_piece_ok) (simp add: sm_event_defs)

lemma report_ready_ok: "piece_ok (report_ready cfg)"
  unfolding report_ready_def by (rule transition_piece_ok) (simp add: sm_event_defs)

lemma piece_ok_quiet:
  assumes "piece_ok f" and "\<And>h. synced h \<Longrightarrow> evolves h (g h) \<and> synced (g h)"
  shows "piece_ok (\<lambda>h. f (g h))"
  using assms unfolding piece_ok_def by (metis evolves_trans)

lemma report_gate_ok: "piece_ok (report_gate cfg decision caps)"
proof -
  have "piece_ok (\<lambda>h. enforced_transition cfg ''join gate'' EvJoinGateDryRunSent JoinGateDryRunSent
      ''join gate dry-run decision sent to client'' (on_join_gate_sent (session h)) h)"
    by (rule transition_piece_ok) (simp add: sm_event_defs)
  then have "piece_ok (\<lambda>h. enforced_transition cfg ''join gate'' EvJoinGateDryRunSent JoinGateDryRunSent
      ''join gate dry-run decision sent to client''
      (on_join_gate_sent (session (send_to_client x (record_event k (sm_state (session h)) t h))))
      (send_to_client x (record_event k (sm_state (session h)) t h)))" for x k t
    by (rule piece_ok_quiet) (simp add: evolves_quiet evolves_record)
  then show ?thesis
    unfolding report_gate_def Let_def by simp
qed

lemma report_policy_ok: "piece_ok (report_policy cfg decision)"
proof (rule piece_okI)
  fix h assume h: "synced h"
  obtain m r where mr: "on_policy_evaluated (session h) decision = (m, r)" by fastforce
  have step: "evolves h (h\<lparr>session := m\<rparr>)"
    using session_steps(3) [OF mr] by (intro evolves_session) simp_all
  have blocked: "evolves h (publish (record_event k s t (h\<lparr>session := m\<rparr>)))"
    "synced (publish (record_event k s t (h\<lparr>session := m\<rparr>)))" for k s t
    using step h by (auto intro: evolves_publish evolves_record synced_publish)
  have same: "m = session h" if "r = Inl e" "e \<noteq> PolicyBlockedDryRun" for e
    using mr that transition_error_same
    by (auto simp: on_policy_evaluated_def split: prod.splits sum.splits if_splits)
  have "evolves h (snd (report_policy cfg decision h)) \<and> synced (snd (report_policy cfg decision h))"
  proof (cases "r = Inl PolicyBlockedDryRun")
    case True
    with blocked show ?thesis by (simp add: report_policy_def mr)
  next
    case False
    then have "report_policy cfg decision h = enforced_transition cfg ''policy'' EvResourcePolicyEvaluated
        ResourcePolicyEvaluated (''policy decision: '' @ join_decision_debug decision) (m, r) h"
      unfolding report_policy_def mr by (auto split: sum.splits SessionStateError.splits)
    with enforced_transition_ok [OF h session_steps(3) [OF mr]] same False show ?thesis
      by metis
  qed
  then show "evolves h (snd (report_policy cfg decision h))" "synced (snd (report_policy cfg decision h))"
    by simp_all
qed

lemma on_report_ok: "piece_ok (on_report cfg report)"
proof -
  have pipeline: "piece_ok (\<lambda>h. and_then (and_then (and_then (report_received cfg h) (report_policy cfg d))
      (report_gate cfg g caps)) (report_ready cfg))" for d g caps
    by (intro piece_ok_and_then report_received_ok report_policy_ok report_gate_ok report_ready_ok)
  show ?thesis
    unfolding piece_ok_def on_report_def Let_def
    using pipeline [unfolded piece_ok_def] by (auto split: option.splits)
qed

lemma enforcement_ok:
  assumes "evolves h0 h" and "synced h0" and "sm_state (session h) = Failed"
  shows "evolves h0 (snd (handle_enforcement cfg h))" and "strict_enforcement cfg \<Longrightarrow> synced (snd (handle_enforcement cfg h))"
proof -
  let ?h2 = "\<lambda>t. with_registry (update_session (session_id h) Failed (log_len (event_log (record_event EvFailed Failed t h))))
      (record_event EvFailed Failed t h)"
  have evo: "evolves h0 (?h2 t)" for t
    using assms(1) by (intro evolves_intros) (auto simp: evolves_def)
  have "registered h"
    using assms(1,2) synced_registered by (auto simp: evolves_def registered_def)
  then have syn: "synced (?h2 t)" for t
    using synced_update [of "record_event EvFailed Failed t h" Failed] assms(3)
    by (simp add: registered_def record_event_def)
  have not_allow: "strict_enforcement cfg \<Longrightarrow>
      evaluate_enforcement Failed (failure_reason (session h)) (enforcement_mode (cfg_enforcement cfg)) \<noteq> Allow"
    by (auto simp: strict_enforcement_def evaluate_enforcement_def split: option.splits prod.splits)
  show "evolves h0 (snd (handle_enforcement cfg h))"
    using evo assms(1) by (auto simp: handle_enforcement_def Let_def intro: send_and_return_result(1) split: option.splits)
  show "strict_enforcement cfg \<Longrightarrow> synced (snd (handle_enforcement cfg h))"
    using syn not_allow assms(3) by (auto simp: handle_enforcement_def Let_def split: option.splits)
qed

lemma handshake_transition_ok:
  assumes "synced h" and "transition_to (session h) s = (m, r)"
  shows "evolves h (h\<lparr>session := m\<rparr>)" and "r = Inl e \<Longrightarrow> h\<lparr>session := m\<rparr> = h"
    and "evolves h (h\<lparr>session := sm_fail m t\<rparr>)"
proof -
  show step: "evolves h (h\<lparr>session := m\<rparr>)"
    using session_steps(1) [OF assms(2)] by (intro evolves_session) simp_all
  show "r = Inl e \<Longrightarrow> h\<lparr>session := m\<rparr> = h"
    using assms(2) transition_error_same by auto
  show "evolves h (h\<lparr>session := sm_fail m t\<rparr>)"
    using evolves_session [OF step, of "sm_fail m t"] session_steps(4) [of m t] by simp
qed

lemma login_hello_ok: "piece_ok (login_hello name caps)"
proof (rule piece_okI)
  fix h assume h: "synced h"
  obtain m r where mr: "transition_to (session h) HelloReceived = (m, r)" by fastforce
  note step = handshake_transition_ok(1) [OF h mr]
  show "evolves h (snd (login_hello name caps h))"
    using evolves_publish [OF evolves_record [OF step]] fail_session_ok(1) [OF step h]
    by (cases r) (simp_all add: login_hello_def sm_event_defs mr send_and_return_result(1))
  show "synced (snd (login_hello name caps h))"
    using synced_publish [OF evolves_record [OF step] h] fail_session_ok(2) [OF step h]
    by (cases r) (simp_all add: login_hello_def sm_event_defs mr)
qed

lemma login_version_ok: "piece_ok (login_version v caps)"
proof (rule piece_okI)
  fix h assume h: "synced h"
  obtain m r where mr: "on_version_checked (session h) v = (m, r)" by fastforce
  have step: "evolves h (h\<lparr>session := m\<rparr>)"
    using session_steps(2) [OF mr] by (intro evolves_session) simp_all
  let ?h1 = "record_event EvVersionChecked VersionChecked (''protocol version '' @ show_u32 v @ '' matched'') (h\<lparr>session := m\<rparr>)"
  have set: "evolves h (with_registry (set_login_capabilities (session_id h) caps)
      (with_registry (set_protocol_version (session_id h) v) ?h1))"
    by (intro evolves_registry evolves_record step) auto
  show "evolves h (snd (login_version v caps h))"
    using evolves_publish [OF evolves_record [OF step]] evolves_publish [OF set]
    by (cases r) (simp_all add: login_version_def mr Let_def send_and_return_result(1))
  show "synced (snd (login_version v caps h))"
    using synced_publish [OF evolves_record [OF step] h] synced_publish [OF set h]
    by (cases r) (simp_all add: login_version_def mr Let_def)
qed

lemma evolves_negotiation:
  "evolves h h' \<Longrightarrow> evolves h (with_registry (set_capability_negotiation (session_id h) rep) h')"
  by (rule evolves_registry) (auto simp: evolves_def)

lemma login_negotiate_ok: "piece_ok (login_negotiate cfg name v caps)"
proof (rule piece_okI)
  fix h assume h: "synced h"
  obtain m r where mr: "transition_to (session h) NegotiationDryRunLogged = (m, r)" by fastforce
  note step = handshake_transition_ok [OF h mr]
  have failed: "evolves h (h\<lparr>session := sm_fail (session h) t\<rparr>)" for t
    using session_steps(4) by (intro evolves_session) simp_all
  have enf: "evolves h (snd (handle_enforcement cfg (h\<lparr>session := sm_fail m t\<rparr>)))"
    "strict_enforcement cfg \<Longrightarrow> synced (snd (handle_enforcement cfg (h\<lparr>session := sm_fail m t\<rparr>)))" for t
    using enforcement_ok [OF step(3) h] by (simp_all add: sm_fail_def)
  show "evolves h (snd (login_negotiate cfg name v caps h))"
    using evolves_publish [OF evolves_negotiation [OF evolves_record [OF step(1)]]] enf(1) step(1)
      send_and_return_result(1) [OF evolves_publish [OF evolves_negotiation [OF evolves_record [OF failed]]]]
    by (cases r; cases "negotiate_protocol_dry_run (client_profile v caps) current_protocol_profile")
      (simp_all add: login_negotiate_def sm_event_defs mr Let_def)
  show "synced (snd (login_negotiate cfg name v caps h))"
    using synced_publish [OF evolves_negotiation [OF evolves_record [OF step(1)]] h] enf(2) h step(2)
      synced_publish [OF evolves_negotiation [OF evolves_record [OF failed]] h]
    by (cases r; cases "negotiate_protocol_dry_run (client_profile v caps) current_protocol_profile")
      (simp_all add: login_negotiate_def sm_event_defs mr Let_def)
qed

lemma login_welcome_ok: "piece_ok (login_welcome cfg ann name v caps)"
proof (rule piece_okI)
  fix h assume h: "synced h"
  have "evolves h (h\<lparr>shared := (shared h)\<lparr>clients := bt_insert (client_id h) info (clients (shared h))\<rparr>, peer_name := name\<rparr>)"
    if "ci_entity_id info = next_entity_id (client_id h)" for info
    using that by (simp add: evolves_def bt_get_insert rows_ok_insert globals_def)
  then show "evolves h (snd (login_welcome cfg ann name v caps h))"
    by (simp add: login_welcome_def Let_def send_direct_result(1))
  show "synced (snd (login_welcome cfg ann name v caps h))"
    using h by (simp add: login_welcome_def Let_def) (simp add: synced_def)
qed

lemma announcement_sent_ok: "piece_ok (announcement_sent cfg)"
proof (rule piece_okI)
  fix h assume h: "synced h"
  obtain m r where mr: "transition_to (session h) ResourceAnnouncementSent = (m, r)" by fastforce
  note step = handshake_transition_ok [OF h mr]
  have enf: "evolves h (snd (handle_enforcement cfg (h\<lparr>session := sm_fail m w\<rparr>)))"
    "strict_enforcement cfg \<Longrightarrow> synced (snd (handle_enforcement cfg (h\<lparr>session := sm_fail m w\<rparr>)))" for w
    using enforcement_ok [OF step(3) h] by (simp_all add: sm_fail_def)
  show "evolves h (snd (announcement_sent cfg h))"
    using evolves_publish [OF evolves_record [OF step(1)]] enf(1) step(1)
    by (cases r) (simp_all add: announcement_sent_def sm_event_defs mr)
  show "synced (snd (announcement_sent cfg h))"
    using synced_publish [OF evolves_record [OF step(1)] h] enf(2) h step(2)
    by (cases r) (simp_all add: announcement_sent_def sm_event_defs mr)
qed

lemma send_direct_ok: "piece_ok (send_direct msg)"
  by (simp add: piece_ok_def send_direct_result(1))

lemma login_announce_ok: "piece_ok (login_announce cfg)"
proof -
  have "piece_ok (\<lambda>h. and_then (send_direct msg (record_event k (sm_state (session h)) t h)) (announcement_sent cfg))" for msg k t
    by (rule piece_ok_quiet [OF piece_ok_and_then [OF send_direct_ok announcement_sent_ok]]) (simp add: evolves_record)
  then show ?thesis
    unfolding piece_ok_def login_announce_def Let_def by (auto split: option.splits)
qed

lemma login_joined_ok: "piece_ok (login_joined name)"
  by (simp add: piece_ok_def login_joined_def evolves_quiet)

lemma handle_login_ok: "piece_ok (handle_login cfg ann name v caps)"
  unfolding handle_login_def
  by (intro piece_ok_and_then login_hello_ok login_version_ok login_negotiate_ok login_welcome_ok
      login_announce_ok login_joined_ok)

lemma handle_first_line_ok: "piece_ok (handle_first_line cfg from_str ann line)"
  using handle_login_ok unfolding piece_ok_def handle_first_line_def
  by (auto simp: send_and_return_result(1) split: sum.splits ClientMessage.splits)

lemma on_ping_ok: "piece_ok (on_ping seq)"
  by (rule piece_okI) (auto simp: on_ping_def Let_def intro!: evolves_intros)

lemma on_server_pong_ok: "piece_ok (on_server_pong seq)"
  by (rule piece_okI) (auto simp: on_server_pong_def Let_def intro!: evolves_intros)

lemma on_chat_ok: "piece_ok (on_chat msg)"
  by (simp add: piece_ok_def on_chat_def Let_def evolves_quiet)

lemma handle_line_ok: "piece_ok (handle_line cfg from_str line)"
  using on_ping_ok on_server_pong_ok on_chat_ok on_report_ok unfolding piece_ok_def handle_line_def
  by (auto split: sum.splits ClientMessage.splits)

lemma on_ping_tick_ok: "piece_ok (on_ping_tick cfg)"
proof (rule piece_okI)
  fix h assume h: "synced h"
  let ?h1 = "record_event EvServerPingSent (sm_state (session h))
      (''server heartbeat: sent ServerPing '' @ show_u64 (srv_ping_sequence h)) (send_to_client (ServerPing (srv_ping_sequence h)) h)"
  let ?h2 = "(with_registry (update_server_heartbeat_counts (session_id h) (count_kind EvServerPingSent (event_log ?h1))
      (count_kind EvServerPongReceived (event_log ?h1))) ?h1)\<lparr>srv_ping_sequence := saturating_add (srv_ping_sequence h) 1\<rparr>"
  have h2: "evolves h ?h2" "synced ?h2"
    using h by (auto intro!: evolves_intros)
  show "evolves h (snd (on_ping_tick cfg h))"
    using h2(1) evolves_quiet(1) [OF fail_session_ok(1) [OF h2(1) h]]
    by (simp add: on_ping_tick_def Let_def)
  show "synced (snd (on_ping_tick cfg h))"
    using h2(2) fail_session_ok(2) [OF h2(1) h] by (simp add: on_ping_tick_def Let_def)
qed

section \<open>How the loop ends\<close>

lemma fst_and_then: "fst (and_then r f) = Proceed \<longleftrightarrow> fst r = Proceed \<and> fst (f (snd r)) = Proceed"
  by (cases r; cases "fst r = Proceed") (auto simp: and_then_other)

lemma snd_and_then: "fst r = Proceed \<Longrightarrow> and_then r f = f (snd r)"
  by (cases r) simp

lemma and_then_stop: "fst r \<noteq> Proceed \<Longrightarrow> and_then r f = r"
  by (cases r) (simp add: and_then_other)

lemma and_then_flow: "fst r \<in> F \<Longrightarrow> (\<And>h. fst (f h) \<in> F) \<Longrightarrow> fst (and_then r f) \<in> F"
  by (cases r; cases "fst r = Proceed") (auto simp: and_then_other)

lemma enforced_transition_flow: "fst (enforced_transition cfg label kind st msg res h) \<in> {Proceed, BreakLoop}"
  by (auto simp: enforced_transition_def Let_def split: prod.splits sum.splits)

lemma report_policy_flow: "fst (report_policy cfg d h) \<in> {Proceed, BreakLoop}"
proof -
  obtain m r where "on_policy_evaluated (session h) d = (m, r)" by fastforce
  then show ?thesis
    using enforced_transition_flow [of cfg "''policy''"]
    by (simp add: report_policy_def split: sum.splits SessionStateError.splits)
qed

lemma on_report_flow: "fst (on_report cfg report h) \<in> {Proceed, BreakLoop}"
proof -
  have "fst (and_then (and_then (and_then (report_received cfg h) (report_policy cfg d))
      (report_gate cfg g caps)) (report_ready cfg)) \<in> {Proceed, BreakLoop}" for d g caps
    by (intro and_then_flow)
      (simp_all only: report_policy_flow report_received_def report_gate_def report_ready_def Let_def enforced_transition_flow)
  then show ?thesis by (simp add: on_report_def Let_def split: option.splits)
qed

lemma on_ping_tick_flow: "fst (on_ping_tick cfg h) \<in> {Proceed, BreakLoop}"
  by (simp add: on_ping_tick_def Let_def)

text \<open>A line either is malformed, which ends the handler with an error, or is handled without one.\<close>

lemma handle_line_flow:
  "(case decode_client_line from_str line of
      Inl e \<Rightarrow> handle_line cfg from_str line h = (ReturnErr e, h)
    | Inr _ \<Rightarrow> fst (handle_line cfg from_str line h) \<in> {Proceed, BreakLoop})"
  using on_report_flow
  by (auto simp: handle_line_def on_ping_def on_server_pong_def on_chat_def Let_def split: sum.splits ClientMessage.splits)

section \<open>Closing\<close>

lemma drop_guard_registry [simp]:
  "reg_get (registry (shared (drop_guard h))) j = (if j = session_id h then None else reg_get (registry (shared h)) j)"
  "clients (shared (drop_guard h)) = clients (shared h)" "globals (shared (drop_guard h)) = globals (shared h)"
  by (simp_all add: drop_guard_def with_registry_def reg.get_discard globals_def) (simp_all add: remove_session_def)

lemma leave_loop_registry [simp]:
  "reg_get (registry (shared (leave_loop h))) j = (if j = session_id h then None else reg_get (registry (shared h)) j)"
  "bt_get (clients (shared (leave_loop h))) u = (if u = client_id h then None else bt_get (clients (shared h)) u)"
  "rows_ok (clients (shared h)) \<Longrightarrow> rows_ok (clients (shared (leave_loop h)))"
  "globals (shared (leave_loop h)) = globals (shared h)"
  by (simp_all add: leave_loop_def Let_def)
    (simp_all add: primitive_defs reg_setters reg.get_adjust bt_get_remove rows_ok_remove globals_def reg_adjust_def remove_session_def
      reg_get_def bt_get_adjust)

lemma closing_history:
  assumes "reg_history n (registry (shared h))"
  shows "reg_history n (registry (shared (drop_guard h)))" and "reg_history n (registry (shared (leave_loop h)))"
  using assms by (auto simp: drop_guard_def leave_loop_def Let_def primitive_defs intro: reg_history.intros)

text \<open>What one step of a connection does to the rest of the server.\<close>

definition step_effect :: "handler \<Rightarrow> conn_phase \<times> handler \<Rightarrow> bool" where
  "step_effect h r \<longleftrightarrow>
     (\<forall>n. reg_history n (registry (shared h)) \<longrightarrow> reg_history n (registry (shared (snd r)))) \<and>
     (\<forall>j. j \<noteq> session_id h \<longrightarrow> reg_get (registry (shared (snd r))) j = reg_get (registry (shared h)) j) \<and>
     (\<forall>u. u \<noteq> client_id h \<longrightarrow> bt_get (clients (shared (snd r))) u = bt_get (clients (shared h)) u) \<and>
     (rows_ok (clients (shared h)) \<longrightarrow> rows_ok (clients (shared (snd r)))) \<and>
     globals (shared (snd r)) = globals (shared h) \<and>
     (if fst r = Closed then reg_get (registry (shared (snd r))) (session_id h) = None
      else evolves h (snd r) \<and> synced (snd r))"

lemma evolves_effect: "evolves h h' \<Longrightarrow> synced h' \<Longrightarrow> ph \<noteq> Closed \<Longrightarrow> step_effect h (ph, h')"
  by (simp add: step_effect_def evolves_def)

lemma finish_effect:
  assumes "evolves h (snd r)" and "synced (snd r)"
  shows "step_effect h (finish r)"
proof -
  obtain fl h' where r: "r = (fl, h')" by fastforce
  have ids: "session_id h' = session_id h" "client_id h' = client_id h"
    using assms(1) by (simp_all add: r evolves_def)
  show ?thesis
    using assms ids closing_history [of _ h']
    by (cases fl) (simp_all add: r finish_def step_effect_def, auto simp: evolves_def)
qed

lemma conn_step_effect:
  assumes "synced h" and "ph \<noteq> Closed"
  shows "step_effect h (conn_step cfg from_str ann ev (ph, h))"
proof -
  note piece = handle_first_line_ok handle_line_ok on_ping_tick_ok
  show ?thesis
    using assms evolves_effect [of h h] evolves_effect [OF evolves_quiet(4) [of h h]] piece [unfolded piece_ok_def]
    by (cases ph; cases ev) (auto intro!: finish_effect)
qed

section \<open>Admission\<close>

lemma login_negotiation_no_panic:
  "\<exists>r. negotiate_protocol_dry_run (client_profile v caps) current_protocol_profile = Inr r"
  by (auto simp: negotiate_protocol_dry_run_def client_profile_def current_protocol_profile_def Let_def
      protocol_ranges_overlap_def range_max_def)

lemma login_hello_connected:
  assumes "sm_state (session h) = Connected"
  shows "fst (login_hello name caps h) = Proceed" and "sm_state (session (snd (login_hello name caps h))) = HelloReceived"
    and "write_fails (snd (login_hello name caps h)) = write_fails h"
    and "client_id (snd (login_hello name caps h)) = client_id h"
    and "clients (shared (snd (login_hello name caps h))) = clients (shared h)"
  using assms by (simp_all add: login_hello_def on_hello_received_def transition_to_def is_valid_transition_def)

text \<open>The ways in which a login is turned away.\<close>

definition turned_away :: "handler \<Rightarrow> flow \<Rightarrow> bool" where
  "turned_away h fl \<longleftrightarrow> fl = ReturnOk \<or> (\<exists>e. fl = ReturnErr e \<and> map_option snd (write_fails h) = Some e)"

lemma send_turned_away [simp]: "turned_away h (fst (send_and_return msg h))"
  using send_and_return_result(5) [of msg h] by (simp add: turned_away_def)

lemma turned_away_cong: "write_fails g = write_fails h \<Longrightarrow> turned_away g = turned_away h"
  by (simp add: turned_away_def fun_eq_iff)

lemma writable_cong: "write_fails g = write_fails h \<Longrightarrow> writable k g = writable k h"
  by (simp add: writable_def)

lemma turned_away_stop: "turned_away h fl \<Longrightarrow> fl \<noteq> Proceed"
  by (auto simp: turned_away_def)

lemma login_version_hello:
  assumes "sm_state (session h) = HelloReceived"
  shows "if v = PROTOCOL_VERSION
    then fst (login_version v caps h) = Proceed \<and> sm_state (session (snd (login_version v caps h))) = VersionChecked \<and>
      write_fails (snd (login_version v caps h)) = write_fails h
    else turned_away h (fst (login_version v caps h))"
    and "clients (shared (snd (login_version v caps h))) = clients (shared h)"
proof -
  show "clients (shared (snd (login_version v caps h))) = clients (shared h)"
    by (simp add: login_version_def Let_def split: prod.splits sum.splits)
  show "if v = PROTOCOL_VERSION
    then fst (login_version v caps h) = Proceed \<and> sm_state (session (snd (login_version v caps h))) = VersionChecked \<and>
      write_fails (snd (login_version v caps h)) = write_fails h
    else turned_away h (fst (login_version v caps h))"
  proof (cases "v = PROTOCOL_VERSION")
    case True
    with assms show ?thesis
      by (simp add: login_version_def on_version_checked_def transition_to_def is_valid_transition_def Let_def)
  next
    case False
    then obtain m e where "on_version_checked (session h) v = (m, Inl e)"
      by (auto simp: on_version_checked_def)
    moreover have "turned_away h (fst (send_and_return msg (publish (record_event k st t (h\<lparr>session := m\<rparr>)))))" for msg k st t
      by (subst turned_away_cong [of h "publish (record_event k st t (h\<lparr>session := m\<rparr>))"]) simp_all
    ultimately show ?thesis using False by (simp add: login_version_def)
  qed
qed

definition policy_rejects :: "ServerConfig \<Rightarrow> LoginCapabilities \<Rightarrow> bool" where
  "policy_rejects cfg caps \<longleftrightarrow>
     capability_policy (cfg_protocol cfg) = CapStrict \<and> cn_decision (login_negotiation caps) = WouldReject"

lemma login_negotiate_checked:
  assumes "sm_state (session h) = VersionChecked"
  shows "if policy_rejects cfg caps then turned_away h (fst (login_negotiate cfg name v caps h))
    else fst (login_negotiate cfg name v caps h) = Proceed \<and>
      sm_state (session (snd (login_negotiate cfg name v caps h))) = NegotiationDryRunLogged \<and>
      write_fails (snd (login_negotiate cfg name v caps h)) = write_fails h"
    and "clients (shared (snd (login_negotiate cfg name v caps h))) = clients (shared h)"
proof -
  obtain n where n: "negotiate_protocol_dry_run (client_profile v caps) current_protocol_profile = Inr n"
    using login_negotiation_no_panic by blast
  have away: "turned_away h (fst (send_and_return msg (publish (with_registry f (record_event k st t (h\<lparr>session := m\<rparr>))))))"
    for msg f k st t m
    by (subst turned_away_cong [of h "publish (with_registry f (record_event k st t (h\<lparr>session := m\<rparr>)))"]) simp_all
  show "if policy_rejects cfg caps then turned_away h (fst (login_negotiate cfg name v caps h))
    else fst (login_negotiate cfg name v caps h) = Proceed \<and>
      sm_state (session (snd (login_negotiate cfg name v caps h))) = NegotiationDryRunLogged \<and>
      write_fails (snd (login_negotiate cfg name v caps h)) = write_fails h"
  proof (cases "policy_rejects cfg caps")
    case True
    with away show ?thesis by (simp add: policy_rejects_def login_negotiate_def n Let_def)
  next
    case False
    then have "\<not> (capability_policy (cfg_protocol cfg) = CapStrict \<and> cn_decision (login_negotiation caps) = WouldReject)"
      by (simp add: policy_rejects_def)
    with assms False show ?thesis
      by (simp add: login_negotiate_def n on_negotiation_logged_def transition_to_def is_valid_transition_def Let_def)
  qed
  show "clients (shared (snd (login_negotiate cfg name v caps h))) = clients (shared h)"
    using assms by (simp add: login_negotiate_def n on_negotiation_logged_def transition_to_def is_valid_transition_def Let_def)
qed

lemma login_welcome_result:
  "fst (login_welcome cfg ann name v caps h) = (if writable 1 h then Proceed else ReturnErr (snd (the (write_fails h))))"
  "session (snd (login_welcome cfg ann name v caps h)) = session h"
  "client_id (snd (login_welcome cfg ann name v caps h)) = client_id h"
  "\<exists>info. bt_get (clients (shared (snd (login_welcome cfg ann name v caps h)))) (client_id h) = Some info \<and> last_announcement info = ann"
  "writable 1 h \<Longrightarrow> writable n (snd (login_welcome cfg ann name v caps h)) \<longleftrightarrow> writable (Suc n) h"
  "map_option snd (write_fails (snd (login_welcome cfg ann name v caps h))) = map_option snd (write_fails h)"
  by (simp_all add: login_welcome_def Let_def bt_get_insert)
    (simp_all add: send_direct_def writable_def send_to_client_def split: option.splits prod.splits nat.splits)

lemma login_announce_negotiated:
  assumes "sm_state (session h) = NegotiationDryRunLogged"
    and "bt_get (clients (shared h)) (client_id h) = Some info"
  shows "fst (login_announce cfg h) =
      (if last_announcement info = None \<or> writable 1 h then Proceed else ReturnErr (snd (the (write_fails h))))"
  using assms
  by (cases rule: send_direct_cases [of _ "record_event EvCapabilityGateChecked NegotiationDryRunLogged _ h"])
    (simp_all add: login_announce_def announcement_sent_def and_then_def send_direct_def writable_def
      on_resource_announcement_sent_def transition_to_def is_valid_transition_def Let_def
      split: option.splits prod.splits nat.splits)

text \<open>
  A login is admitted exactly with the right version, under the strict policy the required capabilities,
  and a socket that takes the welcome and, if there is one, the announcement.
\<close>

definition login_writes :: "ResourceAnnouncement option \<Rightarrow> nat" where
  "login_writes ann = (if ann = None then 1 else 2)"

lemma welcome_announce_flow:
  fixes h ann cfg name v caps
  assumes "sm_state (session h) = NegotiationDryRunLogged"
  defines "r \<equiv> and_then (and_then (login_welcome cfg ann name v caps h) (login_announce cfg)) (login_joined name)"
  shows "if writable (login_writes ann) h then fst r = Proceed else turned_away h (fst r)"
proof -
  let ?w = "login_welcome cfg ann name v caps h"
  obtain info where info: "bt_get (clients (shared (snd ?w))) (client_id (snd ?w)) = Some info" "last_announcement info = ann"
    using login_welcome_result(4) [of cfg ann name v caps h] by (auto simp: login_welcome_result(3))
  have state: "sm_state (session (snd ?w)) = NegotiationDryRunLogged"
    using assms(1) by (simp add: login_welcome_result(2))
  note announce = login_announce_negotiated [OF state info(1), of cfg, unfolded info(2)]
  have err: "\<not> writable n g \<Longrightarrow> map_option snd (write_fails g) = Some (snd (the (write_fails g)))" for n g
    by (auto simp: writable_def split: option.splits)
  have joined: "fst (login_joined name g) = Proceed" for g by (simp add: login_joined_def)
  show ?thesis
  proof (cases "writable 1 h")
    case False
    then have stop: "fst ?w = ReturnErr (snd (the (write_fails h)))" by (simp add: login_welcome_result(1))
    then have "r = ?w" unfolding r_def by (simp add: and_then_stop)
    moreover have "\<not> writable (login_writes ann) h"
      using False by (auto simp: writable_def login_writes_def split: option.splits)
    ultimately show ?thesis using stop err [OF False] by (simp add: turned_away_def)
  next
    case True
    then have r: "r = and_then (login_announce cfg (snd ?w)) (login_joined name)"
      unfolding r_def by (simp add: snd_and_then login_welcome_result(1))
    have left: "writable 1 (snd ?w) \<longleftrightarrow> writable 2 h"
      using login_welcome_result(5) [OF True, of 1 cfg ann name v caps] by (simp add: numeral_2_eq_2)
    show ?thesis
    proof (cases "ann = None \<or> writable 1 (snd ?w)")
      case going: True
      then have "fst r = Proceed" unfolding r using announce by (simp add: fst_and_then joined)
      with going True left show ?thesis by (auto simp: login_writes_def)
    next
      case False
      then have stop: "fst (login_announce cfg (snd ?w)) = ReturnErr (snd (the (write_fails (snd ?w))))"
        using announce by simp
      then have "r = login_announce cfg (snd ?w)" unfolding r by (simp add: and_then_stop)
      moreover have "map_option snd (write_fails h) = Some (snd (the (write_fails (snd ?w))))"
        using err [of 1 "snd ?w"] False login_welcome_result(6) [of cfg ann name v caps h] by simp
      ultimately show ?thesis using stop False left by (auto simp: login_writes_def turned_away_def)
    qed
  qed
qed

lemma handle_login_cases [consumes 1, case_names rejected accepted]:
  fixes name cfg ann v caps h
  assumes "sm_state (session h) = Connected"
  defines "r \<equiv> handle_login cfg ann name v caps h"
  obtains (rejected) "v \<noteq> PROTOCOL_VERSION \<or> policy_rejects cfg caps" and "turned_away h (fst r)"
      and "clients (shared (snd r)) = clients (shared h)"
  | (accepted) g where "v = PROTOCOL_VERSION" and "\<not> policy_rejects cfg caps"
      and "r = and_then (and_then (login_welcome cfg ann name v caps g) (login_announce cfg)) (login_joined name)"
      and "sm_state (session g) = NegotiationDryRunLogged" and "write_fails g = write_fails h"
      and "synced h \<Longrightarrow> evolves h g \<and> synced g"
proof -
  let ?h1 = "snd (login_hello name caps h)"
  let ?h2 = "snd (login_version v caps ?h1)"
  let ?h3 = "snd (login_negotiate cfg name v caps ?h2)"
  note hello = login_hello_connected [OF assms(1), of name caps]
  note version = login_version_hello [OF hello(2), of v caps]
  have start: "and_then (login_hello name caps h) (login_version v caps) = login_version v caps ?h1"
    using hello(1) by (simp add: snd_and_then)
  show thesis
  proof (cases "v = PROTOCOL_VERSION")
    case False
    with version(1) turned_away_cong [OF hello(3)] have away: "turned_away h (fst (login_version v caps ?h1))" by simp
    then have "r = login_version v caps ?h1"
      unfolding r_def handle_login_def start by (simp add: and_then_stop turned_away_stop)
    then show thesis using rejected away False version(2) hello(5) by simp
  next
    case True
    with version(1) have v: "fst (login_version v caps ?h1) = Proceed" "sm_state (session ?h2) = VersionChecked"
      "write_fails ?h2 = write_fails h" using hello(3) by simp_all
    note negotiate = login_negotiate_checked [OF v(2), where cfg = cfg and caps = caps and name = name and v = v]
    have negotiated: "and_then (login_version v caps ?h1) (login_negotiate cfg name v caps) =
        login_negotiate cfg name v caps ?h2"
      using v(1) by (simp add: snd_and_then)
    show thesis
    proof (cases "policy_rejects cfg caps")
      case rejects: True
      with negotiate(1) turned_away_cong [OF v(3)] have away: "turned_away h (fst (login_negotiate cfg name v caps ?h2))" by simp
      then have "r = login_negotiate cfg name v caps ?h2"
        unfolding r_def handle_login_def start negotiated by (simp add: and_then_stop turned_away_stop)
      then show thesis using rejected away rejects negotiate(2) version(2) hello(5) by simp
    next
      case False
      with negotiate(1) v(3) have n: "fst (login_negotiate cfg name v caps ?h2) = Proceed"
        "sm_state (session ?h3) = NegotiationDryRunLogged" "write_fails ?h3 = write_fails h" by simp_all
      have login: "r = and_then (and_then (login_welcome cfg ann name v caps ?h3) (login_announce cfg)) (login_joined name)"
        unfolding r_def handle_login_def start negotiated using n(1) by (simp add: snd_and_then)
      have "piece_ok (\<lambda>h. and_then (and_then (login_hello name caps h) (login_version v caps)) (login_negotiate cfg name v caps))"
        by (intro piece_ok_and_then login_hello_ok login_version_ok login_negotiate_ok)
      note ok = this [unfolded piece_ok_def, rule_format, of h, unfolded start negotiated]
      show thesis by (rule accepted [OF True False login n(2,3) ok])
    qed
  qed
qed

lemma handle_login_flow:
  assumes "sm_state (session h) = Connected"
  shows "if v = PROTOCOL_VERSION \<and> \<not> policy_rejects cfg caps \<and> writable (login_writes ann) h
    then fst (handle_login cfg ann name v caps h) = Proceed
    else turned_away h (fst (handle_login cfg ann name v caps h))"
  using assms
proof (cases rule: handle_login_cases [where v = v and cfg = cfg and caps = caps and ann = ann and name = name])
  case (accepted g)
  have "if writable (login_writes ann) h then fst (handle_login cfg ann name v caps h) = Proceed
      else turned_away h (fst (handle_login cfg ann name v caps h))"
    using welcome_announce_flow [OF accepted(4), of ann cfg name v caps]
    unfolding accepted(3) turned_away_cong [OF accepted(5)] writable_cong [OF accepted(5)] .
  with accepted(1,2) show ?thesis by (simp only: simp_thms)
qed auto

text \<open>The row of the client is made before the welcome is written, and stays if that fails.\<close>

lemma handle_login_row:
  assumes "sm_state (session h) = Connected" and "synced h" and "bt_get (clients (shared h)) (client_id h) = None"
  shows "bt_get (clients (shared (snd (handle_login cfg ann name v caps h)))) (client_id h) \<noteq> None \<longleftrightarrow>
    v = PROTOCOL_VERSION \<and> \<not> policy_rejects cfg caps"
  using assms(1)
proof (cases rule: handle_login_cases [where v = v and cfg = cfg and caps = caps and ann = ann and name = name])
  case rejected
  with assms(3) show ?thesis by auto
next
  case (accepted g)
  let ?w = "login_welcome cfg ann name v caps"
  note g = accepted(6) [OF assms(2)]
  have "piece_ok (\<lambda>h. and_then (login_announce cfg h) (login_joined name))"
    by (intro piece_ok_and_then login_announce_ok login_joined_ok)
  then have kept: "evolves (snd (?w g)) (snd (and_then (login_announce cfg (snd (?w g))) (login_joined name)))"
    using login_welcome_ok [of cfg ann name v caps] g by (simp add: piece_ok_def)
  have row: "bt_get (clients (shared (snd (?w g)))) (client_id (snd (?w g))) \<noteq> None"
    using login_welcome_result(4) [of cfg ann name v caps g] by (auto simp: login_welcome_result(3))
  have id: "client_id (snd (?w g)) = client_id h"
    using g by (simp add: login_welcome_result(3) evolves_def)
  have "handle_login cfg ann name v caps h = and_then (?w g) (\<lambda>h. and_then (login_announce cfg h) (login_joined name))"
    unfolding accepted(3) by (cases "fst (?w g) = Proceed") (simp_all add: snd_and_then and_then_stop)
  then have "bt_get (clients (shared (snd (handle_login cfg ann name v caps h)))) (client_id h) \<noteq> None"
    using row kept id by (cases "fst (?w g) = Proceed") (simp_all add: snd_and_then and_then_stop evolves_def)
  with accepted(1,2) show ?thesis by simp
qed

text \<open>A first line that is a login the server accepts.\<close>

definition accepted_login :: "ServerConfig \<Rightarrow> (string \<Rightarrow> string + ClientMessage) \<Rightarrow> string \<Rightarrow> bool" where
  "accepted_login cfg from_str line \<longleftrightarrow>
     (case decode_client_line from_str line of
        Inr (Login name v caps) \<Rightarrow> v = PROTOCOL_VERSION \<and> \<not> policy_rejects cfg caps
      | _ \<Rightarrow> False)"

lemma handle_first_line_flow:
  assumes "sm_state (session h) = Connected"
  shows "if accepted_login cfg from_str line \<and> writable (login_writes ann) h
    then fst (handle_first_line cfg from_str ann line h) = Proceed
    else turned_away h (fst (handle_first_line cfg from_str ann line h))"
proof (cases "\<exists>name v caps. decode_client_line from_str line = Inr (Login name v caps)")
  case True
  then obtain name v caps where login: "decode_client_line from_str line = Inr (Login name v caps)" by blast
  then have "accepted_login cfg from_str line \<longleftrightarrow> v = PROTOCOL_VERSION \<and> \<not> policy_rejects cfg caps"
    and "handle_first_line cfg from_str ann line h = handle_login cfg ann name v caps h"
    by (simp_all add: accepted_login_def handle_first_line_def)
  with handle_login_flow [OF assms, of v cfg caps ann name] show ?thesis by (simp only: conj_assoc)
next
  case False
  then show ?thesis
    by (auto simp: handle_first_line_def accepted_login_def split: sum.splits ClientMessage.splits)
qed

lemma handle_first_line_row:
  assumes "sm_state (session h) = Connected" and "synced h" and "bt_get (clients (shared h)) (client_id h) = None"
  shows "bt_get (clients (shared (snd (handle_first_line cfg from_str ann line h)))) (client_id h) \<noteq> None \<longleftrightarrow>
    accepted_login cfg from_str line"
  using handle_login_row [OF assms] assms(3)
  by (simp add: handle_first_line_def accepted_login_def split: sum.splits ClientMessage.splits)

lemma admitted_has_row:
  assumes "synced h" and "fst (handle_first_line cfg from_str ann line h) = Proceed"
  shows "bt_get (clients (shared (snd (handle_first_line cfg from_str ann line h)))) (client_id h) \<noteq> None"
proof -
  obtain name v caps where login: "handle_first_line cfg from_str ann line h = handle_login cfg ann name v caps h"
    using assms(2) by (auto simp: handle_first_line_def split: sum.splits ClientMessage.splits)
  let ?neg = "\<lambda>h. and_then (and_then (login_hello name caps h) (login_version v caps)) (login_negotiate cfg name v caps)"
  let ?h3 = "snd (?neg h)"
  let ?h4 = "snd (login_welcome cfg ann name v caps ?h3)"
  have ok: "piece_ok ?neg"
    by (intro piece_ok_and_then login_hello_ok login_version_ok login_negotiate_ok)
  have "fst (?neg h) = Proceed" and result: "handle_login cfg ann name v caps h = and_then (login_announce cfg ?h4) (login_joined name)"
    using assms(2) unfolding login handle_login_def by (auto simp: fst_and_then snd_and_then)
  have h3: "evolves h ?h3" "synced ?h3"
    using ok assms(1) by (auto simp: piece_ok_def)
  then have h4: "synced ?h4" "client_id ?h4 = client_id h"
    using login_welcome_ok login_welcome_result(3) by (auto simp: piece_ok_def evolves_def)
  have "bt_get (clients (shared ?h4)) (client_id h) \<noteq> None"
    using login_welcome_result(4) [of cfg ann name v caps ?h3] h3(1) by (auto simp: evolves_def)
  moreover have "piece_ok (\<lambda>h. and_then (login_announce cfg h) (login_joined name))"
    by (intro piece_ok_and_then login_announce_ok login_joined_ok)
  then have "evolves ?h4 (snd (and_then (login_announce cfg ?h4) (login_joined name)))"
    using h4(1) by (auto simp: piece_ok_def)
  ultimately show ?thesis
    unfolding login result using h4(2) by (simp add: evolves_def)
qed

lemma conn_step_row:
  assumes "synced h" and "ph \<noteq> Closed" and "ph = InLoop \<Longrightarrow> bt_get (clients (shared h)) (client_id h) \<noteq> None"
    and "conn_step cfg from_str ann ev (ph, h) = (InLoop, h')"
  shows "bt_get (clients (shared h')) (client_id h) \<noteq> None"
proof (cases ph)
  case AwaitLogin
  then obtain line where ev: "ev = LineRead line"
    using assms(4) by (cases ev) (simp_all add: finish_def)
  obtain fl h'' where r: "handle_first_line cfg from_str ann line h = (fl, h'')" by fastforce
  have "fl = Proceed \<and> h'' = h'"
    using assms(4) AwaitLogin by (cases fl) (simp_all add: ev r finish_def)
  with admitted_has_row [OF assms(1), of cfg from_str ann line] r show ?thesis by simp
next
  case InLoop
  with conn_step_effect [OF assms(1,2), of cfg from_str ann ev] assms(3,4) show ?thesis
    by (simp add: step_effect_def evolves_def)
qed (use assms in simp)

end
