(* ===== verification/Connections.thy ===== *)
theory Connections
  imports Handler
begin

text \<open>
  Connections of the server side by side: a step relation on the server, whose invariant ties the
  registry to the live connections, and the properties of a single connection, from admission to
  cleaning up.
\<close>

section \<open>The server\<close>

text \<open>
  The server's shared state and its live connections. The shared part stored inside a handler is
  refreshed whenever the handler runs.
\<close>

record server =
  sv_shared :: SharedState
  sv_conns :: "Uuid \<rightharpoonup> conn_phase \<times> handler"

definition server_start :: "ServerConfig \<Rightarrow> server" where
  "server_start cfg =
     \<lparr>sv_shared = default_shared\<lparr>registry := set_heartbeat_policy (heartbeat_policy (cfg_heartbeat cfg))
        (registry default_shared)\<rparr>, sv_conns = Map.empty\<rparr>"

definition accept_connection :: "Uuid \<Rightarrow> server \<Rightarrow> server" where
  "accept_connection u s =
     (let h = handle_connect u (sv_shared s)
      in \<lparr>sv_shared = shared h, sv_conns = (sv_conns s)(u \<mapsto> (AwaitLogin, h))\<rparr>)"

definition deliver ::
  "ServerConfig \<Rightarrow> (string \<Rightarrow> string + ClientMessage) \<Rightarrow> ResourceAnnouncement option \<Rightarrow> client_event \<Rightarrow> Uuid \<Rightarrow> server \<Rightarrow> server" where
  "deliver cfg from_str ann ev u s =
     (case sv_conns s u of
        None \<Rightarrow> s
      | Some (ph, h) \<Rightarrow>
          (case conn_step cfg from_str ann ev (ph, h\<lparr>shared := sv_shared s\<rparr>) of
             (ph', h') \<Rightarrow>
               \<lparr>sv_shared = shared h',
                sv_conns = (if ph' = Closed then (sv_conns s)(u := None) else (sv_conns s)(u \<mapsto> (ph', h')))\<rparr>))"

text \<open>\<open>server_reachable cfg from_str n s\<close>: after accepting \<open>n\<close> connections, in some interleaving of their events.\<close>

inductive server_reachable ::
  "ServerConfig \<Rightarrow> (string \<Rightarrow> string + ClientMessage) \<Rightarrow> nat \<Rightarrow> server \<Rightarrow> bool" for cfg from_str where
  start: "server_reachable cfg from_str 0 (server_start cfg)"
| accept: "server_reachable cfg from_str n s \<Longrightarrow> sv_conns s u = None \<Longrightarrow>
    server_reachable cfg from_str (Suc n) (accept_connection u s)"
| event: "server_reachable cfg from_str n s \<Longrightarrow> server_reachable cfg from_str n (deliver cfg from_str ann ev u s)"

definition conn_ok :: "SharedState \<Rightarrow> Uuid \<Rightarrow> conn_phase \<times> handler \<Rightarrow> bool" where
  "conn_ok sh u c \<longleftrightarrow>
     fst c \<noteq> Closed \<and> client_id (snd c) = u \<and> session_reachable (session (snd c)) \<and>
     log_reachable (event_log (snd c)) \<and>
     map_option re_state (reg_get (registry sh) (session_id (snd c))) = Some (sm_state (session (snd c))) \<and>
     (fst c = InLoop \<longrightarrow> bt_get (clients sh) u \<noteq> None)"

definition server_invar :: "nat \<Rightarrow> server \<Rightarrow> bool" where
  "server_invar n s \<longleftrightarrow>
     reg_history n (registry (sv_shared s)) \<and> rows_ok (clients (sv_shared s)) \<and>
     (\<forall>u c. sv_conns s u = Some c \<longrightarrow> conn_ok (sv_shared s) u c) \<and>
     (\<forall>u v c d. sv_conns s u = Some c \<longrightarrow> sv_conns s v = Some d \<longrightarrow>
        session_id (snd c) = session_id (snd d) \<longrightarrow> u = v) \<and>
     (\<forall>sid. reg_get (registry (sv_shared s)) sid \<noteq> None \<longrightarrow>
        (\<exists>u c. sv_conns s u = Some c \<and> session_id (snd c) = sid))"

lemma server_invarD:
  assumes "server_invar n s"
  shows "reg_history n (registry (sv_shared s))"
    and "sv_conns s u = Some c \<Longrightarrow> conn_ok (sv_shared s) u c"
    and "sv_conns s u = Some c \<Longrightarrow> sv_conns s v = Some d \<Longrightarrow> session_id (snd c) = session_id (snd d) \<Longrightarrow> u = v"
    and "reg_get (registry (sv_shared s)) sid \<noteq> None \<Longrightarrow> \<exists>u c. sv_conns s u = Some c \<and> session_id (snd c) = sid"
    and "rows_ok (clients (sv_shared s))"
  using assms unfolding server_invar_def by blast+

lemma session_reachable_steps: "session_step\<^sup>*\<^sup>* m m' \<Longrightarrow> session_reachable m \<Longrightarrow> session_reachable m'"
  by (induction rule: rtranclp_induct) (auto intro: session_reachable.step)

lemma synced_resume:
  "synced (h\<lparr>shared := sh\<rparr>) \<longleftrightarrow> map_option re_state (reg_get (registry sh) (session_id h)) = Some (sm_state (session h))"
  by (auto simp: synced_def)

lemma server_invar_start: "server_invar 0 (server_start cfg)"
proof -
  have "reg_history 0 (set_heartbeat_policy p reg_new)" for p
    by (intro reg_history.intros)
  then show ?thesis
    by (simp add: server_invar_def server_start_def default_shared_def) (simp add: reg_get_def reg_new_def rows_ok_def bt.invar_empty)
qed

lemma handle_connect_simps:
  "shared (handle_connect u sh) = sh\<lparr>registry := snd (create_session (registry sh))\<rparr>"
  "client_id (handle_connect u sh) = u" "session_id (handle_connect u sh) = next_id (registry sh)"
  "session (handle_connect u sh) = sm_new"
  "event_log (handle_connect u sh) = log_record EvConnected Connected ''client connected'' log_new"
  "write_fails (handle_connect u sh) = None"
  by (simp_all add: handle_connect_def record_event_def create_session_def Let_def)

lemma fresh_session_id:
  assumes "reg_history n r" and "Suc n < 2 ^ 64"
  shows "reg_get r (next_id r) = None"
proof -
  have "unat (next_id r) = Suc n"
    using reg_history_next_id [OF assms(1)] assms(2) by (simp add: unat_of_nat del: of_nat_Suc)
  with reg_history_ids [OF assms(1), of "next_id r"] assms(2) show ?thesis by fastforce
qed

lemma server_invar_accept:
  assumes inv: "server_invar n s" and new: "sv_conns s u = None" and bound: "Suc n < 2 ^ 64"
  shows "server_invar (Suc n) (accept_connection u s)"
proof -
  let ?h = "handle_connect u (sv_shared s)" and ?r = "registry (sv_shared s)"
  note hist = server_invarD(1) [OF inv]
  note fresh = fresh_session_id [OF hist bound]
  have other: "session_id (snd c) \<noteq> next_id ?r" if "sv_conns s v = Some c" for v c
    using server_invarD(2) [OF inv that] fresh by (auto simp: conn_ok_def)
  have conns: "sv_conns (accept_connection u s) = (sv_conns s)(u \<mapsto> (AwaitLogin, ?h))"
    "sv_shared (accept_connection u s) = (sv_shared s)\<lparr>registry := snd (create_session ?r)\<rparr>"
    by (simp_all add: accept_connection_def handle_connect_simps)
  have "conn_ok (sv_shared (accept_connection u s)) v c" if "sv_conns (accept_connection u s) v = Some c" for v c
  proof (cases "v = u")
    case True
    with that show ?thesis
      by (auto simp: conns conn_ok_def handle_connect_simps reg_get_create fresh_entry_def sm_new_def
          intro!: log_reachable.intros session_reachable.new [unfolded sm_new_def])
  next
    case False
    with that have old: "sv_conns s v = Some c" by (simp add: conns)
    with server_invarD(2) [OF inv old] show ?thesis using other by (auto simp: conns conn_ok_def reg_get_create)
  qed
  moreover have "v = w" if "sv_conns (accept_connection u s) v = Some c" "sv_conns (accept_connection u s) w = Some d"
    "session_id (snd c) = session_id (snd d)" for v w c d
  proof -
    have "v = w" if "sv_conns s v = Some c" "sv_conns s w = Some d"
      using server_invarD(3) [OF inv that] \<open>session_id (snd c) = session_id (snd d)\<close> by blast
    with that other [of v c] other [of w d] show ?thesis
      by (auto simp: conns handle_connect_simps split: if_splits)
  qed
  moreover have "\<exists>v c. sv_conns (accept_connection u s) v = Some c \<and> session_id (snd c) = sid"
    if "reg_get (registry (sv_shared (accept_connection u s))) sid \<noteq> None" for sid
  proof (cases "sid = next_id ?r")
    case True
    then show ?thesis by (auto simp: conns handle_connect_simps)
  next
    case False
    with that have "reg_get ?r sid \<noteq> None" by (simp add: conns reg_get_create)
    then obtain v c where "sv_conns s v = Some c" "session_id (snd c) = sid"
      using server_invarD(4) [OF inv] by blast
    moreover from this new have "v \<noteq> u" by auto
    ultimately show ?thesis by (intro exI [of _ v] exI [of _ c]) (simp add: conns)
  qed
  moreover have "reg_history (Suc n) (registry (sv_shared (accept_connection u s)))"
    "rows_ok (clients (sv_shared (accept_connection u s)))"
    using hist server_invarD(5) [OF inv] by (simp_all add: conns reg_history.create)
  ultimately show ?thesis unfolding server_invar_def by blast
qed

lemma conn_ok_resume:
  assumes "conn_ok sh u (ph, h)"
  shows "synced (h\<lparr>shared := sh\<rparr>)" and "ph \<noteq> Closed" and "client_id h = u"
    and "session_reachable (session h)" and "log_reachable (event_log h)"
    and "ph = InLoop \<Longrightarrow> bt_get (clients sh) u \<noteq> None"
  using assms by (simp_all add: conn_ok_def synced_resume)

lemma conn_ok_after_step:
  assumes "conn_ok sh u (ph, h)" and "conn_step cfg from_str ann ev (ph, h\<lparr>shared := sh\<rparr>) = (ph', h')" and "ph' \<noteq> Closed"
  shows "conn_ok (shared h') u (ph', h')" and "session_id h' = session_id h"
proof -
  let ?g = "h\<lparr>shared := sh\<rparr>"
  note old = conn_ok_resume [OF assms(1)]
  have "step_effect ?g (ph', h')"
    using conn_step_effect [OF old(1,2), of cfg from_str ann ev] unfolding assms(2) .
  then have evo: "evolves ?g h'" "synced h'"
    using assms(3) by (simp_all add: step_effect_def)
  have "bt_get (clients (shared h')) u \<noteq> None" if "ph' = InLoop"
    using conn_step_row [OF old(1,2) _ assms(2) [unfolded that]] old(3,6) by simp
  then show "conn_ok (shared h') u (ph', h')"
    using evo old(3-5) assms(3) session_reachable_steps
    by (auto simp: conn_ok_def evolves_def synced_def)
  show "session_id h' = session_id h"
    using evo(1) by (simp add: evolves_def)
qed

lemma server_invar_deliver:
  assumes inv: "server_invar n s"
  shows "server_invar n (deliver cfg from_str ann ev u s)"
proof (cases "sv_conns s u")
  case None
  with inv show ?thesis by (simp add: deliver_def)
next
  case (Some c)
  obtain ph h where c: "c = (ph, h)" by fastforce
  let ?g = "h\<lparr>shared := sv_shared s\<rparr>"
  obtain ph' h' where step: "conn_step cfg from_str ann ev (ph, ?g) = (ph', h')" by fastforce
  let ?t = "deliver cfg from_str ann ev u s"
  note ok = server_invarD(2) [OF inv Some, unfolded c]
  note old = conn_ok_resume [OF ok]
  have eff: "step_effect ?g (ph', h')"
    using conn_step_effect [OF old(1,2), of cfg from_str ann ev] unfolding step .
  have conns: "sv_conns ?t = (if ph' = Closed then (sv_conns s)(u := None) else (sv_conns s)(u \<mapsto> (ph', h')))"
    "sv_shared ?t = shared h'"
    by (simp_all add: deliver_def Some c step)
  have sid: "session_id (snd d) \<noteq> session_id h" if "sv_conns s v = Some d" "v \<noteq> u" for v d
    using server_invarD(3) [OF inv that(1) Some] that(2) c by auto
  have others: "conn_ok (shared h') v d" if "sv_conns s v = Some d" "v \<noteq> u" for v d
    using server_invarD(2) [OF inv that(1)] eff sid [OF that] that(2) old(3) by (simp add: conn_ok_def step_effect_def)
  note self = conn_ok_after_step [OF ok step]
  have "conn_ok (sv_shared ?t) v d" if "sv_conns ?t v = Some d" for v d
    using that others self(1) by (auto simp: conns split: if_splits)
  moreover have "v = w" if "sv_conns ?t v = Some d" "sv_conns ?t w = Some e" "session_id (snd d) = session_id (snd e)" for v w d e
  proof -
    have "session_id h' = session_id h" if "ph' \<noteq> Closed" using self(2) that by blast
    with that sid [of v d] sid [of w e] server_invarD(3) [OF inv, of v d w e] show ?thesis
      by (auto simp: conns split: if_splits)
  qed
  moreover have "\<exists>v d. sv_conns ?t v = Some d \<and> session_id (snd d) = j" if "reg_get (registry (sv_shared ?t)) j \<noteq> None" for j
  proof (cases "j = session_id h")
    case True
    with that eff have "ph' \<noteq> Closed" by (auto simp: conns step_effect_def)
    with True self(2) show ?thesis by (intro exI [of _ u] exI [of _ "(ph', h')"]) (simp add: conns)
  next
    case False
    with that eff have "reg_get (registry (sv_shared s)) j \<noteq> None" by (simp add: conns step_effect_def)
    then obtain v d where v: "sv_conns s v = Some d" "session_id (snd d) = j"
      using server_invarD(4) [OF inv] by blast
    with False Some c have "v \<noteq> u" by auto
    with v show ?thesis by (intro exI [of _ v] exI [of _ d]) (simp add: conns)
  qed
  moreover have "reg_history n (registry (sv_shared ?t))" "rows_ok (clients (sv_shared ?t))"
    using eff server_invarD(1,5) [OF inv] by (simp_all add: conns step_effect_def)
  ultimately show ?thesis unfolding server_invar_def by blast
qed

text \<open>An event of one connection touches neither the handler nor the rows of another.\<close>

lemma deliver_isolated:
  assumes "server_invar n s" and "sv_conns s v = Some d" and "v \<noteq> u"
  shows "sv_conns (deliver cfg from_str ann ev u s) v = Some d"
    and "bt_get (clients (sv_shared (deliver cfg from_str ann ev u s))) v = bt_get (clients (sv_shared s)) v"
    and "reg_get (registry (sv_shared (deliver cfg from_str ann ev u s))) (session_id (snd d)) =
      reg_get (registry (sv_shared s)) (session_id (snd d))"
proof -
  let ?t = "deliver cfg from_str ann ev u s"
  have "sv_conns ?t v = Some d \<and> bt_get (clients (sv_shared ?t)) v = bt_get (clients (sv_shared s)) v \<and>
      reg_get (registry (sv_shared ?t)) (session_id (snd d)) = reg_get (registry (sv_shared s)) (session_id (snd d))"
  proof (cases "sv_conns s u")
    case (Some c)
    obtain ph h where c: "c = (ph, h)" by fastforce
    obtain ph' h' where step: "conn_step cfg from_str ann ev (ph, h\<lparr>shared := sv_shared s\<rparr>) = (ph', h')" by fastforce
    note old = conn_ok_resume [OF server_invarD(2) [OF assms(1) Some, unfolded c]]
    have "step_effect (h\<lparr>shared := sv_shared s\<rparr>) (ph', h')"
      using conn_step_effect [OF old(1,2), of cfg from_str ann ev] unfolding step .
    moreover have "session_id (snd d) \<noteq> session_id h"
      using server_invarD(3) [OF assms(1,2) Some] assms(3) c by auto
    ultimately show ?thesis
      using assms(2,3) old(3) by (simp add: deliver_def Some c step step_effect_def)
  qed (simp add: deliver_def assms(2))
  then show "sv_conns ?t v = Some d" "bt_get (clients (sv_shared ?t)) v = bt_get (clients (sv_shared s)) v"
    "reg_get (registry (sv_shared ?t)) (session_id (snd d)) = reg_get (registry (sv_shared s)) (session_id (snd d))"
    by simp_all
qed

lemma server_reachable_invar: "server_reachable cfg from_str n s \<Longrightarrow> n < 2 ^ 64 \<Longrightarrow> server_invar n s"
  by (induction rule: server_reachable.induct)
    (auto intro: server_invar_start server_invar_accept server_invar_deliver)

section \<open>Properties\<close>

text \<open>C5: The registry shows exactly the live connections. Whatever connections are accepted and in whatever
  order their messages, read errors and heartbeats arrive, a session is registered with a state if
  and only if exactly one live connection has that session and its machine is in that state; and that
  machine has reached the state through the handshake.\<close>

theorem registry_tracks_connections:
  assumes "server_reachable cfg from_str n s" and "n < 2 ^ 64"
  shows "map_option re_state (reg_get (registry (sv_shared s)) sid) = Some st \<longleftrightarrow>
    (\<exists>!u. \<exists>ph h. sv_conns s u = Some (ph, h) \<and> session_id h = sid \<and> sm_state (session h) = st \<and>
       session_reachable (session h))"
proof -
  note inv = server_reachable_invar [OF assms]
  have live: "conn_ok (sv_shared s) u (ph, h)" if "sv_conns s u = Some (ph, h)" for u ph h
    using server_invarD(2) [OF inv that] .
  show ?thesis
  proof
    assume reg: "map_option re_state (reg_get (registry (sv_shared s)) sid) = Some st"
    then obtain u ph h where uh: "sv_conns s u = Some (ph, h)" "session_id h = sid"
      using server_invarD(4) [OF inv, of sid] by force
    moreover have "sm_state (session h) = st" "session_reachable (session h)"
      using reg uh(2) live [OF uh(1)] by (auto simp: conn_ok_def)
    moreover have "v = u" if "sv_conns s v = Some (ph', h')" "session_id h' = sid" for v ph' h'
      using server_invarD(3) [OF inv that(1) uh(1)] that(2) uh(2) by simp
    ultimately show "\<exists>!u. \<exists>ph h. sv_conns s u = Some (ph, h) \<and> session_id h = sid \<and>
        sm_state (session h) = st \<and> session_reachable (session h)"
      by blast
  next
    assume "\<exists>!u. \<exists>ph h. sv_conns s u = Some (ph, h) \<and> session_id h = sid \<and> sm_state (session h) = st \<and>
        session_reachable (session h)"
    then show "map_option re_state (reg_get (registry (sv_shared s)) sid) = Some st"
      using live by (auto simp: conn_ok_def)
  qed
qed

theorem registry_tracks_connections_witness:
  "map_option re_state (reg_get (registry (sv_shared (accept_connection [1] (server_start default_config)))) 1) = Some Connected"
proof -
  let ?s = "accept_connection [1] (server_start default_config)"
  have "server_reachable default_config Inl (Suc 0) ?s"
    by (intro server_reachable.intros) (simp add: server_start_def)
  from registry_tracks_connections [OF this, of 1 Connected] show ?thesis
    by (simp add: accept_connection_def handle_connect_simps server_start_def default_shared_def reg_new_def
        set_heartbeat_policy_def sm_new_def session_reachable.new [unfolded sm_new_def])
qed

text \<open>C12: Who is admitted. On a fresh connection the first line lets the client in exactly when it is a login
  with the server's protocol version that the strict capability policy, if configured, does not
  reject, and the welcome and the announcement, if there is one, can be written to the socket. Every
  other first line ends the connection, with an error only if the socket had one; none makes the
  handler panic.\<close>

theorem login_admitted_iff:
  assumes "sm_state (session h) = Connected"
  shows "if accepted_login cfg from_str line \<and> writable (login_writes ann) h
    then fst (handle_first_line cfg from_str ann line h) = Proceed
    else turned_away h (fst (handle_first_line cfg from_str ann line h))"
  using assms by (rule handle_first_line_flow)

theorem login_admitted_iff_witness:
  "fst (handle_first_line default_config (\<lambda>_. Inr (Login ''cat'' 2 current_login_capabilities)) None ''x''
     (handle_connect [] default_shared)) = Proceed \<and>
   turned_away ((handle_connect [] default_shared)\<lparr>write_fails := Some (0, ''reset'')\<rparr>)
     (fst (handle_first_line default_config (\<lambda>_. Inr (Login ''cat'' 2 current_login_capabilities)) None ''x''
       ((handle_connect [] default_shared)\<lparr>write_fails := Some (0, ''reset'')\<rparr>)))"
proof -
  let ?h = "handle_connect [] default_shared"
  let ?from = "\<lambda>_. Inr (Login ''cat'' 2 current_login_capabilities)"
  have "decode_client_line ?from ''x'' =
      Inr (Login ''cat'' PROTOCOL_VERSION (normalize_login current_login_capabilities))"
    by (simp add: decode_client_line_def PROTOCOL_VERSION_def)
  moreover have "sm_state (session ?h) = Connected" "sm_state (session (?h\<lparr>write_fails := Some (0, ''reset'')\<rparr>)) = Connected"
    "writable 1 ?h" "\<not> writable 1 (?h\<lparr>write_fails := Some (0, ''reset'')\<rparr>)"
    by (simp_all add: handle_connect_simps sm_new_def writable_def)
  ultimately show ?thesis
    using login_admitted_iff [of ?h default_config ?from "''x''" None]
      login_admitted_iff [of "?h\<lparr>write_fails := Some (0, ''reset'')\<rparr>" default_config ?from "''x''" None]
    by (simp add: accepted_login_def default_config_def default_protocol_def policy_rejects_def login_writes_def)
qed

text \<open>A report after the announcement completes the handshake, in both enforcement modes.\<close>

lemma to_client_quiet:
  "to_client (publish x) = to_client x" "to_client (record_event k st t x) = to_client x"
  "to_client (send_to_client y x) = to_client x @ [y]" "to_client (with_registry f x) = to_client x"
  by (simp_all add: publish_def primitive_defs)

lemma report_completes_handshake:
  assumes "sm_state (session h) = ResourceAnnouncementSent"
    and "bt_get (clients (shared h)) (client_id h) = Some info" and "last_announcement info = Some ann"
  shows "fst (on_report cfg report h) = Proceed" and "sm_state (session (snd (on_report cfg report h))) = ReadyDryRun"
    and "to_client (snd (on_report cfg report h)) =
      to_client h @ [JoinGateDecisionMsg (build_join_gate_decision (evaluate_resource_policy ann report))]"
  using assms
  by (cases "pol_decision (evaluate_resource_policy ann report) = Blocked";
      simp add: on_report_def Let_def report_received_def report_policy_def report_gate_def report_ready_def
        enforced_transition_def sm_event_defs on_policy_evaluated_def transition_to_def is_valid_transition_def to_client_quiet)+

lemma refused_report:
  assumes "strict_enforcement cfg"
    and "bt_get (clients (shared h)) (client_id h) = Some info" and "last_announcement info = Some ann"
    and "sm_state (session h) \<noteq> ResourceAnnouncementSent"
  shows "fst (on_report cfg report h) = BreakLoop" and "sm_state (session (snd (on_report cfg report h))) = Failed"
    and "\<exists>msg. to_client (snd (on_report cfg report h)) = to_client h @ [Disconnect InvalidHandshake msg]"
proof -
  let ?pipe = "and_then (and_then (and_then (report_received cfg h)
      (report_policy cfg (pol_decision (evaluate_resource_policy ann report))))
      (report_gate cfg (build_join_gate_decision (evaluate_resource_policy ann report)) (shared_caps info))) (report_ready cfg)"
  have report: "on_report cfg report h = ?pipe"
    using assms(2,3) by (simp add: on_report_def Let_def)
  have "snd (transition_to (session h) AvailabilityReportReceived) \<noteq> Inr ()"
    using assms(4) by (auto simp: transition_to_ok is_valid_transition_def)
  then obtain m e where me: "transition_to (session h) AvailabilityReportReceived = (m, Inl e)"
    by (cases "transition_to (session h) AvailabilityReportReceived"; cases "snd (transition_to (session h) AvailabilityReportReceived)") auto
  then have stop: "fst (report_received cfg h) = BreakLoop" "sm_state (session (snd (report_received cfg h))) = Failed"
    "\<exists>msg. to_client (snd (report_received cfg h)) = to_client h @ [Disconnect InvalidHandshake msg]"
    using assms(1)
    by (simp_all add: report_received_def enforced_transition_def sm_event_defs Let_def fail_session_def to_client_quiet sm_fail_def)
  then have "?pipe = report_received cfg h"
    by (simp add: and_then_stop)
  with stop show "fst (on_report cfg report h) = BreakLoop" "sm_state (session (snd (on_report cfg report h))) = Failed"
    "\<exists>msg. to_client (snd (on_report cfg report h)) = to_client h @ [Disconnect InvalidHandshake msg]"
    unfolding report by simp_all
qed

text \<open>C14: The report pipeline under strict enforcement. A report of a client for which no announcement is
  stored changes nothing and the connection goes on. Otherwise, a client that was sent the announcement
  and reports for the first time receives the join-gate decision for that announcement and report and
  becomes ready, also when the decision is to block; a report in any other state is answered by a
  disconnect, fails the session and ends the connection, and no decision is sent.\<close>

theorem strict_report_pipeline:
  assumes "strict_enforcement cfg"
  shows "case Option.bind (bt_get (clients (shared h)) (client_id h)) last_announcement of
      None \<Rightarrow> on_report cfg report h = (Proceed, h)
    | Some ann \<Rightarrow>
        if sm_state (session h) = ResourceAnnouncementSent
        then fst (on_report cfg report h) = Proceed \<and> sm_state (session (snd (on_report cfg report h))) = ReadyDryRun \<and>
          to_client (snd (on_report cfg report h)) =
            to_client h @ [JoinGateDecisionMsg (build_join_gate_decision (evaluate_resource_policy ann report))]
        else fst (on_report cfg report h) = BreakLoop \<and> sm_state (session (snd (on_report cfg report h))) = Failed \<and>
          (\<exists>msg. to_client (snd (on_report cfg report h)) = to_client h @ [Disconnect InvalidHandshake msg])"
proof (cases "Option.bind (bt_get (clients (shared h)) (client_id h)) last_announcement")
  case None
  then show ?thesis by (auto simp: on_report_def bind_eq_None_conv split: option.splits)
next
  case (Some ann)
  then obtain info where info: "bt_get (clients (shared h)) (client_id h) = Some info" "last_announcement info = Some ann"
    by (auto simp: bind_eq_Some_conv)
  show ?thesis
  proof (cases "sm_state (session h) = ResourceAnnouncementSent")
    case True
    with report_completes_handshake [OF True info] Some show ?thesis by simp
  next
    case False
    with refused_report [OF assms info False] Some show ?thesis by simp
  qed
qed

definition demo_handler :: handler where
  "demo_handler = (handle_connect [7] default_shared)
     \<lparr>shared := default_shared\<lparr>clients := [([7], \<lparr>ci_name = ''cat'', ci_entity_id = 0,
        last_announcement = Some demo_fetch_announcement, shared_caps = []\<rparr>)]\<rparr>\<rparr>"

definition strict_config :: ServerConfig where
  "strict_config = default_config\<lparr>cfg_enforcement := \<lparr>enforcement_mode = SessionEnforcementPolicy.Strict\<rparr>,
     cfg_heartbeat := \<lparr>heartbeat_policy = HbStrict, server_ping_interval_ms = 5000\<rparr>\<rparr>"

theorem strict_report_pipeline_witness:
  "fst (on_report strict_config \<lparr>avail_resources = [], is_fully_available = False\<rparr> demo_handler) = BreakLoop"
proof -
  have "strict_enforcement strict_config" "sm_state (session demo_handler) = Connected"
    "bt_get (clients (shared demo_handler)) (client_id demo_handler) =
      Some \<lparr>ci_name = ''cat'', ci_entity_id = 0, last_announcement = Some demo_fetch_announcement, shared_caps = []\<rparr>"
    by (simp_all add: strict_enforcement_def strict_config_def demo_handler_def handle_connect_simps sm_new_def)
  with strict_report_pipeline [where cfg = strict_config and h = demo_handler and
      report = "\<lparr>avail_resources = [], is_fully_available = False\<rparr>"] show ?thesis
    by simp
qed

lemma heartbeat_tick_flow:
  assumes "log_len (event_log h) < 2 ^ 64 - 1"
  shows "(fst (on_ping_tick cfg h) = BreakLoop \<longleftrightarrow>
      heartbeat_policy (cfg_heartbeat cfg) = HbStrict \<and>
      Suc (count_kind EvServerPingSent (event_log h)) \<ge> count_kind EvServerPongReceived (event_log h) + 3) \<and>
    (fst (on_ping_tick cfg h) = BreakLoop \<longrightarrow> sm_state (session (snd (on_ping_tick cfg h))) = Failed) \<and>
    ServerPing (srv_ping_sequence h) \<in> set (to_client (snd (on_ping_tick cfg h)))"
proof -
  define pings where "pings = Suc (count_kind EvServerPingSent (event_log h))"
  define pongs where "pongs = count_kind EvServerPongReceived (event_log h)"
  have "pings < 2 ^ 64" "pongs < 2 ^ 64"
    using assms count_kind_le_len [of EvServerPingSent "event_log h"] count_kind_le_len [of EvServerPongReceived "event_log h"]
    by (simp_all add: pings_def pongs_def)
  then have u: "unat (of_nat pings :: u64) = pings" "unat (of_nat pongs :: u64) = pongs"
    by (simp_all add: unat_of_nat)
  have "evaluate_server_heartbeat \<lparr>pings_sent = of_nat pings, pongs_received = of_nat pongs\<rparr> HbStrict = WouldDisconnect
      \<longleftrightarrow> pongs + 3 \<le> pings"
  proof -
    have "(of_nat pings :: u64) = 0 \<longleftrightarrow> pings = 0" by (metis u(1) unat_0 unat_eq_zero)
    moreover have "saturating_sub (of_nat pings :: u64) (of_nat pongs) = 0 \<longleftrightarrow> pings \<le> pongs"
      by (metis diff_is_0_eq u unat_eq_zero unat_saturating_sub)
    moreover have "3 \<le> saturating_sub (of_nat pings :: u64) (of_nat pongs) \<longleftrightarrow> 3 \<le> pings - pongs"
      by (simp add: word_le_nat_alt unat_saturating_sub u)
    ultimately show ?thesis
      by (auto simp: evaluate_server_heartbeat_def Let_def MISSED_SERVER_PONG_DISCONNECT_THRESHOLD_def)
  qed
  then show ?thesis
    by (auto simp: on_ping_tick_def Let_def record_event_def pings_def pongs_def fail_session_def publish_def
        with_registry_def send_to_client_def sm_fail_def)
qed

text \<open>C35: Missed heartbeats. A heartbeat tick disconnects the client exactly under the strict policy when, with
  the ping it has just sent, at least three pings are unanswered; the session is then failed and the
  client told. Otherwise the ping is sent and the connection goes on.\<close>

theorem heartbeat_tick_disconnects_iff:
  assumes "log_len (event_log h) < 2 ^ 64 - 1"
  shows "(fst (on_ping_tick cfg h) = BreakLoop \<longleftrightarrow>
      heartbeat_policy (cfg_heartbeat cfg) = HbStrict \<and>
      Suc (count_kind EvServerPingSent (event_log h)) \<ge> count_kind EvServerPongReceived (event_log h) + 3) \<and>
    (fst (on_ping_tick cfg h) = BreakLoop \<longrightarrow> sm_state (session (snd (on_ping_tick cfg h))) = Failed) \<and>
    ServerPing (srv_ping_sequence h) \<in> set (to_client (snd (on_ping_tick cfg h)))"
  using assms by (rule heartbeat_tick_flow)

theorem heartbeat_tick_disconnects_iff_witness:
  "fst (on_ping_tick strict_config demo_handler) \<noteq> BreakLoop \<and>
   fst (on_ping_tick strict_config (demo_handler\<lparr>event_log :=
     log_record EvServerPingSent Connected [] (log_record EvServerPingSent Connected [] log_new)\<rparr>)) = BreakLoop"
  using heartbeat_tick_disconnects_iff [of demo_handler strict_config]
    heartbeat_tick_disconnects_iff [of "demo_handler\<lparr>event_log :=
     log_record EvServerPingSent Connected [] (log_record EvServerPingSent Connected [] log_new)\<rparr>" strict_config]
  by (simp add: demo_handler_def handle_connect_simps strict_config_def)

text \<open>Where the loop is left through a return, the row of the client stays.\<close>

lemma loop_cleanup:
  assumes "conn_step cfg from_str ann ev (InLoop, h) = (Closed, h')" and "synced h"
    and "bt_get (clients (shared h)) (client_id h) \<noteq> None"
  shows "bt_get (clients (shared h')) (client_id h) \<noteq> None \<longleftrightarrow>
    (\<exists>e. ev = ReadError e \<or> (\<exists>line. ev = LineRead line \<and> decode_client_line from_str line = Inl e))"
proof -
  have left: "bt_get (clients (shared h')) (client_id h) = None"
    if "finish r = (Closed, h')" "fst r \<in> {Proceed, BreakLoop}" "evolves h (snd r)" for r
    using that by (cases r) (auto simp: finish_def evolves_def)
  show ?thesis
  proof (cases ev)
    case (LineRead line)
    have evo: "evolves h (snd (handle_line cfg from_str line h))"
      using handle_line_ok assms(2) by (auto simp: piece_ok_def)
    show ?thesis
      using assms(1,3) LineRead handle_line_flow [where cfg = cfg and from_str = from_str and line = line and h = h] left [OF _ _ evo]
      by (cases "decode_client_line from_str line") (auto simp: finish_def)
  next
    case ReadEof
    with assms(1) left [of "(BreakLoop, h)"] show ?thesis by simp
  next
    case (ReadError e)
    with assms(1,3) show ?thesis by (auto simp: finish_def)
  next
    case PingTick
    have "evolves h (snd (on_ping_tick cfg h))"
      using on_ping_tick_ok assms(2) by (auto simp: piece_ok_def)
    with assms(1) PingTick left [OF _ on_ping_tick_flow] show ?thesis by (auto split: if_splits)
  qed (use assms(1) in simp)
qed

lemma login_cleanup:
  assumes "conn_step cfg from_str ann ev (AwaitLogin, h) = (Closed, h')" and "synced h"
    and "bt_get (clients (shared h)) (client_id h) = None" and "sm_state (session h) = Connected"
  shows "bt_get (clients (shared h')) (client_id h) \<noteq> None \<longleftrightarrow>
    (\<exists>line. ev = LineRead line \<and> accepted_login cfg from_str line)"
proof (cases ev)
  case (LineRead line)
  obtain fl g where r: "handle_first_line cfg from_str ann line h = (fl, g)" by fastforce
  have "fl = Proceed \<or> turned_away h fl"
    using handle_first_line_flow [OF assms(4), of cfg from_str line ann] by (auto simp: r split: if_splits)
  then have "clients (shared h') = clients (shared g)"
    using assms(1) LineRead by (auto simp: r finish_def turned_away_def)
  with LineRead handle_first_line_row [OF assms(4,2,3), of cfg from_str ann line] show ?thesis by (simp add: r)
qed (use assms(1,3) in \<open>auto simp: finish_def\<close>)

text \<open>C23: Cleaning up. However a connection ends, its session leaves the registry. Before the login it has no
  row in the client table, and in the message loop it has one. A connection that ends in the loop loses
  its row when the loop is left (end of stream, enforcement, heartbeat), and leaves it behind exactly
  when it ends by a read error or a line that does not decode: the error is returned before the code
  after the loop. A connection that ends during the login leaves a row behind exactly when the login
  was accepted, that is, when the row was made and then the welcome or the announcement could not be
  written.\<close>

theorem connection_cleanup:
  assumes "conn_step cfg from_str ann ev (ph, h) = (Closed, h')" and "ph \<noteq> Closed" and "synced h"
    and "bt_get (clients (shared h)) (client_id h) \<noteq> None \<longleftrightarrow> ph = InLoop"
    and "ph = AwaitLogin \<Longrightarrow> sm_state (session h) = Connected"
  shows "reg_get (registry (shared h')) (session_id h) = None \<and>
    (bt_get (clients (shared h')) (client_id h) \<noteq> None \<longleftrightarrow>
      (if ph = InLoop
       then \<exists>e. ev = ReadError e \<or> (\<exists>line. ev = LineRead line \<and> decode_client_line from_str line = Inl e)
       else \<exists>line. ev = LineRead line \<and> accepted_login cfg from_str line))"
proof
  show "reg_get (registry (shared h')) (session_id h) = None"
    using conn_step_effect [OF assms(3,2), of cfg from_str ann ev] assms(1) by (simp add: step_effect_def)
  show "bt_get (clients (shared h')) (client_id h) \<noteq> None \<longleftrightarrow>
      (if ph = InLoop
       then \<exists>e. ev = ReadError e \<or> (\<exists>line. ev = LineRead line \<and> decode_client_line from_str line = Inl e)
       else \<exists>line. ev = LineRead line \<and> accepted_login cfg from_str line)"
  proof (cases ph)
    case InLoop
    with loop_cleanup [OF assms(1) [unfolded InLoop] assms(3)] assms(4) show ?thesis by simp
  next
    case AwaitLogin
    with login_cleanup [OF assms(1) [unfolded AwaitLogin] assms(3)] assms(4,5) show ?thesis by simp
  qed (use assms(2) in simp)
qed

theorem connection_cleanup_witness:
  "(\<exists>h h'. conn_step default_config (\<lambda>_. Inl ''bad'') None (LineRead ''x'') (InLoop, h) = (Closed, h') \<and>
     bt_get (clients (shared h')) (client_id h) \<noteq> None \<and> reg_get (registry (shared h')) (session_id h) = None)"
proof -
  let ?h = "demo_handler\<lparr>shared := (shared demo_handler)\<lparr>registry := snd (create_session reg_new)\<rparr>\<rparr>"
  have step: "conn_step default_config (\<lambda>_. Inl ''bad'') None (LineRead ''x'') (InLoop, ?h) = (Closed, drop_guard ?h)"
    by (simp add: handle_line_def decode_client_line_def finish_def)
  have "synced ?h" and row: "bt_get (clients (shared ?h)) (client_id ?h) \<noteq> None"
    by (simp_all add: synced_def demo_handler_def handle_connect_simps default_shared_def reg_get_create
        fresh_entry_def sm_new_def)
  then have "bt_get (clients (shared (drop_guard ?h))) (client_id ?h) \<noteq> None \<and>
      reg_get (registry (shared (drop_guard ?h))) (session_id ?h) = None"
    using connection_cleanup [OF step] by (simp add: decode_client_line_def)
  with step show ?thesis by blast
qed

text \<open>The reply to a client's ping goes to the broadcast channel, so every connected client receives it.\<close>

lemma pong_is_broadcast:
  "broadcasts (snd (on_ping seq h)) = broadcasts h @ [Pong seq] \<and> to_client (snd (on_ping seq h)) = to_client h"
  by (simp add: on_ping_def Let_def primitive_defs)

end
