(* ===== verification/Client.thy ===== *)
theory Client
  imports Fetch_Planning Manifest Heartbeat
begin

text \<open>
  The client's heartbeat (\<^verbatim>\<open>crates/client/src/heartbeat.rs\<close> and the loop of \<^verbatim>\<open>crates/client/src/lib.rs\<close>) and the
  preflight plan it builds from an announcement file. What the connection gives to successive reads
  is a list of \<open>read_result\<close>, and \<open>write_error\<close> is the error of writing the ping, if it fails. The text of a JSON error is left to the decoder.
\<close>

section \<open>One ping\<close>

datatype read_result = ReadTimedOut | ReadFailed string | StreamClosed | ServerLine string

text \<open>How the exchange ends; \<open>StillWaiting\<close> when the given reads are used up.\<close>

datatype ping_result = PongReceived | PingError string | PingPanic | StillWaiting

fun await_pong ::
  "(string \<Rightarrow> string + ServerMessage) \<Rightarrow> u64 \<Rightarrow> read_result list \<Rightarrow> ClientMessage list \<Rightarrow> ping_result \<times> ClientMessage list" where
  "await_pong decode seq [] sent = (StillWaiting, sent)"
| "await_pong decode seq (ReadTimedOut # rs) sent = (PingError ''deadline has elapsed'', sent)"
| "await_pong decode seq (ReadFailed e # rs) sent = (PingError e, sent)"
| "await_pong decode seq (StreamClosed # rs) sent = (PingPanic, sent)"
| "await_pong decode seq (ServerLine line # rs) sent =
     (case decode line of
        Inl e \<Rightarrow> (PingError e, sent)
      | Inr (Pong got) \<Rightarrow> if got = seq then (PongReceived, sent) else await_pong decode seq rs sent
      | Inr (ServerPing srv_seq) \<Rightarrow> await_pong decode seq rs (sent @ [ServerPong srv_seq])
      | Inr _ \<Rightarrow> await_pong decode seq rs sent)"

definition send_ping_and_wait_with_timeout ::
  "(string \<Rightarrow> string + ServerMessage) \<Rightarrow> string option \<Rightarrow> u64 \<Rightarrow> read_result list \<Rightarrow> ping_result \<times> ClientMessage list" where
  "send_ping_and_wait_with_timeout decode write_error seq reads =
     (case write_error of
        Some e \<Rightarrow> (PingError e, [])
      | None \<Rightarrow> await_pong decode seq reads [Ping seq])"

definition send_ping_and_wait ::
  "(string \<Rightarrow> string + ServerMessage) \<Rightarrow> string option \<Rightarrow> u64 \<Rightarrow> read_result list \<Rightarrow> ping_result \<times> ClientMessage list" where
  "send_ping_and_wait decode write_error seq reads = send_ping_and_wait_with_timeout decode write_error seq reads"

text \<open>
  The manual ping first takes the two messages the server sends after a login. These reads have no
  deadline: a deadline of the list passes them by, an error or the end of the stream is tolerated.
\<close>

fun skip_message :: "(string \<Rightarrow> string + ServerMessage) \<Rightarrow> read_result list \<Rightarrow> (string + read_result list) option" where
  "skip_message decode [] = None"
| "skip_message decode (ServerLine line # rs) =
     Some (case decode line of Inl e \<Rightarrow> Inl e | Inr _ \<Rightarrow> Inr rs)"
| "skip_message decode (ReadFailed _ # rs) = Some (Inr rs)"
| "skip_message decode (StreamClosed # rs) = Some (Inr rs)"
| "skip_message decode (ReadTimedOut # rs) = skip_message decode rs"

definition after_message ::
  "(string \<Rightarrow> string + ServerMessage) \<Rightarrow> read_result list \<Rightarrow> (read_result list \<Rightarrow> ping_result \<times> ClientMessage list) \<Rightarrow>
   ping_result \<times> ClientMessage list" where
  "after_message decode reads continue =
     (case skip_message decode reads of
        None \<Rightarrow> (StillWaiting, [])
      | Some (Inl e) \<Rightarrow> (PingError e, [])
      | Some (Inr rest) \<Rightarrow> continue rest)"

definition perform_ping_once ::
  "(string \<Rightarrow> string + ServerMessage) \<Rightarrow> string option \<Rightarrow> u64 \<Rightarrow> read_result list \<Rightarrow> ping_result \<times> ClientMessage list" where
  "perform_ping_once decode write_error seq reads =
     after_message decode reads (\<lambda>r1. after_message decode r1 (send_ping_and_wait_with_timeout decode write_error seq))"

definition handle_server_ping :: "string option \<Rightarrow> u64 \<Rightarrow> (string + unit) \<times> ClientMessage list" where
  "handle_server_ping write_error sequence =
     (case write_error of Some e \<Rightarrow> (Inl e, []) | None \<Rightarrow> (Inr (), [ServerPong sequence]))"

section \<open>The heartbeat loop\<close>

datatype ClientHeartbeatPolicy = ClientReportOnly | ClientStrict

definition CLIENT_HEARTBEAT_DISCONNECT_THRESHOLD :: u64 where
  "CLIENT_HEARTBEAT_DISCONNECT_THRESHOLD = 3"

record HeartbeatMetrics =
  sent_count :: u64
  pong_count :: u64
  timeout_or_error_count :: u64
  last_ping_sequence :: "u64 option"
  last_pong_sequence :: "u64 option"
  enforcement_disconnect :: bool

definition default_metrics :: HeartbeatMetrics where
  "default_metrics = \<lparr>sent_count = 0, pong_count = 0, timeout_or_error_count = 0, last_ping_sequence = None,
     last_pong_sequence = None, enforcement_disconnect = False\<rparr>"

definition optional_sequence_text :: "u64 option \<Rightarrow> string" where
  "optional_sequence_text v = (case v of Some n \<Rightarrow> show_u64 n | None \<Rightarrow> ''none'')"

definition metrics_to_text :: "HeartbeatMetrics \<Rightarrow> string" where
  "metrics_to_text m =
     str_join [CHR 0x0A]
       [''heartbeat_sent_count: '' @ show_u64 (sent_count m),
        ''heartbeat_pong_count: '' @ show_u64 (pong_count m),
        ''heartbeat_timeout_or_error_count: '' @ show_u64 (timeout_or_error_count m),
        ''last_ping_sequence: '' @ optional_sequence_text (last_ping_sequence m),
        ''last_pong_sequence: '' @ optional_sequence_text (last_pong_sequence m)] @
     (if enforcement_disconnect m then [CHR 0x0A] @ ''heartbeat_enforcement_disconnect: true'' else [])"

text \<open>
  One event of the loop: the interval elapses and the ping meets the given write error and reads, or
  the loop is asked to stop. The loop returns its metrics, panics with the ping, or is still running.
\<close>

datatype heartbeat_event = IntervalElapsed "string option" "read_result list" | StopRequested

datatype loop_result = LoopReturned HeartbeatMetrics | LoopPanicked | LoopRunning u64 HeartbeatMetrics

fun heartbeat_loop ::
  "(string \<Rightarrow> string + ServerMessage) \<Rightarrow> ClientHeartbeatPolicy \<Rightarrow> u64 \<Rightarrow> HeartbeatMetrics \<Rightarrow> heartbeat_event list \<Rightarrow> loop_result" where
  "heartbeat_loop decode policy seq m [] = LoopRunning seq m"
| "heartbeat_loop decode policy seq m (StopRequested # evs) = LoopReturned m"
| "heartbeat_loop decode policy seq m (IntervalElapsed werr reads # evs) =
     (let m1 = m\<lparr>sent_count := saturating_add (sent_count m) 1, last_ping_sequence := Some seq\<rparr>
      in case fst (send_ping_and_wait_with_timeout decode werr seq reads) of
           PongReceived \<Rightarrow>
             heartbeat_loop decode policy (saturating_add seq 1)
               (m1\<lparr>pong_count := saturating_add (pong_count m1) 1, last_pong_sequence := Some seq\<rparr>) evs
         | PingError _ \<Rightarrow>
             (let m2 = m1\<lparr>timeout_or_error_count := saturating_add (timeout_or_error_count m1) 1\<rparr>
              in if policy = ClientStrict \<and> timeout_or_error_count m2 \<ge> CLIENT_HEARTBEAT_DISCONNECT_THRESHOLD
                 then LoopReturned (m2\<lparr>enforcement_disconnect := True\<rparr>)
                 else heartbeat_loop decode policy (saturating_add seq 1) m2 evs)
         | PingPanic \<Rightarrow> LoopPanicked
         | StillWaiting \<Rightarrow> LoopRunning seq m1)"

section \<open>Preflight\<close>

fun read_cli_flag :: "string list \<Rightarrow> string \<Rightarrow> string option" where
  "read_cli_flag (a # b # args) name = (if a = name then Some b else read_cli_flag (b # args) name)"
| "read_cli_flag _ name = None"

primrec map_cache_status :: "CacheFileStatus \<Rightarrow> ResourceAvailabilityStatus" where
  "map_cache_status CacheValid = Available"
| "map_cache_status CacheMissing = Missing"
| "map_cache_status CacheSizeMismatch = SizeMismatch"
| "map_cache_status CacheHashMismatch = HashMismatch"

definition availability_of_resource ::
  "(string \<Rightarrow> string \<Rightarrow> string + CacheVerificationReport) \<Rightarrow> (path \<Rightarrow> string) \<Rightarrow> string option \<Rightarrow> AnnouncedResource \<Rightarrow>
   string + ResourceAvailabilityEntry list" where
  "availability_of_resource verify path_text cache r =
     (case cache of
        Some cache_dir \<Rightarrow>
          res_bind (verify (res_name r) cache_dir) (\<lambda>report.
            Inr (map (\<lambda>e. \<lparr>avail_resource_name = res_name r, avail_file_path = path_text (cv_relative_path e),
                          avail_status = map_cache_status (cv_status e)\<rparr>) (cv_entries report)))
      | None \<Rightarrow>
          Inr (map (\<lambda>f. \<lparr>avail_resource_name = res_name r, avail_file_path = relative_path f,
                        avail_status = Missing\<rparr>) (res_files r)))"

fun collect_availability ::
  "(AnnouncedResource \<Rightarrow> string + ResourceAvailabilityEntry list) \<Rightarrow> AnnouncedResource list \<Rightarrow>
   string + ResourceAvailabilityEntry list" where
  "collect_availability f [] = Inr []"
| "collect_availability f (r # rs) =
     res_bind (f r) (\<lambda>es. res_bind (collect_availability f rs) (\<lambda>fs. Inr (es @ fs)))"

definition build_preflight_plan ::
  "(string \<Rightarrow> string \<Rightarrow> string + CacheVerificationReport) \<Rightarrow> (path \<Rightarrow> string) \<Rightarrow>
   (string \<Rightarrow> ResourceAnnouncement option) \<Rightarrow> string \<Rightarrow> string option \<Rightarrow> string list \<Rightarrow> SignaturePolicy \<Rightarrow>
   string + ResourceDownloadPreflightPlan" where
  "build_preflight_plan verify path_text from_json shown file args policy =
     (case file of
        None \<Rightarrow> Inl (''failed to read announcement file: '' @ shown)
      | Some raw \<Rightarrow>
          (case from_json raw of
             None \<Rightarrow> Inl ''failed to parse ResourceAnnouncement JSON''
           | Some ann \<Rightarrow>
               if policy = Strict \<and> read_cli_flag args ''--trusted-keys'' = None
               then Inl ''--signature-policy strict requires --trusted-keys <path>''
               else
                 res_bind (collect_availability
                     (availability_of_resource verify path_text (read_cli_flag args ''--resource-cache'')) (ann_resources ann))
                   (\<lambda>entries.
                     let availability = \<lparr>avail_resources = entries,
                           is_fully_available = list_all (\<lambda>e. avail_status e = Available) entries\<rparr>
                     in Inr (build_resource_download_preflight_plan ann availability
                          (check_announcement_signature_stub ann) policy
                          (Some (evaluate_resource_policy ann availability))))))"

definition get_resource_download_preflight_plan_text ::
  "(string \<Rightarrow> string \<Rightarrow> string + CacheVerificationReport) \<Rightarrow> (path \<Rightarrow> string) \<Rightarrow>
   (string \<Rightarrow> ResourceAnnouncement option) \<Rightarrow> string \<Rightarrow> string option \<Rightarrow> string list \<Rightarrow> SignaturePolicy \<Rightarrow> string + string" where
  "get_resource_download_preflight_plan_text verify path_text from_json shown file args policy =
     res_bind (build_preflight_plan verify path_text from_json shown file args policy)
       (\<lambda>plan. Inr (preflight_plan_to_text plan))"

definition get_resource_download_preflight_plan_json ::
  "(string \<Rightarrow> string \<Rightarrow> string + CacheVerificationReport) \<Rightarrow> (path \<Rightarrow> string) \<Rightarrow>
   (string \<Rightarrow> ResourceAnnouncement option) \<Rightarrow> (ResourceDownloadPreflightPlan \<Rightarrow> string + string) \<Rightarrow> string \<Rightarrow>
   string option \<Rightarrow> string list \<Rightarrow> SignaturePolicy \<Rightarrow> string + string" where
  "get_resource_download_preflight_plan_json verify path_text from_json to_json shown file args policy =
     res_bind (build_preflight_plan verify path_text from_json shown file args policy) to_json"

section \<open>Lemmas\<close>

lemma unat_saturating_succ:
  assumes "unat (n :: u64) < 2 ^ 64 - 1"
  shows "unat (saturating_add n 1) = Suc (unat n)"
proof -
  have "unat n + unat (1 :: u64) < 2 ^ LENGTH(64)"
    using assms by simp
  then show ?thesis
    using assms by (simp add: saturating_add_def unat_word_ariths)
qed

definition loop_counts :: "ClientHeartbeatPolicy \<Rightarrow> HeartbeatMetrics \<Rightarrow> bool" where
  "loop_counts policy m \<longleftrightarrow>
     unat (sent_count m) = unat (pong_count m) + unat (timeout_or_error_count m) \<and>
     last_ping_sequence m = (if sent_count m = 0 then None else Some (sent_count m)) \<and>
     (enforcement_disconnect m \<longleftrightarrow> policy = ClientStrict \<and> unat (timeout_or_error_count m) \<ge> 3) \<and>
     (policy = ClientStrict \<longrightarrow> unat (timeout_or_error_count m) \<le> 3)"

definition loop_invar :: "ClientHeartbeatPolicy \<Rightarrow> u64 \<Rightarrow> HeartbeatMetrics \<Rightarrow> bool" where
  "loop_invar policy seq m \<longleftrightarrow>
     unat (sent_count m) = unat (pong_count m) + unat (timeout_or_error_count m) \<and>
     last_ping_sequence m = (if sent_count m = 0 then None else Some (sent_count m)) \<and>
     \<not> enforcement_disconnect m \<and> (policy = ClientStrict \<longrightarrow> unat (timeout_or_error_count m) < 3) \<and>
     unat seq = Suc (unat (sent_count m))"

lemma loop_invar_counts: "loop_invar policy seq m \<Longrightarrow> loop_counts policy m"
  by (auto simp: loop_invar_def loop_counts_def)

text \<open>One ping that is answered, and one that is not.\<close>

lemma next_sequence:
  assumes "loop_invar policy seq m" and "unat (sent_count m) < 2 ^ 64 - 2"
  shows "unat (saturating_add (sent_count m) 1) = Suc (unat (sent_count m))"
    and "seq = saturating_add (sent_count m) 1" and "saturating_add (sent_count m) 1 \<noteq> 0"
    and "unat (saturating_add seq 1) = Suc (Suc (unat (sent_count m)))"
proof -
  show u: "unat (saturating_add (sent_count m) 1) = Suc (unat (sent_count m))"
    using assms(2) by (intro unat_saturating_succ) simp
  then show "saturating_add (sent_count m) 1 \<noteq> 0" by auto
  show seq: "seq = saturating_add (sent_count m) 1"
    using assms(1) u by (simp add: loop_invar_def word_unat_eq_iff)
  have "unat seq < 2 ^ 64 - 1"
    using assms unfolding loop_invar_def by linarith
  then show "unat (saturating_add seq 1) = Suc (Suc (unat (sent_count m)))"
    using assms(1) unfolding loop_invar_def by (simp only: unat_saturating_succ)
qed

lemma loop_invar_pong:
  assumes "loop_invar policy seq m" and "unat (sent_count m) < 2 ^ 64 - 2"
  shows "loop_invar policy (saturating_add seq 1)
    (m\<lparr>sent_count := saturating_add (sent_count m) 1, last_ping_sequence := Some seq,
       pong_count := saturating_add (pong_count m) 1, last_pong_sequence := Some seq\<rparr>)"
proof -
  have "unat (pong_count m) < 2 ^ 64 - 1"
    using assms unfolding loop_invar_def by linarith
  then have "unat (saturating_add (pong_count m) 1) = Suc (unat (pong_count m))"
    by (rule unat_saturating_succ)
  with assms(1) next_sequence [OF assms] show ?thesis
    unfolding loop_invar_def by simp
qed

lemma loop_counts_miss:
  assumes "loop_invar policy seq m" and "unat (sent_count m) < 2 ^ 64 - 2"
  defines "m2 \<equiv> m\<lparr>sent_count := saturating_add (sent_count m) 1, last_ping_sequence := Some seq,
      timeout_or_error_count := saturating_add (timeout_or_error_count m) 1\<rparr>"
  shows "if policy = ClientStrict \<and> timeout_or_error_count m2 \<ge> CLIENT_HEARTBEAT_DISCONNECT_THRESHOLD
    then loop_counts policy (m2\<lparr>enforcement_disconnect := True\<rparr>)
    else loop_invar policy (saturating_add seq 1) m2"
proof -
  have "unat (timeout_or_error_count m) < 2 ^ 64 - 1"
    using assms(1,2) unfolding loop_invar_def by linarith
  then have missed: "unat (saturating_add (timeout_or_error_count m) 1) = Suc (unat (timeout_or_error_count m))"
    by (rule unat_saturating_succ)
  have limit: "CLIENT_HEARTBEAT_DISCONNECT_THRESHOLD \<le> w \<longleftrightarrow> 3 \<le> unat w" for w
    by (simp add: CLIENT_HEARTBEAT_DISCONNECT_THRESHOLD_def word_le_nat_alt)
  note facts = missed next_sequence(1,3,4) [OF assms(1,2)] next_sequence(2) [OF assms(1,2), symmetric]
  show ?thesis
  proof (cases "policy = ClientStrict \<and> timeout_or_error_count m2 \<ge> CLIENT_HEARTBEAT_DISCONNECT_THRESHOLD")
    case True
    then have "policy = ClientStrict" "unat (timeout_or_error_count m) = 2"
      using assms(1) missed unfolding limit loop_invar_def m2_def by simp_all
    with True facts assms(1) show ?thesis
      unfolding loop_invar_def loop_counts_def m2_def by simp
  next
    case False
    then have "policy = ClientStrict \<longrightarrow> Suc (unat (timeout_or_error_count m)) < 3"
      using missed unfolding limit m2_def by (simp add: not_le)
    with facts assms(1) have "loop_invar policy (saturating_add seq 1) m2"
      unfolding loop_invar_def m2_def by simp
    then show ?thesis unfolding if_not_P [OF False] .
  qed
qed

lemma loop_returns_counts:
  "loop_invar policy seq m \<Longrightarrow> unat (sent_count m) + length evs < 2 ^ 64 - 1 \<Longrightarrow>
   heartbeat_loop decode policy seq m evs = LoopReturned m' \<Longrightarrow> loop_counts policy m'"
proof (induction decode policy seq m evs rule: heartbeat_loop.induct)
  case (3 decode policy seq m werr reads evs)
  have small: "unat (sent_count m) < 2 ^ 64 - 2" using "3.prems"(2) by simp
  note facts = next_sequence [OF "3.prems"(1) small]
  show ?case
  proof (cases "fst (send_ping_and_wait_with_timeout decode werr seq reads)")
    case PongReceived
    with "3.IH"(1) [OF refl] "3.prems" loop_invar_pong [OF "3.prems"(1) small] facts(1) show ?thesis
      by (simp add: Let_def)
  next
    case (PingError e)
    with "3.IH"(2) [OF refl _ refl] "3.prems" loop_counts_miss [OF "3.prems"(1) small] facts(1) show ?thesis
      by (simp add: Let_def split: if_splits)
  qed (use "3.prems" in \<open>simp_all add: Let_def\<close>)
qed (simp_all add: loop_invar_counts)

text \<open>When the heartbeat loop returns, its metrics add up: every ping was answered or missed, the last
  ping carries the number of pings as its sequence number, and the loop disconnected by enforcement
  exactly when the policy is strict and three pings were missed; strict never misses more.
\<close>

theorem heartbeat_metrics_add_up:
  assumes "length evs < 2 ^ 64 - 1" and "heartbeat_loop decode policy 1 default_metrics evs = LoopReturned m"
  shows "unat (sent_count m) = unat (pong_count m) + unat (timeout_or_error_count m) \<and>
    last_ping_sequence m = (if sent_count m = 0 then None else Some (sent_count m)) \<and>
    (enforcement_disconnect m \<longleftrightarrow> policy = ClientStrict \<and> unat (timeout_or_error_count m) \<ge> 3) \<and>
    (policy = ClientStrict \<longrightarrow> unat (timeout_or_error_count m) \<le> 3)"
proof -
  have "loop_invar policy 1 default_metrics"
    by (simp add: loop_invar_def default_metrics_def)
  with assms have "loop_counts policy m"
    by (intro loop_returns_counts [of policy 1 default_metrics evs]) (simp_all add: default_metrics_def)
  then show ?thesis unfolding loop_counts_def .
qed

theorem heartbeat_metrics_add_up_witness:
  "\<exists>m. heartbeat_loop (\<lambda>_. Inr (Pong 1)) ClientStrict 1 default_metrics
     [IntervalElapsed None [ServerLine ''a''], IntervalElapsed None [ReadTimedOut], StopRequested] = LoopReturned m \<and>
   unat (sent_count m) = unat (pong_count m) + unat (timeout_or_error_count m) \<and> \<not> enforcement_disconnect m"
proof -
  let ?run = "heartbeat_loop (\<lambda>_. Inr (Pong 1)) ClientStrict 1 default_metrics
     [IntervalElapsed None [ServerLine ''a''], IntervalElapsed None [ReadTimedOut], StopRequested]"
  let ?m = "\<lparr>sent_count = 2, pong_count = 1, timeout_or_error_count = 1, last_ping_sequence = Some 2,
      last_pong_sequence = Some 1, enforcement_disconnect = False\<rparr>"
  have m: "?run = LoopReturned ?m"
    by (simp add: send_ping_and_wait_with_timeout_def default_metrics_def saturating_add_def
        CLIENT_HEARTBEAT_DISCONNECT_THRESHOLD_def Let_def word_le_nat_alt)
  from heartbeat_metrics_add_up [OF _ m] m show ?thesis by auto
qed

text \<open>Which pings of a run fail whatever their number is, and which are answered.\<close>

definition ping_fails :: "(string \<Rightarrow> string + ServerMessage) \<Rightarrow> heartbeat_event \<Rightarrow> bool" where
  "ping_fails decode ev \<longleftrightarrow>
     (\<exists>werr reads. ev = IntervalElapsed werr reads \<and> (\<forall>seq. \<exists>e. fst (send_ping_and_wait_with_timeout decode werr seq reads) = PingError e))"

definition ping_answered :: "(string \<Rightarrow> string + ServerMessage) \<Rightarrow> heartbeat_event \<Rightarrow> bool" where
  "ping_answered decode ev \<longleftrightarrow>
     (\<exists>werr reads. ev = IntervalElapsed werr reads \<and> (\<forall>seq. fst (send_ping_and_wait_with_timeout decode werr seq reads) = PongReceived))"

lemma threshold_word_le:
  "CLIENT_HEARTBEAT_DISCONNECT_THRESHOLD \<le> w \<longleftrightarrow> 3 \<le> unat w"
  by (simp add: CLIENT_HEARTBEAT_DISCONNECT_THRESHOLD_def word_le_nat_alt)

lemma strict_loop_ends:
  assumes "\<forall>ev \<in> set evs. ping_fails decode ev \<or> ping_answered decode ev"
    and "unat (timeout_or_error_count m) < 3"
    and "3 \<le> unat (timeout_or_error_count m) + length (filter (ping_fails decode) evs)"
  shows "\<exists>m'. heartbeat_loop decode ClientStrict seq m evs = LoopReturned m' \<and> enforcement_disconnect m' \<and>
    unat (timeout_or_error_count m') = 3"
  using assms
proof (induction evs arbitrary: seq m)
  case (Cons ev evs)
  let ?m1 = "m\<lparr>sent_count := saturating_add (sent_count m) 1, last_ping_sequence := Some seq\<rparr>"
  have missed: "unat (saturating_add (timeout_or_error_count m) 1) = Suc (unat (timeout_or_error_count m))"
    using Cons.prems(2) by (intro unat_saturating_succ) simp
  show ?case
  proof (cases "ping_fails decode ev")
    case True
    then obtain werr reads e where ev: "ev = IntervalElapsed werr reads"
      and e: "fst (send_ping_and_wait_with_timeout decode werr seq reads) = PingError e"
      unfolding ping_fails_def by blast
    show ?thesis
    proof (cases "unat (timeout_or_error_count m) = 2")
      case two: True
      then show ?thesis
        using missed by (simp add: ev e Let_def threshold_word_le)
    next
      case False
      with Cons.prems(2) have less: "Suc (unat (timeout_or_error_count m)) < 3" by simp
      from Cons.IH [of "?m1\<lparr>timeout_or_error_count := saturating_add (timeout_or_error_count m) 1\<rparr>" "saturating_add seq 1"]
        Cons.prems missed less True show ?thesis
        by (simp add: ev e Let_def threshold_word_le)
    qed
  next
    case False
    with Cons.prems(1) obtain werr reads where ev: "ev = IntervalElapsed werr reads"
      and pong: "fst (send_ping_and_wait_with_timeout decode werr seq reads) = PongReceived"
      unfolding ping_answered_def by fastforce
    from Cons.IH [of "?m1\<lparr>pong_count := saturating_add (pong_count m) 1, last_pong_sequence := Some seq\<rparr>" "saturating_add seq 1"]
      Cons.prems False show ?thesis
      by (simp add: ev pong Let_def)
  qed
qed simp

text \<open>C30: Under the strict policy the heartbeat loop ends by itself: as soon as three pings have failed over
  its whole life, in a row or not, it has returned and disconnected by enforcement; it neither runs
  on nor waits for the stop request.
\<close>

theorem strict_heartbeat_terminates:
  assumes "\<forall>ev \<in> set evs. ping_fails decode ev \<or> ping_answered decode ev"
    and "3 \<le> length (filter (ping_fails decode) evs)"
  shows "\<exists>m. heartbeat_loop decode ClientStrict 1 default_metrics evs = LoopReturned m \<and> enforcement_disconnect m \<and>
    unat (timeout_or_error_count m) = 3"
  using assms by (intro strict_loop_ends) (simp_all add: default_metrics_def)

theorem strict_heartbeat_terminates_witness:
  "\<exists>m. heartbeat_loop (\<lambda>_. Inl ''e'') ClientStrict 1 default_metrics
     [IntervalElapsed None [ReadTimedOut], IntervalElapsed None [ServerLine ''x''], IntervalElapsed (Some ''broken pipe'') []] = LoopReturned m \<and>
   enforcement_disconnect m \<and> unat (timeout_or_error_count m) = 3"
proof -
  have "list_all (ping_fails (\<lambda>_. Inl ''e''))
      [IntervalElapsed None [ReadTimedOut], IntervalElapsed None [ServerLine ''x''], IntervalElapsed (Some ''broken pipe'') []]"
    by (simp add: ping_fails_def send_ping_and_wait_with_timeout_def)
  then show ?thesis
    by (intro strict_heartbeat_terminates) simp_all
qed

text \<open>
  Each read has its own deadline, so a peer that keeps sending other messages holds the exchange open
  for ever; and a closed stream is a panic, not an error.
\<close>

lemma unrelated_lines_extend_the_wait:
  "\<forall>line. decode line = Inr (ChatBroadcast from msg) \<Longrightarrow>
   fst (send_ping_and_wait_with_timeout decode None seq (map ServerLine ls)) = StillWaiting"
proof -
  assume "\<forall>line. decode line = Inr (ChatBroadcast from msg)"
  then have "fst (await_pong decode seq (map ServerLine ls) sent) = StillWaiting" for sent
    by (induction ls arbitrary: sent) auto
  then show ?thesis by (simp add: send_ping_and_wait_with_timeout_def)
qed

text \<open>The manual ping waits for two messages before it sends anything.\<close>

lemma missing_message_is_awaited:
  "decode line = Inr m \<Longrightarrow> perform_ping_once decode write_error seq [ServerLine line] = (StillWaiting, [])"
  by (simp add: perform_ping_once_def after_message_def)

lemma closed_stream_panics: "fst (send_ping_and_wait_with_timeout decode None seq (StreamClosed # rs)) = PingPanic"
  by (simp add: send_ping_and_wait_with_timeout_def)

end
