(* ===== verification/Hash_Chain.thy ===== *)
theory Hash_Chain
  imports Prelude
begin

text \<open>
  The hash-chained mutation journal of the client: the hash type and chain link of
  \<^verbatim>\<open>crates/client/src/hash.rs\<close>, and the entries, the writer and the reader of
  \<^verbatim>\<open>crates/client/src/journal.rs\<close>.

  SHA-256 and the JSON codec are external: they are the fields of the record \<open>journal_lib\<close>.
  The type of JSON values is a type parameter. Clock and random identifiers are arguments. The
  journal file is its text, \<^const>\<open>None\<close> when it does not exist.
\<close>

section \<open>Hashes\<close>

type_synonym Hash = bytes

definition GENESIS :: Hash where
  "GENESIS = replicate 32 0"

definition hex_digit :: "nat \<Rightarrow> char" where
  "hex_digit n = (if n < 10 then char_of (48 + n) else char_of (87 + n))"

definition byte_hex :: "u8 \<Rightarrow> string" where
  "byte_hex b = [hex_digit (unat b div 16), hex_digit (unat b mod 16)]"

definition prefixed_hex :: "Hash \<Rightarrow> string" where
  "prefixed_hex h = ''sha256:'' @ concat (map byte_hex h)"

text \<open>\<^verbatim>\<open>char::to_digit(16)\<close>: upper-case digits count too.\<close>

definition hex_value :: "char \<Rightarrow> nat option" where
  "hex_value c =
     (let n = of_char c :: nat in
      if 48 \<le> n \<and> n \<le> 57 then Some (n - 48)
      else if 97 \<le> n \<and> n \<le> 102 then Some (n - 87)
      else if 65 \<le> n \<and> n \<le> 70 then Some (n - 55)
      else None)"

text \<open>
  \<^verbatim>\<open>u8::from_str_radix\<close> in base 16 on two characters, which accepts a leading plus sign, and the
  UTF-8 check of a two-byte chunk.
\<close>

definition u8_from_hex :: "char \<Rightarrow> char \<Rightarrow> u8 option" where
  "u8_from_hex c d =
     (case hex_value d of
        None \<Rightarrow> None
      | Some lo \<Rightarrow>
          if c = CHR ''+'' then Some (of_nat lo)
          else map_option (\<lambda>hi. of_nat (16 * hi + lo)) (hex_value c))"

definition chunk_is_utf8 :: "char \<Rightarrow> char \<Rightarrow> bool" where
  "chunk_is_utf8 c d \<longleftrightarrow>
     (of_char c < (128 :: nat) \<and> of_char d < (128 :: nat)) \<or>
     (194 \<le> (of_char c :: nat) \<and> of_char c \<le> (223 :: nat) \<and> 128 \<le> (of_char d :: nat) \<and> of_char d \<le> (191 :: nat))"

fun parse_hex_chunks :: "nat \<Rightarrow> string \<Rightarrow> string + bytes" where
  "parse_hex_chunks i [] = Inr []"
| "parse_hex_chunks i [c] = Inl ''non-utf8 in hash hex''"
| "parse_hex_chunks i (c # d # cs) =
     (if \<not> chunk_is_utf8 c d then Inl ''non-utf8 in hash hex''
      else case u8_from_hex c d of
             None \<Rightarrow> Inl (''invalid hex at position '' @ show_nat (2 * i) @ '': '' @ [CHR 0x27, c, d, CHR 0x27])
           | Some b \<Rightarrow> res_bind (parse_hex_chunks (Suc i) cs) (\<lambda>bs. Inr (b # bs)))"

definition hash_from_str :: "string \<Rightarrow> string + Hash" where
  "hash_from_str s =
     (if \<not> starts_with s ''sha256:''
      then Inl (''Hash must start with '' @ [CHR 0x27] @ ''sha256:'' @ [CHR 0x27] @ '': got '' @
             [CHR 0x27] @ s @ [CHR 0x27])
      else let hex = drop 7 s in
           if length hex \<noteq> 64
           then Inl (''Hash hex must be exactly 64 characters, got '' @ show_nat (length hex))
           else parse_hex_chunks 0 hex)"

definition from_prefixed_hex :: "string \<Rightarrow> Hash option" where
  "from_prefixed_hex s = (case hash_from_str s of Inr h \<Rightarrow> Some h | Inl _ \<Rightarrow> None)"

definition hash_chain_link :: "(bytes \<Rightarrow> bytes) \<Rightarrow> Hash \<Rightarrow> bytes \<Rightarrow> Hash" where
  "hash_chain_link sha prev_hash payload = sha (prev_hash @ payload)"

section \<open>Journal entries\<close>

text \<open>A cache manifest entry, declared in \<^verbatim>\<open>crates/client/src/fetch.rs\<close>.\<close>

record CacheManifestEntry =
  ce_resource_name :: string
  ce_file_path :: string
  ce_sha256 :: string
  ce_size_bytes :: u64
  ce_source_scheme :: "string option"
  ce_source_uri :: "string option"

datatype MutationType = ManifestEntryRepair | FileRefetch | ManifestRebuild

primrec mutation_label :: "MutationType \<Rightarrow> string" where
  "mutation_label ManifestEntryRepair = ''manifest_entry_repair''"
| "mutation_label FileRefetch = ''file_refetch''"
| "mutation_label ManifestRebuild = ''manifest_rebuild''"

record MutationScope =
  ms_resource_name :: string
  ms_file_path :: "string option"

record LockScope =
  ls_resource_name :: string
  ls_file_path :: "string option"

record 'j JournalEntry =
  schema_version :: u32
  entry_id :: string
  sequence :: u64
  timestamp_unix_ms :: u64
  mutation_type :: MutationType
  target_scope :: MutationScope
  precondition_hash :: string
  postcondition_hash :: string
  operation_payload :: 'j
  idempotency_key :: string
  entry_hash :: string
  prev_entry_hash :: string
  chain_hash :: "string option"
  lock_scope :: "LockScope option"
  checkpoint_state :: "'j option"
  retry_count :: u32
  origin_context :: "string option"

text \<open>
  The external functions: the digest, the JSON bytes of an entry and of a scope, and the line codec
  of the journal file (serialisation can fail, hence the options).
\<close>

record 'j journal_lib =
  sha256_digest :: "bytes \<Rightarrow> bytes"
  utf8_bytes :: "string \<Rightarrow> bytes"
  entry_to_vec :: "'j JournalEntry \<Rightarrow> bytes option"
  scope_to_json :: "MutationScope \<Rightarrow> string option"
  entry_to_line :: "'j JournalEntry \<Rightarrow> string option"
  entry_from_line :: "string \<Rightarrow> 'j JournalEntry option"

definition compute_hash :: "'j journal_lib \<Rightarrow> 'j JournalEntry \<Rightarrow> Hash \<Rightarrow> string option" where
  "compute_hash lib e prev_hash =
     map_option (\<lambda>payload. prefixed_hex (hash_chain_link (sha256_digest lib) prev_hash payload))
       (entry_to_vec lib (e\<lparr>entry_hash := []\<rparr>))"

definition verify_hash :: "'j journal_lib \<Rightarrow> 'j JournalEntry \<Rightarrow> Hash \<Rightarrow> string + unit" where
  "verify_hash lib e prev_hash =
     (case compute_hash lib e prev_hash of
        None \<Rightarrow> Inl ''serialization failed''
      | Some expected \<Rightarrow>
          if entry_hash e \<noteq> expected
          then Inl (''entry '' @ entry_id e @ '' hash mismatch: expected='' @ expected @ '' actual='' @
                 entry_hash e)
          else Inr ())"

definition verify_prev_link :: "'j JournalEntry \<Rightarrow> Hash \<Rightarrow> string + unit" where
  "verify_prev_link e prev_hash =
     (if prev_hash = GENESIS \<and> prev_entry_hash e = ''genesis'' then Inr ()
      else if prev_entry_hash e \<noteq> prefixed_hex prev_hash
      then Inl (''entry '' @ entry_id e @ '' prev_entry_hash mismatch: expected='' @ prefixed_hex prev_hash @
             '' actual='' @ prev_entry_hash e)
      else Inr ())"

definition compute_idempotency_key ::
  "'j journal_lib \<Rightarrow> MutationType \<Rightarrow> MutationScope \<Rightarrow> string \<Rightarrow> string option" where
  "compute_idempotency_key lib mt scope post =
     map_option (\<lambda>scope_json.
         prefixed_hex (sha256_digest lib (utf8_bytes lib (mutation_label mt @ scope_json @ post))))
       (scope_to_json lib scope)"

definition journal_entry_new ::
  "'j journal_lib \<Rightarrow> string \<Rightarrow> u64 \<Rightarrow> u64 \<Rightarrow> MutationType \<Rightarrow> MutationScope \<Rightarrow> string \<Rightarrow> string \<Rightarrow> 'j \<Rightarrow>
   string \<Rightarrow> LockScope option \<Rightarrow> 'j option \<Rightarrow> string option \<Rightarrow> string + 'j JournalEntry" where
  "journal_entry_new lib new_id now seq mt scope pre post payload prev lock checkpoint origin =
     (case compute_idempotency_key lib mt scope post of
        None \<Rightarrow> Inl ''serialization failed''
      | Some key \<Rightarrow>
          let e = \<lparr>schema_version = 1, entry_id = new_id, sequence = seq, timestamp_unix_ms = now,
                   mutation_type = mt, target_scope = scope, precondition_hash = pre,
                   postcondition_hash = post, operation_payload = payload, idempotency_key = key,
                   entry_hash = [], prev_entry_hash = prev, chain_hash = None, lock_scope = lock,
                   checkpoint_state = checkpoint, retry_count = 0, origin_context = origin\<rparr>
          in case (if prev = ''genesis'' then Some GENESIS else from_prefixed_hex prev) of
               None \<Rightarrow> Inl (''invalid prev_entry_hash: '' @ prev)
             | Some prev_hash \<Rightarrow>
                 (case compute_hash lib e prev_hash of
                    None \<Rightarrow> Inl ''serialization failed''
                  | Some h \<Rightarrow> Inr (e\<lparr>entry_hash := h\<rparr>)))"

section \<open>The journal file\<close>

type_synonym journal_file = "string option"

definition journal_append ::
  "'j journal_lib \<Rightarrow> 'j JournalEntry \<Rightarrow> journal_file \<Rightarrow> string + journal_file" where
  "journal_append lib e f =
     (case entry_to_line lib e of
        None \<Rightarrow> Inl ''serialization failed''
      | Some line \<Rightarrow> Inr (Some (unwrap_or f [] @ line @ [CHR 0x0A])))"

fun parse_lines :: "'j journal_lib \<Rightarrow> string list \<Rightarrow> string + 'j JournalEntry list" where
  "parse_lines lib [] = Inr []"
| "parse_lines lib (l # ls) =
     (if str_trim l = [] then parse_lines lib ls
      else case entry_from_line lib (str_trim l) of
             None \<Rightarrow> Inl ''malformed journal entry''
           | Some e \<Rightarrow> res_bind (parse_lines lib ls) (\<lambda>es. Inr (e # es)))"

definition read_after ::
  "'j journal_lib \<Rightarrow> journal_file \<Rightarrow> u64 \<Rightarrow> string + 'j JournalEntry list" where
  "read_after lib f after_sequence =
     (case f of
        None \<Rightarrow> Inr []
      | Some text \<Rightarrow>
          res_bind (parse_lines lib (split_at_char CHR 0x0A text)) (\<lambda>es.
            Inr (sort_key sequence (filter (\<lambda>e. sequence e > after_sequence) es))))"

fun verify_entries :: "'j journal_lib \<Rightarrow> Hash \<Rightarrow> 'j JournalEntry list \<Rightarrow> string + unit" where
  "verify_entries lib prev [] = Inr ()"
| "verify_entries lib prev (e # es) =
     res_bind (verify_prev_link e prev) (\<lambda>_.
     res_bind (verify_hash lib e prev) (\<lambda>_.
       case from_prefixed_hex (entry_hash e) of
         None \<Rightarrow> Inl (''entry '' @ entry_id e @ '' has invalid entry_hash format: '' @ entry_hash e)
       | Some h \<Rightarrow> verify_entries lib h es))"

definition journal_verify :: "'j journal_lib \<Rightarrow> journal_file \<Rightarrow> string + u64" where
  "journal_verify lib f =
     res_bind (read_after lib f 0) (\<lambda>es.
     res_bind (verify_entries lib GENESIS es) (\<lambda>_. Inr (of_nat (length es))))"

section \<open>Hexadecimal round trip\<close>

lemma hex_value_digit: "n < 16 \<Longrightarrow> hex_value (hex_digit n) = Some n"
  by (simp add: hex_value_def hex_digit_def)

lemma hex_digit_ascii: "n < 16 \<Longrightarrow> of_char (hex_digit n) < (128 :: nat) \<and> hex_digit n \<noteq> CHR ''+''"
proof -
  assume "n < 16"
  then have "of_char (hex_digit n) = (if n < 10 then 48 + n else 87 + n)"
    by (simp add: hex_digit_def)
  with \<open>n < 16\<close> show ?thesis
    by (auto split: if_splits)
qed

lemma byte_nibbles: "unat (b :: u8) div 16 < 16" "unat b mod 16 < 16"
  using unsigned_less [of b, where 'a = nat] by simp_all

lemma u8_from_byte_hex:
  "u8_from_hex (hex_digit (unat b div 16)) (hex_digit (unat b mod 16)) = Some b"
proof -
  have "16 * (unat b div 16) + unat b mod 16 = unat b" by simp
  then have "of_nat (16 * (unat b div 16) + unat b mod 16) = (of_nat (unat b) :: u8)"
    by (simp only:)
  also have "\<dots> = b" by simp
  finally show ?thesis
    using byte_nibbles [of b]
    by (simp add: u8_from_hex_def hex_value_digit hex_digit_ascii del: of_nat_add of_nat_mult)
qed

lemma parse_hex_chunks_print: "parse_hex_chunks i (concat (map byte_hex bs)) = Inr bs"
proof (induction bs arbitrary: i)
  case (Cons b bs)
  have "chunk_is_utf8 (hex_digit (unat b div 16)) (hex_digit (unat b mod 16))"
    using byte_nibbles [of b] hex_digit_ascii by (simp add: chunk_is_utf8_def)
  then show ?case
    by (simp add: byte_hex_def [of b] u8_from_byte_hex Cons)
qed simp

lemma length_hex: "length (concat (map byte_hex bs)) = 2 * length bs"
  by (induction bs) (simp_all add: byte_hex_def)

lemma parse_print_hash: "length h = 32 \<Longrightarrow> hash_from_str (prefixed_hex h) = Inr h"
  by (simp add: hash_from_str_def prefixed_hex_def length_hex parse_hex_chunks_print)

lemma from_prefixed_hex_print: "length h = 32 \<Longrightarrow> from_prefixed_hex (prefixed_hex h) = Some h"
  by (simp add: from_prefixed_hex_def parse_print_hash)

lemma prefixed_hex_inj: "length h = 32 \<Longrightarrow> length k = 32 \<Longrightarrow> prefixed_hex h = prefixed_hex k \<longleftrightarrow> h = k"
  by (metis from_prefixed_hex_print option.inject)

lemma length_parsed_chunks: "parse_hex_chunks i s = Inr bs \<Longrightarrow> length s = 2 * length bs"
  by (induction i s arbitrary: bs rule: parse_hex_chunks.induct)
    (auto simp: res_bind_Inr_iff split: if_splits option.splits)

lemma length_parsed_hash: "hash_from_str s = Inr h \<Longrightarrow> length h = 32"
  by (auto simp: hash_from_str_def Let_def dest: length_parsed_chunks split: if_splits)

lemma hex_digit_lower: "n < 16 \<Longrightarrow> hex_digit n \<in> set ''0123456789abcdef''"
proof -
  assume "n < 16"
  then have "n \<in> set [0..<16]" by simp
  moreover have "list_all (\<lambda>n. hex_digit n \<in> set ''0123456789abcdef'') [0..<16]" by code_simp
  ultimately show ?thesis unfolding list_all_iff by blast
qed

lemma printed_hash_digits: "c \<in> set (concat (map byte_hex h)) \<Longrightarrow> c \<in> set ''0123456789abcdef''"
proof -
  assume "c \<in> set (concat (map byte_hex h))"
  then obtain b where "c = hex_digit (unat (b :: u8) div 16) \<or> c = hex_digit (unat b mod 16)"
    by (auto simp: byte_hex_def)
  with hex_digit_lower byte_nibbles [of b] show ?thesis by blast
qed

section \<open>Verified chains\<close>

abbreviation entry_payload :: "'j journal_lib \<Rightarrow> 'j JournalEntry \<Rightarrow> bytes option" where
  "entry_payload lib e \<equiv> entry_to_vec lib (e\<lparr>entry_hash := []\<rparr>)"

fun chain_ok :: "'j journal_lib \<Rightarrow> Hash \<Rightarrow> 'j JournalEntry list \<Rightarrow> bool" where
  "chain_ok lib prev [] \<longleftrightarrow> True"
| "chain_ok lib prev (e # es) \<longleftrightarrow>
     (case entry_payload lib e of
        None \<Rightarrow> False
      | Some payload \<Rightarrow>
          (prev_entry_hash e = prefixed_hex prev \<or> (prev = GENESIS \<and> prev_entry_hash e = ''genesis'')) \<and>
          entry_hash e = prefixed_hex (hash_chain_link (sha256_digest lib) prev payload) \<and>
          chain_ok lib (hash_chain_link (sha256_digest lib) prev payload) es)"

definition digest_32 :: "'j journal_lib \<Rightarrow> bool" where
  "digest_32 lib \<longleftrightarrow> (\<forall>b. length (sha256_digest lib b) = 32)"

lemma length_chain_link [simp]:
  "digest_32 lib \<Longrightarrow> length (hash_chain_link (sha256_digest lib) prev payload) = 32"
  by (simp add: digest_32_def hash_chain_link_def)

lemma verify_prev_link_ok:
  "verify_prev_link e prev = Inr () \<longleftrightarrow>
     prev_entry_hash e = prefixed_hex prev \<or> (prev = GENESIS \<and> prev_entry_hash e = ''genesis'')"
  by (auto simp: verify_prev_link_def)

lemma verify_hash_ok:
  "verify_hash lib e prev = Inr () \<longleftrightarrow>
     (\<exists>payload. entry_payload lib e = Some payload \<and>
        entry_hash e = prefixed_hex (hash_chain_link (sha256_digest lib) prev payload))"
  by (auto simp: verify_hash_def compute_hash_def split: option.splits)

lemma verify_entries_iff:
  assumes "digest_32 lib"
  shows "verify_entries lib prev es = Inr () \<longleftrightarrow> chain_ok lib prev es"
proof (induction es arbitrary: prev)
  case (Cons e es)
  show ?case
  proof (cases "entry_payload lib e")
    case None
    then have "verify_hash lib e prev \<noteq> Inr ()"
      using verify_hash_ok [of lib e prev] by simp
    with None show ?thesis
      by (auto simp: res_bind_Inr_iff)
  next
    case (Some payload)
    let ?h = "hash_chain_link (sha256_digest lib) prev payload"
    have "verify_entries lib prev (e # es) = Inr () \<longleftrightarrow>
        verify_prev_link e prev = Inr () \<and> entry_hash e = prefixed_hex ?h \<and>
        (case from_prefixed_hex (entry_hash e) of
           None \<Rightarrow> False | Some h \<Rightarrow> verify_entries lib h es = Inr ())"
      using Some verify_hash_ok [of lib e prev] by (auto simp: res_bind_Inr_iff split: option.splits)
    also have "\<dots> \<longleftrightarrow> chain_ok lib prev (e # es)"
      using Some assms by (cases "entry_hash e = prefixed_hex ?h")
        (simp_all add: verify_prev_link_ok from_prefixed_hex_print Cons.IH)
    finally show ?thesis .
  qed
qed simp

text \<open>The hash at the end of a chain.\<close>

fun chain_head :: "'j journal_lib \<Rightarrow> Hash \<Rightarrow> 'j JournalEntry list \<Rightarrow> Hash" where
  "chain_head lib prev [] = prev"
| "chain_head lib prev (e # es) =
     chain_head lib (hash_chain_link (sha256_digest lib) prev (unwrap_or (entry_payload lib e) [])) es"

lemma length_chain_head: "digest_32 lib \<Longrightarrow> length prev = 32 \<Longrightarrow> length (chain_head lib prev es) = 32"
  by (induction es arbitrary: prev) simp_all

lemma chain_head_last:
  "chain_ok lib prev es \<Longrightarrow> es \<noteq> [] \<Longrightarrow> entry_hash (last es) = prefixed_hex (chain_head lib prev es)"
proof (induction es arbitrary: prev)
  case (Cons e es)
  then obtain q where q: "entry_payload lib e = Some q"
    "entry_hash e = prefixed_hex (hash_chain_link (sha256_digest lib) prev q)"
    "chain_ok lib (hash_chain_link (sha256_digest lib) prev q) es"
    by (auto split: option.splits)
  with Cons.IH [OF q(3)] show ?case
    by (cases es) simp_all
qed simp

lemma chain_ok_snoc:
  "chain_ok lib prev (es @ [e]) \<longleftrightarrow> chain_ok lib prev es \<and> chain_ok lib (chain_head lib prev es) [e]"
proof (induction es arbitrary: prev)
  case (Cons a es)
  then show ?case
    by (cases "entry_payload lib a") simp_all
qed simp

text \<open>The byte strings the verifier hashes along a chain, and a collision between two such lists.\<close>

fun hashed_inputs :: "'j journal_lib \<Rightarrow> Hash \<Rightarrow> 'j JournalEntry list \<Rightarrow> bytes list" where
  "hashed_inputs lib prev [] = []"
| "hashed_inputs lib prev (e # es) =
     (let payload = unwrap_or (entry_payload lib e) []
      in (prev @ payload) # hashed_inputs lib (hash_chain_link (sha256_digest lib) prev payload) es)"

definition collide :: "(bytes \<Rightarrow> bytes) \<Rightarrow> bytes list \<Rightarrow> bytes list \<Rightarrow> bool" where
  "collide sha xs ys \<longleftrightarrow> (\<exists>x \<in> set xs. \<exists>y \<in> set ys. x \<noteq> y \<and> sha x = sha y)"

lemma collide_Cons:
  "\<not> collide sha (x # xs) (y # ys) \<Longrightarrow> (sha x = sha y \<longrightarrow> x = y) \<and> \<not> collide sha xs ys"
  by (auto simp: collide_def)

lemma chain_head_binds:
  assumes "digest_32 lib" and "length es = length es'" and "length p = 32" and "length p' = 32"
    and "\<not> collide (sha256_digest lib) (hashed_inputs lib p es) (hashed_inputs lib p' es')"
    and "chain_ok lib p es" and "chain_ok lib p' es'" and "chain_head lib p es = chain_head lib p' es'"
  shows "p = p' \<and> map (entry_payload lib) es = map (entry_payload lib) es'"
  using assms(2-8)
proof (induction es es' arbitrary: p p' rule: list_induct2)
  case (Cons e es e' es')
  obtain q q' where q: "entry_payload lib e = Some q" "entry_payload lib e' = Some q'"
    using Cons.prems by (auto split: option.splits)
  let ?h = "hash_chain_link (sha256_digest lib)"
  have nc: "sha256_digest lib (p @ q) = sha256_digest lib (p' @ q') \<longrightarrow> p @ q = p' @ q'"
    "\<not> collide (sha256_digest lib) (hashed_inputs lib (?h p q) es) (hashed_inputs lib (?h p' q') es')"
    using collide_Cons [of "sha256_digest lib" "p @ q" _ "p' @ q'"] Cons.prems(3) q by (simp_all add: Let_def)
  have "?h p q = ?h p' q' \<and> map (entry_payload lib) es = map (entry_payload lib) es'"
    using Cons.prems q assms(1) nc(2) by (intro Cons.IH) auto
  moreover from this nc(1) have "p @ q = p' @ q'"
    unfolding hash_chain_link_def by blast
  ultimately show ?case
    using q Cons.prems(1,2) by simp
qed simp

section \<open>Writing and reading\<close>

text \<open>What the journal relies on from the JSON codec for an entry: one line of text that parses back.\<close>

definition codec_ok :: "'j journal_lib \<Rightarrow> 'j JournalEntry \<Rightarrow> bool" where
  "codec_ok lib e \<longleftrightarrow>
     (\<exists>l. entry_to_line lib e = Some l \<and> CHR 0x0A \<notin> set l \<and> l \<noteq> [] \<and> str_trim l = l \<and>
        entry_from_line lib l = Some e)"

fun append_all ::
  "'j journal_lib \<Rightarrow> 'j JournalEntry list \<Rightarrow> journal_file \<Rightarrow> string + journal_file" where
  "append_all lib [] f = Inr f"
| "append_all lib (e # es) f = res_bind (journal_append lib e f) (append_all lib es)"

lemma parse_lines_append:
  "parse_lines lib (xs @ ys) =
     res_bind (parse_lines lib xs) (\<lambda>es. res_bind (parse_lines lib ys) (\<lambda>es'. Inr (es @ es')))"
proof (induction xs)
  case Nil
  then show ?case by (cases "parse_lines lib ys") simp_all
next
  case (Cons x xs)
  then show ?case
    by (cases "parse_lines lib xs"; cases "parse_lines lib ys") (auto split: option.splits)
qed

text \<open>The file holds exactly the given entries, one per line.\<close>

definition holds_entries :: "'j journal_lib \<Rightarrow> journal_file \<Rightarrow> 'j JournalEntry list \<Rightarrow> bool" where
  "holds_entries lib f es \<longleftrightarrow>
     (f = None \<and> es = []) \<or>
     (\<exists>ls. f = Some (concat (map (\<lambda>l. l @ [CHR 0x0A]) ls)) \<and> (\<forall>l \<in> set ls. CHR 0x0A \<notin> set l) \<and>
        parse_lines lib ls = Inr es)"

lemma split_terminated_lines:
  "\<forall>l \<in> set ls. CHR 0x0A \<notin> set l \<Longrightarrow>
   split_at_char CHR 0x0A (concat (map (\<lambda>l. l @ [CHR 0x0A]) ls)) = ls @ [[]]"
  by (induction ls) (simp_all add: split_at_char_append)

lemma holds_entries_read:
  assumes "holds_entries lib f es"
  shows "read_after lib f n = Inr (sort_key sequence (filter (\<lambda>e. sequence e > n) es))"
proof (cases f)
  case None
  with assms show ?thesis by (simp add: holds_entries_def read_after_def)
next
  case (Some content)
  with assms obtain ls where "content = concat (map (\<lambda>l. l @ [CHR 0x0A]) ls)" "\<forall>l \<in> set ls. CHR 0x0A \<notin> set l"
    "parse_lines lib ls = Inr es"
    by (auto simp: holds_entries_def)
  with Some show ?thesis
    by (simp add: read_after_def split_terminated_lines parse_lines_append str_trim_def)
qed

lemma holds_entries_append:
  assumes "holds_entries lib f es" and "codec_ok lib e"
  shows "\<exists>f'. journal_append lib e f = Inr f' \<and> holds_entries lib f' (es @ [e])"
proof -
  obtain l where l: "entry_to_line lib e = Some l" "CHR 0x0A \<notin> set l" "l \<noteq> []" "str_trim l = l"
    "entry_from_line lib l = Some e"
    using assms(2) by (auto simp: codec_ok_def)
  obtain ls where ls: "unwrap_or f [] = concat (map (\<lambda>l. l @ [CHR 0x0A]) ls)"
    "\<forall>l \<in> set ls. CHR 0x0A \<notin> set l" "parse_lines lib ls = Inr es"
    using assms(1) by (auto simp: holds_entries_def intro: that [of "[]"])
  have "holds_entries lib (Some (unwrap_or f [] @ l @ [CHR 0x0A])) (es @ [e])"
    unfolding holds_entries_def using l ls
    by (intro disjI2 exI [of _ "ls @ [l]"]) (simp add: parse_lines_append)
  with l(1) show ?thesis
    by (simp add: journal_append_def)
qed

lemma append_all_holds:
  "holds_entries lib f es \<Longrightarrow> \<forall>e \<in> set new. codec_ok lib e \<Longrightarrow>
   \<exists>f'. append_all lib new f = Inr f' \<and> holds_entries lib f' (es @ new)"
proof (induction new arbitrary: f es)
  case (Cons e new)
  then obtain f1 where "journal_append lib e f = Inr f1" "holds_entries lib f1 (es @ [e])"
    using holds_entries_append [of lib f es e] by auto
  with Cons.IH [of f1 "es @ [e]"] Cons.prems(2) show ?case
    by simp
qed simp

section \<open>A sample journal\<close>

definition demo_lib :: "unit journal_lib" where
  "demo_lib =
     \<lparr>sha256_digest = (\<lambda>b. take 32 (rev b @ replicate 32 0)), utf8_bytes = map of_char,
      entry_to_vec = (\<lambda>e. Some [of_nat (unat (sequence e))]), scope_to_json = (\<lambda>s. Some ''{}''),
      entry_to_line = (\<lambda>e. Some ''x''), entry_from_line = (\<lambda>_. None)\<rparr>"

definition demo_entry :: "u64 \<Rightarrow> string \<Rightarrow> string + unit JournalEntry" where
  "demo_entry seq prev =
     journal_entry_new demo_lib ''id'' 0 seq FileRefetch \<lparr>ms_resource_name = ''chat'', ms_file_path = None\<rparr>
       ''a'' ''b'' () prev None None None"

definition demo_first :: "unit JournalEntry" where
  "demo_first = projr (demo_entry 1 ''genesis'')"

definition demo_file_lib :: "unit journal_lib" where
  "demo_file_lib = demo_lib\<lparr>entry_from_line := (\<lambda>_. Some demo_first)\<rparr>"

lemma demo_digest: "\<forall>b. length (sha256_digest demo_lib b) = 32" "\<forall>b. length (sha256_digest demo_file_lib b) = 32"
  by (simp_all add: demo_lib_def demo_file_lib_def min_def)

lemma demo_built: "demo_entry 1 ''genesis'' = Inr demo_first"
  by (simp add: demo_first_def demo_entry_def journal_entry_new_def demo_lib_def
      compute_idempotency_key_def compute_hash_def Let_def)

lemma demo_fields:
  "sequence demo_first = 1" "prev_entry_hash demo_first = ''genesis''"
  "entry_hash demo_first = prefixed_hex (hash_chain_link (sha256_digest demo_file_lib) GENESIS [1])"
  by (simp_all add: demo_first_def demo_entry_def journal_entry_new_def demo_lib_def demo_file_lib_def
      compute_idempotency_key_def compute_hash_def Let_def)

lemma demo_read: "read_after demo_file_lib (Some (''x'' @ [CHR 0x0A])) 0 = Inr [demo_first]"
  by (simp add: read_after_def demo_file_lib_def str_trim_def ascii_space_def demo_fields)

lemma demo_verified: "journal_verify demo_file_lib (Some (''x'' @ [CHR 0x0A])) = Inr 1"
proof -
  have "digest_32 demo_file_lib"
    using demo_digest(2) by (simp add: digest_32_def)
  moreover have "entry_payload demo_file_lib demo_first = Some [1]"
    by (simp add: demo_file_lib_def demo_lib_def demo_fields(1))
  ultimately have "verify_entries demo_file_lib GENESIS [demo_first] = Inr ()"
    by (simp add: verify_entries_iff demo_fields(2,3) del: verify_entries.simps)
  then show ?thesis
    by (simp only: journal_verify_def demo_read res_bind.simps) simp
qed

section \<open>Properties\<close>

text \<open>C31: The invariant of the hash type: whatever text is accepted, the hash has exactly 32 bytes, its
  canonical text has the prefix and 64 lower-case hexadecimal digits, and that text parses to the
  same hash again.
\<close>

theorem parsed_hash_canonical:
  assumes "hash_from_str s = Inr h"
  shows "length h = 32 \<and> take 7 (prefixed_hex h) = ''sha256:'' \<and> length (prefixed_hex h) = 71 \<and>
    set (drop 7 (prefixed_hex h)) \<subseteq> set ''0123456789abcdef'' \<and> hash_from_str (prefixed_hex h) = Inr h"
proof -
  have "set (concat (map byte_hex h)) \<subseteq> set ''0123456789abcdef''"
    using printed_hash_digits by blast
  then show ?thesis
    using length_parsed_hash [OF assms] parse_print_hash [of h]
    by (simp add: prefixed_hex_def length_hex del: list.set set_concat)
qed

theorem parsed_hash_canonical_witness:
  "hash_from_str (''sha256:'' @ replicate 64 CHR ''A'') = Inr (replicate 32 170) \<and> length (prefixed_hex (replicate 32 170)) = 71"
proof -
  have "hash_from_str (''sha256:'' @ replicate 64 CHR ''A'') = Inr (replicate 32 170)"
    by code_simp
  with parsed_hash_canonical [OF this] show ?thesis by blast
qed

text \<open>Printing and parsing a hash round-trip: the canonical text of a 32-byte hash parses back to
  the same bytes, so different hashes have different texts.\<close>

theorem hash_text_roundtrip:
  assumes "length h = 32"
  shows "hash_from_str (prefixed_hex h) = Inr h"
  using assms by (rule parse_print_hash)

theorem hash_text_roundtrip_witness: "hash_from_str (prefixed_hex GENESIS) = Inr GENESIS"
  by (rule hash_text_roundtrip) (simp add: GENESIS_def)

text \<open>The parser accepts more than the canonical form: upper-case digits, and a plus sign in place
  of the first digit of a byte.\<close>

theorem hash_parser_accepts_noncanonical:
  "hash_from_str (''sha256:'' @ replicate 64 CHR ''A'') = Inr (replicate 32 170) \<and>
   hash_from_str (''sha256:+f'' @ replicate 62 CHR ''0'') = Inr (15 # replicate 31 0)"
  by code_simp

text \<open>C3: The journal is tamper-evident: if two journal files verify, have the same number of entries
  and the same hash in their last entry, then they have the same contents entry by entry (the
  serialised form without the hash), or the two verifications together exhibit a
  SHA-256 collision between inputs they hash. The only fact used about the
  digest is that it has 32 bytes.\<close>

theorem verified_journal_tamper_evident:
  assumes "\<forall>b. length (sha256_digest lib b) = 32"
    and "journal_verify lib f = Inr n" and "journal_verify lib g = Inr n'"
    and "read_after lib f 0 = Inr (es @ [e])" and "read_after lib g 0 = Inr (es' @ [e'])"
    and "length es = length es'" and "entry_hash e = entry_hash e'"
  shows "map (\<lambda>x. entry_to_vec lib (x\<lparr>entry_hash := []\<rparr>)) (es @ [e]) =
      map (\<lambda>x. entry_to_vec lib (x\<lparr>entry_hash := []\<rparr>)) (es' @ [e']) \<or>
    (\<exists>x \<in> set (hashed_inputs lib GENESIS (es @ [e])). \<exists>y \<in> set (hashed_inputs lib GENESIS (es' @ [e'])).
       x \<noteq> y \<and> sha256_digest lib x = sha256_digest lib y)"
proof (cases "collide (sha256_digest lib) (hashed_inputs lib GENESIS (es @ [e])) (hashed_inputs lib GENESIS (es' @ [e']))")
  case True
  then show ?thesis by (simp add: collide_def)
next
  case False
  have digest: "digest_32 lib" using assms(1) by (simp add: digest_32_def)
  have chains: "chain_ok lib GENESIS (es @ [e])" "chain_ok lib GENESIS (es' @ [e'])"
    using assms(2-5) by (auto simp: journal_verify_def res_bind_Inr_iff verify_entries_iff [OF digest])
  have genesis: "length GENESIS = 32" by (simp add: GENESIS_def)
  have "chain_head lib GENESIS (es @ [e]) = chain_head lib GENESIS (es' @ [e'])"
    using chain_head_last [OF chains(1)] chain_head_last [OF chains(2)] assms(7)
      prefixed_hex_inj [OF length_chain_head [OF digest genesis] length_chain_head [OF digest genesis]]
    by simp
  from chain_head_binds [OF digest _ genesis genesis False chains this] assms(6)
  show ?thesis by simp
qed

theorem verified_journal_tamper_evident_witness:
  "map (\<lambda>x. entry_to_vec demo_file_lib (x\<lparr>entry_hash := []\<rparr>)) ([] @ [demo_first]) =
     map (\<lambda>x. entry_to_vec demo_file_lib (x\<lparr>entry_hash := []\<rparr>)) ([] @ [demo_first]) \<or>
   (\<exists>x \<in> set (hashed_inputs demo_file_lib GENESIS ([] @ [demo_first])).
    \<exists>y \<in> set (hashed_inputs demo_file_lib GENESIS ([] @ [demo_first])).
      x \<noteq> y \<and> sha256_digest demo_file_lib x = sha256_digest demo_file_lib y)"
  by (rule verified_journal_tamper_evident [OF demo_digest(2) demo_verified demo_verified])
    (use demo_read in simp_all)

text \<open>C34: Appending keeps a journal valid: an entry built by the constructor from the hash of the last
  entry (or from genesis when the journal is empty) extends a verified chain to a verified
  chain.\<close>

theorem appended_entry_keeps_chain:
  assumes "\<forall>b. length (sha256_digest lib b) = 32"
    and "verify_entries lib GENESIS es = Inr ()"
    and "journal_entry_new lib new_id now seq mt scope pre post payload
      (if es = [] then ''genesis'' else entry_hash (last es)) lock checkpoint origin = Inr e"
  shows "verify_entries lib GENESIS (es @ [e]) = Inr ()"
proof -
  have digest: "digest_32 lib" using assms(1) by (simp add: digest_32_def)
  have chain: "chain_ok lib GENESIS es"
    using assms(2) verify_entries_iff [OF digest] by blast
  let ?head = "chain_head lib GENESIS es"
  let ?prev = "if es = [] then ''genesis'' else entry_hash (last es)"
  have prev: "?prev = (if es = [] then ''genesis'' else prefixed_hex ?head)"
    using chain_head_last [OF chain] by simp
  have "length ?head = 32"
    by (rule length_chain_head [OF digest]) (simp add: GENESIS_def)
  then have resolved: "(if ?prev = ''genesis'' then Some GENESIS else from_prefixed_hex ?prev) = Some ?head"
    unfolding prev by (simp add: from_prefixed_hex_print) (simp add: prefixed_hex_def)
  have "\<exists>q. entry_payload lib e = Some q \<and> entry_hash e = prefixed_hex (hash_chain_link (sha256_digest lib) ?head q) \<and>
      prev_entry_hash e = ?prev"
    using assms(3) unfolding journal_entry_new_def resolved
    by (auto simp: Let_def compute_hash_def split: option.splits)
  then have "chain_ok lib ?head [e]"
    unfolding prev by (cases "es = []") auto
  with chain show ?thesis
    by (simp add: verify_entries_iff [OF digest] chain_ok_snoc)
qed

theorem appended_entry_keeps_chain_witness:
  "verify_entries demo_lib GENESIS ([] @ [demo_first]) = Inr ()"
proof (rule appended_entry_keeps_chain [OF demo_digest(1)])
  show "journal_entry_new demo_lib ''id'' 0 1 FileRefetch \<lparr>ms_resource_name = ''chat'', ms_file_path = None\<rparr>
      ''a'' ''b'' () (if [] = [] then ''genesis'' else entry_hash (last [])) None None None = Inr demo_first"
    using demo_built by (simp add: demo_entry_def)
qed simp

text \<open>Written entries are read back: appending entries whose lines the codec can parse back to an
  absent journal file succeeds, and reading after a sequence number returns exactly those with
  a larger one, ordered by sequence number.\<close>

theorem journal_file_roundtrip:
  assumes "\<forall>e \<in> set es. \<exists>l. entry_to_line lib e = Some l \<and> CHR 0x0A \<notin> set l \<and> l \<noteq> [] \<and> str_trim l = l \<and>
      entry_from_line lib l = Some e"
  shows "\<exists>f. append_all lib es None = Inr f \<and>
    read_after lib f n = Inr (sort_key sequence (filter (\<lambda>e. n < sequence e) es))"
proof -
  have "holds_entries lib None []" by (simp add: holds_entries_def)
  moreover have "\<forall>e \<in> set es. codec_ok lib e"
    using assms by (simp add: codec_ok_def)
  ultimately obtain f where "append_all lib es None = Inr f" "holds_entries lib f es"
    using append_all_holds [of lib None "[]" es] by auto
  with holds_entries_read [of lib f es n] show ?thesis
    by auto
qed

theorem journal_file_roundtrip_witness:
  "\<exists>f. append_all demo_file_lib [demo_first] None = Inr f \<and>
     read_after demo_file_lib f 0 = Inr (sort_key sequence (filter (\<lambda>e. 0 < sequence e) [demo_first]))"
  by (rule journal_file_roundtrip)
    (simp add: demo_file_lib_def demo_lib_def str_trim_def ascii_space_def)

end
