(* ===== verification/Replay.thy ===== *)
theory Replay
  imports Hash_Chain Ordered_Map
begin

text \<open>
  Replay of the mutation journal: the derived view of \<^verbatim>\<open>crates/client/src/state.rs\<close>, the snapshots
  of \<^verbatim>\<open>crates/client/src/snapshot.rs\<close>, \<^verbatim>\<open>replay_journal\<close> of \<^verbatim>\<open>crates/client/src/replay.rs\<close> and the
  leases of \<^verbatim>\<open>crates/client/src/lock.rs\<close>.

  The snapshot directory is a map from file names to snapshots together with the head pointer; a
  lock directory is a map from file names to leases. Reads and writes of these directories do not
  fail in the model. JSON conversions are fields of the record \<open>replay_lib\<close>.
\<close>

section \<open>Snapshots and views\<close>

record ManifestSnapshot =
  sn_schema_version :: u32
  snapshot_id :: string
  sn_timestamp_unix_ms :: u64
  journal_head_hash :: string
  parent_snapshot_hash :: string
  snapshot_hash :: string
  sn_entries :: "CacheManifestEntry list"

record 'j replay_lib =
  jl :: "'j journal_lib"
  entries_to_json :: "CacheManifestEntry list \<Rightarrow> string option"
  snapshot_to_json :: "ManifestSnapshot \<Rightarrow> string option"
  lock_scope_to_json :: "LockScope \<Rightarrow> string option"
  upsert_from_value :: "'j \<Rightarrow> string + CacheManifestEntry"
  rebuild_from_value :: "'j \<Rightarrow> string + CacheManifestEntry list"

definition canonical_hash :: "'j replay_lib \<Rightarrow> string option \<Rightarrow> string option" where
  "canonical_hash lib json =
     map_option (\<lambda>j. prefixed_hex (sha256_digest (jl lib) (utf8_bytes (jl lib) j))) json"

definition compute_snapshot_hash :: "'j replay_lib \<Rightarrow> ManifestSnapshot \<Rightarrow> string option" where
  "compute_snapshot_hash lib snap = canonical_hash lib (snapshot_to_json lib (snap\<lparr>snapshot_hash := []\<rparr>))"

definition with_snapshot_hash :: "'j replay_lib \<Rightarrow> ManifestSnapshot \<Rightarrow> ManifestSnapshot option" where
  "with_snapshot_hash lib snap =
     map_option (\<lambda>h. snap\<lparr>snapshot_hash := h\<rparr>) (compute_snapshot_hash lib snap)"

definition genesis_snapshot ::
  "'j replay_lib \<Rightarrow> string \<Rightarrow> u64 \<Rightarrow> CacheManifestEntry list \<Rightarrow> ManifestSnapshot option" where
  "genesis_snapshot lib new_id now entries =
     with_snapshot_hash lib
       \<lparr>sn_schema_version = 1, snapshot_id = new_id, sn_timestamp_unix_ms = now,
        journal_head_hash = ''genesis'', parent_snapshot_hash = ''genesis'', snapshot_hash = [],
        sn_entries = entries\<rparr>"

definition verify_snapshot :: "'j replay_lib \<Rightarrow> ManifestSnapshot \<Rightarrow> string + unit" where
  "verify_snapshot lib snap =
     (case compute_snapshot_hash lib snap of
        None \<Rightarrow> Inl ''serialization failed''
      | Some expected \<Rightarrow>
          if snapshot_hash snap = expected then Inr ()
          else Inl (''snapshot_hash mismatch: id='' @ snapshot_id snap @ '' expected='' @ expected @
                 '' actual='' @ snapshot_hash snap))"

record snapshot_dir =
  snapshot_files :: "(string, ManifestSnapshot) btree"
  snapshot_head :: "ManifestSnapshot option"

definition load_latest_snapshot :: "'j replay_lib \<Rightarrow> snapshot_dir \<Rightarrow> string + ManifestSnapshot" where
  "load_latest_snapshot lib dir =
     (case snapshot_head dir of
        None \<Rightarrow> Inl ''failed to read snapshot pointer''
      | Some snap \<Rightarrow> res_bind (verify_snapshot lib snap) (\<lambda>_. Inr snap))"

definition write_snapshot ::
  "'j replay_lib \<Rightarrow> snapshot_dir \<Rightarrow> ManifestSnapshot \<Rightarrow> string + snapshot_dir" where
  "write_snapshot lib dir snap =
     res_bind (verify_snapshot lib snap) (\<lambda>_.
       Inr \<lparr>snapshot_files = bt_insert (''snapshot_'' @ snapshot_id snap @ ''.json'') snap (snapshot_files dir),
            snapshot_head = Some snap\<rparr>)"

record StateView =
  sv_entries :: "CacheManifestEntry list"
  sv_current_hash :: string

datatype ReplayViewError =
    PreconditionMismatch string string string
  | PostconditionMismatch string string string
  | UnsupportedMutationType string

fun replay_view_error_text :: "ReplayViewError \<Rightarrow> string" where
  "replay_view_error_text (PreconditionMismatch i e a) =
     ''precondition mismatch: entry='' @ i @ '' expected='' @ e @ '' actual='' @ a"
| "replay_view_error_text (PostconditionMismatch i e a) =
     ''postcondition mismatch: entry='' @ i @ '' expected='' @ e @ '' actual='' @ a"
| "replay_view_error_text (UnsupportedMutationType t) = ''unsupported mutation type: '' @ t"

definition view_from_snapshot :: "'j replay_lib \<Rightarrow> ManifestSnapshot \<Rightarrow> StateView option" where
  "view_from_snapshot lib snap =
     map_option (\<lambda>h. \<lparr>sv_entries = sn_entries snap, sv_current_hash = h\<rparr>)
       (canonical_hash lib (entries_to_json lib (sn_entries snap)))"

abbreviation entry_key :: "CacheManifestEntry \<Rightarrow> string \<times> string" where
  "entry_key e \<equiv> (ce_resource_name e, ce_file_path e)"

definition upsert_entry :: "CacheManifestEntry list \<Rightarrow> CacheManifestEntry \<Rightarrow> CacheManifestEntry list" where
  "upsert_entry entries e =
     sort_key (\<lambda>x. entry_key x) (filter (\<lambda>x. entry_key x \<noteq> entry_key e) entries @ [e])"

definition mutate_entries ::
  "'j replay_lib \<Rightarrow> 'j JournalEntry \<Rightarrow> CacheManifestEntry list \<Rightarrow> ReplayViewError + CacheManifestEntry list" where
  "mutate_entries lib je entries =
     (case mutation_type je of
        ManifestRebuild \<Rightarrow>
          (case rebuild_from_value lib (operation_payload je) of
             Inl err \<Rightarrow> Inl (UnsupportedMutationType (''manifest_rebuild: bad payload: '' @ err))
           | Inr new \<Rightarrow> Inr (sort_key (\<lambda>x. entry_key x) new))
      | _ \<Rightarrow>
          (case upsert_from_value lib (operation_payload je) of
             Inl err \<Rightarrow> Inl (UnsupportedMutationType
               (mutation_label (mutation_type je) @ '': bad payload: '' @ err))
           | Inr e \<Rightarrow> Inr (upsert_entry entries e)))"

definition check_condition ::
  "(string \<Rightarrow> string \<Rightarrow> string \<Rightarrow> ReplayViewError) \<Rightarrow> string \<Rightarrow> string \<Rightarrow> string option \<Rightarrow> ReplayViewError + string" where
  "check_condition mismatch i expected actual =
     (case actual of
        None \<Rightarrow> Inl (mismatch i expected ''<hash error>'')
      | Some h \<Rightarrow> if h \<noteq> expected then Inl (mismatch i expected h) else Inr h)"

definition apply_entry :: "'j replay_lib \<Rightarrow> StateView \<Rightarrow> 'j JournalEntry \<Rightarrow> ReplayViewError + StateView" where
  "apply_entry lib view je =
     res_bind (check_condition PreconditionMismatch (entry_id je) (precondition_hash je)
       (canonical_hash lib (entries_to_json lib (sv_entries view)))) (\<lambda>_.
     res_bind (mutate_entries lib je (sv_entries view)) (\<lambda>entries.
     res_bind (check_condition PostconditionMismatch (entry_id je) (postcondition_hash je)
       (canonical_hash lib (entries_to_json lib entries))) (\<lambda>post.
       Inr \<lparr>sv_entries = entries, sv_current_hash = post\<rparr>)))"

definition into_snapshot ::
  "'j replay_lib \<Rightarrow> string \<Rightarrow> u64 \<Rightarrow> StateView \<Rightarrow> string \<Rightarrow> ManifestSnapshot \<Rightarrow> ManifestSnapshot option" where
  "into_snapshot lib new_id now view head_hash parent =
     with_snapshot_hash lib
       \<lparr>sn_schema_version = 1, snapshot_id = new_id, sn_timestamp_unix_ms = now,
        journal_head_hash = head_hash, parent_snapshot_hash = snapshot_hash parent, snapshot_hash = [],
        sn_entries = sv_entries view\<rparr>"

section \<open>Replay\<close>

datatype ReplayError =
    RpPreconditionMismatch string string string
  | RpPostconditionMismatch string string string
  | RpHashChainBreak u64 string string
  | RpSnapshotVerificationFailed string string

fun replay_error_text :: "ReplayError \<Rightarrow> string" where
  "replay_error_text (RpPreconditionMismatch i e a) =
     ''precondition mismatch: entry='' @ i @ '' expected='' @ e @ '' actual='' @ a"
| "replay_error_text (RpPostconditionMismatch i e a) =
     ''postcondition mismatch: entry='' @ i @ '' expected='' @ e @ '' actual='' @ a"
| "replay_error_text (RpHashChainBreak n e a) =
     ''hash chain break at sequence='' @ show_u64 n @ '': expected_prev='' @ e @ '' actual_prev='' @ a"
| "replay_error_text (RpSnapshotVerificationFailed i reason) =
     ''snapshot verification failed: id='' @ i @ '' reason='' @ reason"

fun verify_links :: "string \<Rightarrow> 'j JournalEntry list \<Rightarrow> string + unit" where
  "verify_links prev [] = Inr ()"
| "verify_links prev (e # es) =
     (if prev_entry_hash e \<noteq> prev
      then Inl (replay_error_text (RpHashChainBreak (sequence e) prev (prev_entry_hash e)))
      else verify_links (entry_hash e) es)"

definition verify_hash_chain :: "ManifestSnapshot \<Rightarrow> 'j JournalEntry list \<Rightarrow> string + unit" where
  "verify_hash_chain snap es = verify_links (journal_head_hash snap) es"

definition sequence_from_journal_head ::
  "'j replay_lib \<Rightarrow> journal_file \<Rightarrow> string \<Rightarrow> string + u64" where
  "sequence_from_journal_head lib journal head_hash =
     (if head_hash = ''genesis'' then Inr 0
      else res_bind (read_after (jl lib) journal 0) (\<lambda>all.
        case find (\<lambda>e. entry_hash e = head_hash) all of
          None \<Rightarrow> Inl (''journal_head_hash '' @ head_hash @ '' not found in journal; snapshot may be orphaned'')
        | Some e \<Rightarrow> Inr (sequence e)))"

fun apply_all :: "'j replay_lib \<Rightarrow> StateView \<Rightarrow> 'j JournalEntry list \<Rightarrow> string + StateView" where
  "apply_all lib view [] = Inr view"
| "apply_all lib view (e # es) =
     (case apply_entry lib view e of
        Inl err \<Rightarrow> Inl (''replay failed at entry '' @ entry_id e @ '': '' @ replay_view_error_text err)
      | Inr view' \<Rightarrow> apply_all lib view' es)"

definition option_to_result :: "string \<Rightarrow> 'a option \<Rightarrow> string + 'a" where
  "option_to_result msg x = (case x of None \<Rightarrow> Inl msg | Some v \<Rightarrow> Inr v)"

text \<open>The new snapshot, and the directory it was persisted in.\<close>

definition replay_run ::
  "'j replay_lib \<Rightarrow> string \<Rightarrow> u64 \<Rightarrow> ManifestSnapshot \<Rightarrow> journal_file \<Rightarrow> snapshot_dir \<Rightarrow>
   string + ManifestSnapshot \<times> snapshot_dir" where
  "replay_run lib new_id now snap journal dir =
     (if verify_snapshot lib snap \<noteq> Inr ()
      then Inl (''refusing to replay from unverified snapshot: '' @ snapshot_id snap)
      else
        res_bind (sequence_from_journal_head lib journal (journal_head_hash snap)) (\<lambda>after_sequence.
        res_bind (read_after (jl lib) journal after_sequence) (\<lambda>entries.
          if entries = [] then Inr (snap, dir)
          else
            res_bind (verify_hash_chain snap entries) (\<lambda>_.
            res_bind (option_to_result ''failed to initialize state view from snapshot''
              (view_from_snapshot lib snap)) (\<lambda>view.
            res_bind (apply_all lib view entries) (\<lambda>view'.
            res_bind (option_to_result ''failed to compute snapshot hash after replay''
              (into_snapshot lib new_id now view' (entry_hash (last entries)) snap)) (\<lambda>new.
            res_bind (write_snapshot lib dir new) (\<lambda>dir'. Inr (new, dir')))))))))"

definition replay_journal ::
  "'j replay_lib \<Rightarrow> string \<Rightarrow> u64 \<Rightarrow> ManifestSnapshot \<Rightarrow> journal_file \<Rightarrow> snapshot_dir \<Rightarrow>
   (string + ManifestSnapshot) \<times> snapshot_dir" where
  "replay_journal lib new_id now snap journal dir =
     (case replay_run lib new_id now snap journal dir of
        Inl err \<Rightarrow> (Inl err, dir)
      | Inr (new, dir') \<Rightarrow> (Inr new, dir'))"

section \<open>Leases\<close>

record LockLease =
  ll_schema_version :: u32
  lock_id :: string
  ll_owner_id :: string
  acquired_at_unix_ms :: u64
  lease_duration_ms :: u64
  expires_at_unix_ms :: u64
  ll_scope :: LockScope
  scope_hash :: string
  ll_precondition_hash :: string
  last_journal_sequence_at_acquisition :: u64
  ll_writer_id :: string

record LeaseConfig =
  lc_owner_id :: string
  lc_writer_id :: string
  lc_lease_duration_ms :: u64

datatype LeaseReclaimOutcome = Reclaimed | RequiresRevalidation string

type_synonym lock_dir = "(string, LockLease) btree"

definition is_expired :: "u64 \<Rightarrow> LockLease \<Rightarrow> bool" where
  "is_expired now lease \<longleftrightarrow> expires_at_unix_ms lease \<le> now"

definition lock_file_name :: "LockLease \<Rightarrow> string" where
  "lock_file_name lease = ''lock_'' @ lock_id lease @ ''.json''"

definition acquire_lease ::
  "'j replay_lib \<Rightarrow> string \<Rightarrow> u64 \<Rightarrow> LockScope \<Rightarrow> u64 \<Rightarrow> string \<Rightarrow> LeaseConfig \<Rightarrow> lock_dir \<Rightarrow>
   string + LockLease \<times> lock_dir" where
  "acquire_lease lib new_id now scope last_seq pre config dir =
     (case canonical_hash lib (lock_scope_to_json lib scope) of
        None \<Rightarrow> Inl ''serialization failed''
      | Some h \<Rightarrow>
          let lease = \<lparr>ll_schema_version = 1, lock_id = new_id, ll_owner_id = lc_owner_id config,
                       acquired_at_unix_ms = now, lease_duration_ms = lc_lease_duration_ms config,
                       expires_at_unix_ms = now + lc_lease_duration_ms config, ll_scope = scope,
                       scope_hash = h, ll_precondition_hash = pre,
                       last_journal_sequence_at_acquisition = last_seq,
                       ll_writer_id = lc_writer_id config\<rparr>
          in Inr (lease, bt_insert (lock_file_name lease) lease dir))"

definition release_lease :: "LockLease \<Rightarrow> lock_dir \<Rightarrow> lock_dir" where
  "release_lease lease dir = bt_remove (lock_file_name lease) dir"

definition scopes_overlap :: "LockScope \<Rightarrow> LockScope \<Rightarrow> bool" where
  "scopes_overlap a b =
     (if ls_resource_name a \<noteq> ls_resource_name b then False
      else case (ls_file_path a, ls_file_path b) of
             (Some fa, Some fb) \<Rightarrow> fa = fb
           | _ \<Rightarrow> True)"

definition try_reclaim_lease ::
  "'j replay_lib \<Rightarrow> u64 \<Rightarrow> LockLease \<Rightarrow> ManifestSnapshot \<Rightarrow> journal_file \<Rightarrow> string + LeaseReclaimOutcome" where
  "try_reclaim_lease lib now lease manifest journal =
     (if \<not> is_expired now lease then Inr (RequiresRevalidation ''lease has not yet expired'')
      else case canonical_hash lib (entries_to_json lib (sn_entries manifest)) of
        None \<Rightarrow> Inl ''serialization failed''
      | Some current \<Rightarrow>
          if current \<noteq> ll_precondition_hash lease
          then Inr (RequiresRevalidation (''manifest changed since acquisition: expected='' @
                 ll_precondition_hash lease @ '' current='' @ current))
          else res_bind (read_after (jl lib) journal (last_journal_sequence_at_acquisition lease)) (\<lambda>es.
            if list_ex (\<lambda>e. case lock_scope e of None \<Rightarrow> False | Some s \<Rightarrow> scopes_overlap s (ll_scope lease)) es
            then Inr (RequiresRevalidation ''journal entries after acquisition overlap with lock scope'')
            else Inr Reclaimed))"

section \<open>Manifest entries as a finite map\<close>

text \<open>The abstract view of a list of manifest entries: the entry stored under a resource name and path.\<close>

definition manifest_lookup :: "CacheManifestEntry list \<Rightarrow> string \<times> string \<Rightarrow> CacheManifestEntry option" where
  "manifest_lookup es k = find (\<lambda>e. entry_key e = k) es"

definition manifest_invar :: "CacheManifestEntry list \<Rightarrow> bool" where
  "manifest_invar es \<longleftrightarrow> sorted_wrt (<) (map (\<lambda>e. entry_key e) es)"

lemma find_filter: "find P xs = (case filter P xs of [] \<Rightarrow> None | x # _ \<Rightarrow> Some x)"
  by (induction xs) auto

lemma manifest_lookup_sort: "manifest_lookup (sort_key (\<lambda>x. entry_key x) es) = manifest_lookup es"
  by (rule ext) (simp only: manifest_lookup_def find_filter sort_key_stable)

lemma manifest_lookup_upsert: "manifest_lookup (upsert_entry es e) = (manifest_lookup es)(entry_key e \<mapsto> e)"
proof
  fix k
  have "find (\<lambda>x. entry_key x = k) (filter (\<lambda>x. entry_key x \<noteq> entry_key e) es @ [e]) =
      (if k = entry_key e then Some e else find (\<lambda>x. entry_key x = k) es)"
    by (induction es) auto
  then show "manifest_lookup (upsert_entry es e) k = ((manifest_lookup es)(entry_key e \<mapsto> e)) k"
    unfolding upsert_entry_def manifest_lookup_sort by (simp add: manifest_lookup_def)
qed

lemma sorted_distinct_strict: "sorted xs \<and> distinct xs \<longleftrightarrow> sorted_wrt (<) (xs :: 'a::linorder list)"
  by (simp add: strict_sorted_iff)

lemma manifest_invar_sort: "manifest_invar (sort_key (\<lambda>x. entry_key x) es) \<longleftrightarrow> distinct (map (\<lambda>x. entry_key x) es)"
proof -
  have "mset (map (\<lambda>x. entry_key x) (sort_key (\<lambda>x. entry_key x) es)) = mset (map (\<lambda>x. entry_key x) es)"
    by simp
  then have "distinct (map (\<lambda>x. entry_key x) (sort_key (\<lambda>x. entry_key x) es)) = distinct (map (\<lambda>x. entry_key x) es)"
    by (rule mset_eq_imp_distinct_iff)
  then show ?thesis
    unfolding manifest_invar_def sorted_distinct_strict [symmetric] by simp
qed

lemma manifest_invar_upsert: "manifest_invar es \<Longrightarrow> manifest_invar (upsert_entry es e)"
proof -
  assume "manifest_invar es"
  then have "distinct (map (\<lambda>x. entry_key x) es)"
    unfolding manifest_invar_def sorted_distinct_strict [symmetric] by blast
  then have "distinct (map (\<lambda>x. entry_key x) (filter (\<lambda>x. entry_key x \<noteq> entry_key e) es @ [e]))"
    by (auto simp: distinct_map_filter)
  then show ?thesis
    unfolding upsert_entry_def manifest_invar_sort .
qed

text \<open>What a journal entry does to the abstract map.\<close>

definition abs_mutation ::
  "'j replay_lib \<Rightarrow> 'j JournalEntry \<Rightarrow> (string \<times> string \<rightharpoonup> CacheManifestEntry) \<Rightarrow> string \<times> string \<rightharpoonup> CacheManifestEntry" where
  "abs_mutation lib je m =
     (if mutation_type je = ManifestRebuild
      then (case rebuild_from_value lib (operation_payload je) of Inl _ \<Rightarrow> m | Inr new \<Rightarrow> manifest_lookup new)
      else (case upsert_from_value lib (operation_payload je) of Inl _ \<Rightarrow> m | Inr e \<Rightarrow> m(entry_key e \<mapsto> e)))"

lemma mutate_entries_refines:
  "mutate_entries lib je es = Inr es' \<Longrightarrow> manifest_lookup es' = abs_mutation lib je (manifest_lookup es)"
  by (cases "mutation_type je")
    (auto simp: mutate_entries_def abs_mutation_def manifest_lookup_upsert manifest_lookup_sort split: sum.splits)

section \<open>Successful replays\<close>

abbreviation entries_hash :: "'j replay_lib \<Rightarrow> CacheManifestEntry list \<Rightarrow> string option" where
  "entries_hash lib es \<equiv> canonical_hash lib (entries_to_json lib es)"

lemma check_condition_ok: "check_condition c i expected actual = Inr h \<longleftrightarrow> actual = Some h \<and> h = expected"
  by (auto simp: check_condition_def split: option.splits)

lemma apply_entry_ok:
  assumes "apply_entry lib v je = Inr v'"
  shows "entries_hash lib (sv_entries v) = Some (precondition_hash je)"
    and "entries_hash lib (sv_entries v') = Some (postcondition_hash je)"
    and "manifest_lookup (sv_entries v') = abs_mutation lib je (manifest_lookup (sv_entries v))"
  using assms by (auto simp: apply_entry_def res_bind_Inr_iff check_condition_ok dest: mutate_entries_refines)

lemma apply_all_ok:
  assumes "apply_all lib v es = Inr v'" and "es \<noteq> []"
  shows "entries_hash lib (sv_entries v) = Some (precondition_hash (hd es)) \<and>
    entries_hash lib (sv_entries v') = Some (postcondition_hash (last es)) \<and>
    manifest_lookup (sv_entries v') = fold (abs_mutation lib) es (manifest_lookup (sv_entries v))"
  using assms
proof (induction es arbitrary: v)
  case (Cons e es)
  then obtain w where w: "apply_entry lib v e = Inr w" "apply_all lib w es = Inr v'"
    by (auto split: sum.splits)
  show ?case
  proof (cases "es = []")
    case True
    with w apply_entry_ok [OF w(1)] show ?thesis by simp
  next
    case False
    with Cons.IH [OF w(2)] apply_entry_ok [OF w(1)] show ?thesis by simp
  qed
qed simp

lemma write_snapshot_ok:
  "write_snapshot lib dir s = Inr dir' \<Longrightarrow> snapshot_head dir' = Some s \<and> verify_snapshot lib s = Inr ()"
  by (auto simp: write_snapshot_def res_bind_Inr_iff)

lemma option_to_result_ok: "option_to_result msg x = Inr v \<longleftrightarrow> x = Some v"
  by (simp add: option_to_result_def split: option.splits)

lemma replay_journal_ok_iff:
  "replay_journal lib i now snap journal dir = (Inr new, dir') \<longleftrightarrow>
     replay_run lib i now snap journal dir = Inr (new, dir')"
  by (auto simp: replay_journal_def split: sum.splits)

text \<open>The stages of a successful replay that finds entries.\<close>

definition replayed_entries ::
  "'j replay_lib \<Rightarrow> string \<Rightarrow> u64 \<Rightarrow> ManifestSnapshot \<Rightarrow> snapshot_dir \<Rightarrow> 'j JournalEntry list \<Rightarrow>
   ManifestSnapshot \<Rightarrow> snapshot_dir \<Rightarrow> bool" where
  "replayed_entries lib i now snap dir es new dir' \<longleftrightarrow>
     (\<exists>view view'. verify_hash_chain snap es = Inr () \<and> view_from_snapshot lib snap = Some view \<and>
        apply_all lib view es = Inr view' \<and> into_snapshot lib i now view' (entry_hash (last es)) snap = Some new \<and>
        write_snapshot lib dir new = Inr dir')"

lemma replay_run_ok:
  assumes "replay_journal lib i now snap journal dir = (Inr new, dir')"
  shows "\<exists>n es. verify_snapshot lib snap = Inr () \<and>
    sequence_from_journal_head lib journal (journal_head_hash snap) = Inr n \<and>
    read_after (jl lib) journal n = Inr es \<and>
    (if es = [] then new = snap \<and> dir' = dir else replayed_entries lib i now snap dir es new dir')"
  using assms unfolding replay_journal_ok_iff replay_run_def replayed_entries_def
  by (auto simp: res_bind_Inr_iff option_to_result_ok split: if_splits)

lemma into_snapshot_fields:
  assumes "into_snapshot lib i now view h snap = Some new"
  shows "verify_snapshot lib new = Inr ()" and "sn_entries new = sv_entries view"
    and "journal_head_hash new = h" and "parent_snapshot_hash new = snapshot_hash snap"
  using assms by (auto simp: into_snapshot_def with_snapshot_hash_def verify_snapshot_def compute_snapshot_hash_def)

lemma verify_snapshot_ok: "verify_snapshot lib snap = Inr () \<longleftrightarrow> compute_snapshot_hash lib snap = Some (snapshot_hash snap)"
  by (auto simp: verify_snapshot_def split: option.splits)

lemma verify_links_ok:
  "verify_links prev es = Inr () \<longleftrightarrow> map prev_entry_hash es = butlast (prev # map entry_hash es)"
  by (induction es arbitrary: prev) auto

lemma replayed_entries_ok:
  assumes "replayed_entries lib i now snap dir es new dir'" and "es \<noteq> []"
  shows "load_latest_snapshot lib dir' = Inr new" and "verify_snapshot lib new = Inr ()"
    and "journal_head_hash new = entry_hash (last es)" and "parent_snapshot_hash new = snapshot_hash snap"
    and "entries_hash lib (sn_entries snap) = Some (precondition_hash (hd es))"
    and "entries_hash lib (sn_entries new) = Some (postcondition_hash (last es))"
    and "manifest_lookup (sn_entries new) = fold (abs_mutation lib) es (manifest_lookup (sn_entries snap))"
    and "map prev_entry_hash es = journal_head_hash snap # map entry_hash (butlast es)"
proof -
  obtain view view' where v: "view_from_snapshot lib snap = Some view" "apply_all lib view es = Inr view'"
    "into_snapshot lib i now view' (entry_hash (last es)) snap = Some new" "write_snapshot lib dir new = Inr dir'"
    using assms(1) by (auto simp: replayed_entries_def)
  have "sv_entries view = sn_entries snap"
    using v(1) by (auto simp: view_from_snapshot_def)
  with apply_all_ok [OF v(2) assms(2)] into_snapshot_fields [OF v(3)] write_snapshot_ok [OF v(4)]
  show "load_latest_snapshot lib dir' = Inr new" and "verify_snapshot lib new = Inr ()"
    and "journal_head_hash new = entry_hash (last es)" and "parent_snapshot_hash new = snapshot_hash snap"
    and "entries_hash lib (sn_entries snap) = Some (precondition_hash (hd es))"
    and "entries_hash lib (sn_entries new) = Some (postcondition_hash (last es))"
    and "manifest_lookup (sn_entries new) = fold (abs_mutation lib) es (manifest_lookup (sn_entries snap))"
    by (simp_all add: load_latest_snapshot_def)
  show "map prev_entry_hash es = journal_head_hash snap # map entry_hash (butlast es)"
    using assms by (auto simp: replayed_entries_def verify_hash_chain_def verify_links_ok map_butlast)
qed

lemma read_after_filter:
  assumes "read_after lib f 0 = Inr all"
  shows "read_after lib f n = Inr (filter (\<lambda>e. n < sequence e) all)"
proof (cases f)
  case (Some content)
  then obtain es where es: "parse_lines lib (split_at_char CHR 0x0A content) = Inr es"
    "all = sort_key sequence (filter (\<lambda>e. 0 < sequence e) es)"
    using assms by (auto simp: read_after_def res_bind_Inr_iff)
  have "filter (\<lambda>e. n < sequence e) (filter (\<lambda>e. 0 < sequence e) es) = filter (\<lambda>e. n < sequence e) es"
    by (auto simp: filter_filter word_gt_0 intro!: filter_cong)
  with es Some show ?thesis
    by (simp add: read_after_def filter_sort)
qed (use assms in \<open>simp add: read_after_def\<close>)

lemma read_after_sorted: "read_after lib f n = Inr es \<Longrightarrow> sorted (map sequence es)"
  by (auto simp: read_after_def res_bind_Inr_iff split: option.splits)

text \<open>After the last entry of a journal nothing is left to replay.\<close>

lemma read_after_last:
  assumes "read_after lib f n = Inr es" and "es \<noteq> []" and "read_after lib f 0 = Inr all"
  shows "read_after lib f (sequence (last es)) = Inr []" and "last es \<in> set all"
proof -
  have es: "es = filter (\<lambda>e. n < sequence e) all"
    using read_after_filter [OF assms(3), of n] assms(1) by simp
  with assms(2) show mem: "last es \<in> set all"
    using last_in_set [of es] by simp
  have "sequence e \<le> sequence (last es)" if "e \<in> set es" for e
    using read_after_sorted [OF assms(1)] that assms(2)
    by (cases es rule: rev_cases) (auto simp: sorted_append)
  moreover have "sequence e \<le> sequence (last es)" if "e \<in> set all" "\<not> n < sequence e" for e
    using last_in_set [OF assms(2)] that unfolding es by auto
  ultimately have "\<not> sequence (last es) < sequence e" if "e \<in> set all" for e
    using that by (cases "n < sequence e") (auto simp: es not_less)
  then show "read_after lib f (sequence (last es)) = Inr []"
    using read_after_filter [OF assms(3)] by (simp add: filter_empty_conv)
qed

lemma find_unique:
  "distinct (map f xs) \<Longrightarrow> x \<in> set xs \<Longrightarrow> find (\<lambda>y. f y = f x) xs = Some x"
  by (induction xs) (auto simp: rev_image_eqI)

section \<open>Scopes and leases\<close>

text \<open>The files a scope covers.\<close>

definition covers :: "LockScope \<Rightarrow> string \<Rightarrow> string \<Rightarrow> bool" where
  "covers s r f \<longleftrightarrow> ls_resource_name s = r \<and> (ls_file_path s = None \<or> ls_file_path s = Some f)"

lemma scopes_overlap_iff: "scopes_overlap a b \<longleftrightarrow> (\<exists>r f. covers a r f \<and> covers b r f)"
  by (cases "ls_file_path a"; cases "ls_file_path b") (auto simp: scopes_overlap_def covers_def)

lemma bt_remove_insert_fresh: "bt_get m k = None \<Longrightarrow> bt_remove k (bt_insert k v m) = m"
proof (induction k v m rule: bt_insert.induct)
  case (2 k v a b m)
  then have "a \<noteq> k" by (auto split: if_splits)
  moreover from 2 have "filter (\<lambda>(a, b). a \<noteq> k) m = m"
    by (auto simp: filter_id_conv map_of_eq_None_iff image_iff split: if_splits)
  ultimately show ?case
    using 2 by (auto simp: bt_remove_def)
qed (simp add: bt_remove_def)

lemma acquire_lease_fields:
  assumes "acquire_lease lib i now scope last_seq pre config dir = Inr (lease, dir')"
  shows "lock_id lease = i" and "ll_scope lease = scope"
    and "expires_at_unix_ms lease = now + lc_lease_duration_ms config"
    and "dir' = bt_insert (lock_file_name lease) lease dir"
  using assms by (auto simp: acquire_lease_def Let_def split: option.splits)

section \<open>A sample replay\<close>

definition demo_cache_entry :: CacheManifestEntry where
  "demo_cache_entry = \<lparr>ce_resource_name = ''chat'', ce_file_path = ''a.lua'', ce_sha256 = ''aa'', ce_size_bytes = 1,
     ce_source_scheme = None, ce_source_uri = None\<rparr>"

definition demo_replay_entry :: "unit JournalEntry" where
  "demo_replay_entry = demo_first\<lparr>precondition_hash := prefixed_hex [48], postcondition_hash := prefixed_hex [49],
     entry_hash := ''h1''\<rparr>"

definition demo_replay_lib :: "unit replay_lib" where
  "demo_replay_lib =
     \<lparr>jl = demo_lib\<lparr>sha256_digest := (\<lambda>b. b), entry_from_line := (\<lambda>_. Some demo_replay_entry)\<rparr>,
      entries_to_json = (\<lambda>es. Some (if es = [] then ''0'' else ''1'')), snapshot_to_json = (\<lambda>s. Some (snapshot_id s)),
      lock_scope_to_json = (\<lambda>s. Some ''scope''), upsert_from_value = (\<lambda>_. Inr demo_cache_entry),
      rebuild_from_value = (\<lambda>_. Inl ''no'')\<rparr>"

definition demo_snapshot :: ManifestSnapshot where
  "demo_snapshot = the (genesis_snapshot demo_replay_lib ''s0'' 0 [])"

definition demo_journal :: journal_file where
  "demo_journal = Some (''x'' @ [CHR 0x0A])"

lemmas demo_replay_defs = demo_replay_lib_def demo_snapshot_def demo_journal_def demo_replay_entry_def demo_lib_def

lemma demo_replay_read:
  "read_after (jl demo_replay_lib) demo_journal n = Inr (if n < 1 then [demo_replay_entry] else [])"
  by (simp add: demo_replay_defs read_after_def str_trim_def ascii_space_def demo_fields)

lemma demo_replay_apply:
  "apply_all demo_replay_lib \<lparr>sv_entries = [], sv_current_hash = h\<rparr> [demo_replay_entry] =
     Inr \<lparr>sv_entries = [demo_cache_entry], sv_current_hash = prefixed_hex [49]\<rparr>"
  by (simp add: demo_replay_defs demo_first_def demo_entry_def journal_entry_new_def compute_idempotency_key_def
      compute_hash_def Let_def apply_entry_def check_condition_def canonical_hash_def mutate_entries_def upsert_entry_def)

lemma demo_replayed:
  "\<exists>new dir. replay_journal demo_replay_lib ''s1'' 5 demo_snapshot demo_journal
     \<lparr>snapshot_files = [], snapshot_head = None\<rparr> = (Inr new, dir) \<and> sn_entries new = [demo_cache_entry]"
proof -
  have snap: "demo_snapshot = \<lparr>sn_schema_version = 1, snapshot_id = ''s0'', sn_timestamp_unix_ms = 0,
      journal_head_hash = ''genesis'', parent_snapshot_hash = ''genesis'',
      snapshot_hash = prefixed_hex (map of_char ''s0''), sn_entries = []\<rparr>"
    by (simp add: demo_replay_defs genesis_snapshot_def with_snapshot_hash_def compute_snapshot_hash_def canonical_hash_def)
  have hash: "compute_snapshot_hash demo_replay_lib s = Some (prefixed_hex (map of_char (snapshot_id s)))" for s
    by (simp add: compute_snapshot_hash_def canonical_hash_def demo_replay_lib_def demo_lib_def)
  have entries: "canonical_hash demo_replay_lib (entries_to_json demo_replay_lib es) =
      Some (prefixed_hex [if es = [] then 48 else 49])" for es
    by (simp add: canonical_hash_def demo_replay_lib_def demo_lib_def)
  have link: "prev_entry_hash demo_replay_entry = ''genesis''"
    by (simp add: demo_replay_entry_def demo_fields)
  show ?thesis
    unfolding replay_journal_def replay_run_def snap
    by (simp add: verify_snapshot_def hash sequence_from_journal_head_def demo_replay_read verify_hash_chain_def link
        option_to_result_def view_from_snapshot_def entries demo_replay_apply into_snapshot_def
        with_snapshot_hash_def write_snapshot_def del: apply_all.simps)
qed

section \<open>Properties\<close>

text \<open>Updating a manifest refines a map update: the new entry is found under its key, every other key
  keeps its entry, and a manifest whose keys are strictly ascending stays so.\<close>

theorem upsert_refines_map_update:
  assumes "sorted_wrt (<) (map (\<lambda>x. (ce_resource_name x, ce_file_path x)) es)"
  shows "manifest_lookup (upsert_entry es e) =
      (manifest_lookup es)((ce_resource_name e, ce_file_path e) \<mapsto> e) \<and>
    sorted_wrt (<) (map (\<lambda>x. (ce_resource_name x, ce_file_path x)) (upsert_entry es e))"
  using manifest_invar_upsert [of es e] assms
  by (simp add: manifest_lookup_upsert manifest_invar_def)

theorem upsert_refines_map_update_witness:
  "manifest_lookup (upsert_entry [demo_cache_entry] (demo_cache_entry\<lparr>ce_sha256 := ''bb''\<rparr>)) (''chat'', ''a.lua'') =
     Some (demo_cache_entry\<lparr>ce_sha256 := ''bb''\<rparr>)"
proof -
  have "sorted_wrt (<) (map (\<lambda>x. (ce_resource_name x, ce_file_path x)) [demo_cache_entry])"
    by simp
  from upsert_refines_map_update [OF this, of "demo_cache_entry\<lparr>ce_sha256 := ''bb''\<rparr>"] show ?thesis
    by (simp add: demo_cache_entry_def)
qed

text \<open>C8: A successful replay commits the journal. The snapshot it starts from passes its hash check.
  Either nothing follows the snapshot's head and the snapshot is returned unchanged, or the entries
  that follow are linked to the head and to each other by their predecessor hashes, and the new
  snapshot is the verified head of the directory, names the last entry and its parent, starts from the
  state the first entry expects, ends in the state the last entry asserts, and holds the manifest
  obtained by performing the journalled map updates in order. (The hash of an entry is compared, not
  recomputed.)\<close>

theorem replay_commits_journal:
  assumes "replay_journal lib i now snap journal dir = (Inr new, dir')"
  shows "\<exists>n es. compute_snapshot_hash lib snap = Some (snapshot_hash snap) \<and>
    sequence_from_journal_head lib journal (journal_head_hash snap) = Inr n \<and>
    read_after (jl lib) journal n = Inr es \<and>
    (if es = [] then new = snap \<and> dir' = dir
     else map prev_entry_hash es = journal_head_hash snap # map entry_hash (butlast es) \<and>
       load_latest_snapshot lib dir' = Inr new \<and>
       journal_head_hash new = entry_hash (last es) \<and> parent_snapshot_hash new = snapshot_hash snap \<and>
       canonical_hash lib (entries_to_json lib (sn_entries snap)) = Some (precondition_hash (hd es)) \<and>
       canonical_hash lib (entries_to_json lib (sn_entries new)) = Some (postcondition_hash (last es)) \<and>
       manifest_lookup (sn_entries new) = fold (abs_mutation lib) es (manifest_lookup (sn_entries snap)))"
proof -
  from replay_run_ok [OF assms] obtain n es where verified: "verify_snapshot lib snap = Inr ()" and stages:
    "sequence_from_journal_head lib journal (journal_head_hash snap) = Inr n" "read_after (jl lib) journal n = Inr es"
    "if es = [] then new = snap \<and> dir' = dir else replayed_entries lib i now snap dir es new dir'"
    by blast
  show ?thesis
  proof (cases "es = []")
    case False
    with stages(3) have "replayed_entries lib i now snap dir es new dir'" by simp
    note replayed_entries_ok [OF this False]
    with verified stages(1,2) False show ?thesis
      by (intro exI [of _ n] exI [of _ es]) (simp add: verify_snapshot_ok)
  qed (use verified stages in \<open>simp add: verify_snapshot_ok\<close>)
qed

theorem replay_commits_journal_witness:
  "\<exists>n es. sequence_from_journal_head demo_replay_lib demo_journal (journal_head_hash demo_snapshot) = Inr n \<and>
     read_after (jl demo_replay_lib) demo_journal n = Inr es \<and>
     (es = [] \<or> map prev_entry_hash es = journal_head_hash demo_snapshot # map entry_hash (butlast es))"
proof -
  obtain new dir' where "replay_journal demo_replay_lib ''s1'' 5 demo_snapshot demo_journal
      \<lparr>snapshot_files = [], snapshot_head = None\<rparr> = (Inr new, dir')"
    using demo_replayed by blast
  from replay_commits_journal [OF this] show ?thesis by metis
qed

text \<open>C27: Replay is idempotent: when the entry hashes of a journal are pairwise different, replaying the same
  journal on the snapshot that a replay produced returns that snapshot and writes nothing.\<close>

theorem replay_idempotent:
  assumes "replay_journal lib i now snap journal dir = (Inr new, dir')"
    and "read_after (jl lib) journal 0 = Inr all" and "distinct (''genesis'' # map entry_hash all)"
  shows "replay_journal lib i' now' new journal dir' = (Inr new, dir')"
proof -
  from replay_run_ok [OF assms(1)] obtain n es where stages: "verify_snapshot lib snap = Inr ()"
    "sequence_from_journal_head lib journal (journal_head_hash snap) = Inr n" "read_after (jl lib) journal n = Inr es"
    "if es = [] then new = snap \<and> dir' = dir else replayed_entries lib i now snap dir es new dir'"
    by blast
  have "\<exists>m. verify_snapshot lib new = Inr () \<and> sequence_from_journal_head lib journal (journal_head_hash new) = Inr m \<and>
      read_after (jl lib) journal m = Inr []"
  proof (cases "es = []")
    case True
    with stages show ?thesis by auto
  next
    case False
    with stages(4) have "replayed_entries lib i now snap dir es new dir'" by simp
    note new = replayed_entries_ok [OF this False]
    note last = read_after_last [OF stages(3) False assms(2)]
    from last(2) have "find (\<lambda>e. entry_hash e = entry_hash (last es)) all = Some (last es)"
      using assms(3) by (intro find_unique) simp_all
    moreover have "entry_hash (last es) \<noteq> ''genesis''"
      using assms(3) last(2) by (metis distinct.simps(2) imageI list.set_map)
    ultimately have "sequence_from_journal_head lib journal (journal_head_hash new) = Inr (sequence (last es))"
      using assms(2) by (simp add: sequence_from_journal_head_def new(3))
    with last(1) new(2) show ?thesis by blast
  qed
  then show ?thesis
    unfolding replay_journal_ok_iff by (auto simp: replay_run_def)
qed

theorem replay_idempotent_witness:
  "\<exists>new dir. sn_entries new = [demo_cache_entry] \<and>
     replay_journal demo_replay_lib ''s2'' 6 new demo_journal dir = (Inr new, dir)"
proof -
  have "distinct (''genesis'' # map entry_hash [demo_replay_entry])"
    by (simp add: demo_replay_entry_def)
  with demo_replayed demo_replay_read [of 0] show ?thesis
    using replay_idempotent [of demo_replay_lib "''s1''" 5 demo_snapshot demo_journal
        "\<lparr>snapshot_files = [], snapshot_head = None\<rparr>" _ _ "[demo_replay_entry]" "''s2''" 6]
    by (simp del: distinct.simps) blast
qed

text \<open>When a stale lease may be taken over: exactly when it has expired, the manifest still has the hash
  it had at acquisition, and no journal entry after the acquisition is locked for a file that the
  lease covers too.\<close>

theorem lease_reclaimed_iff:
  "try_reclaim_lease lib now lease manifest journal = Inr Reclaimed \<longleftrightarrow>
     expires_at_unix_ms lease \<le> now \<and>
     canonical_hash lib (entries_to_json lib (sn_entries manifest)) = Some (ll_precondition_hash lease) \<and>
     (\<exists>es. read_after (jl lib) journal (last_journal_sequence_at_acquisition lease) = Inr es \<and>
       \<not> (\<exists>e \<in> set es. \<exists>s r f. lock_scope e = Some s \<and> covers s r f \<and> covers (ll_scope lease) r f))"
proof -
  have conflict: "list_ex (\<lambda>e. case lock_scope e of None \<Rightarrow> False | Some s \<Rightarrow> scopes_overlap s (ll_scope lease)) es \<longleftrightarrow>
      (\<exists>e \<in> set es. \<exists>s r f. lock_scope e = Some s \<and> covers s r f \<and> covers (ll_scope lease) r f)" for es :: "'a JournalEntry list"
  proof -
    have "(case lock_scope e of None \<Rightarrow> False | Some s \<Rightarrow> scopes_overlap s (ll_scope lease)) \<longleftrightarrow>
        (\<exists>s r f. lock_scope e = Some s \<and> covers s r f \<and> covers (ll_scope lease) r f)" for e :: "'a JournalEntry"
      by (cases "lock_scope e") (simp_all add: scopes_overlap_iff)
    then show ?thesis by (simp add: list_ex_iff)
  qed
  show ?thesis
    unfolding try_reclaim_lease_def is_expired_def conflict
    by (cases "canonical_hash lib (entries_to_json lib (sn_entries manifest))")
      (auto simp: res_bind_Inr_iff split: if_splits)
qed

text \<open>The life of a lease: as long as the deadline does not overflow the 64-bit clock, an acquired lease is
  valid until its duration has passed and expired from then on, its file stores it, and releasing it
  restores the lock directory.\<close>

theorem lease_lifecycle:
  assumes "acquire_lease lib i now scope last_seq pre config dir = Inr (lease, dir')"
    and "unat now + unat (lc_lease_duration_ms config) < 2 ^ 64"
    and "bt_get dir (''lock_'' @ i @ ''.json'') = None"
  shows "(is_expired t lease \<longleftrightarrow> unat now + unat (lc_lease_duration_ms config) \<le> unat t) \<and>
    bt_get dir' (''lock_'' @ i @ ''.json'') = Some lease \<and> release_lease lease dir' = dir"
proof -
  note fields = acquire_lease_fields [OF assms(1)]
  have "unat (now + lc_lease_duration_ms config) = unat now + unat (lc_lease_duration_ms config)"
    using assms(2) by (simp add: unat_plus_if_size word_size)
  with fields assms(3) show ?thesis
    by (simp add: is_expired_def release_lease_def lock_file_name_def word_le_nat_alt bt_get_insert
        bt_remove_insert_fresh)
qed

theorem lease_lifecycle_witness:
  "\<exists>lease dir'. acquire_lease demo_replay_lib ''7'' 100 \<lparr>ls_resource_name = ''chat'', ls_file_path = None\<rparr> 0 ''p''
       \<lparr>lc_owner_id = ''o'', lc_writer_id = ''w'', lc_lease_duration_ms = 50\<rparr> [] = Inr (lease, dir') \<and>
     \<not> is_expired 149 lease \<and> release_lease lease dir' = []"
proof -
  let ?c = "\<lparr>lc_owner_id = ''o'', lc_writer_id = ''w'', lc_lease_duration_ms = 50\<rparr>"
  let ?s = "\<lparr>ls_resource_name = ''chat'', ls_file_path = None\<rparr>"
  obtain lease dir' where "acquire_lease demo_replay_lib ''7'' 100 ?s 0 ''p'' ?c [] = Inr (lease, dir')"
    by (simp add: acquire_lease_def canonical_hash_def demo_replay_lib_def demo_lib_def Let_def)
  with lease_lifecycle [OF this, of 149] show ?thesis by simp
qed

text \<open>Acquisition does not look at the leases that are held: whenever the scope serialises, it succeeds, also
  when an unexpired lease with an overlapping scope is in the lock directory.\<close>

lemma acquire_lease_ignores_held_leases:
  "(\<exists>lease dir'. acquire_lease lib i now scope last_seq pre config dir = Inr (lease, dir')) \<longleftrightarrow>
     canonical_hash lib (lock_scope_to_json lib scope) \<noteq> None"
  by (auto simp: acquire_lease_def Let_def split: option.splits)

end
