(* ===== verification/Reconciliation.thy ===== *)
theory Reconciliation
  imports Replay Manifest
begin

text \<open>
  The client's cache manifest (\<^verbatim>\<open>crates/client/src/fetch.rs\<close>) and cache reconciliation
  (\<^verbatim>\<open>crates/client/src/reconciliation.rs\<close>): what the manifest records, what a scan of the cache
  directory finds and what the announcement expects are joined by resource name and path. The
  manifest file is a value of \<open>manifest_file\<close>, its JSON codec a pair of arguments; the directory is the
  tree model of \<open>Manifest\<close>, read in the order of its list. The lemmas show that a plan has one entry
  per key, when it is healthy, and that the keys of scanned paths round-trip.
\<close>

section \<open>The cache manifest\<close>

record CacheManifest =
  cm_version :: u64
  cm_entries :: "CacheManifestEntry list"

definition empty_manifest :: CacheManifest where
  "empty_manifest = \<lparr>cm_version = 1, cm_entries = []\<rparr>"

definition manifest_is_empty :: "CacheManifest \<Rightarrow> bool" where
  "manifest_is_empty m \<longleftrightarrow> cm_entries m = []"

definition with_entry :: "CacheManifestEntry \<Rightarrow> CacheManifest \<Rightarrow> CacheManifest" where
  "with_entry e m =
     m\<lparr>cm_entries := sort_key (\<lambda>x. entry_key x) (filter (\<lambda>x. entry_key x \<noteq> entry_key e) (cm_entries m) @ [e])\<rparr>"

definition manifest_to_text :: "CacheManifest \<Rightarrow> string" where
  "manifest_to_text m =
     (if cm_entries m = [] then ''cache manifest: (empty, no committed resources)''
      else str_join [CHR 0x0A]
        ((''cache manifest v'' @ show_u64 (cm_version m) @ '': '' @ show_nat (length (cm_entries m)) @ '' entr'' @
            (if length (cm_entries m) = 1 then ''y'' else ''ies'')) #
         map (\<lambda>e. ''  '' @ ce_resource_name e @ '':'' @ ce_file_path e @ '' ('' @ show_u64 (ce_size_bytes e) @
             '' bytes, sha256:'' @ take 16 (ce_sha256 e) @ '')'') (cm_entries m)))"

datatype manifest_file = ManifestAbsent | ManifestUnreadable | ManifestContent string

definition load_cache_manifest :: "(string \<Rightarrow> CacheManifest option) \<Rightarrow> manifest_file \<Rightarrow> CacheManifest" where
  "load_cache_manifest from_json f =
     (case f of
        ManifestContent data \<Rightarrow> (case from_json data of Some m \<Rightarrow> m | None \<Rightarrow> empty_manifest)
      | _ \<Rightarrow> empty_manifest)"

record manifest_codec =
  manifest_from_json :: "string \<Rightarrow> CacheManifest option"
  manifest_to_json :: "CacheManifest \<Rightarrow> string option"

section \<open>Scanning the cache\<close>

record CacheFileEntry =
  cf_relative_path :: string
  cf_sha256 :: string
  cf_size_bytes :: u64

definition is_cache_special :: "string \<Rightarrow> bool" where
  "is_cache_special name \<longleftrightarrow> name = ''cache_manifest.json'' \<or> name = ''.staging''"

function scan_dir_recursive ::
  "(bytes \<Rightarrow> string) \<Rightarrow> bool \<Rightarrow> string \<Rightarrow> (string \<times> fs_node) list \<Rightarrow> CacheFileEntry list" where
  "scan_dir_recursive sha at_root here [] = []"
| "scan_dir_recursive sha at_root here ((name, Directory sub) # es) =
     (if at_root \<and> is_cache_special name then []
      else scan_dir_recursive sha False (here @ name @ ''/'') sub) @
     scan_dir_recursive sha at_root here es"
| "scan_dir_recursive sha at_root here ((name, RegularFile content) # es) =
     (if at_root \<and> is_cache_special name then []
      else [\<lparr>cf_relative_path = here @ name, cf_sha256 = sha content, cf_size_bytes = of_nat (length content)\<rparr>]) @
     scan_dir_recursive sha at_root here es"
| "scan_dir_recursive sha at_root here ((name, SymbolicLink leads_to) # es) = scan_dir_recursive sha at_root here es"
| "scan_dir_recursive sha at_root here ((name, SpecialFile) # es) = scan_dir_recursive sha at_root here es"
  by pat_completeness auto
termination
  by (relation "measure (\<lambda>(sha, r, here, es). size_list (size_prod (\<lambda>_. 0) size) es)") auto

definition scan_cache_directory :: "(bytes \<Rightarrow> string) \<Rightarrow> (string \<times> fs_node) list \<Rightarrow> CacheFileEntry list" where
  "scan_cache_directory sha tree = scan_dir_recursive sha True [] tree"

section \<open>Reconciliation\<close>

datatype CacheReconciliationAction =
    AlreadyConsistent
  | MissingManifestEntry
  | MissingCacheFile
  | ReconcileHashMismatch string string
  | OrphanedCacheFile
  | ManifestCorrupted
  | AnnouncementMissing
  | WouldRepairManifest
  | WouldRemoveOrphan
  | WouldRefetch

fun reconcile_label :: "CacheReconciliationAction \<Rightarrow> string" where
  "reconcile_label AlreadyConsistent = ''already_consistent''"
| "reconcile_label MissingManifestEntry = ''missing_manifest_entry''"
| "reconcile_label MissingCacheFile = ''missing_cache_file''"
| "reconcile_label (ReconcileHashMismatch _ _) = ''hash_mismatch''"
| "reconcile_label OrphanedCacheFile = ''orphaned_cache_file''"
| "reconcile_label ManifestCorrupted = ''manifest_corrupted''"
| "reconcile_label AnnouncementMissing = ''announcement_missing''"
| "reconcile_label WouldRepairManifest = ''would_repair_manifest''"
| "reconcile_label WouldRemoveOrphan = ''would_remove_orphan''"
| "reconcile_label WouldRefetch = ''would_refetch''"

definition is_healthy :: "CacheReconciliationAction \<Rightarrow> bool" where
  "is_healthy a \<longleftrightarrow> a = AlreadyConsistent"

record CacheReconciliationEntry =
  rc_resource_name :: string
  rc_file_path :: string
  rc_action :: CacheReconciliationAction
  rc_manifest_sha256 :: "string option"
  rc_cache_sha256 :: "string option"
  rc_manifest_size_bytes :: "u64 option"
  rc_cache_size_bytes :: "u64 option"

record CacheReconciliationPlan =
  rc_entries :: "CacheReconciliationEntry list"
  rc_manifest_corrupted :: bool

abbreviation rc_key :: "CacheReconciliationEntry \<Rightarrow> string \<times> string" where
  "rc_key e \<equiv> (rc_resource_name e, rc_file_path e)"

definition unhealthy_count :: "CacheReconciliationPlan \<Rightarrow> nat" where
  "unhealthy_count p = length (filter (\<lambda>e. \<not> is_healthy (rc_action e)) (rc_entries p))"

definition reconciliation_is_empty :: "CacheReconciliationPlan \<Rightarrow> bool" where
  "reconciliation_is_empty p \<longleftrightarrow> rc_entries p = [] \<and> \<not> rc_manifest_corrupted p"

definition mismatch_details :: "CacheReconciliationAction \<Rightarrow> string" where
  "mismatch_details a =
     (case a of
        ReconcileHashMismatch expected actual \<Rightarrow>
          '' expected_sha256='' @ take 16 expected @ '' actual_sha256='' @ take 16 actual
      | _ \<Rightarrow> [])"

definition reconciliation_to_text :: "CacheReconciliationPlan \<Rightarrow> string" where
  "reconciliation_to_text p =
     (if reconciliation_is_empty p then ''cache reconciliation: (empty, no entries to reconcile)''
      else
        let total = length (rc_entries p); unhealthy = unhealthy_count p; healthy = total - unhealthy
        in str_join [CHR 0x0A]
          ([''cache reconciliation: '' @ show_nat total @ '' entr'' @ (if total = 1 then ''y'' else ''ies'') @ '', '' @
              show_nat healthy @ '' consistent, '' @ show_nat unhealthy @ '' issue'' @ (if unhealthy = 1 then [] else ''s'')] @
           (if rc_manifest_corrupted p
            then [''  manifest: corrupted (treating as empty, all committed files unaccounted)''] else []) @
           map (\<lambda>e. ''  ['' @ reconcile_label (rc_action e) @ ''] '' @ rc_resource_name e @ '':'' @ rc_file_path e @
               mismatch_details (rc_action e)) (rc_entries p)))"

definition derive_key_from_cache_path :: "string \<Rightarrow> string \<times> string" where
  "derive_key_from_cache_path p =
     (case str_find CHR ''/'' p of
        Some i \<Rightarrow> (take i p, drop (i + 1) p)
      | None \<Rightarrow> ([], p))"

definition build_cache_path :: "string \<times> string \<Rightarrow> string" where
  "build_cache_path key = (if fst key = [] then snd key else fst key @ ''/'' @ snd key)"

type_synonym 'v key_map = "(string \<times> string, 'v) btree"

definition manifest_pairs :: "CacheManifest \<Rightarrow> ((string \<times> string) \<times> CacheManifestEntry) list" where
  "manifest_pairs m = map (\<lambda>e. (entry_key e, e)) (cm_entries m)"

definition cache_pairs :: "CacheFileEntry list \<Rightarrow> ((string \<times> string) \<times> CacheFileEntry) list" where
  "cache_pairs fs = map (\<lambda>f. (derive_key_from_cache_path (cf_relative_path f), f)) fs"

definition ann_pairs :: "ResourceAnnouncement \<Rightarrow> ((string \<times> string) \<times> AnnouncedResourceFile) list" where
  "ann_pairs ann = concat (map (\<lambda>r. map (\<lambda>f. ((res_name r, relative_path f), f)) (res_files r)) (ann_resources ann))"

definition build_manifest_map :: "CacheManifest \<Rightarrow> CacheManifestEntry key_map" where
  "build_manifest_map m = bt_collect (manifest_pairs m)"

definition build_cache_map :: "CacheFileEntry list \<Rightarrow> CacheFileEntry key_map" where
  "build_cache_map fs = bt_collect (cache_pairs fs)"

definition build_ann_map :: "ResourceAnnouncement \<Rightarrow> AnnouncedResourceFile key_map" where
  "build_ann_map ann = bt_collect (ann_pairs ann)"

definition process_key ::
  "CacheManifestEntry key_map \<Rightarrow> CacheFileEntry key_map \<Rightarrow> AnnouncedResourceFile key_map \<Rightarrow> bool \<Rightarrow>
   string \<times> string \<Rightarrow> CacheReconciliationEntry option" where
  "process_key mm cm am corrupted key =
     (let m = bt_get mm key;
          c = bt_get cm (derive_key_from_cache_path (build_cache_path key));
          in_manifest = (\<not> corrupted \<and> m \<noteq> None); in_cache = (c \<noteq> None); in_ann = (bt_get am key \<noteq> None);
          action =
            (if in_manifest \<and> in_cache \<and> in_ann then
               Some (case (m, c) of
                  (Some me, Some ce) \<Rightarrow>
                    if ce_sha256 me = cf_sha256 ce then AlreadyConsistent
                    else ReconcileHashMismatch (ce_sha256 me) (cf_sha256 ce)
                | _ \<Rightarrow> ReconcileHashMismatch [] [])
             else if \<not> in_manifest \<and> in_cache \<and> in_ann then
               Some (if corrupted then ManifestCorrupted else MissingManifestEntry)
             else if in_manifest \<and> \<not> in_cache \<and> in_ann then Some MissingCacheFile
             else if in_manifest \<and> in_cache \<and> \<not> in_ann then Some AnnouncementMissing
             else if \<not> in_manifest \<and> in_cache \<and> \<not> in_ann then Some OrphanedCacheFile
             else if in_manifest \<and> \<not> in_cache \<and> \<not> in_ann then Some AnnouncementMissing
             else None)
      in map_option (\<lambda>a.
           \<lparr>rc_resource_name = fst key, rc_file_path = snd key, rc_action = a,
            rc_manifest_sha256 = map_option ce_sha256 m, rc_cache_sha256 = map_option cf_sha256 c,
            rc_manifest_size_bytes = map_option ce_size_bytes m, rc_cache_size_bytes = map_option cf_size_bytes c\<rparr>)
         action)"

fun process_keys ::
  "(string \<times> string \<Rightarrow> CacheReconciliationEntry option) \<Rightarrow> (string \<times> string) list \<Rightarrow> (string \<times> string) list \<Rightarrow>
   CacheReconciliationEntry list" where
  "process_keys f seen [] = []"
| "process_keys f seen (k # ks) =
     (if k \<in> set seen then process_keys f seen ks
      else (case f k of None \<Rightarrow> [] | Some e \<Rightarrow> [e]) @ process_keys f (k # seen) ks)"

definition all_keys :: "CacheManifest \<Rightarrow> CacheFileEntry list \<Rightarrow> ResourceAnnouncement \<Rightarrow> (string \<times> string) list" where
  "all_keys m fs ann = map fst (manifest_pairs m) @ map fst (cache_pairs fs) @ map fst (ann_pairs ann)"

definition build_cache_reconciliation_plan ::
  "CacheManifest \<Rightarrow> CacheFileEntry list \<Rightarrow> ResourceAnnouncement \<Rightarrow> bool \<Rightarrow> CacheReconciliationPlan" where
  "build_cache_reconciliation_plan m fs ann corrupted =
     \<lparr>rc_entries = sort_key (\<lambda>e. rc_key e)
        (process_keys (process_key (build_manifest_map m) (build_cache_map fs) (build_ann_map ann) corrupted) []
          (all_keys m fs ann)),
      rc_manifest_corrupted = corrupted\<rparr>"

definition manifest_corrupted_check :: "CacheManifest \<Rightarrow> manifest_file \<Rightarrow> bool" where
  "manifest_corrupted_check m f =
     (manifest_is_empty m \<and>
      (case f of
         ManifestAbsent \<Rightarrow> False
       | ManifestContent data \<Rightarrow> str_trim data \<noteq> []
       | ManifestUnreadable \<Rightarrow> True))"

definition reconcile_cache ::
  "manifest_codec \<Rightarrow> (bytes \<Rightarrow> string) \<Rightarrow> manifest_file \<Rightarrow> (string \<times> fs_node) list \<Rightarrow> ResourceAnnouncement \<Rightarrow>
   CacheReconciliationPlan" where
  "reconcile_cache codec sha f tree ann =
     (let m = load_cache_manifest (manifest_from_json codec) f
      in build_cache_reconciliation_plan m (scan_cache_directory sha tree) ann (manifest_corrupted_check m f))"

section \<open>Lemmas\<close>

lemma cm_entries_with_entry [simp]: "cm_entries (with_entry e m) = upsert_entry (cm_entries m) e"
  by (simp add: with_entry_def upsert_entry_def)

text \<open>Keys and paths.\<close>

lemma derive_build_key: "fst k \<noteq> [] \<Longrightarrow> CHR ''/'' \<notin> set (fst k) \<Longrightarrow> derive_key_from_cache_path (build_cache_path k) = k"
  using str_find_append [of "CHR ''/''" "fst k" "snd k"]
  by (cases k) (simp add: derive_key_from_cache_path_def build_cache_path_def)

lemma derive_bare: "CHR ''/'' \<notin> set p \<Longrightarrow> derive_key_from_cache_path p = ([], p)"
  using str_find_None_iff [of "CHR ''/''" p] by (simp add: derive_key_from_cache_path_def)

lemma build_derive_path:
  assumes "\<not> starts_with p ''/''"
  shows "build_cache_path (derive_key_from_cache_path p) = p"
proof (cases "str_find CHR ''/'' p")
  case None
  then show ?thesis by (simp add: derive_key_from_cache_path_def build_cache_path_def)
next
  case (Some i)
  then have p: "p = take i p @ CHR ''/'' # drop (Suc i) p"
    using str_find_take_drop by blast
  with assms have "take i p \<noteq> []"
    by (metis append_Nil prefix_code(2) append_Cons prefix_def)
  then show ?thesis
    using p Some by (simp add: derive_key_from_cache_path_def build_cache_path_def)
qed

text \<open>The plan has one entry per key that needs one.\<close>

lemma process_key_key: "process_key mm cm am c k = Some e \<Longrightarrow> rc_key e = k"
  by (auto simp: process_key_def Let_def split: if_splits)

lemma set_process_keys:
  "set (process_keys f seen ks) = {e. \<exists>k \<in> set ks - set seen. f k = Some e}"
  by (induction f seen ks rule: process_keys.induct) (auto split: option.splits)

lemma distinct_process_keys:
  assumes "\<And>k e. f k = Some e \<Longrightarrow> rc_key e = k"
  shows "distinct (map (\<lambda>e. rc_key e) (process_keys f seen ks))"
proof (induction ks arbitrary: seen)
  case (Cons k ks)
  have "rc_key e \<noteq> k" if "e \<in> set (process_keys f (k # seen) ks)" for e
    using that assms by (auto simp: set_process_keys)
  then show ?case
    using Cons assms by (auto split: option.splits dest: assms)
qed simp

lemma in_reconciliation_plan:
  "e \<in> set (rc_entries (build_cache_reconciliation_plan m fs ann c)) \<longleftrightarrow>
     (\<exists>k \<in> set (all_keys m fs ann).
        process_key (build_manifest_map m) (build_cache_map fs) (build_ann_map ann) c k = Some e)"
  by (auto simp: build_cache_reconciliation_plan_def set_process_keys)

lemma reconciliation_keys_sorted:
  "sorted_wrt (<) (map (\<lambda>e. rc_key e) (rc_entries (build_cache_reconciliation_plan m fs ann c)))"
proof -
  let ?f = "process_key (build_manifest_map m) (build_cache_map fs) (build_ann_map ann) c"
  let ?ps = "process_keys ?f [] (all_keys m fs ann)"
  have "mset (map (\<lambda>e. rc_key e) (sort_key (\<lambda>e. rc_key e) ?ps)) = mset (map (\<lambda>e. rc_key e) ?ps)"
    by simp
  then have "distinct (map (\<lambda>e. rc_key e) (sort_key (\<lambda>e. rc_key e) ?ps))"
    using distinct_process_keys [of ?f "[]" "all_keys m fs ann"] process_key_key mset_eq_imp_distinct_iff by blast
  then show ?thesis
    unfolding build_cache_reconciliation_plan_def by (simp add: sorted_distinct_strict [symmetric])
qed

text \<open>
  Keys that a cache path determines: a resource name without a slash, or no name and a bare file
  name. Names that pass \<open>is_valid_resource_name\<close> and relative paths give such keys.
\<close>

definition plain_key :: "string \<times> string \<Rightarrow> bool" where
  "plain_key k \<longleftrightarrow> CHR ''/'' \<notin> set (fst k) \<and> (fst k = [] \<longrightarrow> CHR ''/'' \<notin> set (snd k))"

definition plain_inputs :: "CacheManifest \<Rightarrow> CacheFileEntry list \<Rightarrow> ResourceAnnouncement \<Rightarrow> bool" where
  "plain_inputs m fs ann \<longleftrightarrow>
     list_all (\<lambda>e. plain_key (entry_key e)) (cm_entries m) \<and>
     list_all (\<lambda>f. \<not> starts_with (cf_relative_path f) ''/'') fs \<and>
     list_all (\<lambda>r. list_all (\<lambda>f. plain_key (res_name r, relative_path f)) (res_files r)) (ann_resources ann)"

lemma plain_key_stable: "plain_key k \<Longrightarrow> derive_key_from_cache_path (build_cache_path k) = k"
  using derive_build_key [of k] by (cases k) (auto simp: plain_key_def build_cache_path_def derive_bare)

lemma plain_key_derive:
  assumes "\<not> starts_with p ''/''"
  shows "plain_key (derive_key_from_cache_path p)"
proof (cases "str_find CHR ''/'' p")
  case None
  then show ?thesis
    using str_find_None_iff [of "CHR ''/''" p] by (simp add: derive_key_from_cache_path_def plain_key_def)
next
  case (Some i)
  then have p: "p = take i p @ CHR ''/'' # drop (Suc i) p" and free: "CHR ''/'' \<notin> set (take i p)"
    using str_find_take_drop by blast+
  have "take i p \<noteq> []"
  proof
    assume "take i p = []"
    with p have "prefix ''/'' p" by (metis append_Nil prefix_code(2) append_Cons prefix_def)
    with assms show False by simp
  qed
  with Some free show ?thesis
    by (simp add: derive_key_from_cache_path_def plain_key_def)
qed

lemma plain_all_keys: "plain_inputs m fs ann \<Longrightarrow> k \<in> set (all_keys m fs ann) \<Longrightarrow> plain_key k"
  by (auto simp: plain_inputs_def all_keys_def manifest_pairs_def cache_pairs_def ann_pairs_def list_all_iff
      intro: plain_key_derive)

lemma process_key_some_iff:
  "plain_key k \<Longrightarrow>
   (\<exists>e. process_key mm cm am c k = Some e) \<longleftrightarrow> \<not> c \<and> bt_get mm k \<noteq> None \<or> bt_get cm k \<noteq> None"
  by (auto simp: process_key_def Let_def plain_key_stable)

lemma process_key_healthy_iff:
  "plain_key k \<Longrightarrow> process_key mm cm am c k = Some e \<Longrightarrow>
   is_healthy (rc_action e) \<longleftrightarrow>
     \<not> c \<and> bt_get am k \<noteq> None \<and>
     (\<exists>me ce. bt_get mm k = Some me \<and> bt_get cm k = Some ce \<and> ce_sha256 me = cf_sha256 ce)"
  by (auto simp: process_key_def Let_def plain_key_stable is_healthy_def split: if_splits)

lemma collect_none_iff: "bt_get (bt_collect kvs) k = None \<longleftrightarrow> k \<notin> fst ` set kvs"
  by (simp add: bt_get_collect map_of_eq_None_iff)

lemma collect_some_iff: "distinct (map fst kvs) \<Longrightarrow> bt_get (bt_collect kvs) k = Some v \<longleftrightarrow> (k, v) \<in> set kvs"
  by (simp add: bt_get_collect rev_map [symmetric])

lemma in_manifest_pairs: "(k, e) \<in> set (manifest_pairs m) \<longleftrightarrow> e \<in> set (cm_entries m) \<and> entry_key e = k"
  by (auto simp: manifest_pairs_def)

lemma in_cache_pairs:
  "(k, f) \<in> set (cache_pairs fs) \<longleftrightarrow> f \<in> set fs \<and> derive_key_from_cache_path (cf_relative_path f) = k"
  by (auto simp: cache_pairs_def)

text \<open>Every recorded and every cached file is accounted for.\<close>

lemma derive_eq_iff:
  "plain_key k \<Longrightarrow> \<not> starts_with p ''/'' \<Longrightarrow> derive_key_from_cache_path p = k \<longleftrightarrow> p = build_cache_path k"
  using plain_key_stable build_derive_path by metis

lemma distinct_cache_keys:
  assumes "list_all (\<lambda>f. \<not> starts_with (cf_relative_path f) ''/'') fs" and "distinct (map cf_relative_path fs)"
  shows "distinct (map fst (cache_pairs fs))"
proof -
  have "inj_on derive_key_from_cache_path (set (map cf_relative_path fs))"
    using assms(1) by (intro inj_on_inverseI [where g = build_cache_path])
      (auto simp: list_all_iff build_derive_path)
  with assms(2) have "distinct (map derive_key_from_cache_path (map cf_relative_path fs))"
    using distinct_map by blast
  then show ?thesis
    by (simp add: cache_pairs_def comp_def)
qed

lemma announced_key_iff:
  "(n, p) \<in> fst ` set (ann_pairs ann) \<longleftrightarrow>
     (\<exists>r \<in> set (ann_resources ann). res_name r = n \<and> p \<in> relative_path ` set (res_files r))"
  by (force simp: ann_pairs_def)

text \<open>Reconciliation accounts for everything: the entries are in strictly increasing key order, hence one
  per key, and their keys are those of the cached files together with, unless the manifest is
  corrupted, those the manifest records.
\<close>

theorem reconciliation_accounts_for_all:
  assumes "plain_inputs m fs ann"
  shows "sorted_wrt (<) (map (\<lambda>e. rc_key e) (rc_entries (build_cache_reconciliation_plan m fs ann corrupted))) \<and>
    set (map (\<lambda>e. rc_key e) (rc_entries (build_cache_reconciliation_plan m fs ann corrupted))) =
      (if corrupted then {} else entry_key ` set (cm_entries m)) \<union>
      (\<lambda>f. derive_key_from_cache_path (cf_relative_path f)) ` set fs"
proof -
  let ?f = "process_key (build_manifest_map m) (build_cache_map fs) (build_ann_map ann) corrupted"
  have "set (map (\<lambda>e. rc_key e) (rc_entries (build_cache_reconciliation_plan m fs ann corrupted))) =
      {k \<in> set (all_keys m fs ann). \<exists>e. ?f k = Some e}"
    using in_reconciliation_plan [of _ m fs ann corrupted] process_key_key by (fastforce simp: image_iff)
  also have "\<dots> = {k \<in> set (all_keys m fs ann). \<not> corrupted \<and> bt_get (build_manifest_map m) k \<noteq> None \<or>
      bt_get (build_cache_map fs) k \<noteq> None}"
    using process_key_some_iff plain_all_keys [OF assms] by blast
  also have "\<dots> = (if corrupted then {} else entry_key ` set (cm_entries m)) \<union>
      (\<lambda>f. derive_key_from_cache_path (cf_relative_path f)) ` set fs"
    unfolding build_manifest_map_def build_cache_map_def collect_none_iff
    by (auto simp: all_keys_def manifest_pairs_def cache_pairs_def image_image)
  finally show ?thesis
    using reconciliation_keys_sorted by blast
qed

lemma all_results_iff:
  assumes "\<And>k e. k \<in> K \<Longrightarrow> f k = Some e \<Longrightarrow> H e \<longleftrightarrow> ok k"
  shows "(\<forall>e \<in> {e. \<exists>k \<in> K. f k = Some e}. H e) \<longleftrightarrow> (\<forall>k \<in> K. (\<exists>e. f k = Some e) \<longrightarrow> ok k)"
  using assms by blast

lemma ball_within: "B \<subseteq> A \<Longrightarrow> (\<forall>k \<in> A. k \<in> B \<longrightarrow> P k) \<longleftrightarrow> (\<forall>k \<in> B. P k)"
  by blast

definition agreed :: "CacheManifest \<Rightarrow> CacheFileEntry list \<Rightarrow> ResourceAnnouncement \<Rightarrow> string \<times> string \<Rightarrow> bool" where
  "agreed m fs ann k \<longleftrightarrow> k \<in> fst ` set (ann_pairs ann) \<and>
     (\<exists>e f. (k, e) \<in> set (manifest_pairs m) \<and> (k, f) \<in> set (cache_pairs fs) \<and> ce_sha256 e = cf_sha256 f)"

lemma healthy_plan_iff:
  assumes "plain_inputs m fs ann" and "distinct (map (\<lambda>e. entry_key e) (cm_entries m))"
    and "distinct (map cf_relative_path fs)"
  shows "unhealthy_count (build_cache_reconciliation_plan m fs ann False) = 0 \<longleftrightarrow>
    (\<forall>k \<in> fst ` set (manifest_pairs m) \<union> fst ` set (cache_pairs fs). agreed m fs ann k)"
proof -
  let ?p = "build_cache_reconciliation_plan m fs ann False"
  let ?f = "process_key (build_manifest_map m) (build_cache_map fs) (build_ann_map ann) False"
  have man: "bt_get (build_manifest_map m) k = Some e \<longleftrightarrow> (k, e) \<in> set (manifest_pairs m)" for k e
    using assms(2) by (simp add: build_manifest_map_def collect_some_iff manifest_pairs_def comp_def)
  have cac: "bt_get (build_cache_map fs) k = Some f \<longleftrightarrow> (k, f) \<in> set (cache_pairs fs)" for k f
    using assms distinct_cache_keys by (simp add: build_cache_map_def collect_some_iff plain_inputs_def)
  have an: "bt_get (build_ann_map ann) k \<noteq> None \<longleftrightarrow> k \<in> fst ` set (ann_pairs ann)" for k
    by (simp add: build_ann_map_def collect_none_iff)
  have healthy: "is_healthy (rc_action e) \<longleftrightarrow> agreed m fs ann k" if "plain_key k" "?f k = Some e" for k e
    using process_key_healthy_iff [OF that] unfolding man cac an agreed_def by blast
  have entries: "set (rc_entries ?p) = {e. \<exists>k \<in> set (all_keys m fs ann). ?f k = Some e}"
    using in_reconciliation_plan by blast
  have "unhealthy_count ?p = 0 \<longleftrightarrow> (\<forall>e \<in> set (rc_entries ?p). is_healthy (rc_action e))"
    by (simp add: unhealthy_count_def filter_empty_conv)
  also have "\<dots> \<longleftrightarrow> (\<forall>k \<in> set (all_keys m fs ann). (\<exists>e. ?f k = Some e) \<longrightarrow> agreed m fs ann k)"
    unfolding entries by (rule all_results_iff) (rule healthy [OF plain_all_keys [OF assms(1)]])
  also have "\<dots> \<longleftrightarrow> (\<forall>k \<in> set (all_keys m fs ann).
      k \<in> fst ` set (manifest_pairs m) \<union> fst ` set (cache_pairs fs) \<longrightarrow> agreed m fs ann k)"
    by (rule ball_cong [OF refl])
      (simp add: process_key_some_iff plain_all_keys [OF assms(1)] build_manifest_map_def build_cache_map_def
        collect_none_iff del: split_paired_Ex)
  also have "\<dots> \<longleftrightarrow> (\<forall>k \<in> fst ` set (manifest_pairs m) \<union> fst ` set (cache_pairs fs). agreed m fs ann k)"
    by (rule ball_within) (auto simp: all_keys_def)
  finally show ?thesis .
qed

lemma agreed_entry_iff:
  assumes "plain_inputs m fs ann" and "distinct (map (\<lambda>e. entry_key e) (cm_entries m))"
    and e: "e \<in> set (cm_entries m)"
  shows "agreed m fs ann (entry_key e) \<longleftrightarrow>
    (\<exists>r \<in> set (ann_resources ann). res_name r = ce_resource_name e \<and>
       ce_file_path e \<in> relative_path ` set (res_files r)) \<and>
    (\<exists>f \<in> set fs. cf_relative_path f = build_cache_path (entry_key e) \<and> cf_sha256 f = ce_sha256 e)"
proof -
  have cached: "derive_key_from_cache_path (cf_relative_path f) = entry_key e \<longleftrightarrow>
      cf_relative_path f = build_cache_path (entry_key e)" if "f \<in> set fs" for f
    using assms(1) e that derive_eq_iff by (simp add: plain_inputs_def list_all_iff)
  have recorded: "(entry_key e, e') \<in> set (manifest_pairs m) \<longleftrightarrow> e' = e" for e'
    using assms(2) e inj_on_eq_iff [of "\<lambda>e. entry_key e" "set (cm_entries m)" e' e]
    unfolding in_manifest_pairs distinct_map by blast
  have "(\<exists>e' f. (entry_key e, e') \<in> set (manifest_pairs m) \<and> (entry_key e, f) \<in> set (cache_pairs fs) \<and>
        ce_sha256 e' = cf_sha256 f) \<longleftrightarrow>
      (\<exists>f \<in> set fs. cf_relative_path f = build_cache_path (entry_key e) \<and> cf_sha256 f = ce_sha256 e)"
    using recorded cached unfolding in_cache_pairs by (metis (no_types))
  then show ?thesis
    unfolding agreed_def announced_key_iff by (rule conj_cong [OF refl])
qed

lemma cached_recorded_iff:
  assumes "plain_inputs m fs ann" and "f \<in> set fs"
    and "\<And>e. e \<in> set (cm_entries m) \<Longrightarrow> agreed m fs ann (entry_key e)"
  shows "agreed m fs ann (derive_key_from_cache_path (cf_relative_path f)) \<longleftrightarrow>
    (\<exists>e \<in> set (cm_entries m). cf_relative_path f = build_cache_path (entry_key e))"
proof -
  let ?k = "derive_key_from_cache_path (cf_relative_path f)"
  have "agreed m fs ann ?k \<longleftrightarrow> (\<exists>e \<in> set (cm_entries m). ?k = entry_key e)"
  proof
    assume "agreed m fs ann ?k"
    then obtain e where "(?k, e) \<in> set (manifest_pairs m)"
      unfolding agreed_def by blast
    then show "\<exists>e \<in> set (cm_entries m). ?k = entry_key e"
      unfolding in_manifest_pairs by (intro bexI [of _ e]) simp_all
  qed (use assms(3) in auto)
  also have "\<dots> \<longleftrightarrow> (\<exists>e \<in> set (cm_entries m). cf_relative_path f = build_cache_path (entry_key e))"
    using assms(1,2) derive_eq_iff by (simp add: plain_inputs_def list_all_iff)
  finally show ?thesis .
qed

text \<open>C18: When a reconciliation finds no issue. For an intact manifest that records no file twice and a cache
  that lists no path twice, with resource names without a slash (and paths without one where the name is
  empty) and relative paths in the cache, there is no unhealthy entry exactly when every recorded file is announced and cached under its path with the
  recorded digest, and every cached file is recorded. Announced digests and sizes, and announced files
  that are neither recorded nor cached, make no difference.
\<close>

theorem healthy_iff_manifest_matches:
  assumes "plain_inputs m fs ann" and "distinct (map (\<lambda>e. entry_key e) (cm_entries m))"
    and "distinct (map cf_relative_path fs)"
  shows "unhealthy_count (build_cache_reconciliation_plan m fs ann False) = 0 \<longleftrightarrow>
    (\<forall>e \<in> set (cm_entries m).
       (\<exists>r \<in> set (ann_resources ann). res_name r = ce_resource_name e \<and>
          ce_file_path e \<in> relative_path ` set (res_files r)) \<and>
       (\<exists>f \<in> set fs. cf_relative_path f = build_cache_path (entry_key e) \<and> cf_sha256 f = ce_sha256 e)) \<and>
    (\<forall>f \<in> set fs. \<exists>e \<in> set (cm_entries m). cf_relative_path f = build_cache_path (entry_key e))"
proof -
  have "fst ` set (manifest_pairs m) = entry_key ` set (cm_entries m)"
    by (simp add: manifest_pairs_def image_image)
  moreover have "fst ` set (cache_pairs fs) = (\<lambda>f. derive_key_from_cache_path (cf_relative_path f)) ` set fs"
    by (simp add: cache_pairs_def image_image)
  ultimately have "unhealthy_count (build_cache_reconciliation_plan m fs ann False) = 0 \<longleftrightarrow>
      (\<forall>e \<in> set (cm_entries m). agreed m fs ann (entry_key e)) \<and>
      (\<forall>f \<in> set fs. agreed m fs ann (derive_key_from_cache_path (cf_relative_path f)))"
    using healthy_plan_iff [OF assms] by (simp only: ball_Un ball_simps)
  then show ?thesis
    using cached_recorded_iff [OF assms(1)] agreed_entry_iff [OF assms(1,2)]
    by (simp cong: conj_cong ball_cong)
qed

definition demo_manifest :: CacheManifest where
  "demo_manifest = \<lparr>cm_version = 1, cm_entries = [\<lparr>ce_resource_name = ''chat'', ce_file_path = ''a.lua'',
     ce_sha256 = ''aa'', ce_size_bytes = 3, ce_source_scheme = None, ce_source_uri = None\<rparr>]\<rparr>"

definition demo_ann :: ResourceAnnouncement where
  "demo_ann = \<lparr>ann_resources = [\<lparr>res_name = ''chat'', res_version = ''1'', res_files =
       [\<lparr>relative_path = ''a.lua'', size_bytes = 3, sha256 = ''aa'', sources = None\<rparr>],
       res_protocol_version = 1, requirement_level = Required\<rparr>], ann_signature = None\<rparr>"

definition demo_cached :: "CacheFileEntry list" where
  "demo_cached = [\<lparr>cf_relative_path = ''chat/a.lua'', cf_sha256 = ''aa'', cf_size_bytes = 3\<rparr>]"

lemma demo_plain: "plain_inputs demo_manifest demo_cached demo_ann"
  by (simp add: plain_inputs_def demo_manifest_def demo_cached_def demo_ann_def plain_key_def)

theorem reconciliation_accounts_for_all_witness:
  "set (map (\<lambda>e. rc_key e) (rc_entries (build_cache_reconciliation_plan demo_manifest demo_cached demo_ann False))) =
     {(''chat'', ''a.lua'')}"
  using reconciliation_accounts_for_all [OF demo_plain, of False]
  by (simp add: demo_manifest_def demo_cached_def derive_key_from_cache_path_def)

theorem healthy_iff_manifest_matches_witness:
  "unhealthy_count (build_cache_reconciliation_plan demo_manifest demo_cached demo_ann False) = 0"
  using healthy_iff_manifest_matches [OF demo_plain]
  by (simp add: demo_manifest_def demo_cached_def demo_ann_def build_cache_path_def)

end
