(* ===== verification/Rounding.thy ===== *)
theory Rounding
  imports Main
begin

text \<open>
  The rounding of integers to floating-point numbers. \<open>round_bits p n\<close> is the natural number with at most
  \<open>p\<close> significant bits that is nearest to \<open>n\<close>, and of two such numbers the even one: what a cast of an
  integer to \<^verbatim>\<open>f32\<close> (24 bits) or \<^verbatim>\<open>f64\<close> (53 bits) gives, and a product of doubles when it is an integer.
\<close>

section \<open>Definition\<close>

fun bit_length :: "nat \<Rightarrow> nat" where
  "bit_length n = (if n = 0 then 0 else Suc (bit_length (n div 2)))"

declare bit_length.simps [simp del]

text \<open>The quotient by \<open>2 ^ s\<close>, rounded to nearest and to even on a tie.\<close>

definition round_quotient :: "nat \<Rightarrow> nat \<Rightarrow> nat" where
  "round_quotient s n =
     (let q = n div 2 ^ s; r = n mod 2 ^ s
      in if 2 * r > 2 ^ s \<or> 2 * r = 2 ^ s \<and> odd q then Suc q else q)"

definition round_bits :: "nat \<Rightarrow> nat \<Rightarrow> nat" where
  "round_bits p n = (let s = bit_length n - p in if s = 0 then n else round_quotient s n * 2 ^ s)"

section \<open>Lemmas\<close>

lemma bit_length_bounds: "n > 0 \<Longrightarrow> 2 ^ (bit_length n - 1) \<le> n \<and> n < 2 ^ bit_length n"
proof (induction n rule: bit_length.induct)
  case (1 n)
  show ?case
  proof (cases "n div 2 = 0")
    case True
    with 1(2) have "n = 1" by simp
    then show ?thesis
      using bit_length.simps [of 1] bit_length.simps [of 0] by simp
  next
    case False
    with 1 have "2 ^ (bit_length (n div 2) - 1) \<le> n div 2 \<and> n div 2 < 2 ^ bit_length (n div 2)"
      by simp
    moreover have "bit_length n = Suc (bit_length (n div 2))"
      using 1(2) bit_length.simps [of n] by simp
    moreover have "bit_length (n div 2) > 0"
      using False bit_length.simps [of "n div 2"] by simp
    ultimately show ?thesis
      by (cases "bit_length (n div 2)") auto
  qed
qed

lemma bit_length_le_iff: "bit_length n \<le> k \<longleftrightarrow> n < 2 ^ k"
proof (cases "n = 0")
  case True
  then show ?thesis by (simp add: bit_length.simps [of 0])
next
  case False
  then have b: "2 ^ (bit_length n - 1) \<le> n" "n < 2 ^ bit_length n" "bit_length n > 0"
    using bit_length_bounds [of n] bit_length.simps [of n] by simp_all
  show ?thesis
  proof
    assume "bit_length n \<le> k"
    with b(2) show "n < 2 ^ k" by (meson order_less_le_trans one_le_numeral power_increasing)
  next
    assume "n < 2 ^ k"
    with b(1) have "(2 :: nat) ^ (bit_length n - 1) < 2 ^ k" by (rule order_le_less_trans)
    then have "bit_length n - 1 < k" by simp
    with b(3) show "bit_length n \<le> k" by simp
  qed
qed

lemma bit_length_mono: "m \<le> n \<Longrightarrow> bit_length m \<le> bit_length n"
  by (metis bit_length_le_iff le_trans order_refl order_le_less_trans)

lemma round_quotient_close:
  "2 * (n - round_quotient s n * 2 ^ s) \<le> 2 ^ s \<and> 2 * (round_quotient s n * 2 ^ s - n) \<le> 2 ^ s"
proof -
  define q r where "q = n div 2 ^ s" and "r = n mod 2 ^ s"
  have n: "n = q * 2 ^ s + r"
    unfolding q_def r_def by (rule div_mult_mod_eq [symmetric])
  have round: "round_quotient s n = (if 2 * r > 2 ^ s \<or> 2 * r = 2 ^ s \<and> odd q then Suc q else q)"
    by (simp add: round_quotient_def Let_def q_def r_def)
  have "r < 2 ^ s" by (simp add: r_def)
  then have "2 * (q * 2 ^ s + r - round_quotient s n * 2 ^ s) \<le> 2 ^ s"
    and "2 * (round_quotient s n * 2 ^ s - (q * 2 ^ s + r)) \<le> 2 ^ s"
    unfolding round by auto
  then show ?thesis unfolding n [symmetric] by blast
qed

lemma round_quotient_mono:
  assumes "m \<le> n"
  shows "round_quotient s m \<le> round_quotient s n"
proof (cases "m div 2 ^ s = n div 2 ^ s")
  case True
  then have "m mod 2 ^ s \<le> n mod 2 ^ s"
    using assms by (metis add_le_cancel_left div_mult_mod_eq)
  with True show ?thesis by (auto simp: round_quotient_def Let_def)
next
  case False
  with div_le_mono [OF assms, of "2 ^ s"] have "Suc (m div 2 ^ s) \<le> n div 2 ^ s" by simp
  moreover have "round_quotient s m \<le> Suc (m div 2 ^ s)" "n div 2 ^ s \<le> round_quotient s n"
    by (simp_all add: round_quotient_def Let_def)
  ultimately show ?thesis by linarith
qed

text \<open>The relative error is at most \<open>2 ^ -p\<close>.\<close>

lemma round_bits_close:
  assumes "p > 0"
  shows "(n - round_bits p n) * 2 ^ p \<le> n" and "(round_bits p n - n) * 2 ^ p \<le> n"
proof -
  define s where "s = bit_length n - p"
  have "(n - round_bits p n) * 2 ^ p \<le> n \<and> (round_bits p n - n) * 2 ^ p \<le> n"
  proof (cases "s = 0")
    case True
    then show ?thesis by (simp add: round_bits_def s_def)
  next
    case False
    then have pos: "n > 0"
      using bit_length.simps [of 0] by (cases "n = 0") (simp_all add: s_def)
    have "s + (p - 1) \<le> bit_length n - 1"
      using False assms by (simp add: s_def)
    then have "(2 :: nat) ^ (s + (p - 1)) \<le> 2 ^ (bit_length n - 1)" by simp
    with bit_length_bounds [OF pos] have "2 ^ (s + (p - 1)) \<le> n" by linarith
    then have big: "2 ^ s * 2 ^ (p - 1) \<le> n" by (simp add: power_add)
    have two: "(2 :: nat) ^ p = 2 * 2 ^ (p - 1)"
      using assms by (simp add: power_eq_if)
    have "d * 2 ^ p \<le> n" if "2 * d \<le> 2 ^ s" for d
    proof -
      have "d * 2 ^ p = 2 * d * 2 ^ (p - 1)" by (simp add: two)
      also have "\<dots> \<le> 2 ^ s * 2 ^ (p - 1)" using that by (rule mult_le_mono1)
      finally show ?thesis using big by simp
    qed
    then show ?thesis
      using round_quotient_close [of n s] False by (simp add: round_bits_def s_def [symmetric] Let_def)
  qed
  then show "(n - round_bits p n) * 2 ^ p \<le> n" and "(round_bits p n - n) * 2 ^ p \<le> n" by simp_all
qed

lemma round_bits_lower:
  assumes "p > 0"
  shows "n * (2 ^ p - 1) \<le> round_bits p n * 2 ^ p"
  using round_bits_close(1) [OF assms, of n] by (simp add: algebra_simps)

lemma round_bits_exact:
  assumes "p > 0" and "n \<le> 2 ^ p"
  shows "round_bits p n = n"
proof (cases "n = 2 ^ p")
  case True
  then have "bit_length n \<le> Suc p" "\<not> bit_length n \<le> p"
    by (simp_all add: bit_length_le_iff)
  then have "bit_length n - p = 1" by simp
  moreover have "round_quotient 1 n * 2 = n"
    using True assms(1) by (auto simp: round_quotient_def Let_def)
  ultimately show ?thesis by (simp add: round_bits_def)
next
  case False
  with assms(2) have "bit_length n \<le> p" by (simp add: bit_length_le_iff)
  then show ?thesis by (simp add: round_bits_def)
qed

lemma round_bits_between:
  assumes "p > 0" and "n > 0"
  shows "2 ^ (bit_length n - 1) \<le> round_bits p n" and "round_bits p n \<le> 2 ^ bit_length n"
proof -
  define s where "s = bit_length n - p"
  have "2 ^ (bit_length n - 1) \<le> round_bits p n \<and> round_bits p n \<le> 2 ^ bit_length n"
  proof (cases "s = 0")
    case True
    with bit_length_bounds [OF assms(2)] show ?thesis by (simp add: round_bits_def s_def)
  next
    case False
    then have len: "bit_length n = p + s" by (simp add: s_def)
    have "n div 2 ^ s < 2 ^ p"
      using bit_length_bounds [OF assms(2)] by (simp add: len less_mult_imp_div_less power_add)
    moreover have "2 ^ (p - 1) \<le> n div 2 ^ s"
    proof -
      have "(2 :: nat) ^ (p - 1) * 2 ^ s = 2 ^ (bit_length n - 1)"
        using assms(1) by (simp add: len power_add [symmetric])
      with bit_length_bounds [OF assms(2)] show ?thesis by (simp add: less_eq_div_iff_mult_less_eq)
    qed
    ultimately have "2 ^ (p - 1) \<le> round_quotient s n" "round_quotient s n \<le> 2 ^ p"
      by (simp_all add: round_quotient_def Let_def)
    then have "2 ^ (p - 1) * 2 ^ s \<le> round_quotient s n * 2 ^ s" "round_quotient s n * 2 ^ s \<le> 2 ^ p * 2 ^ s"
      by simp_all
    then show ?thesis
      using False assms(1) by (simp add: round_bits_def s_def [symmetric] len power_add [symmetric])
  qed
  then show "2 ^ (bit_length n - 1) \<le> round_bits p n" and "round_bits p n \<le> 2 ^ bit_length n" by simp_all
qed

lemma round_bits_mono:
  assumes "p > 0" and "m \<le> n"
  shows "round_bits p m \<le> round_bits p n"
proof (cases "bit_length m = bit_length n")
  case True
  with assms(2) round_quotient_mono [OF assms(2)] show ?thesis by (simp add: round_bits_def Let_def)
next
  case False
  with bit_length_mono [OF assms(2)] have less: "bit_length m \<le> bit_length n - 1" by simp
  have n: "n > 0"
    using False assms(2) by (cases "n = 0") simp_all
  show ?thesis
  proof (cases "m = 0")
    case True
    then show ?thesis by (simp add: round_bits_def bit_length.simps [of 0])
  next
    case False
    then have "round_bits p m \<le> 2 ^ bit_length m"
      using round_bits_between(2) [OF assms(1)] by simp
    also have "\<dots> \<le> 2 ^ (bit_length n - 1)" using less by simp
    also have "\<dots> \<le> round_bits p n" by (rule round_bits_between(1) [OF assms(1) n])
    finally show ?thesis .
  qed
qed

end
