(* ===== verification/Fetch_Execution.thy ===== *)
theory Fetch_Execution
  imports Reconciliation Fetch_Planning Rounding "HOL-Library.AList"
begin

text \<open>
  Execution of a fetch plan (\<^verbatim>\<open>crates/client/src/fetch.rs\<close>): download into the staging directory, size
  and digest check, commit to the cache, update of the cache manifest.

  All files live in one store, an association list from paths to contents in the order a directory
  is read, so that staging files, cache files and the manifest file may alias. What the operating
  system and the network decide is in the record \<open>fetch_env\<close>: which paths are links that lead somewhere
  (\<^verbatim>\<open>exists\<close> and \<^verbatim>\<open>is_symlink\<close>) or directories, which calls fail, what a GET returns, the clock. A failing call leaves the store as it was.
  Reading a directory lists the regular files directly below it.
\<close>

section \<open>Outcomes and reports\<close>

datatype FetchFailureReason =
    NoValidSource
  | FetchBlockedBySourcePolicy
  | ConnectionFailed
  | FetchTimeout
  | SizeExceeded
  | RedirectLimitExceeded
  | FetchUnsupportedScheme
  | FetchHashMismatch
  | StagingWriteFailed
  | StagingDirectoryCreationFailed
  | SymlinkRejected
  | PathTraversalRejected
  | CommitFailed string
  | IoError string

primrec failure_text :: "FetchFailureReason \<Rightarrow> string" where
  "failure_text NoValidSource = ''no valid source''"
| "failure_text FetchBlockedBySourcePolicy = ''blocked by source policy''"
| "failure_text ConnectionFailed = ''connection failed''"
| "failure_text FetchTimeout = ''timeout''"
| "failure_text SizeExceeded = ''size exceeded''"
| "failure_text RedirectLimitExceeded = ''redirect limit exceeded''"
| "failure_text FetchUnsupportedScheme = ''unsupported scheme''"
| "failure_text FetchHashMismatch = ''hash mismatch''"
| "failure_text StagingWriteFailed = ''staging write failed''"
| "failure_text StagingDirectoryCreationFailed = ''staging directory creation failed''"
| "failure_text SymlinkRejected = ''symlink rejected''"
| "failure_text PathTraversalRejected = ''path traversal rejected''"
| "failure_text (CommitFailed msg) = ''commit failed: '' @ msg"
| "failure_text (IoError msg) = ''I/O error: '' @ msg"

datatype FetchOutcome =
    StagedVerified
  | CommittedToCache
  | ReplaceInvalidCommitted
  | FetchFailure FetchFailureReason

primrec is_success :: "FetchOutcome \<Rightarrow> bool" where
  "is_success StagedVerified = True"
| "is_success CommittedToCache = True"
| "is_success ReplaceInvalidCommitted = True"
| "is_success (FetchFailure _) = False"

datatype ManifestOutcome = ManifestUpdated | ManifestWriteFailed string | SkippedNoCommit

record FetchEntryReport =
  fr_resource_name :: string
  fr_file_path :: string
  fr_source_scheme :: string
  fr_source_uri :: string
  fr_outcome :: FetchOutcome
  fr_expected_size_bytes :: u64
  fr_expected_sha256 :: string
  fr_duration_ms :: u64
  fr_manifest_outcome :: ManifestOutcome

type_synonym FetchReport = "FetchEntryReport list"

primrec outcome_text :: "FetchOutcome \<Rightarrow> string" where
  "outcome_text StagedVerified = ''staged_verified (use --allow-cache-commit to commit)''"
| "outcome_text CommittedToCache = ''committed_to_cache''"
| "outcome_text ReplaceInvalidCommitted = ''replace_invalid_committed''"
| "outcome_text (FetchFailure reason) = ''failure: '' @ failure_text reason"

primrec manifest_outcome_text :: "ManifestOutcome \<Rightarrow> string" where
  "manifest_outcome_text ManifestUpdated = '' manifest=updated''"
| "manifest_outcome_text (ManifestWriteFailed msg) = '' manifest=write_failed:'' @ msg"
| "manifest_outcome_text SkippedNoCommit = []"

definition fetch_entry_to_text :: "FetchEntryReport \<Rightarrow> string" where
  "fetch_entry_to_text e =
     ''  ['' @ outcome_text (fr_outcome e) @ ''] '' @ fr_resource_name e @ '':'' @ fr_file_path e @ '' - '' @
     fr_source_scheme e @ '' ('' @ show_u64 (fr_duration_ms e) @ '' ms, '' @ show_u64 (fr_expected_size_bytes e) @
     '' bytes, sha256:'' @ take 16 (fr_expected_sha256 e) @ '')'' @ manifest_outcome_text (fr_manifest_outcome e)"

definition fetch_report_to_text :: "FetchReport \<Rightarrow> string" where
  "fetch_report_to_text es =
     (if es = [] then ''resource fetch: (empty, nothing to do)''
      else str_join [CHR 0x0A]
        ((''resource fetch: '' @ show_nat (length es) @ '' entr'' @ (if length es = 1 then ''y'' else ''ies'')) #
         map fetch_entry_to_text es))"

section \<open>The store and its surroundings\<close>

type_synonym file_store = "(path \<times> bytes) list"

datatype io_call = CreateDirAll | Rename | CopyFile | RemoveFile | ReadDir | Metadata | HashFile | WriteFile
  | CreateFile | FlushFile

text \<open>
  The answer to a GET: the client or the request may fail, otherwise there is a status, the declared
  length and the chunks of the body, \<open>None\<close> standing for an error of the stream.
\<close>

datatype https_answer =
    ClientBuildFailed
  | SendTimeout
  | SendConnectError
  | SendRedirectError
  | SendOtherError
  | Response bool "u64 option" "bytes option list"

record fetch_env =
  file_sha256 :: "bytes \<Rightarrow> string"
  codec :: manifest_codec
  utf8_encode :: "string \<Rightarrow> bytes"
  utf8_decode :: "bytes \<Rightarrow> string option"
  symlink_at :: "path \<Rightarrow> bool"
  directory_at :: "path \<Rightarrow> bool"
  io_fail :: "io_call \<Rightarrow> path \<Rightarrow> string option"
  https_get :: "string \<Rightarrow> https_answer"
  now_nanos :: "nat \<Rightarrow> nat"
  elapsed_ms :: "nat \<Rightarrow> u64"

text \<open>\<^verbatim>\<open>Path::join\<close> on components and on the text of a path.\<close>

definition join_path :: "path \<Rightarrow> string \<Rightarrow> path" where
  "join_path p s =
     (let q = path_of_string s
      in if is_absolute q then q else if p = [] then q else p @ filter (\<lambda>c. c \<noteq> CurDir) q)"

definition join_text :: "string \<Rightarrow> string \<Rightarrow> string" where
  "join_text p s =
     (if starts_with s ''/'' then s
      else if p = [] \<or> last p = CHR ''/'' then p @ s else p @ ''/'' @ s)"

definition ancestors :: "path \<Rightarrow> path list" where
  "ancestors p = map (\<lambda>i. take i p) (rev [0..<Suc (length p)])"

definition is_symlink_in_path :: "fetch_env \<Rightarrow> path \<Rightarrow> bool" where
  "is_symlink_in_path env p \<longleftrightarrow> list_ex (symlink_at env) (ancestors p)"

definition contains_path_traversal_standalone :: "path \<Rightarrow> bool" where
  "contains_path_traversal_standalone p \<longleftrightarrow> ParentDir \<in> set p"

definition contains_path_traversal :: "string \<Rightarrow> string \<Rightarrow> bool" where
  "contains_path_traversal child parent \<longleftrightarrow> str_contains child ''..'' \<or> \<not> starts_with child parent"

definition dir_entry :: "path \<Rightarrow> path \<Rightarrow> string option" where
  "dir_entry d p =
     (if length p = Suc (length d) \<and> take (length d) p = d
      then (case last p of Normal n \<Rightarrow> Some n | _ \<Rightarrow> None) else None)"

definition read_dir :: "path \<Rightarrow> file_store \<Rightarrow> string list" where
  "read_dir d fs = List.map_filter (\<lambda>(p, c). dir_entry d p) fs"

definition remove_file :: "fetch_env \<Rightarrow> path \<Rightarrow> file_store \<Rightarrow> file_store" where
  "remove_file env p fs = (if io_fail env RemoveFile p = None then AList.delete p fs else fs)"

definition ascii_alphanumeric :: "char \<Rightarrow> bool" where
  "ascii_alphanumeric c \<longleftrightarrow>
     (let n = of_char c :: nat in 48 \<le> n \<and> n \<le> 57 \<or> 65 \<le> n \<and> n \<le> 90 \<or> 97 \<le> n \<and> n \<le> 122)"

definition sanitize_name :: "string \<Rightarrow> string" where
  "sanitize_name name =
     map (\<lambda>c. if ascii_alphanumeric c \<or> c = CHR ''-'' \<or> c = CHR ''_'' then c else CHR ''_'') name"

fun show_hex :: "nat \<Rightarrow> string" where
  "show_hex n = (if n < 16 then [hex_digit n] else show_hex (n div 16) @ [hex_digit (n mod 16)])"

declare show_hex.simps [simp del]

definition uuid_v4_tail :: "nat \<Rightarrow> string" where
  "uuid_v4_tail nanos = replicate (16 - length (show_hex nanos)) CHR ''0'' @ show_hex nanos"

text \<open>
  The limit \<^verbatim>\<open>(expected_size as f64 * 1.1).ceil() as u64\<close>: the size and the product are rounded to 53
  significant bits; 1.1 is the double \<open>4953959590107546 / 2 ^ 52\<close>; the cast back saturates.
\<close>

definition max_bytes :: "u64 \<Rightarrow> u64" where
  "max_bytes expected_size =
     (let p = round_bits 53 (round_bits 53 (unat expected_size) * 4953959590107546)
      in of_nat (min (2 ^ 64 - 1) ((p + (2 ^ 52 - 1)) div 2 ^ 52)))"

definition needs_fetch :: "ResourceDownloadPreflightAction \<Rightarrow> bool" where
  "needs_fetch action \<longleftrightarrow> action \<in> {FetchMissing, ReplaceInvalid, WouldVerifyAfterFetch}"

section \<open>Fetching one file\<close>

definition file_source_text :: "string \<Rightarrow> string" where
  "file_source_text u = (if starts_with u ''file://'' then drop 7 u else u)"

definition fetch_file_via_file_scheme ::
  "fetch_env \<Rightarrow> ResourceFetchSource \<Rightarrow> path \<Rightarrow> u64 \<Rightarrow> file_store \<Rightarrow> file_store \<times> (FetchFailureReason + path)" where
  "fetch_file_via_file_scheme env source staging_path expected_size fs =
     (let shown = file_source_text (uri source); src_path = path_of_string shown
      in if is_symlink_in_path env src_path then (fs, Inl SymlinkRejected)
         else if map_of fs src_path = None \<and> \<not> directory_at env src_path
         then (fs, Inl (IoError (''source file not found: '' @ shown)))
         else
           case (io_fail env Metadata src_path, map_of fs src_path) of
             (Some err, _) \<Rightarrow> (fs, Inl (IoError err))
           | (None, None) \<Rightarrow> (fs, Inl (IoError (''source is not a regular file: '' @ shown)))
           | (None, Some content) \<Rightarrow>
               if of_nat (length content) > max_bytes expected_size then (fs, Inl SizeExceeded)
               else case io_fail env CopyFile staging_path of
                 Some err \<Rightarrow> (fs, Inl (IoError err))
               | None \<Rightarrow> (AList.update staging_path content fs, Inr staging_path))"

definition saturating_add_len :: "u64 \<Rightarrow> nat \<Rightarrow> u64" where
  "saturating_add_len d n = of_nat (min (2 ^ 64 - 1) (unat d + n))"

text \<open>The receive loop: what has been written so far, and how the loop ends.\<close>

fun receive_chunks :: "bool \<Rightarrow> u64 \<Rightarrow> u64 \<Rightarrow> bytes \<Rightarrow> bytes option list \<Rightarrow> bytes \<times> FetchFailureReason option" where
  "receive_chunks can_write limit downloaded written [] = (written, None)"
| "receive_chunks can_write limit downloaded written (None # cs) = (written, Some StagingWriteFailed)"
| "receive_chunks can_write limit downloaded written (Some chunk # cs) =
     (let downloaded' = saturating_add_len downloaded (length chunk)
      in if downloaded' > limit then (written, Some SizeExceeded)
         else if \<not> can_write then (written, Some StagingWriteFailed)
         else receive_chunks can_write limit downloaded' (written @ chunk) cs)"

definition fetch_file_via_https ::
  "fetch_env \<Rightarrow> ResourceFetchSource \<Rightarrow> path \<Rightarrow> u64 \<Rightarrow> file_store \<Rightarrow> file_store \<times> (FetchFailureReason + path)" where
  "fetch_file_via_https env source staging_path expected_size fs =
     (case https_get env (uri source) of
        ClientBuildFailed \<Rightarrow> (fs, Inl ConnectionFailed)
      | SendTimeout \<Rightarrow> (fs, Inl FetchTimeout)
      | SendConnectError \<Rightarrow> (fs, Inl ConnectionFailed)
      | SendRedirectError \<Rightarrow> (fs, Inl RedirectLimitExceeded)
      | SendOtherError \<Rightarrow> (fs, Inl ConnectionFailed)
      | Response ok declared chunks \<Rightarrow>
          if \<not> ok then (fs, Inl ConnectionFailed)
          else if unwrap_or declared 0 > max_bytes expected_size then (fs, Inl SizeExceeded)
          else if io_fail env CreateFile staging_path \<noteq> None then (fs, Inl StagingWriteFailed)
          else
            case receive_chunks (io_fail env WriteFile staging_path = None) (max_bytes expected_size) 0 [] chunks of
              (written, Some failure) \<Rightarrow> (AList.update staging_path written fs, Inl failure)
            | (written, None) \<Rightarrow>
                (AList.update staging_path written fs,
                 if io_fail env FlushFile staging_path \<noteq> None then Inl StagingWriteFailed else Inr staging_path))"

definition verify_staged_file ::
  "fetch_env \<Rightarrow> path \<Rightarrow> u64 \<Rightarrow> string \<Rightarrow> file_store \<Rightarrow> FetchFailureReason + unit" where
  "verify_staged_file env p expected_size expected_sha fs =
     (case (io_fail env Metadata p, map_of fs p) of
        (Some err, _) \<Rightarrow> Inl (IoError err)
      | (None, None) \<Rightarrow> Inl (IoError ''No such file or directory (os error 2)'')
      | (None, Some content) \<Rightarrow>
          if of_nat (length content) \<noteq> expected_size then Inl SizeExceeded
          else case io_fail env HashFile p of
            Some err \<Rightarrow> Inl (IoError err)
          | None \<Rightarrow> if file_sha256 env content \<noteq> expected_sha then Inl FetchHashMismatch else Inr ())"

definition fetch_and_verify_single_file ::
  "fetch_env \<Rightarrow> nat \<Rightarrow> string \<Rightarrow> ResourceFetchSource \<Rightarrow> u64 \<Rightarrow> string \<Rightarrow> string \<Rightarrow> file_store \<Rightarrow>
   file_store \<times> FetchOutcome" where
  "fetch_and_verify_single_file env n file_path source expected_size expected_sha cache_dir fs =
     (let cache_path = path_of_string cache_dir;
          staging_dir = join_path cache_path ''.staging'';
          temp_name = sanitize_name file_path @ ''_'' @ uuid_v4_tail (now_nanos env n);
          staging_path = join_path staging_dir temp_name;
          staging_text = join_text cache_dir ''.staging''
      in if is_symlink_in_path env cache_path then (fs, FetchFailure SymlinkRejected)
         else if io_fail env CreateDirAll staging_dir \<noteq> None then (fs, FetchFailure StagingDirectoryCreationFailed)
         else if contains_path_traversal (join_text staging_text temp_name) staging_text
         then (fs, FetchFailure PathTraversalRejected)
         else
           case (if scheme source = ''file'' then fetch_file_via_file_scheme env source staging_path expected_size fs
                 else if scheme source = ''https'' then fetch_file_via_https env source staging_path expected_size fs
                 else (fs, Inl FetchUnsupportedScheme)) of
             (fs1, Inl failure) \<Rightarrow> (remove_file env staging_path fs1, FetchFailure failure)
           | (fs1, Inr staged) \<Rightarrow>
               (case verify_staged_file env staged expected_size expected_sha fs1 of
                  Inr _ \<Rightarrow> (fs1, StagedVerified)
                | Inl failure \<Rightarrow> (remove_file env staged fs1, FetchFailure failure)))"

section \<open>Commit and manifest update\<close>

definition find_staged_file :: "fetch_env \<Rightarrow> path \<Rightarrow> string \<Rightarrow> file_store \<Rightarrow> path option" where
  "find_staged_file env cache_path file_path fs =
     (let staging_dir = join_path cache_path ''.staging''
      in if io_fail env ReadDir staging_dir \<noteq> None then None
         else map_option (\<lambda>name. staging_dir @ [Normal name])
           (find (\<lambda>name. starts_with name (sanitize_name file_path)) (read_dir staging_dir fs)))"

definition move_file :: "path \<Rightarrow> path \<Rightarrow> file_store \<Rightarrow> file_store" where
  "move_file src dst fs =
     (case map_of fs src of
        None \<Rightarrow> fs
      | Some content \<Rightarrow> if src = dst then fs else AList.delete src (AList.update dst content fs))"

definition commit_verified_file ::
  "fetch_env \<Rightarrow> path \<Rightarrow> path \<Rightarrow> file_store \<Rightarrow> file_store \<times> (FetchFailureReason + unit)" where
  "commit_verified_file env staged target fs =
     (if is_symlink_in_path env target then (fs, Inl SymlinkRejected)
      else if contains_path_traversal_standalone target then (fs, Inl PathTraversalRejected)
      else
        case (if target = [] \<or> target = [RootDir] then None else io_fail env CreateDirAll (butlast target)) of
          Some err \<Rightarrow> (fs, Inl (CommitFailed (''failed to create parent directory: '' @ err)))
        | None \<Rightarrow>
            if io_fail env Rename target = None then (move_file staged target fs, Inr ())
            else
              case (io_fail env CopyFile target, map_of fs staged) of
                (Some err, _) \<Rightarrow> (fs, Inl (CommitFailed (''copy failed after rename: '' @ err)))
              | (None, None) \<Rightarrow> (fs, Inl (CommitFailed ''copy failed after rename: No such file or directory (os error 2)''))
              | (None, Some content) \<Rightarrow>
                  (case io_fail env RemoveFile staged of
                     Some err \<Rightarrow> (AList.update target content fs, Inl (CommitFailed (''cleanup after copy failed: '' @ err)))
                   | None \<Rightarrow> (AList.delete staged (AList.update target content fs), Inr ())))"

definition cache_manifest_path :: "path \<Rightarrow> path" where
  "cache_manifest_path cache_path = join_path cache_path ''cache_manifest.json''"

definition manifest_file_at :: "fetch_env \<Rightarrow> path \<Rightarrow> file_store \<Rightarrow> manifest_file" where
  "manifest_file_at env p fs =
     (case map_of fs p of
        None \<Rightarrow> ManifestAbsent
      | Some content \<Rightarrow> (case utf8_decode env content of None \<Rightarrow> ManifestUnreadable | Some data \<Rightarrow> ManifestContent data))"

definition save_cache_manifest :: "fetch_env \<Rightarrow> string \<Rightarrow> CacheManifest \<Rightarrow> file_store \<Rightarrow> file_store \<times> (string + unit)" where
  "save_cache_manifest env cache_dir m fs =
     (let cache_path = path_of_string cache_dir;
          staging_dir = join_path cache_path ''.staging'';
          tmp_path = join_path staging_dir ''cache_manifest.json.tmp'';
          final_path = cache_manifest_path cache_path;
          staging_text = join_text cache_dir ''.staging'';
          tmp_text = join_text staging_text ''cache_manifest.json.tmp''
      in if io_fail env CreateDirAll staging_dir \<noteq> None
         then (fs, Inl (''failed to create staging directory for manifest: '' @ staging_text))
         else case manifest_to_json (codec env) m of
           None \<Rightarrow> (fs, Inl ''failed to serialize cache manifest'')
         | Some json \<Rightarrow>
             if io_fail env WriteFile tmp_path \<noteq> None then (fs, Inl (''failed to write temp manifest: '' @ tmp_text))
             else
               let fs1 = AList.update tmp_path (utf8_encode env json) fs
               in if io_fail env Rename final_path \<noteq> None
                  then (fs1, Inl (''failed to rename manifest from '' @ tmp_text @ '' to '' @
                               join_text cache_dir ''cache_manifest.json''))
                  else (move_file tmp_path final_path fs1, Inr ()))"

definition write_manifest_entry ::
  "fetch_env \<Rightarrow> string \<Rightarrow> CacheManifestEntry \<Rightarrow> file_store \<Rightarrow> file_store \<times> (string + CacheManifest)" where
  "write_manifest_entry env cache_dir e fs =
     (let m = load_cache_manifest (manifest_from_json (codec env))
                (manifest_file_at env (cache_manifest_path (path_of_string cache_dir)) fs);
          updated = with_entry e m
      in case save_cache_manifest env cache_dir updated fs of
           (fs1, Inl err) \<Rightarrow> (fs1, Inl (''manifest write failed: '' @ err))
         | (fs1, Inr _) \<Rightarrow> (fs1, Inr updated))"

section \<open>Executing a plan\<close>

record FetchConfig =
  allow_fetch :: bool
  allow_cache_commit :: bool
  fc_cache_dir :: "string option"
  fetch_report_path :: "string option"

definition expected_file :: "ResourceAnnouncement \<Rightarrow> string \<times> string \<Rightarrow> u64 \<times> string" where
  "expected_file ann key =
     (case bt_get (build_ann_map ann) key of Some f \<Rightarrow> (size_bytes f, sha256 f) | None \<Rightarrow> (0, []))"

definition preflight_action_for ::
  "ResourceDownloadPreflightPlan \<Rightarrow> string \<times> string \<Rightarrow> ResourceDownloadPreflightAction option" where
  "preflight_action_for preflight key =
     bt_get (bt_collect (map (\<lambda>pe. ((pf_resource_name pe, pf_file_path pe), pf_action pe)) preflight)) key"

definition chosen_source ::
  "ResourceDownloadPreflightPlan \<Rightarrow> string \<times> string \<Rightarrow> ResourceFetchSource option" where
  "chosen_source preflight key =
     Option.bind (find (\<lambda>pe. (pf_resource_name pe, pf_file_path pe) = key) preflight) selected_source"

definition commit_staged ::
  "fetch_env \<Rightarrow> string \<Rightarrow> string \<Rightarrow> ResourceDownloadPreflightAction option \<Rightarrow> file_store \<Rightarrow> file_store \<times> FetchOutcome" where
  "commit_staged env cache_dir file_path action fs =
     (let cache_path = path_of_string cache_dir in
      case find_staged_file env cache_path file_path fs of
        None \<Rightarrow> (fs, FetchFailure (CommitFailed ''staged file not found before commit''))
      | Some staged \<Rightarrow>
          (case commit_verified_file env staged (join_path cache_path file_path) fs of
             (fs1, Inr _) \<Rightarrow>
               (remove_file env staged fs1,
                if action = Some ReplaceInvalid then ReplaceInvalidCommitted else CommittedToCache)
           | (fs1, Inl failure) \<Rightarrow> (remove_file env staged fs1, FetchFailure failure)))"

definition record_commit ::
  "fetch_env \<Rightarrow> string \<Rightarrow> CacheManifestEntry \<Rightarrow> FetchOutcome \<Rightarrow> file_store \<Rightarrow> file_store \<times> ManifestOutcome" where
  "record_commit env cache_dir e outcome fs =
     (if outcome = CommittedToCache \<or> outcome = ReplaceInvalidCommitted then
        (case write_manifest_entry env cache_dir e fs of
           (fs1, Inr _) \<Rightarrow> (fs1, ManifestUpdated)
         | (fs1, Inl err) \<Rightarrow> (fs1, ManifestWriteFailed err))
      else (fs, SkippedNoCommit))"

definition execute_entry ::
  "fetch_env \<Rightarrow> ResourceAnnouncement \<Rightarrow> ResourceDownloadPreflightPlan \<Rightarrow> bool \<Rightarrow> string \<Rightarrow> nat \<Rightarrow>
   string \<times> string \<Rightarrow> file_store \<Rightarrow> file_store \<times> FetchEntryReport" where
  "execute_entry env ann preflight allow_commit cache_dir n key fs =
     (case expected_file ann key of (expected_size, expected_sha) \<Rightarrow>
        case chosen_source preflight key of
          None \<Rightarrow>
            (fs, \<lparr>fr_resource_name = fst key, fr_file_path = snd key, fr_source_scheme = [], fr_source_uri = [],
                 fr_outcome = FetchFailure NoValidSource, fr_expected_size_bytes = expected_size,
                 fr_expected_sha256 = expected_sha, fr_duration_ms = 0, fr_manifest_outcome = SkippedNoCommit\<rparr>)
        | Some source \<Rightarrow>
            (case fetch_and_verify_single_file env n (snd key) source expected_size expected_sha cache_dir fs of
               (fs1, fetched) \<Rightarrow>
             case (if is_success fetched \<and> allow_commit
                   then commit_staged env cache_dir (snd key) (preflight_action_for preflight key) fs1
                   else (fs1, fetched)) of
               (fs2, outcome) \<Rightarrow>
             case record_commit env cache_dir
                    \<lparr>ce_resource_name = fst key, ce_file_path = snd key, ce_sha256 = expected_sha,
                     ce_size_bytes = expected_size, ce_source_scheme = Some (scheme source),
                     ce_source_uri = Some (uri source)\<rparr> outcome fs2 of
               (fs3, manifest_outcome) \<Rightarrow>
             (fs3, \<lparr>fr_resource_name = fst key, fr_file_path = snd key, fr_source_scheme = scheme source,
                   fr_source_uri = uri source, fr_outcome = outcome, fr_expected_size_bytes = expected_size,
                   fr_expected_sha256 = expected_sha, fr_duration_ms = elapsed_ms env n,
                   fr_manifest_outcome = manifest_outcome\<rparr>)))"

fun execute_entries ::
  "(nat \<Rightarrow> string \<times> string \<Rightarrow> file_store \<Rightarrow> file_store \<times> FetchEntryReport) \<Rightarrow> nat \<Rightarrow> ResourceFetchExecutionPlan \<Rightarrow>
   file_store \<Rightarrow> file_store \<times> FetchReport" where
  "execute_entries run n [] fs = (fs, [])"
| "execute_entries run n (x # xs) fs =
     (if \<not> plan_ok x then execute_entries run (Suc n) xs fs
      else case run n (fx_resource_name x, fx_file_path x) fs of
        (fs1, r) \<Rightarrow> (case execute_entries run (Suc n) xs fs1 of (fs2, rs) \<Rightarrow> (fs2, r # rs)))"

definition execute_fetch_plan ::
  "fetch_env \<Rightarrow> ResourceAnnouncement \<Rightarrow> ResourceDownloadPreflightPlan \<Rightarrow> FetchConfig \<Rightarrow> file_store \<Rightarrow>
   file_store \<times> FetchReport" where
  "execute_fetch_plan env ann preflight config fs =
     (if \<not> allow_fetch config then (fs, [])
      else case fc_cache_dir config of
        None \<Rightarrow> (fs, [])
      | Some cache_dir \<Rightarrow>
          execute_entries (execute_entry env ann preflight (allow_cache_commit config) cache_dir) 0
            (build_fetch_execution_plan preflight) fs)"

section \<open>The size limit\<close>

text \<open>The announced size is always within the limit.\<close>

lemma max_bytes_ge: "unat n \<le> unat (max_bytes n)"
proof -
  define x p where "x = round_bits 53 (unat n)" and "p = round_bits 53 (x * 4953959590107546)"
  have "unat n * (2 ^ 53 - 1) \<le> x * 2 ^ 53" "x * 4953959590107546 * (2 ^ 53 - 1) \<le> p * 2 ^ 53"
    unfolding x_def p_def by (rule round_bits_lower, simp)+
  then have "unat n * 2 ^ 52 \<le> p" by simp
  then have "unat n \<le> (p + (2 ^ 52 - 1)) div 2 ^ 52" by simp
  moreover have "unat n \<le> 2 ^ 64 - 1"
    using unsigned_less [of n, where 'a = nat] by simp
  moreover have "unat (of_nat (min (2 ^ 64 - 1) k) :: u64) = min (2 ^ 64 - 1) k" for k
    by (simp add: unsigned_of_nat take_bit_nat_eq_self)
  ultimately show ?thesis
    by (simp add: max_bytes_def Let_def x_def [symmetric] p_def [symmetric])
qed

text \<open>The limit on the downloaded size is never below the announced size, for every 64-bit size and in
  spite of the rounding: a file of the announced size is not rejected for its size.
\<close>

theorem announced_size_within_limit: "n \<le> max_bytes n"
  using max_bytes_ge [of n] by (simp add: word_le_nat_alt)

section \<open>Lemmas\<close>

subsection \<open>Paths in the cache directory\<close>

lemma path_of_bare:
  assumes "CHR ''/'' \<notin> set s" and "s \<noteq> []" and "s \<noteq> ''.''" and "s \<noteq> ''..''"
  shows "path_of_string s = [Normal s]"
  using assms by (auto simp: path_of_string_def split_at_char_none Let_def prefix_def)

lemma join_bare:
  "CHR ''/'' \<notin> set s \<Longrightarrow> s \<noteq> [] \<Longrightarrow> s \<noteq> ''.'' \<Longrightarrow> s \<noteq> ''..'' \<Longrightarrow> join_path p s = p @ [Normal s]"
  by (simp add: join_path_def path_of_bare is_absolute_def Let_def)

abbreviation staging_dir :: "string \<Rightarrow> path" where
  "staging_dir d \<equiv> path_of_string d @ [Normal ''.staging'']"

abbreviation manifest_path :: "string \<Rightarrow> path" where
  "manifest_path d \<equiv> path_of_string d @ [Normal ''cache_manifest.json'']"

abbreviation manifest_tmp :: "string \<Rightarrow> path" where
  "manifest_tmp d \<equiv> staging_dir d @ [Normal ''cache_manifest.json.tmp'']"

abbreviation temp_name :: "fetch_env \<Rightarrow> nat \<Rightarrow> string \<Rightarrow> string" where
  "temp_name env n fp \<equiv> sanitize_name fp @ ''_'' @ uuid_v4_tail (now_nanos env n)"

abbreviation target_path :: "string \<Rightarrow> string \<Rightarrow> path" where
  "target_path d fp \<equiv> join_path (path_of_string d) fp"

lemma hex_digit_safe: "n < 16 \<Longrightarrow> hex_digit n \<notin> {CHR ''/'', CHR ''.''}"
proof -
  assume "n < 16"
  then have "of_char (hex_digit n) \<notin> {47, 46 :: nat}"
    by (simp add: hex_digit_def)
  then show ?thesis by auto
qed

lemma show_hex_safe: "CHR ''/'' \<notin> set (show_hex n)" "CHR ''.'' \<notin> set (show_hex n)"
proof (induction n rule: show_hex.induct)
  case (1 n)
  {
    case 1
    show ?case using "1.IH" hex_digit_safe [of n] hex_digit_safe [of "n mod 16"]
      by (subst show_hex.simps) auto
  next
    case 2
    show ?case using "1.IH" hex_digit_safe [of n] hex_digit_safe [of "n mod 16"]
      by (subst show_hex.simps) auto
  }
qed

lemma temp_name_safe: "CHR ''/'' \<notin> set (temp_name env n fp)" "CHR ''.'' \<notin> set (temp_name env n fp)"
  using show_hex_safe [of "now_nanos env n"]
  by (auto simp: sanitize_name_def uuid_v4_tail_def ascii_alphanumeric_def split: if_splits)

lemma staging_joins:
  "join_path p ''.staging'' = p @ [Normal ''.staging'']"
  "join_path p ''cache_manifest.json'' = p @ [Normal ''cache_manifest.json'']"
  "join_path p ''cache_manifest.json.tmp'' = p @ [Normal ''cache_manifest.json.tmp'']"
  by (rule join_bare; simp)+

lemma temp_join: "join_path p (temp_name env n fp) = p @ [Normal (temp_name env n fp)]"
  using temp_name_safe [of fp env n] by (intro join_bare) (auto simp: append_eq_Cons_conv)

lemma in_map_filter: "x \<in> set (List.map_filter f xs) \<longleftrightarrow> (\<exists>y \<in> set xs. f y = Some x)"
  by (induction xs) (auto simp: map_filter_simps split: option.splits)

lemma set_read_dir: "set (read_dir d fs) = {n. map_of fs (d @ [Normal n]) \<noteq> None}"
proof -
  have "dir_entry d p = Some n \<longleftrightarrow> p = d @ [Normal n]" for p n
  proof
    assume e: "dir_entry d p = Some n"
    then have "length p = Suc (length d)" "take (length d) p = d" "last p = Normal n"
      by (auto simp: dir_entry_def split: if_splits path_component.splits)
    then show "p = d @ [Normal n]"
      by (metis Suc_eq_plus1 append_butlast_last_id butlast_conv_take diff_Suc_1 length_0_conv nat.distinct(1) plus_1_eq_Suc)
  qed (simp add: dir_entry_def)
  note entry = this
  have "n \<in> set (read_dir d fs) \<longleftrightarrow> map_of fs (d @ [Normal n]) \<noteq> None" for n
  proof -
    have "n \<in> set (read_dir d fs) \<longleftrightarrow> (\<exists>y \<in> set fs. dir_entry d (fst y) = Some n)"
      unfolding read_dir_def in_map_filter by (simp add: case_prod_beta)
    also have "\<dots> \<longleftrightarrow> d @ [Normal n] \<in> fst ` set fs"
      unfolding entry image_iff by metis
    finally show ?thesis by (simp only: map_of_eq_None_iff not_not)
  qed
  then show ?thesis by blast
qed

subsection \<open>What the steps do to the store\<close>

lemmas store_simps = update_conv' delete_conv'

lemma file_scheme_effect:
  "fetch_file_via_file_scheme env src sp sz fs = (fs1, r) \<Longrightarrow>
     (fs1 = fs \<or> (\<exists>c. fs1 = AList.update sp c fs)) \<and> (\<forall>p. r = Inr p \<longrightarrow> p = sp \<and> (\<exists>c. fs1 = AList.update sp c fs))"
  by (auto simp: fetch_file_via_file_scheme_def Let_def split: if_splits option.splits prod.splits)

lemma https_effect:
  "fetch_file_via_https env src sp sz fs = (fs1, r) \<Longrightarrow>
     (fs1 = fs \<or> (\<exists>c. fs1 = AList.update sp c fs)) \<and> (\<forall>p. r = Inr p \<longrightarrow> p = sp \<and> (\<exists>c. fs1 = AList.update sp c fs))"
  by (auto simp: fetch_file_via_https_def split: https_answer.splits if_splits option.splits prod.splits)

lemma map_of_remove_file: "map_of (remove_file env p fs) = (if io_fail env RemoveFile p = None then (map_of fs)(p := None) else map_of fs)"
  by (simp add: remove_file_def store_simps)

lemma verify_staged_ok:
  "verify_staged_file env p sz sha fs = Inr u \<Longrightarrow>
     \<exists>c. map_of fs p = Some c \<and> of_nat (length c) = sz \<and> file_sha256 env c = sha"
  by (auto simp: verify_staged_file_def split: option.splits if_splits prod.splits)

text \<open>
  A fetch ends with the verified content in the staging file, or with a failure and, when removing
  files works, the store as it was.
\<close>

lemma fetch_effect:
  assumes "fetch_and_verify_single_file env n fp src sz sha d fs = (fs1, out)"
  defines "sp \<equiv> staging_dir d @ [Normal (temp_name env n fp)]"
  shows "out = StagedVerified \<and>
      (\<exists>c. map_of fs1 = (map_of fs)(sp \<mapsto> c) \<and> of_nat (length c) = sz \<and> file_sha256 env c = sha) \<or>
    \<not> is_success out \<and> (\<exists>v. map_of fs1 = (map_of fs)(sp := v)) \<and>
      (io_fail env RemoveFile sp = None \<longrightarrow> map_of fs sp = None \<longrightarrow> map_of fs1 = map_of fs)"
proof -
  let ?fetch = "if scheme src = ''file'' then fetch_file_via_file_scheme env src sp sz fs
                 else if scheme src = ''https'' then fetch_file_via_https env src sp sz fs
                 else (fs, Inl FetchUnsupportedScheme)"
  obtain fs' r where f: "?fetch = (fs', r)" by fastforce
  have eff: "fs' = fs \<or> (\<exists>c. fs' = AList.update sp c fs)" "\<And>p. r = Inr p \<Longrightarrow> p = sp \<and> (\<exists>c. fs' = AList.update sp c fs)"
    using f file_scheme_effect [of env src sp sz fs fs' r] https_effect [of env src sp sz fs fs' r]
    by (auto split: if_splits)
  have same: "\<exists>v. map_of fs = (map_of fs)(sp := v)" by (rule exI [of _ "map_of fs sp"]) simp
  have run: "(fs1, out) = (fs, FetchFailure SymlinkRejected) \<or> (fs1, out) = (fs, FetchFailure StagingDirectoryCreationFailed) \<or>
      (fs1, out) = (fs, FetchFailure PathTraversalRejected) \<or>
      (fs1, out) = (case r of Inl failure \<Rightarrow> (remove_file env sp fs', FetchFailure failure)
        | Inr staged \<Rightarrow> (case verify_staged_file env staged sz sha fs' of
            Inr _ \<Rightarrow> (fs', StagedVerified) | Inl failure \<Rightarrow> (remove_file env staged fs', FetchFailure failure)))"
    using assms(1) f unfolding fetch_and_verify_single_file_def Let_def staging_joins temp_join sp_def [symmetric]
    by (simp split: if_splits)
  have removed: "(\<exists>v. map_of (remove_file env sp fs') = (map_of fs)(sp := v)) \<and>
      (io_fail env RemoveFile sp = None \<longrightarrow> map_of fs sp = None \<longrightarrow> map_of (remove_file env sp fs') = map_of fs)"
    using eff(1) same by (auto simp: map_of_remove_file store_simps fun_upd_idem)
  show ?thesis
  proof (cases r)
    case (Inl failure)
    with run same removed show ?thesis by auto
  next
    case (Inr staged)
    with eff(2) obtain c where c: "staged = sp" "fs' = AList.update sp c fs" by blast
    show ?thesis
    proof (cases "verify_staged_file env sp sz sha fs'")
      case (Inl failure)
      with run same removed Inr c(1) show ?thesis by auto
    next
      case ok: (Inr u)
      then have "of_nat (length c) = sz \<and> file_sha256 env c = sha"
        using verify_staged_ok [OF ok] c(2) by (simp add: store_simps)
      with run same ok Inr c show ?thesis by (auto simp: store_simps)
    qed
  qed
qed

text \<open>
  \<open>tidy env\<close>: removing, renaming and listing files works. \<open>staging_clear d fs\<close>: no file lies directly in
  the staging directory. \<open>plain_target d fp\<close>: the target of the file is neither directly in the staging
  directory nor the manifest.
\<close>

definition tidy :: "fetch_env \<Rightarrow> bool" where
  "tidy env \<longleftrightarrow> (\<forall>p. io_fail env RemoveFile p = None \<and> io_fail env Rename p = None \<and> io_fail env ReadDir p = None)"

definition staging_clear :: "string \<Rightarrow> file_store \<Rightarrow> bool" where
  "staging_clear d fs \<longleftrightarrow> (\<forall>n. map_of fs (staging_dir d @ [Normal n]) = None)"

definition plain_target :: "string \<Rightarrow> string \<Rightarrow> bool" where
  "plain_target d fp \<longleftrightarrow> dir_entry (staging_dir d) (target_path d fp) = None \<and> target_path d fp \<noteq> manifest_path d"

lemma plain_target_not_staged: "plain_target d fp \<Longrightarrow> target_path d fp \<noteq> staging_dir d @ [Normal n]"
  by (auto simp: plain_target_def dir_entry_def)

lemma commit_effect:
  assumes "commit_verified_file env st tg fs = (fs1, r)" and "map_of fs st = Some c" and "st \<noteq> tg"
    and "io_fail env RemoveFile st = None"
  shows "map_of fs1 = (case r of Inr _ \<Rightarrow> (map_of fs)(tg \<mapsto> c, st := None) | Inl _ \<Rightarrow> map_of fs)"
  using assms
  by (auto simp: commit_verified_file_def move_file_def store_simps fun_upd_twist split: if_splits option.splits)

lemma find_staged:
  assumes "staging_clear d fs" and "map_of fs1 = (map_of fs)(staging_dir d @ [Normal (temp_name env n fp)] \<mapsto> c)"
    and "io_fail env ReadDir (staging_dir d) = None"
  shows "find_staged_file env (path_of_string d) fp fs1 = Some (staging_dir d @ [Normal (temp_name env n fp)])"
proof -
  have "set (read_dir (staging_dir d) fs1) = {temp_name env n fp}"
    using assms(1,2) by (auto simp: set_read_dir staging_clear_def)
  moreover have "prefix (sanitize_name fp) (temp_name env n fp)" by simp
  ultimately have "find (\<lambda>name. starts_with name (sanitize_name fp)) (read_dir (staging_dir d) fs1) =
      Some (temp_name env n fp)"
    by (cases "read_dir (staging_dir d) fs1") auto
  with assms(3) show ?thesis
    by (simp add: find_staged_file_def Let_def staging_joins)
qed

lemma commit_staged_effect:
  assumes "tidy env" and "staging_clear d fs" and "plain_target d fp"
    and sp: "map_of fs1 = (map_of fs)(staging_dir d @ [Normal (temp_name env n fp)] \<mapsto> c)"
    and run: "commit_staged env d fp act fs1 = (fs2, out)"
  shows "out \<in> {CommittedToCache, ReplaceInvalidCommitted} \<and> map_of fs2 = (map_of fs)(target_path d fp \<mapsto> c) \<or>
    \<not> is_success out \<and> map_of fs2 = map_of fs"
proof -
  let ?sp = "staging_dir d @ [Normal (temp_name env n fp)]"
  have io: "io_fail env RemoveFile ?sp = None" "io_fail env ReadDir (staging_dir d) = None"
    using assms(1) by (auto simp: tidy_def)
  have none: "map_of fs ?sp = None"
    using assms(2) unfolding staging_clear_def by blast
  have ne: "?sp \<noteq> target_path d fp"
    using plain_target_not_staged [OF assms(3)] by metis
  obtain fs' r where c: "commit_verified_file env ?sp (target_path d fp) fs1 = (fs', r)" by fastforce
  have eff: "map_of fs' = (case r of Inr _ \<Rightarrow> (map_of fs1)(target_path d fp \<mapsto> c, ?sp := None) | Inl _ \<Rightarrow> map_of fs1)"
    using commit_effect [OF c _ ne io(1)] sp by simp
  have fs2: "fs2 = remove_file env ?sp fs'" and out: "case r of Inr _ \<Rightarrow> out \<in> {CommittedToCache, ReplaceInvalidCommitted} | Inl _ \<Rightarrow> \<not> is_success out"
    using run c unfolding commit_staged_def Let_def find_staged [OF assms(2) sp io(2)]
    by (auto split: sum.splits)
  have "map_of fs2 = (map_of fs')(?sp := None)"
    using io(1) unfolding fs2 map_of_remove_file by simp
  with eff out sp none ne show ?thesis
    by (cases r) (auto simp: fun_upd_idem fun_upd_twist)
qed

lemma write_manifest_effect:
  assumes "write_manifest_entry env d e fs = (fs1, r)"
  shows "(\<forall>p. p \<noteq> manifest_tmp d \<longrightarrow> p \<noteq> manifest_path d \<longrightarrow> map_of fs1 p = map_of fs p) \<and>
    (tidy env \<longrightarrow> map_of fs (manifest_tmp d) = None \<longrightarrow> map_of fs1 (manifest_tmp d) = None)"
  using assms
  by (auto simp: write_manifest_entry_def save_cache_manifest_def cache_manifest_path_def staging_joins Let_def
      move_file_def store_simps tidy_def split: if_splits option.splits sum.splits prod.splits)

abbreviation committed :: "FetchOutcome \<Rightarrow> bool" where
  "committed out \<equiv> out \<in> {CommittedToCache, ReplaceInvalidCommitted}"

definition verified_at :: "fetch_env \<Rightarrow> ResourceAnnouncement \<Rightarrow> string \<times> string \<Rightarrow> bytes option \<Rightarrow> bool" where
  "verified_at env ann key content \<longleftrightarrow>
     (\<exists>c. content = Some c \<and> (of_nat (length c), file_sha256 env c) = expected_file ann key)"

text \<open>The fetch and the commit of one entry, before the manifest is written.\<close>

lemma fetch_commit_effect:
  assumes "tidy env" and "staging_clear d fs" and "plain_target d fp"
    and fetch: "fetch_and_verify_single_file env n fp src sz sha d fs = (fs1, fetched)"
    and commit: "(if is_success fetched \<and> True then commit_staged env d fp act fs1 else (fs1, fetched)) = (fs2, out)"
  shows "committed out \<and>
      (\<exists>c. map_of fs2 = (map_of fs)(target_path d fp \<mapsto> c) \<and> of_nat (length c) = sz \<and> file_sha256 env c = sha) \<or>
    \<not> committed out \<and> map_of fs2 = map_of fs"
proof -
  let ?sp = "staging_dir d @ [Normal (temp_name env n fp)]"
  have "io_fail env RemoveFile ?sp = None" "map_of fs ?sp = None"
    using assms(1,2) unfolding tidy_def staging_clear_def by blast+
  with fetch_effect [OF fetch] consider
      (staged) c where "fetched = StagedVerified" "map_of fs1 = (map_of fs)(?sp \<mapsto> c)" "of_nat (length c) = sz"
        "file_sha256 env c = sha"
    | (failed) "\<not> is_success fetched" "map_of fs1 = map_of fs"
    by blast
  then show ?thesis
  proof cases
    case staged
    with commit have "commit_staged env d fp act fs1 = (fs2, out)" by simp
    from commit_staged_effect [OF assms(1-3) staged(2) this] staged(3,4) show ?thesis by auto
  next
    case failed
    with commit show ?thesis by auto
  qed
qed

text \<open>One entry of the plan: only its target, the manifest and the staging directory are touched.\<close>

lemma record_commit_effect:
  assumes "tidy env" and "record_commit env d e out fs = (fs', mo)"
  shows "(\<forall>p. p \<noteq> manifest_tmp d \<longrightarrow> p \<noteq> manifest_path d \<longrightarrow> map_of fs' p = map_of fs p) \<and>
    (map_of fs (manifest_tmp d) = None \<longrightarrow> map_of fs' (manifest_tmp d) = None) \<and> (\<not> committed out \<longrightarrow> fs' = fs)"
  using assms write_manifest_effect [of env d e fs]
  by (auto simp: record_commit_def split: if_splits sum.splits prod.splits)

lemma entry_effect:
  assumes "tidy env" and "staging_clear d fs" and "plain_target d (snd key)"
    and run: "execute_entry env ann preflight True d n key fs = (fs', r)"
  shows "(fr_resource_name r, fr_file_path r) = key \<and> staging_clear d fs' \<and>
    (\<forall>p. p \<noteq> manifest_path d \<longrightarrow> dir_entry (staging_dir d) p = None \<longrightarrow>
      p \<noteq> target_path d (snd key) \<or> \<not> committed (fr_outcome r) \<longrightarrow> map_of fs' p = map_of fs p) \<and>
    (committed (fr_outcome r) \<longrightarrow> verified_at env ann key (map_of fs' (target_path d (snd key))))"
proof (cases "chosen_source preflight key")
  case None
  with run assms(2) show ?thesis
    by (auto simp: execute_entry_def split: prod.splits)
next
  case (Some src)
  obtain sz sha where ex: "expected_file ann key = (sz, sha)" by fastforce
  obtain fs1 fetched where f: "fetch_and_verify_single_file env n (snd key) src sz sha d fs = (fs1, fetched)"
    by fastforce
  obtain fs2 out where c: "(if is_success fetched \<and> True
      then commit_staged env d (snd key) (preflight_action_for preflight key) fs1 else (fs1, fetched)) = (fs2, out)"
    by fastforce
  let ?e = "\<lparr>ce_resource_name = fst key, ce_file_path = snd key, ce_sha256 = sha, ce_size_bytes = sz,
      ce_source_scheme = Some (scheme src), ce_source_uri = Some (uri src)\<rparr>"
  obtain fs3 mo where w: "record_commit env d ?e out fs2 = (fs3, mo)" by fastforce
  have r: "fs' = fs3" "(fr_resource_name r, fr_file_path r) = key" "fr_outcome r = out"
    using run unfolding execute_entry_def ex Some prod.case option.case f c w by auto
  note rec = record_commit_effect [OF assms(1) w]
  have tg: "dir_entry (staging_dir d) (target_path d (snd key)) = None" "target_path d (snd key) \<noteq> manifest_path d"
    "target_path d (snd key) \<noteq> staging_dir d @ [Normal k]" for k
    using assms(3) plain_target_not_staged [OF assms(3)] by (simp_all add: plain_target_def)
  have tmp: "dir_entry (staging_dir d) (manifest_tmp d) \<noteq> None" and man: "manifest_path d \<noteq> staging_dir d @ [Normal k]" for k
    by (auto simp: dir_entry_def)
  note mid = fetch_commit_effect [OF assms(1-3) f c]
  have clear2: "map_of fs2 (staging_dir d @ [Normal k]) = None" for k
    using mid assms(2) tg(3) [of k, symmetric] unfolding staging_clear_def by (elim disjE conjE exE) simp_all
  have "map_of fs3 (staging_dir d @ [Normal k]) = None" for k
    using rec clear2 [of k] clear2 [of "''cache_manifest.json.tmp''"] man [of k]
    by (cases "k = ''cache_manifest.json.tmp''") (blast, simp)
  then have "staging_clear d fs3" unfolding staging_clear_def by blast
  moreover have "map_of fs3 p = map_of fs p"
    if "p \<noteq> manifest_path d" "dir_entry (staging_dir d) p = None" "p \<noteq> target_path d (snd key) \<or> \<not> committed out" for p
  proof -
    have "p \<noteq> manifest_tmp d" using that(2) tmp by blast
    with rec that(1) have "map_of fs3 p = map_of fs2 p" by blast
    also have "\<dots> = map_of fs p" using mid that(3) by (elim disjE conjE exE) simp_all
    finally show ?thesis .
  qed
  moreover have "verified_at env ann key (map_of fs3 (target_path d (snd key)))" if "committed out"
  proof -
    from that mid obtain c where "map_of fs2 (target_path d (snd key)) = Some c"
      "of_nat (length c) = sz" "file_sha256 env c = sha"
      by auto
    moreover have "map_of fs3 (target_path d (snd key)) = map_of fs2 (target_path d (snd key))"
      using rec tg(2) tg(3) [of "''cache_manifest.json.tmp''"] by blast
    ultimately show ?thesis by (simp add: verified_at_def ex)
  qed
  ultimately show ?thesis using r by blast
qed

text \<open>
  The whole plan: outside the staging directory and the manifest, a path has its old content or the
  content of a committed entry for it; and a committed entry is overwritten only by a later one.
  \<open>announced_file\<close> is what the announcement says of a file, by the last one of that name and path.
\<close>

definition announced_file :: "ResourceAnnouncement \<Rightarrow> string \<times> string \<Rightarrow> u64 \<times> string" where
  "announced_file ann key =
     unwrap_or (map_of (rev [((res_name q, relative_path f), (size_bytes f, sha256 f)). q \<leftarrow> ann_resources ann, f \<leftarrow> res_files q])
       key) (0, [])"

abbreviation announced_for_report :: "ResourceAnnouncement \<Rightarrow> FetchEntryReport \<Rightarrow> u64 \<times> string" where
  "announced_for_report ann r \<equiv> announced_file ann (fr_resource_name r, fr_file_path r)"

lemma expected_file_announced: "expected_file ann key = announced_file ann key"
proof -
  have "[((res_name q, relative_path f), (size_bytes f, sha256 f)). q \<leftarrow> ann_resources ann, f \<leftarrow> res_files q] =
      map (\<lambda>(k, f). (k, size_bytes f, sha256 f)) (ann_pairs ann)"
    by (simp add: ann_pairs_def map_concat comp_def)
  then show ?thesis
    unfolding announced_file_def expected_file_def build_ann_map_def
    by (simp add: bt_get_collect rev_map map_of_map split: option.splits)
qed

abbreviation written_for :: "fetch_env \<Rightarrow> ResourceAnnouncement \<Rightarrow> FetchEntryReport \<Rightarrow> bytes option \<Rightarrow> bool" where
  "written_for env ann r content \<equiv>
     (\<exists>c. content = Some c \<and> (of_nat (length c), file_sha256 env c) = announced_for_report ann r)"

definition settled_store ::
  "fetch_env \<Rightarrow> ResourceAnnouncement \<Rightarrow> string \<Rightarrow> FetchReport \<Rightarrow> file_store \<Rightarrow> file_store \<Rightarrow> bool" where
  "settled_store env ann d rs fs fs' \<longleftrightarrow>
     staging_clear d fs' \<and>
     (\<forall>p. p \<noteq> manifest_path d \<longrightarrow> dir_entry (staging_dir d) p = None \<longrightarrow>
        map_of fs' p = map_of fs p \<or>
        (\<exists>r \<in> set rs. committed (fr_outcome r) \<and> target_path d (fr_file_path r) = p \<and> written_for env ann r (map_of fs' p))) \<and>
     (\<forall>before r later. rs = before @ r # later \<longrightarrow> committed (fr_outcome r) \<longrightarrow>
        (\<forall>r' \<in> set later. committed (fr_outcome r') \<longrightarrow> target_path d (fr_file_path r') = target_path d (fr_file_path r) \<longrightarrow>
           announced_for_report ann r' = announced_for_report ann r) \<longrightarrow>
        written_for env ann r (map_of fs' (target_path d (fr_file_path r))))"

lemma settled_store_step:
  assumes first: "plain_target d (fr_file_path r)"
    "\<And>p. p \<noteq> manifest_path d \<Longrightarrow> dir_entry (staging_dir d) p = None \<Longrightarrow>
      p \<noteq> target_path d (fr_file_path r) \<or> \<not> committed (fr_outcome r) \<Longrightarrow> map_of fs1 p = map_of fs p"
    "committed (fr_outcome r) \<Longrightarrow> written_for env ann r (map_of fs1 (target_path d (fr_file_path r)))"
    and rest: "settled_store env ann d rs fs1 fs'"
  shows "settled_store env ann d (r # rs) fs fs'"
proof -
  let ?t = "target_path d (fr_file_path r)"
  have kept: "map_of fs' p = map_of fs1 p \<or>
      (\<exists>r' \<in> set rs. committed (fr_outcome r') \<and> target_path d (fr_file_path r') = p \<and> written_for env ann r' (map_of fs' p))"
    if "p \<noteq> manifest_path d" "dir_entry (staging_dir d) p = None" for p
    using rest that unfolding settled_store_def by blast
  have t: "?t \<noteq> manifest_path d" "dir_entry (staging_dir d) ?t = None"
    using first(1) by (simp_all add: plain_target_def)
  have "map_of fs' p = map_of fs p \<or>
      (\<exists>r' \<in> set (r # rs). committed (fr_outcome r') \<and> target_path d (fr_file_path r') = p \<and> written_for env ann r' (map_of fs' p))"
    if p: "p \<noteq> manifest_path d" "dir_entry (staging_dir d) p = None" for p
  proof (cases "p = ?t \<and> committed (fr_outcome r)")
    case True
    with kept [OF p] first(3) show ?thesis by auto
  next
    case False
    with kept [OF p] first(2) [OF p] show ?thesis by auto
  qed
  moreover have "written_for env ann q (map_of fs' (target_path d (fr_file_path q)))"
    if split: "r # rs = before @ q # later" and q: "committed (fr_outcome q)"
      and same: "\<forall>r' \<in> set later. committed (fr_outcome r') \<longrightarrow> target_path d (fr_file_path r') = target_path d (fr_file_path q) \<longrightarrow>
        announced_for_report ann r' = announced_for_report ann q" for before q later
  proof (cases before)
    case Nil
    with split have "q = r" "later = rs" by simp_all
    with kept [OF t] first(3) q same show ?thesis by auto
  next
    case (Cons b before')
    with split have "rs = before' @ q # later" by simp
    with rest q same show ?thesis unfolding settled_store_def by blast
  qed
  ultimately show ?thesis
    using rest unfolding settled_store_def by blast
qed

lemma entries_effect:
  assumes "tidy env"
  shows "staging_clear d fs \<Longrightarrow> (\<And>x. x \<in> set xs \<Longrightarrow> plan_ok x \<Longrightarrow> plain_target d (fx_file_path x)) \<Longrightarrow>
    execute_entries (execute_entry env ann preflight True d) n xs fs = (fs', rs) \<Longrightarrow>
    settled_store env ann d rs fs fs'"
proof (induction xs arbitrary: n fs rs)
  case Nil
  then show ?case by (simp add: settled_store_def)
next
  case (Cons x xs)
  show ?case
  proof (cases "plan_ok x")
    case False
    with Cons.prems Cons.IH [of fs "Suc n" rs] show ?thesis by simp
  next
    case True
    let ?key = "(fx_resource_name x, fx_file_path x)"
    obtain fs1 r where r: "execute_entry env ann preflight True d n ?key fs = (fs1, r)" by fastforce
    obtain rs' where rs': "execute_entries (execute_entry env ann preflight True d) (Suc n) xs fs1 = (fs', rs')"
      "rs = r # rs'"
      using Cons.prems(3) True r by (auto split: prod.splits)
    have plain: "plain_target d (snd ?key)" using Cons.prems(2) True by simp
    note one = entry_effect [OF assms Cons.prems(1) plain r]
    have key: "fr_resource_name r = fx_resource_name x" "fr_file_path r = fx_file_path x"
      using one by auto
    have "settled_store env ann d rs' fs1 fs'"
      using one Cons.prems(2) rs'(1) by (intro Cons.IH) auto
    then show ?thesis
      unfolding rs'(2)
      by (rule settled_store_step [rotated -1])
        (use one plain in \<open>auto simp: verified_at_def simp flip: key expected_file_announced\<close>)
  qed
qed


definition demo_committed :: CacheManifest where
  "demo_committed = \<lparr>cm_version = 1, cm_entries = [\<lparr>ce_resource_name = ''chat'', ce_file_path = ''a.lua'',
     ce_sha256 = ''aa'', ce_size_bytes = 3, ce_source_scheme = Some ''https'', ce_source_uri = Some ''https://host/a''\<rparr>]\<rparr>"

definition demo_codec :: manifest_codec where
  "demo_codec = \<lparr>manifest_from_json = (\<lambda>s. if s = ''{}'' then Some demo_committed else None),
     manifest_to_json = (\<lambda>m. if m = demo_committed then Some ''{}'' else None)\<rparr>"

definition demo_env :: fetch_env where
  "demo_env = \<lparr>file_sha256 = (\<lambda>c. if c = [1, 2, 3] then ''aa'' else ''bb''), codec = demo_codec,
     utf8_encode = map (\<lambda>c. of_char c), utf8_decode = (\<lambda>s. if s = [123, 125] then Some ''{}'' else None), symlink_at = (\<lambda>_. False), directory_at = (\<lambda>_. False),
     io_fail = (\<lambda>_ _. None), https_get = (\<lambda>_. Response True (Some 3) [Some [1, 2], Some [3]]),
     now_nanos = (\<lambda>n. n), elapsed_ms = (\<lambda>_. 5)\<rparr>"

definition demo_fetch_entry :: ResourceDownloadPreflightEntry where
  "demo_fetch_entry =
     (let s = demo_source ''https'' ''https://host/a'' None
      in \<lparr>pf_resource_name = ''chat'', pf_file_path = ''a.lua'', pf_action = FetchMissing, pf_reason = [],
          source_errors = [], valid_sources = [s], selected_source = Some s, fallback_sources = [],
          source_policy = None\<rparr>)"

definition demo_fetch_config :: FetchConfig where
  "demo_fetch_config = \<lparr>allow_fetch = True, allow_cache_commit = True, fc_cache_dir = Some ''cache'', fetch_report_path = None\<rparr>"

subsection \<open>A good source gets committed\<close>

definition reliable :: "fetch_env \<Rightarrow> bool" where
  "reliable env \<longleftrightarrow> (\<forall>call p. io_fail env call p = None) \<and> (\<forall>p. \<not> symlink_at env p)"

text \<open>What \<^verbatim>\<open>serde_json\<close> and UTF-8 are relied on for: a manifest that was written reads back.\<close>

definition codec_ok :: "fetch_env \<Rightarrow> bool" where
  "codec_ok env \<longleftrightarrow> (\<forall>m json. manifest_to_json (codec env) m = Some json \<longrightarrow>
     manifest_from_json (codec env) json = Some m \<and> utf8_decode env (utf8_encode env json) = Some json)"

abbreviation stored_manifest :: "fetch_env \<Rightarrow> string \<Rightarrow> file_store \<Rightarrow> CacheManifest" where
  "stored_manifest env d fs \<equiv>
     load_cache_manifest (manifest_from_json (codec env)) (manifest_file_at env (manifest_path d) fs)"

text \<open>The entry of a file that was committed from a source, with the announced size and digest.\<close>

abbreviation fetched_entry :: "string \<times> string \<Rightarrow> ResourceFetchSource \<Rightarrow> u64 \<Rightarrow> string \<Rightarrow> CacheManifestEntry" where
  "fetched_entry key src sz sha \<equiv>
     \<lparr>ce_resource_name = fst key, ce_file_path = snd key, ce_sha256 = sha, ce_size_bytes = sz,
      ce_source_scheme = Some (scheme src), ce_source_uri = Some (uri src)\<rparr>"

text \<open>The source has the content: as a local file, or as the body of a response that declares its length or none.\<close>

definition delivers :: "fetch_env \<Rightarrow> ResourceFetchSource \<Rightarrow> bytes \<Rightarrow> file_store \<Rightarrow> bool" where
  "delivers env src c fs \<longleftrightarrow> length c < 2 ^ 64 \<and>
     (scheme src = ''file'' \<and> map_of fs (path_of_string (file_source_text (uri src))) = Some c \<or>
      scheme src = ''https'' \<and>
        (\<exists>declared chunks. https_get env (uri src) = Response True declared (map Some chunks) \<and> concat chunks = c \<and>
           declared \<in> {None, Some (of_nat (length c))}))"

lemma reliable_tidy: "reliable env \<Longrightarrow> tidy env"
  by (simp add: reliable_def tidy_def)

lemma unat_of_small: "k < 2 ^ 64 \<Longrightarrow> unat (of_nat k :: u64) = k"
  by (simp add: unsigned_of_nat take_bit_nat_eq_self)

lemma receive_all:
  assumes "unat downloaded + length (concat chunks) \<le> unat limit"
  shows "receive_chunks True limit downloaded written (map Some chunks) = (written @ concat chunks, None)"
  using assms
proof (induction chunks arbitrary: downloaded written)
  case (Cons chunk chunks)
  have "unat limit < 2 ^ 64"
    using unsigned_less [of limit, where 'a = nat] by simp
  with Cons.prems have d: "unat (saturating_add_len downloaded (length chunk)) = unat downloaded + length chunk"
  proof -
    have small: "unat downloaded + length chunk \<le> 2 ^ 64 - 1"
      using Cons.prems \<open>unat limit < 2 ^ 64\<close> by simp
    show ?thesis
      unfolding saturating_add_len_def min_absorb2 [OF small] by (rule unat_of_small) (use small in simp)
  qed
  with Cons.prems have "\<not> saturating_add_len downloaded (length chunk) > limit"
    by (simp add: word_less_nat_alt)
  with Cons.IH [of "saturating_add_len downloaded (length chunk)" "written @ chunk"] Cons.prems d
  show ?case by (simp add: Let_def)
qed simp

lemma dots_append:
  "sublist ''..'' (xs @ ys) \<longleftrightarrow>
     sublist ''..'' xs \<or> sublist ''..'' ys \<or> xs \<noteq> [] \<and> ys \<noteq> [] \<and> last xs = CHR ''.'' \<and> hd ys = CHR ''.''"
proof (induction xs)
  case (Cons x xs)
  have "prefix ''..'' (x # xs @ ys) \<longleftrightarrow> prefix ''..'' (x # xs) \<or> xs = [] \<and> ys \<noteq> [] \<and> x = CHR ''.'' \<and> hd ys = CHR ''.''"
    by (cases xs; cases ys) auto
  with Cons show ?case by (auto simp: sublist_Cons_right)
qed simp

lemma dots_absent: "CHR ''.'' \<notin> set s \<Longrightarrow> \<not> sublist ''..'' s"
  using set_mono_sublist [of "''..''" s] by auto

lemma staging_text_inside:
  assumes "\<not> sublist ''..'' d"
  shows "\<not> contains_path_traversal (join_text (join_text d ''.staging'') (temp_name env n fp)) (join_text d ''.staging'')"
proof -
  let ?t = "temp_name env n fp"
  have t: "\<not> sublist ''..'' (''/'' @ ?t)"
    using temp_name_safe(2) [of fp env n] by (intro dots_absent) auto
  have slash: "\<not> starts_with ?t ''/''"
    using temp_name_safe(1) [of fp env n] by (metis list.set_intros(1) prefix_def append_Cons)
  have stg: "\<not> sublist ''..'' (''.staging'' :: string)" "\<not> sublist ''..'' (''/.staging'' :: string)"
    by (simp_all add: sublist_Cons_right)
  have "\<not> sublist ''..'' (join_text d ''.staging'' @ ''/'' @ ?t)"
    unfolding join_text_def using assms t stg by (auto simp: dots_append)
  then show ?thesis
    using slash by (simp add: contains_path_traversal_def join_text_def str_contains_iff_sublist)
qed

lemma no_symlinks: "reliable env \<Longrightarrow> \<not> is_symlink_in_path env p"
  by (simp add: reliable_def is_symlink_in_path_def list_ex_iff)

lemma fetch_delivers:
  assumes "reliable env" and "delivers env src c fs" and "of_nat (length c) = sz"
  shows "(if scheme src = ''file'' then fetch_file_via_file_scheme env src sp sz fs
      else if scheme src = ''https'' then fetch_file_via_https env src sp sz fs
      else (fs, Inl FetchUnsupportedScheme)) = (AList.update sp c fs, Inr sp)"
proof -
  have io: "io_fail env call p = None" for call p
    using assms(1) by (simp add: reliable_def)
  have len: "unat sz = length c"
    using assms(2) unat_of_small unfolding delivers_def assms(3) [symmetric] by blast
  have limit: "\<not> max_bytes sz < sz" "length c \<le> unat (max_bytes sz)"
    using max_bytes_ge [of sz] len by (simp_all add: word_less_nat_alt)
  consider (local_file) "scheme src = ''file''" "map_of fs (path_of_string (file_source_text (uri src))) = Some c"
    | (https) declared chunks where "scheme src = ''https''"
      "https_get env (uri src) = Response True declared (map Some chunks)" "concat chunks = c"
      "declared \<in> {None, Some sz}"
    using assms(2,3) unfolding delivers_def by blast
  then show ?thesis
  proof cases
    case local_file
    then show ?thesis
      using limit(1) assms(3) by (simp add: fetch_file_via_file_scheme_def Let_def no_symlinks [OF assms(1)] io)
  next
    case https
    have "receive_chunks True (max_bytes sz) 0 [] (map Some chunks) = (c, None)"
      using receive_all [of 0 chunks "max_bytes sz" "[]"] limit(2) https(3) by simp
    then show ?thesis
      using https limit(1) by (auto simp: fetch_file_via_https_def io)
  qed
qed

lemma verify_delivered:
  assumes "reliable env" and "map_of fs p = Some c" and "of_nat (length c) = sz" and "file_sha256 env c = sha"
  shows "verify_staged_file env p sz sha fs = Inr ()"
  using assms by (simp add: verify_staged_file_def reliable_def)

lemma fetch_succeeds:
  assumes "reliable env" and "delivers env src c fs" and "of_nat (length c) = sz" and "file_sha256 env c = sha"
    and "\<not> sublist ''..'' d"
  shows "fetch_and_verify_single_file env n fp src sz sha d fs =
    (AList.update (staging_dir d @ [Normal (temp_name env n fp)]) c fs, StagedVerified)"
proof -
  let ?sp = "staging_dir d @ [Normal (temp_name env n fp)]"
  have io: "io_fail env call p = None" for call p
    using assms(1) by (simp add: reliable_def)
  have "verify_staged_file env ?sp sz sha (AList.update ?sp c fs) = Inr ()"
    by (rule verify_delivered [OF assms(1) _ assms(3,4)]) (simp add: store_simps)
  then show ?thesis
    unfolding fetch_and_verify_single_file_def Let_def staging_joins temp_join
      fetch_delivers [OF assms(1-3)] prod.case sum.case
    by (simp only: no_symlinks [OF assms(1)] io staging_text_inside [OF assms(5)] if_False simp_thms sum.case)
qed

lemma commit_succeeds:
  assumes "reliable env" and "ParentDir \<notin> set tg"
  shows "commit_verified_file env st tg fs = (move_file st tg fs, Inr ())"
  using assms no_symlinks [OF assms(1)]
  by (simp add: commit_verified_file_def contains_path_traversal_standalone_def reliable_def)

lemma write_manifest_reads_back:
  assumes io: "\<And>call p. io_fail env call p = None" and "codec_ok env"
    and "manifest_to_json (codec env) (with_entry e (stored_manifest env d fs)) \<noteq> None"
  shows "\<exists>fs'. write_manifest_entry env d e fs = (fs', Inr (with_entry e (stored_manifest env d fs))) \<and>
    stored_manifest env d fs' = with_entry e (stored_manifest env d fs)"
proof -
  obtain json where j: "manifest_to_json (codec env) (with_entry e (stored_manifest env d fs)) = Some json"
    using assms(3) by blast
  define fs' where "fs' = move_file (manifest_tmp d) (manifest_path d) (AList.update (manifest_tmp d) (utf8_encode env json) fs)"
  have "write_manifest_entry env d e fs = (fs', Inr (with_entry e (stored_manifest env d fs)))"
    using j by (simp add: write_manifest_entry_def save_cache_manifest_def cache_manifest_path_def staging_joins Let_def io fs'_def)
  moreover have "map_of fs' (manifest_path d) = Some (utf8_encode env json)"
    by (simp add: fs'_def move_file_def store_simps)
  then have "stored_manifest env d fs' = with_entry e (stored_manifest env d fs)"
    using assms(2) j by (simp add: manifest_file_at_def load_cache_manifest_def codec_ok_def)
  ultimately show ?thesis by blast
qed


subsection \<open>Concrete runs\<close>

lemma demo_env_reliable: "reliable demo_env"
  by (simp add: reliable_def demo_env_def demo_codec_def)

lemma demo_paths: "path_of_string ''cache'' = [Normal ''cache'']" "path_of_string ''a.lua'' = [Normal ''a.lua'']"
  by (rule path_of_bare; simp)+

lemma demo_join: "join_path [Normal ''cache''] ''a.lua'' = [Normal ''cache'', Normal ''a.lua'']"
  by (simp add: join_path_def demo_paths is_absolute_def Let_def)

lemmas demo_target = demo_paths(1) demo_join

lemma demo_plain_target: "plain_target ''cache'' ''a.lua''"
  unfolding plain_target_def demo_target by (simp add: dir_entry_def)

lemma demo_env_codec: "codec_ok demo_env"
  by (simp add: codec_ok_def demo_env_def demo_codec_def)

text \<open>A missing file has two entries in the plan, both of which are executed.\<close>

definition demo_missing_plan :: ResourceDownloadPreflightPlan where
  "demo_missing_plan = [demo_fetch_entry, demo_fetch_entry\<lparr>pf_action := WouldVerifyAfterFetch\<rparr>]"

lemma demo_plan: "filter plan_ok (build_fetch_execution_plan demo_missing_plan) = build_fetch_execution_plan demo_missing_plan"
    "map fx_file_path (build_fetch_execution_plan demo_missing_plan) = [''a.lua'', ''a.lua'']"
  by (simp_all add: demo_missing_plan_def build_fetch_execution_plan_def demo_fetch_entry_def execution_entry_def
      fetch_steps_for_def DEFAULT_ALLOWED_FETCH_SCHEMES_def demo_source_def Let_def)



text \<open>
  The staged file is looked up by the prefix of its name, so a file that an earlier run left in the
  staging directory is committed in place of the one just verified.
\<close>

lemma read_dir_first:
  assumes "read_dir d fs = x # xs"
  shows "\<exists>ys. read_dir d (AList.update p c fs) = x # ys"
proof -
  have eq: "read_dir d fs = List.map_filter (dir_entry d) (map fst fs)" for fs
    by (simp add: read_dir_def map_filter_def case_prod_beta comp_def filter_map)
  have app: "List.map_filter f (as @ bs) = List.map_filter f as @ List.map_filter f bs" for f :: "path \<Rightarrow> string option" and as bs
    by (simp add: map_filter_def)
  show ?thesis
    using assms unfolding eq update_keys by (auto simp: app)
qed

lemma stale_staged_file_committed:
  assumes "reliable env" and "ParentDir \<notin> set (target_path d fp)" and "plain_target d fp"
    and "read_dir (staging_dir d) fs = stale # rest" and "starts_with stale (sanitize_name fp)"
    and "stale \<noteq> temp_name env n fp" and "map_of fs (staging_dir d @ [Normal stale]) = Some junk"
  shows "map_of (fst (commit_staged env d fp act
      (AList.update (staging_dir d @ [Normal (temp_name env n fp)]) c fs))) (target_path d fp) = Some junk"
proof -
  let ?sp = "staging_dir d @ [Normal (temp_name env n fp)]" and ?st = "staging_dir d @ [Normal stale]"
  have io: "io_fail env call p = None" for call p
    using assms(1) by (simp add: reliable_def)
  obtain ys where "read_dir (staging_dir d) (AList.update ?sp c fs) = stale # ys"
    using read_dir_first [OF assms(4)] by blast
  with assms(5) have found: "find_staged_file env (path_of_string d) fp (AList.update ?sp c fs) = Some ?st"
    by (simp add: find_staged_file_def Let_def staging_joins io)
  have ne: "?st \<noteq> target_path d fp" "?st \<noteq> ?sp"
    using plain_target_not_staged [OF assms(3), of stale] assms(6) by auto
  have "map_of (AList.update ?sp c fs) ?st = Some junk"
    using ne(2) assms(7) by (simp add: store_simps)
  then show ?thesis
    using ne(1) unfolding commit_staged_def Let_def found option.case commit_succeeds [OF assms(1,2)]
    by (simp add: move_file_def map_of_remove_file store_simps)
qed

text \<open>The plan marks an available file as executable, without steps, and the execution fetches it all the same.\<close>

lemma available_file_is_fetched:
  assumes "pf_action e = AlreadyAvailable" and "allow_fetch config" and "fc_cache_dir config = Some d"
    and "execute_entry env ann [e] (allow_cache_commit config) d 0 (pf_resource_name e, pf_file_path e) fs = (fs', r)"
  shows "execute_fetch_plan env ann [e] config fs = (fs', [r])"
  using assms by (simp add: execute_fetch_plan_def build_fetch_execution_plan_def execution_entry_def)

text \<open>An absolute announced path replaces the cache directory, and neither check of the commit rejects it.\<close>

lemma absolute_target_escapes: "is_absolute (path_of_string fp) \<Longrightarrow> target_path d fp = path_of_string fp"
  by (simp add: join_path_def Let_def)

end
