(* ===== verification/Repair.thy ===== *)
theory Repair
  imports Signatures Fetch_Execution
begin

text \<open>
  Cache repair (\<^verbatim>\<open>crates/client/src/repair.rs\<close>): the plan derived from a reconciliation, and its
  execution on the file store of \<open>Fetch_Execution\<close>. The listing of the cache directory is the tree of
  \<open>Reconciliation\<close>. Only a trusted announcement can be repaired from, which the types state as they
  do in the source.
\<close>

section \<open>Plans and reports\<close>

datatype ClientRepairAction = RepairManifestEntry | RefetchMissingFile | ReplaceMismatchedFile | RebuildManifest

primrec repair_action_label :: "ClientRepairAction \<Rightarrow> string" where
  "repair_action_label RepairManifestEntry = ''repair_manifest_entry''"
| "repair_action_label RefetchMissingFile = ''refetch_missing_file''"
| "repair_action_label ReplaceMismatchedFile = ''replace_mismatched_file''"
| "repair_action_label RebuildManifest = ''rebuild_manifest''"

datatype CacheRepairOutcome = Repaired | RepairSkipped | RepairFailed | RepairBlocked

primrec repair_outcome_label :: "CacheRepairOutcome \<Rightarrow> string" where
  "repair_outcome_label Repaired = ''repaired''"
| "repair_outcome_label RepairSkipped = ''skipped''"
| "repair_outcome_label RepairFailed = ''failed''"
| "repair_outcome_label RepairBlocked = ''blocked''"

datatype CacheRepairFailureReason =
    DryRun
  | MissingCacheDir
  | NoMatchingAnnouncementFile
  | RepairNotPermitted
  | RepairManifestWriteFailed string
  | RefetchFailed string

primrec repair_failure_label :: "CacheRepairFailureReason \<Rightarrow> string" where
  "repair_failure_label DryRun = ''dry_run''"
| "repair_failure_label MissingCacheDir = ''missing_cache_dir''"
| "repair_failure_label NoMatchingAnnouncementFile = ''no_matching_announcement_file''"
| "repair_failure_label RepairNotPermitted = ''repair_not_permitted''"
| "repair_failure_label (RepairManifestWriteFailed _) = ''manifest_write_failed''"
| "repair_failure_label (RefetchFailed _) = ''refetch_failed''"

record CacheRepairEntry =
  cr_resource_name :: string
  cr_file_path :: string
  cr_action :: ClientRepairAction
  cr_reason :: string
  cr_cache_sha256 :: "string option"

abbreviation cr_key :: "CacheRepairEntry \<Rightarrow> string \<times> string" where
  "cr_key e \<equiv> (cr_resource_name e, cr_file_path e)"

record ClientRepairPlan =
  cr_entries :: "CacheRepairEntry list"
  manifest_corrupted_input :: bool

record CacheRepairExecutionEntry =
  cx_resource_name :: string
  cx_file_path :: string
  cx_planned_action :: ClientRepairAction
  cx_outcome :: CacheRepairOutcome
  cx_reason :: string
  cx_failure_reason :: "CacheRepairFailureReason option"

record CacheRepairExecutionReport =
  cx_entries :: "CacheRepairExecutionEntry list"
  cx_dry_run :: bool
  cx_manifest_corrupted_input :: bool

record CacheRepairConfig =
  dry_run :: bool
  allow_manifest_repair :: bool
  allow_refetch_repair :: bool
  rc_cache_dir :: "string option"

definition repair_plan_to_text :: "ClientRepairPlan \<Rightarrow> string" where
  "repair_plan_to_text p =
     (if cr_entries p = [] then ''cache repair: (empty, nothing to repair)''
      else str_join [CHR 0x0A]
        ([''cache repair: '' @ show_nat (length (cr_entries p)) @ '' entr'' @
            (if length (cr_entries p) = 1 then ''y'' else ''ies'')] @
         (if manifest_corrupted_input p then [''  input: manifest_corrupted=true''] else []) @
         map (\<lambda>e. ''  ['' @ repair_action_label (cr_action e) @ ''] '' @ cr_resource_name e @ '':'' @ cr_file_path e @
             '' - '' @ cr_reason e) (cr_entries p)))"

definition repair_report_to_text :: "CacheRepairExecutionReport \<Rightarrow> string" where
  "repair_report_to_text r =
     (if cx_entries r = [] then ''cache repair execution: (empty, nothing executed)''
      else str_join [CHR 0x0A]
        ((''cache repair execution: '' @ show_nat (length (cx_entries r)) @ '' entr'' @
            (if length (cx_entries r) = 1 then ''y'' else ''ies'') @ (if cx_dry_run r then '' [dry-run]'' else [])) #
         map (\<lambda>e. ''  ['' @ repair_outcome_label (cx_outcome e) @ ''] '' @ repair_action_label (cx_planned_action e) @
             '' '' @ cx_resource_name e @ '':'' @ cx_file_path e @ '' - '' @ cx_reason e @
             (case cx_failure_reason e of Some reason \<Rightarrow> '' failure='' @ repair_failure_label reason | None \<Rightarrow> []))
           (cx_entries r)))"

section \<open>Planning\<close>

definition repair_entry_for ::
  "AnnouncedResourceFile key_map \<Rightarrow> CacheReconciliationEntry \<Rightarrow> CacheRepairEntry option" where
  "repair_entry_for am e =
     (let entry = (\<lambda>action reason sha.
            \<lparr>cr_resource_name = rc_resource_name e, cr_file_path = rc_file_path e, cr_action = action,
             cr_reason = reason, cr_cache_sha256 = sha\<rparr>)
      in case rc_action e of
           MissingManifestEntry \<Rightarrow>
             if rc_cache_sha256 e \<noteq> None \<and> bt_get am (rc_key e) \<noteq> None
             then Some (entry RepairManifestEntry ''cache file exists and announcement still expects it'' (rc_cache_sha256 e))
             else None
         | MissingCacheFile \<Rightarrow>
             Some (entry RefetchMissingFile ''manifest and announcement expect file but cache is missing'' None)
         | ReconcileHashMismatch _ _ \<Rightarrow>
             Some (entry ReplaceMismatchedFile ''cached file hash differs from manifest expectation'' None)
         | ManifestCorrupted \<Rightarrow>
             Some (entry RebuildManifest ''manifest is corrupted; rebuild authoritative entry from cache+announcement'' None)
         | _ \<Rightarrow> None)"

definition build_client_repair_plan :: "CacheReconciliationPlan \<Rightarrow> ResourceAnnouncement \<Rightarrow> ClientRepairPlan" where
  "build_client_repair_plan reconciliation ann =
     \<lparr>cr_entries = sort_key (\<lambda>e. (cr_resource_name e, cr_file_path e, repair_action_label (cr_action e)))
        (List.map_filter (repair_entry_for (build_ann_map ann)) (rc_entries reconciliation)),
      manifest_corrupted_input = rc_manifest_corrupted reconciliation\<rparr>"

definition plan_cache_repair ::
  "fetch_env \<Rightarrow> manifest_file \<Rightarrow> (string \<times> fs_node) list \<Rightarrow> Trusted Announcement \<Rightarrow>
   CacheReconciliationPlan \<times> ClientRepairPlan" where
  "plan_cache_repair env f tree ann =
     (let m = load_cache_manifest (manifest_from_json (codec env)) f;
          corrupted = (manifest_is_empty m \<and> (case f of ManifestContent data \<Rightarrow> str_trim data \<noteq> [] | _ \<Rightarrow> False));
          reconciliation = build_cache_reconciliation_plan m (scan_cache_directory (file_sha256 env) tree) (inner ann) corrupted
      in (reconciliation, build_client_repair_plan reconciliation (inner ann)))"

section \<open>Execution\<close>

definition announced_for :: "ResourceAnnouncement \<Rightarrow> CacheRepairEntry \<Rightarrow> AnnouncedResourceFile option" where
  "announced_for ann e =
     Option.bind (find (\<lambda>r. res_name r = cr_resource_name e) (ann_resources ann))
       (\<lambda>r. find (\<lambda>f. relative_path f = cr_file_path e) (res_files r))"

definition repair_manifest_entry ::
  "fetch_env \<Rightarrow> string \<Rightarrow> ResourceAnnouncement \<Rightarrow> CacheRepairEntry \<Rightarrow> file_store \<Rightarrow> file_store \<times> (string + unit)" where
  "repair_manifest_entry env cache_dir ann e fs =
     (case announced_for ann e of
        None \<Rightarrow> (fs, Inl ''no matching announcement file for manifest repair'')
      | Some af \<Rightarrow>
          (case cr_cache_sha256 e of
             None \<Rightarrow> (fs, Inl ''manifest repair requires a verified cache sha256'')
           | Some cache_sha \<Rightarrow>
               if cache_sha \<noteq> sha256 af
               then (fs, Inl (''integrity mismatch: cache sha256='' @ cache_sha @ '' announcement sha256='' @ sha256 af @
                          ''; manifest repair aborted''))
               else
                 (case write_manifest_entry env cache_dir
                         \<lparr>ce_resource_name = cr_resource_name e, ce_file_path = cr_file_path e, ce_sha256 = cache_sha,
                          ce_size_bytes = size_bytes af, ce_source_scheme = None, ce_source_uri = None\<rparr> fs of
                    (fs1, Inl err) \<Rightarrow> (fs1, Inl err)
                  | (fs1, Inr _) \<Rightarrow> (fs1, Inr ()))))"

definition execute_refetch_repair ::
  "fetch_env \<Rightarrow> string \<Rightarrow> ResourceAnnouncement \<Rightarrow> CacheRepairEntry \<Rightarrow> file_store \<Rightarrow> file_store \<times> (string + FetchReport)" where
  "execute_refetch_repair env cache_dir ann e fs =
     (case Option.bind (Option.bind (announced_for ann e) sources) (\<lambda>ss. case ss of [] \<Rightarrow> None | s # _ \<Rightarrow> Some s) of
        None \<Rightarrow> (fs, Inl ''no matching announcement source for refetch repair'')
      | Some source \<Rightarrow>
          (case (case cr_action e of
                   RefetchMissingFile \<Rightarrow> Some FetchMissing
                 | ReplaceMismatchedFile \<Rightarrow> Some ReplaceInvalid
                 | _ \<Rightarrow> None) of
             None \<Rightarrow> (fs, Inl ''unsupported refetch repair action'')
           | Some action \<Rightarrow>
               (case execute_fetch_plan env ann
                       [\<lparr>pf_resource_name = cr_resource_name e, pf_file_path = cr_file_path e, pf_action = action,
                         pf_reason = cr_reason e, source_errors = [], valid_sources = [source],
                         selected_source = Some source, fallback_sources = [], source_policy = None\<rparr>]
                       \<lparr>allow_fetch = True, allow_cache_commit = True, fc_cache_dir = Some cache_dir,
                        fetch_report_path = None\<rparr> fs of
                  (fs1, report) \<Rightarrow> (fs1, Inr report))))"

definition execute_repair_entry ::
  "fetch_env \<Rightarrow> string \<Rightarrow> ResourceAnnouncement \<Rightarrow> CacheRepairConfig \<Rightarrow> CacheRepairEntry \<Rightarrow> file_store \<Rightarrow>
   file_store \<times> CacheRepairOutcome \<times> string \<times> CacheRepairFailureReason option" where
  "execute_repair_entry env cache_dir ann config e fs =
     (if dry_run config then (fs, RepairSkipped, ''dry-run: no mutation performed'', Some DryRun)
      else if cr_action e = RepairManifestEntry \<or> cr_action e = RebuildManifest then
        if \<not> allow_manifest_repair config
        then (fs, RepairBlocked, ''manifest repair blocked (use --allow-manifest-repair)'', Some RepairNotPermitted)
        else
          (case repair_manifest_entry env cache_dir ann e fs of
             (fs1, Inr _) \<Rightarrow> (fs1, Repaired, ''manifest updated atomically'', None)
           | (fs1, Inl err) \<Rightarrow> (fs1, RepairFailed, err, Some (RepairManifestWriteFailed err)))
      else if \<not> allow_refetch_repair config
      then (fs, RepairBlocked, ''refetch repair blocked (use --allow-refetch-repair)'', Some RepairNotPermitted)
      else
        (case execute_refetch_repair env cache_dir ann e fs of
           (fs1, Inr report) \<Rightarrow>
             if list_ex (\<lambda>r. fr_resource_name r = cr_resource_name e \<and> fr_file_path r = cr_file_path e \<and>
                  is_success (fr_outcome r)) report
             then (fs1, Repaired, ''refetch repair completed via staged fetch pipeline'', None)
             else (fs1, RepairFailed, ''refetch repair did not produce a successful fetch outcome'',
                   Some (RefetchFailed (fetch_report_to_text report)))
         | (fs1, Inl err) \<Rightarrow> (fs1, RepairFailed, err, Some (RefetchFailed err))))"

fun execute_repair_entries ::
  "(CacheRepairEntry \<Rightarrow> file_store \<Rightarrow> file_store \<times> CacheRepairOutcome \<times> string \<times> CacheRepairFailureReason option) \<Rightarrow>
   CacheRepairEntry list \<Rightarrow> file_store \<Rightarrow> file_store \<times> CacheRepairExecutionEntry list" where
  "execute_repair_entries run [] fs = (fs, [])"
| "execute_repair_entries run (e # es) fs =
     (case run e fs of
        (fs1, outcome, reason, failure) \<Rightarrow>
          (case execute_repair_entries run es fs1 of
             (fs2, rs) \<Rightarrow>
               (fs2, \<lparr>cx_resource_name = cr_resource_name e, cx_file_path = cr_file_path e,
                     cx_planned_action = cr_action e, cx_outcome = outcome, cx_reason = reason,
                     cx_failure_reason = failure\<rparr> # rs)))"

definition execute_cache_repair ::
  "fetch_env \<Rightarrow> Trusted Announcement \<Rightarrow> ClientRepairPlan \<Rightarrow> CacheRepairConfig \<Rightarrow> file_store \<Rightarrow>
   file_store \<times> CacheRepairExecutionReport" where
  "execute_cache_repair env ann plan config fs =
     (case rc_cache_dir config of
        None \<Rightarrow>
          (fs, \<lparr>cx_entries = [\<lparr>cx_resource_name = [], cx_file_path = [], cx_planned_action = RepairManifestEntry,
                  cx_outcome = RepairBlocked, cx_reason = ''cache repair requires --resource-cache <path>'',
                  cx_failure_reason = Some MissingCacheDir\<rparr>],
               cx_dry_run = dry_run config, cx_manifest_corrupted_input = manifest_corrupted_input plan\<rparr>)
      | Some cache_dir \<Rightarrow>
          (case execute_repair_entries (execute_repair_entry env cache_dir (inner ann) config) (cr_entries plan) fs of
             (fs1, es) \<Rightarrow>
               (fs1, \<lparr>cx_entries = es, cx_dry_run = dry_run config,
                     cx_manifest_corrupted_input = manifest_corrupted_input plan\<rparr>)))"

section \<open>Lemmas\<close>

text \<open>A run of entries that each leave the store alone and repair nothing.\<close>

lemma idle_entries:
  assumes "\<And>e fs. e \<in> set es \<Longrightarrow> fst (run e fs) = fs \<and> fst (snd (run e fs)) \<noteq> Repaired"
  shows "fst (execute_repair_entries run es fs) = fs \<and>
    list_all (\<lambda>r. cx_outcome r \<noteq> Repaired) (snd (execute_repair_entries run es fs))"
  using assms
proof (induction es)
  case (Cons e es)
  have "fst (run e fs) = fs" "fst (snd (run e fs)) \<noteq> Repaired"
    using Cons.prems by auto
  moreover have "fst (execute_repair_entries run es fs) = fs \<and>
      list_all (\<lambda>r. cx_outcome r \<noteq> Repaired) (snd (execute_repair_entries run es fs))"
    using Cons by simp
  ultimately show ?case
    by (auto split: prod.splits)
qed simp

lemma idle_repair:
  assumes "\<And>d e fs. rc_cache_dir config = Some d \<Longrightarrow> e \<in> set (cr_entries plan) \<Longrightarrow>
      fst (execute_repair_entry env d (inner ann) config e fs) = fs \<and>
      fst (snd (execute_repair_entry env d (inner ann) config e fs)) \<noteq> Repaired"
  shows "fst (execute_cache_repair env ann plan config fs) = fs \<and>
    filter (\<lambda>r. cx_outcome r = Repaired) (cx_entries (snd (execute_cache_repair env ann plan config fs))) = []"
proof (cases "rc_cache_dir config")
  case None
  then show ?thesis by (simp add: execute_cache_repair_def)
next
  case (Some d)
  have "fst (execute_repair_entries (execute_repair_entry env d (inner ann) config) (cr_entries plan) fs) = fs \<and>
      list_all (\<lambda>r. cx_outcome r \<noteq> Repaired)
        (snd (execute_repair_entries (execute_repair_entry env d (inner ann) config) (cr_entries plan) fs))"
    using assms [OF Some] by (intro idle_entries) blast
  with Some show ?thesis
    by (auto simp: execute_cache_repair_def list_all_iff filter_empty_conv split: prod.splits)
qed

text \<open>Repair stays within its permissions: a dry run, and a run with neither kind of repair allowed,
  leave every file as it was and report nothing as repaired.
\<close>

theorem repair_respects_permissions:
  assumes "dry_run config \<or> \<not> allow_manifest_repair config \<and> \<not> allow_refetch_repair config"
  shows "fst (execute_cache_repair env ann plan config fs) = fs \<and>
    filter (\<lambda>r. cx_outcome r = Repaired) (cx_entries (snd (execute_cache_repair env ann plan config fs))) = []"
  using assms by (intro idle_repair) (auto simp: execute_repair_entry_def)

lemma corrupted_plan_rebuilds:
  assumes "e \<in> set (cr_entries (build_client_repair_plan (build_cache_reconciliation_plan m files ann True) ann))"
  shows "cr_action e = RebuildManifest \<and> cr_cache_sha256 e = None"
proof -
  from assms obtain x where x: "x \<in> set (rc_entries (build_cache_reconciliation_plan m files ann True))"
    "repair_entry_for (build_ann_map ann) x = Some e"
    unfolding build_client_repair_plan_def by (auto simp: in_map_filter)
  then obtain k where "process_key (build_manifest_map m) (build_cache_map files) (build_ann_map ann) True k = Some x"
    unfolding in_reconciliation_plan by blast
  then have "rc_action x \<in> {ManifestCorrupted, OrphanedCacheFile}"
    by (auto simp: process_key_def Let_def split: if_splits)
  with x(2) show ?thesis by (auto simp: repair_entry_for_def Let_def)
qed

text \<open>C36: A corrupted manifest is never repaired: the planned rebuild carries no digest of the cached file,
  which the repair insists on, so every entry fails, is skipped or is blocked and no file changes.
\<close>

theorem corrupted_manifest_never_repaired:
  "fst (execute_cache_repair env ann
      (build_client_repair_plan (build_cache_reconciliation_plan m files (inner ann) True) (inner ann)) config fs) = fs \<and>
   filter (\<lambda>r. cx_outcome r = Repaired) (cx_entries (snd (execute_cache_repair env ann
      (build_client_repair_plan (build_cache_reconciliation_plan m files (inner ann) True) (inner ann)) config fs))) = []"
proof (rule idle_repair)
  fix d e fs
  assume "e \<in> set (cr_entries (build_client_repair_plan (build_cache_reconciliation_plan m files (inner ann) True) (inner ann)))"
  from corrupted_plan_rebuilds [OF this]
  show "fst (execute_repair_entry env d (inner ann) config e fs) = fs \<and>
      fst (snd (execute_repair_entry env d (inner ann) config e fs)) \<noteq> Repaired"
    by (auto simp: execute_repair_entry_def repair_manifest_entry_def split: option.splits)
qed

subsection \<open>Repair of a manifest entry\<close>

abbreviation repaired_entry :: "CacheRepairEntry \<Rightarrow> AnnouncedResourceFile \<Rightarrow> CacheManifestEntry" where
  "repaired_entry x af \<equiv>
     \<lparr>ce_resource_name = cr_resource_name x, ce_file_path = cr_file_path x, ce_sha256 = sha256 af,
      ce_size_bytes = size_bytes af, ce_source_scheme = None, ce_source_uri = None\<rparr>"

lemma manifest_map_some:
  "distinct (map (\<lambda>e. entry_key e) (cm_entries m)) \<Longrightarrow>
   bt_get (build_manifest_map m) k = Some e \<longleftrightarrow> e \<in> set (cm_entries m) \<and> entry_key e = k"
  by (simp add: build_manifest_map_def collect_some_iff in_manifest_pairs [symmetric] manifest_pairs_def comp_def)

lemma upsert_distinct:
  assumes "distinct (map (\<lambda>e. entry_key e) es)"
  shows "distinct (map (\<lambda>e. entry_key e) (upsert_entry es e))"
proof -
  have "distinct (map (\<lambda>x. entry_key x) (filter (\<lambda>x. entry_key x \<noteq> entry_key e) es @ [e]))"
    using assms by (auto simp: distinct_map_filter)
  then have "manifest_invar (upsert_entry es e)"
    unfolding upsert_entry_def manifest_invar_sort .
  then show ?thesis
    unfolding manifest_invar_def by (simp add: strict_sorted_iff)
qed

lemma manifest_map_with_entry:
  assumes "distinct (map (\<lambda>e. entry_key e) (cm_entries m))"
  shows "bt_get (build_manifest_map (with_entry e m)) k =
    (if k = entry_key e then Some e else bt_get (build_manifest_map m) k)"
proof -
  have "bt_get (build_manifest_map (with_entry e m)) k = Some v \<longleftrightarrow>
      (if k = entry_key e then v = e else bt_get (build_manifest_map m) k = Some v)" for v
    using assms upsert_distinct [OF assms]
    by (auto simp: manifest_map_some upsert_entry_def)
  then have "bt_get (build_manifest_map (with_entry e m)) k = Some v \<longleftrightarrow>
      (if k = entry_key e then Some e else bt_get (build_manifest_map m) k) = Some v" for v
    by auto
  then show ?thesis by (metis not_Some_eq)
qed

lemma planned_manifest_repair:
  assumes "x \<in> set (cr_entries (build_client_repair_plan (build_cache_reconciliation_plan m files ann False) ann))"
    and "cr_action x = RepairManifestEntry" and "plain_inputs m files ann"
  shows "cr_key x \<in> set (all_keys m files ann)" and "bt_get (build_ann_map ann) (cr_key x) \<noteq> None"
    and "\<exists>ce. bt_get (build_cache_map files) (cr_key x) = Some ce \<and> cr_cache_sha256 x = Some (CacheFileEntry.cf_sha256 ce)"
proof -
  from assms(1) obtain y where y: "y \<in> set (rc_entries (build_cache_reconciliation_plan m files ann False))"
    "repair_entry_for (build_ann_map ann) y = Some x"
    unfolding build_client_repair_plan_def by (auto simp: in_map_filter)
  then obtain k where k: "k \<in> set (all_keys m files ann)"
    "process_key (build_manifest_map m) (build_cache_map files) (build_ann_map ann) False k = Some y"
    unfolding in_reconciliation_plan by blast
  have key: "rc_key y = k" using process_key_key [OF k(2)] .
  have x: "cr_key x = k" "rc_action y = MissingManifestEntry" "cr_cache_sha256 x = rc_cache_sha256 y"
      "rc_cache_sha256 y \<noteq> None" "bt_get (build_ann_map ann) k \<noteq> None"
    using y(2) assms(2) key
    by (auto simp: repair_entry_for_def Let_def split: CacheReconciliationAction.splits if_splits)
  have "rc_cache_sha256 y = map_option CacheFileEntry.cf_sha256 (bt_get (build_cache_map files) k)"
    using k(2) plain_key_stable [OF plain_all_keys [OF assms(3) k(1)]]
    by (auto simp: process_key_def Let_def split: if_splits)
  with x k(1) show "cr_key x \<in> set (all_keys m files ann)" "bt_get (build_ann_map ann) (cr_key x) \<noteq> None"
    "\<exists>ce. bt_get (build_cache_map files) (cr_key x) = Some ce \<and> cr_cache_sha256 x = Some (CacheFileEntry.cf_sha256 ce)"
    by auto
qed

lemma process_key_cong:
  "bt_get mm k = bt_get mm' k \<Longrightarrow> process_key mm cm am c k = process_key mm' cm am c k"
  by (simp add: process_key_def)

lemma reconcile_after_upsert:
  assumes "distinct (map (\<lambda>e. entry_key e) (cm_entries m))" and "plain_inputs m files ann"
    and "entry_key e \<in> set (all_keys m files ann)" and "bt_get (build_ann_map ann) (entry_key e) \<noteq> None"
    and "bt_get (build_cache_map files) (entry_key e) = Some ce" and "CacheFileEntry.cf_sha256 ce = ce_sha256 e"
  shows "(\<exists>y \<in> set (rc_entries (build_cache_reconciliation_plan (with_entry e m) files ann False)).
      rc_key y = entry_key e \<and> is_healthy (rc_action y)) \<and>
    {y \<in> set (rc_entries (build_cache_reconciliation_plan (with_entry e m) files ann False)). rc_key y \<noteq> entry_key e} =
    {y \<in> set (rc_entries (build_cache_reconciliation_plan m files ann False)). rc_key y \<noteq> entry_key e}"
proof -
  let ?f = "\<lambda>m. process_key (build_manifest_map m) (build_cache_map files) (build_ann_map ann) False"
  have keys: "set (all_keys (with_entry e m) files ann) = set (all_keys m files ann)"
    using assms(3) by (auto simp: all_keys_def manifest_pairs_def upsert_entry_def)
  have plain: "plain_key (entry_key e)" using plain_all_keys [OF assms(2,3)] .
  have at: "bt_get (build_manifest_map (with_entry e m)) (entry_key e) = Some e"
    using manifest_map_with_entry [OF assms(1)] by simp
  obtain y where y: "?f (with_entry e m) (entry_key e) = Some y"
    using process_key_some_iff [OF plain, of "build_manifest_map (with_entry e m)"] at by blast
  have "is_healthy (rc_action y)"
    using process_key_healthy_iff [OF plain y] at assms(4-6) by auto
  moreover have "rc_key y = entry_key e" using process_key_key [OF y] .
  moreover have "y \<in> set (rc_entries (build_cache_reconciliation_plan (with_entry e m) files ann False))"
    unfolding in_reconciliation_plan keys using y assms(3) by blast
  ultimately have healthy: "\<exists>y \<in> set (rc_entries (build_cache_reconciliation_plan (with_entry e m) files ann False)).
      rc_key y = entry_key e \<and> is_healthy (rc_action y)" by blast
  have same: "?f (with_entry e m) k = ?f m k" if "k \<noteq> entry_key e" for k
    using that manifest_map_with_entry [OF assms(1), of e k] by (intro process_key_cong) simp
  have other: "z \<in> set (rc_entries (build_cache_reconciliation_plan (with_entry e m) files ann False)) \<longleftrightarrow>
      z \<in> set (rc_entries (build_cache_reconciliation_plan m files ann False))" if "rc_key z \<noteq> entry_key e" for z
    unfolding in_reconciliation_plan keys using that same process_key_key by (metis (no_types))
  with healthy show ?thesis by blast
qed

text \<open>C19: Repairing a missing manifest entry heals exactly that entry: the repair succeeds, the manifest that
  is read afterwards is the old one with the entry, and when the same cache files are reconciled
  again the entry is consistent while the verdict on every other file is as before.
\<close>

theorem manifest_repair_heals:
  assumes "\<forall>call p. io_fail env call p = None" and "codec_ok env" and "stored_manifest env d fs = m"
    and "plain_inputs m files ann" and "distinct (map (\<lambda>e. entry_key e) (cm_entries m))"
    and "x \<in> set (cr_entries (build_client_repair_plan (build_cache_reconciliation_plan m files ann False) ann))"
    and "cr_action x = RepairManifestEntry"
    and "announced_for ann x = Some af" and "cr_cache_sha256 x = Some (sha256 af)"
    and "manifest_to_json (codec env) (with_entry (repaired_entry x af) m) \<noteq> None"
  shows "\<exists>fs'. repair_manifest_entry env d ann x fs = (fs', Inr ()) \<and>
    stored_manifest env d fs' = with_entry (repaired_entry x af) m \<and>
    (\<exists>y \<in> set (rc_entries (build_cache_reconciliation_plan (stored_manifest env d fs') files ann False)).
       rc_key y = cr_key x \<and> is_healthy (rc_action y)) \<and>
    {y \<in> set (rc_entries (build_cache_reconciliation_plan (stored_manifest env d fs') files ann False)). rc_key y \<noteq> cr_key x} =
    {y \<in> set (rc_entries (build_cache_reconciliation_plan m files ann False)). rc_key y \<noteq> cr_key x}"
proof -
  let ?e = "repaired_entry x af"
  have io: "io_fail env call p = None" for call p using assms(1) by blast
  obtain fs' where fs': "write_manifest_entry env d ?e fs = (fs', Inr (with_entry ?e m))"
    "stored_manifest env d fs' = with_entry ?e m"
    using write_manifest_reads_back [OF io assms(2), of ?e d fs] assms(3,10) by auto
  have run: "repair_manifest_entry env d ann x fs = (fs', Inr ())"
    using fs'(1) assms(8,9) by (simp add: repair_manifest_entry_def)
  note planned = planned_manifest_repair [OF assms(6,7,4)]
  obtain ce where ce: "bt_get (build_cache_map files) (cr_key x) = Some ce" "CacheFileEntry.cf_sha256 ce = sha256 af"
    using planned(3) assms(9) by auto
  show ?thesis
    using reconcile_after_upsert [OF assms(5,4), of ?e ce] planned(1,2) ce run fs'(2) by simp
qed

subsection \<open>Concrete runs\<close>

definition demo_repair_config :: CacheRepairConfig where
  "demo_repair_config = \<lparr>dry_run = True, allow_manifest_repair = True, allow_refetch_repair = True, rc_cache_dir = Some ''cache''\<rparr>"

theorem repair_respects_permissions_witness:
  "fst (execute_cache_repair demo_env (Announcement demo_ann)
      (build_client_repair_plan (build_cache_reconciliation_plan empty_manifest demo_cached demo_ann False) demo_ann)
      demo_repair_config [([Normal ''x''], [7])]) = [([Normal ''x''], [7])]"
  using repair_respects_permissions [of demo_repair_config demo_env "Announcement demo_ann"]
  by (simp add: demo_repair_config_def)

definition demo_repair :: CacheRepairEntry where
  "demo_repair = \<lparr>cr_resource_name = ''chat'', cr_file_path = ''a.lua'', cr_action = RepairManifestEntry,
     cr_reason = ''cache file exists and announcement still expects it'', cr_cache_sha256 = Some ''aa''\<rparr>"

definition demo_announced :: AnnouncedResourceFile where
  "demo_announced = \<lparr>relative_path = ''a.lua'', size_bytes = 3, sha256 = ''aa'', sources = None\<rparr>"

definition demo_repaired :: CacheManifest where
  "demo_repaired = with_entry (repaired_entry demo_repair demo_announced) empty_manifest"

definition demo_repair_env :: fetch_env where
  "demo_repair_env = demo_env\<lparr>codec :=
       \<lparr>manifest_from_json = (\<lambda>s. if s = ''x'' then Some demo_repaired else None),
        manifest_to_json = (\<lambda>m. if m = demo_repaired then Some ''x'' else None)\<rparr>,
     utf8_encode := (\<lambda>_. [120]), utf8_decode := (\<lambda>_. Some ''x'')\<rparr>"

lemma demo_reconciliation:
  "rc_entries (build_cache_reconciliation_plan empty_manifest demo_cached demo_ann False) =
     [\<lparr>rc_resource_name = ''chat'', rc_file_path = ''a.lua'', rc_action = MissingManifestEntry, rc_manifest_sha256 = None,
       rc_cache_sha256 = Some ''aa'', rc_manifest_size_bytes = None, rc_cache_size_bytes = Some 3\<rparr>]"
  by (simp add: build_cache_reconciliation_plan_def all_keys_def manifest_pairs_def cache_pairs_def ann_pairs_def
      empty_manifest_def demo_cached_def demo_ann_def derive_key_from_cache_path_def build_cache_path_def
      build_manifest_map_def build_cache_map_def build_ann_map_def bt_collect_def process_key_def Let_def)

lemma demo_repair_planned:
  "demo_repair \<in> set (cr_entries (build_client_repair_plan
     (build_cache_reconciliation_plan empty_manifest demo_cached demo_ann False) demo_ann))"
  unfolding build_client_repair_plan_def demo_reconciliation
  by (simp add: map_filter_simps repair_entry_for_def Let_def
      build_ann_map_def ann_pairs_def bt_collect_def demo_ann_def demo_repair_def)

theorem manifest_repair_heals_witness:
  "\<exists>fs'. repair_manifest_entry demo_repair_env ''cache'' demo_ann demo_repair [] = (fs', Inr ()) \<and>
     stored_manifest demo_repair_env ''cache'' fs' = demo_repaired \<and>
     (\<exists>y \<in> set (rc_entries (build_cache_reconciliation_plan demo_repaired demo_cached demo_ann False)).
        rc_key y = (''chat'', ''a.lua'') \<and> is_healthy (rc_action y))"
proof -
  have io: "\<forall>call p. io_fail demo_repair_env call p = None"
    by (simp add: demo_repair_env_def demo_env_def)
  have codec: "codec_ok demo_repair_env"
    by (simp add: codec_ok_def demo_repair_env_def)
  have empty: "stored_manifest demo_repair_env ''cache'' [] = empty_manifest"
    by (simp add: manifest_file_at_def load_cache_manifest_def)
  have plain: "plain_inputs empty_manifest demo_cached demo_ann"
    by (simp add: plain_inputs_def empty_manifest_def demo_cached_def demo_ann_def plain_key_def)
  have keys: "distinct (map (\<lambda>e. entry_key e) (cm_entries empty_manifest))"
    by (simp add: empty_manifest_def)
  have af: "announced_for demo_ann demo_repair = Some demo_announced"
    by (simp add: announced_for_def demo_ann_def demo_repair_def demo_announced_def)
  have act: "cr_action demo_repair = RepairManifestEntry" "cr_cache_sha256 demo_repair = Some (sha256 demo_announced)"
    by (simp_all add: demo_repair_def demo_announced_def)
  have json: "manifest_to_json (codec demo_repair_env) (with_entry (repaired_entry demo_repair demo_announced) empty_manifest) \<noteq> None"
    by (simp add: demo_repair_env_def demo_repaired_def)
  from manifest_repair_heals [OF io codec empty plain keys demo_repair_planned act(1) af act(2) json]
  show ?thesis
    unfolding demo_repaired_def [symmetric] by (auto simp: demo_repair_def)
qed

end
