(* ===== verification/Report_Json.thy ===== *)
theory Report_Json
  imports Repair
begin

text \<open>
  The JSON form of the client's reports: the hand-written serialisers of \<^verbatim>\<open>fetch.rs\<close>, \<^verbatim>\<open>reconciliation.rs\<close>
  and \<^verbatim>\<open>repair.rs\<close> under \<^verbatim>\<open>crates/client/src\<close>. A serialiser yields the tree of fields it hands to the
  serialisation library, in order; how that library prints a tree is an argument of \<open>Command_Line\<close>.
\<close>

section \<open>Serialisers\<close>

datatype json = JNull | JBool bool | JNum u64 | JStr string | JArr "json list" | JObj "(string \<times> json) list"

fun outcome_fields :: "FetchOutcome \<Rightarrow> (string \<times> json) list" where
  "outcome_fields StagedVerified = [(''outcome'', JStr ''staged_verified'')]"
| "outcome_fields CommittedToCache = [(''outcome'', JStr ''committed_to_cache'')]"
| "outcome_fields ReplaceInvalidCommitted = [(''outcome'', JStr ''replace_invalid_committed'')]"
| "outcome_fields (FetchFailure reason) =
     [(''outcome'', JStr ''failure''), (''failure_reason'', JStr (failure_text reason))]"

fun manifest_outcome_json :: "ManifestOutcome \<Rightarrow> string" where
  "manifest_outcome_json ManifestUpdated = ''updated''"
| "manifest_outcome_json (ManifestWriteFailed msg) = ''write_failed:'' @ msg"
| "manifest_outcome_json SkippedNoCommit = ''skipped_no_commit''"

definition fetch_entry_json :: "FetchEntryReport \<Rightarrow> json" where
  "fetch_entry_json e =
     JObj ([(''resource_name'', JStr (fr_resource_name e)), (''file_path'', JStr (fr_file_path e)),
            (''source_scheme'', JStr (fr_source_scheme e)), (''source_uri'', JStr (fr_source_uri e))] @
           outcome_fields (fr_outcome e) @
           [(''expected_size_bytes'', JNum (fr_expected_size_bytes e)), (''expected_sha256'', JStr (fr_expected_sha256 e)),
            (''duration_ms'', JNum (fr_duration_ms e)),
            (''manifest_outcome'', JStr (manifest_outcome_json (fr_manifest_outcome e)))])"

definition fetch_report_json :: "FetchReport \<Rightarrow> json" where
  "fetch_report_json report = JObj [(''entries'', JArr (map fetch_entry_json report))]"

definition reconciliation_entry_json :: "CacheReconciliationEntry \<Rightarrow> json" where
  "reconciliation_entry_json e =
     JObj ([(''resource_name'', JStr (rc_resource_name e)), (''file_path'', JStr (rc_file_path e)),
            (''action'', JStr (reconcile_label (rc_action e)))] @
           (case rc_action e of
              ReconcileHashMismatch expected actual \<Rightarrow>
                [(''expected_sha256'', JStr expected), (''actual_sha256'', JStr actual),
                 (''manifest_sha256'', JStr expected), (''cache_sha256'', JStr actual)]
            | _ \<Rightarrow> []))"

definition reconciliation_plan_json :: "CacheReconciliationPlan \<Rightarrow> json" where
  "reconciliation_plan_json p =
     JObj [(''entries'', JArr (map reconciliation_entry_json (rc_entries p))),
           (''manifest_corrupted'', JBool (rc_manifest_corrupted p))]"

definition repair_entry_json :: "CacheRepairEntry \<Rightarrow> json" where
  "repair_entry_json e =
     JObj [(''resource_name'', JStr (cr_resource_name e)), (''file_path'', JStr (cr_file_path e)),
           (''action'', JStr (repair_action_label (cr_action e))), (''reason'', JStr (cr_reason e))]"

definition repair_plan_json :: "ClientRepairPlan \<Rightarrow> json" where
  "repair_plan_json p =
     JObj [(''entries'', JArr (map repair_entry_json (cr_entries p))),
           (''manifest_corrupted_input'', JBool (manifest_corrupted_input p))]"

definition repair_execution_entry_json :: "CacheRepairExecutionEntry \<Rightarrow> json" where
  "repair_execution_entry_json e =
     JObj ([(''resource_name'', JStr (cx_resource_name e)), (''file_path'', JStr (cx_file_path e)),
            (''planned_action'', JStr (repair_action_label (cx_planned_action e))),
            (''outcome'', JStr (repair_outcome_label (cx_outcome e))), (''reason'', JStr (cx_reason e))] @
           (case cx_failure_reason e of
              None \<Rightarrow> [] | Some failure \<Rightarrow> [(''failure_reason'', JStr (repair_failure_label failure))]))"

definition repair_report_json :: "CacheRepairExecutionReport \<Rightarrow> json" where
  "repair_report_json r =
     JObj [(''entries'', JArr (map repair_execution_entry_json (cx_entries r))), (''dry_run'', JBool (cx_dry_run r)),
           (''manifest_corrupted_input'', JBool (cx_manifest_corrupted_input r))]"

section \<open>Lemmas\<close>

text \<open>The labels are codes.\<close>

lemma failure_text_inj: "failure_text a = failure_text b \<longleftrightarrow> a = b"
  by (cases a; cases b) simp_all

lemma manifest_outcome_json_inj: "manifest_outcome_json a = manifest_outcome_json b \<longleftrightarrow> a = b"
  by (cases a; cases b) simp_all

lemma repair_labels_inj:
  "repair_action_label a = repair_action_label b \<longleftrightarrow> a = b"
  "repair_outcome_label x = repair_outcome_label y \<longleftrightarrow> x = y"
  by (cases a; cases b; simp) (cases x; cases y; simp)

lemma outcome_fields_append:
  "outcome_fields a @ (''expected_size_bytes'', v) # xs = outcome_fields b @ (''expected_size_bytes'', w) # ys \<longleftrightarrow>
     a = b \<and> v = w \<and> xs = ys"
  by (cases a; cases b) (auto simp: failure_text_inj)

lemma fetch_entry_json_inj: "fetch_entry_json a = fetch_entry_json b \<longleftrightarrow> a = b"
  by (auto simp: fetch_entry_json_def outcome_fields_append manifest_outcome_json_inj)

text \<open>The texts of failures are the only part of a repair entry its JSON form leaves out.\<close>

fun cause_kind :: "CacheRepairFailureReason \<Rightarrow> CacheRepairFailureReason" where
  "cause_kind (RepairManifestWriteFailed _) = RepairManifestWriteFailed []"
| "cause_kind (RefetchFailed _) = RefetchFailed []"
| "cause_kind f = f"

definition without_cause :: "CacheRepairExecutionEntry \<Rightarrow> CacheRepairExecutionEntry" where
  "without_cause e = e\<lparr>cx_failure_reason := map_option cause_kind (cx_failure_reason e)\<rparr>"

lemma repair_failure_label_eq: "repair_failure_label a = repair_failure_label b \<longleftrightarrow> cause_kind a = cause_kind b"
  by (cases a; cases b) simp_all

lemma repair_execution_entry_json_eq:
  "repair_execution_entry_json a = repair_execution_entry_json b \<longleftrightarrow> without_cause a = without_cause b"
  by (cases a; cases b)
    (simp add: repair_execution_entry_json_def repair_labels_inj without_cause_def repair_failure_label_eq split: option.split)

section \<open>Properties\<close>

text \<open>
  A fetch report can be recovered from its JSON form: two reports with the same form are equal, so
  no outcome, reason, size, digest or duration is lost or merged.
\<close>

theorem fetch_report_json_lossless: "fetch_report_json r = fetch_report_json r' \<longleftrightarrow> r = r'"
  by (simp add: fetch_report_json_def inj_map_eq_map inj_def fetch_entry_json_inj)

text \<open>
  A repair report can be recovered from its JSON form up to the texts of write and refetch failures.
\<close>

theorem repair_report_json_determines:
  "repair_report_json r = repair_report_json r' \<longleftrightarrow>
     map without_cause (cx_entries r) = map without_cause (cx_entries r') \<and> cx_dry_run r = cx_dry_run r' \<and>
     cx_manifest_corrupted_input r = cx_manifest_corrupted_input r'"
proof -
  have "map repair_execution_entry_json xs = map repair_execution_entry_json ys \<longleftrightarrow> map without_cause xs = map without_cause ys" for xs ys
    by (simp only: list_eq_iff_nth_eq length_map) (auto simp: repair_execution_entry_json_eq)
  then show ?thesis by (simp add: repair_report_json_def)
qed

end
