(* ===== verification/Load_Order.thy ===== *)
theory Load_Order
  imports Manifest
begin

text \<open>
  The resource registry of \<^verbatim>\<open>crates/resource_manifest/src/lib.rs\<close>: discovery of resources below a
  root directory, dependency validation, the load order (Kahn's algorithm over a queue, with
  in-degree and dependents maps) and the load plan. Rust's \<^verbatim>\<open>expect\<close> and the subtraction of an
  unsigned counter can panic; the model returns \<open>Panicked\<close> there.
\<close>

section \<open>The registry\<close>

record RegisteredResource =
  rr_name :: string
  rr_root_dir :: path
  rr_manifest :: ResourceManifest

type_synonym ResourceRegistry = "(string, RegisteredResource) btree"

datatype DependencyResolutionError =
    MissingDependency string string
  | DependencyCycle "string list"
  | DuplicateResource string
  | InvalidResource path string
  | DiscoveryError string
  | Panicked

text \<open>The displayed error; an error of the surrounding code is its message.\<close>

fun dependency_error_text :: "(path \<Rightarrow> string) \<Rightarrow> DependencyResolutionError \<Rightarrow> string" where
  "dependency_error_text path_text (MissingDependency r d) =
     ''MissingDependency: resource '' @ [CHR 0x27] @ r @ [CHR 0x27] @ '' depends on missing '' @ [CHR 0x27] @ d @ [CHR 0x27]"
| "dependency_error_text path_text (DependencyCycle rs) = ''DependencyCycle: '' @ str_join '', '' rs"
| "dependency_error_text path_text (DuplicateResource n) = ''DuplicateResource: '' @ [CHR 0x27] @ n @ [CHR 0x27]"
| "dependency_error_text path_text (InvalidResource p reason) =
     ''InvalidResource: '' @ path_text p @ '' ('' @ reason @ '')''"
| "dependency_error_text path_text (DiscoveryError msg) = msg"
| "dependency_error_text path_text Panicked = ''panicked''"

definition insert_registered_resource ::
  "ResourceRegistry \<Rightarrow> path \<Rightarrow> ResourceManifest \<Rightarrow> DependencyResolutionError + ResourceRegistry" where
  "insert_registered_resource reg root m =
     (if bt_get reg (mf_name m) \<noteq> None then Inl (DuplicateResource (mf_name m))
      else Inr (bt_insert (mf_name m) \<lparr>rr_name = mf_name m, rr_root_dir = root, rr_manifest = m\<rparr> reg))"

text \<open>
  Discovery walks the entries of the root directory in the order \<^verbatim>\<open>read_dir\<close> yields them, given
  as names (which are UTF-8 here) with their nodes; other nodes than directories with a
  \<^verbatim>\<open>resource.toml\<close> file are skipped, symbolic links are refused, but a linked \<^verbatim>\<open>resource.toml\<close> is read.
\<close>

definition resource_candidate ::
  "(string \<Rightarrow> string + ResourceManifest) \<Rightarrow> (bytes \<Rightarrow> string option) \<Rightarrow> path \<Rightarrow> string \<Rightarrow> fs_node \<Rightarrow>
   DependencyResolutionError + ResourceManifest option" where
  "resource_candidate from_toml decode root folder node =
     (case node of
        SymbolicLink _ \<Rightarrow> Inl (DiscoveryError ''symlinks are not supported in resource discovery'')
      | Directory sub \<Rightarrow>
          (case Option.bind (map_of sub ''resource.toml'') file_content of
             Some content \<Rightarrow>
               (case load_manifest_from_path from_toml decode (folder @ ''/resource.toml'') content of
                  Inl err \<Rightarrow> Inl (InvalidResource (root @ [Normal folder]) err)
                | Inr m \<Rightarrow>
                    if mf_name m \<noteq> folder
                    then Inl (InvalidResource (root @ [Normal folder])
                           (''resource folder name '' @ [CHR 0x27] @ folder @ [CHR 0x27] @
                            '' does not match manifest name '' @ [CHR 0x27] @ mf_name m @ [CHR 0x27]))
                    else Inr (Some m))
           | None \<Rightarrow> Inr None)
      | _ \<Rightarrow> Inr None)"

fun discover_entries ::
  "(string \<Rightarrow> string + ResourceManifest) \<Rightarrow> (bytes \<Rightarrow> string option) \<Rightarrow> path \<Rightarrow> (string \<times> fs_node) list \<Rightarrow>
   ResourceRegistry \<Rightarrow> DependencyResolutionError + ResourceRegistry" where
  "discover_entries from_toml decode root [] reg = Inr reg"
| "discover_entries from_toml decode root ((folder, node) # es) reg =
     res_bind (resource_candidate from_toml decode root folder node) (\<lambda>found.
       case found of
         None \<Rightarrow> discover_entries from_toml decode root es reg
       | Some m \<Rightarrow>
           res_bind (insert_registered_resource reg (root @ [Normal folder]) m)
             (discover_entries from_toml decode root es))"

definition discover_resources ::
  "(string \<Rightarrow> string + ResourceManifest) \<Rightarrow> (bytes \<Rightarrow> string option) \<Rightarrow> path \<Rightarrow> (string \<times> fs_node) list \<Rightarrow>
   DependencyResolutionError + ResourceRegistry" where
  "discover_resources from_toml decode root es = discover_entries from_toml decode root es []"

section \<open>The load order\<close>

abbreviation deps_of :: "RegisteredResource \<Rightarrow> string list" where
  "deps_of r \<equiv> mf_dependencies (rr_manifest r)"

fun first_missing :: "ResourceRegistry \<Rightarrow> (string \<times> RegisteredResource) list \<Rightarrow> (string \<times> string) option" where
  "first_missing reg [] = None"
| "first_missing reg ((name, r) # rest) =
     (case find (\<lambda>d. bt_get reg d = None) (deps_of r) of
        Some d \<Rightarrow> Some (name, d)
      | None \<Rightarrow> first_missing reg rest)"

definition validate_registry :: "ResourceRegistry \<Rightarrow> DependencyResolutionError + unit" where
  "validate_registry reg =
     (case first_missing reg reg of
        Some (name, d) \<Rightarrow> Inl (MissingDependency name d)
      | None \<Rightarrow> Inr ())"

type_synonym degrees = "(string, nat) btree"
type_synonym dependents = "(string, string list) btree"

text \<open>
  One dependency edge: the in-degree of the resource grows by one, and the resource joins the
  ordered set of dependents.
\<close>

definition add_edge :: "string \<Rightarrow> string \<Rightarrow> degrees \<times> dependents \<Rightarrow> degrees \<times> dependents" where
  "add_edge name d = (\<lambda>(indegree, deps).
     (bt_adjust name Suc indegree,
      bt_insert d (insort_insert name (unwrap_or (bt_get deps d) [])) deps))"

definition edge_maps :: "ResourceRegistry \<Rightarrow> degrees \<times> dependents" where
  "edge_maps reg =
     fold (\<lambda>(name, r). fold (add_edge name) (deps_of r)) reg (bt_collect (map (\<lambda>(name, r). (name, 0)) reg), [])"

fun relax_children :: "string list \<Rightarrow> degrees \<Rightarrow> string list \<Rightarrow> (degrees \<times> string list) option" where
  "relax_children [] indegree ready = Some (indegree, ready)"
| "relax_children (c # cs) indegree ready =
     (case bt_get indegree c of
        Some (Suc n) \<Rightarrow>
          relax_children cs (bt_adjust c (\<lambda>_. n) indegree) (if n = 0 then ready @ [c] else ready)
      | _ \<Rightarrow> None)"

lemma sum_bt_adjust:
  "map_of m c = Some (Suc n) \<Longrightarrow> sum_list (map snd (bt_adjust c (\<lambda>_. n) m)) < sum_list (map snd m)"
  by (induction m) auto

lemma relax_children_measure:
  "relax_children cs indegree ready = Some (indegree', ready') \<Longrightarrow>
   length ready' + sum_list (map snd indegree') \<le> length ready + sum_list (map snd indegree)"
proof (induction cs indegree ready rule: relax_children.induct)
  case (2 c cs indegree ready)
  then obtain n where "bt_get indegree c = Some (Suc n)"
    by (auto split: option.splits nat.splits)
  with 2 show ?case
    using sum_bt_adjust [of indegree c n] by (fastforce split: if_splits)
qed simp

function kahn ::
  "dependents \<Rightarrow> degrees \<Rightarrow> string list \<Rightarrow> string list \<Rightarrow> (string list \<times> degrees) option" where
  "kahn deps indegree [] ordered = Some (ordered, indegree)"
| "kahn deps indegree (name # ready) ordered =
     (case relax_children (unwrap_or (bt_get deps name) []) indegree ready of
        None \<Rightarrow> None
      | Some (indegree', ready') \<Rightarrow> kahn deps indegree' ready' (ordered @ [name]))"
  by pat_completeness auto
termination
  by (relation "measure (\<lambda>(deps, indegree, ready, ordered). length ready + sum_list (map snd indegree))")
    (auto dest: relax_children_measure)

definition resolve_load_order :: "ResourceRegistry \<Rightarrow> DependencyResolutionError + string list" where
  "resolve_load_order reg =
     res_bind (validate_registry reg) (\<lambda>_.
       case edge_maps reg of (indegree, deps) \<Rightarrow>
         (case kahn deps indegree (map fst (filter (\<lambda>(_, d). d = 0) indegree)) [] of
            None \<Rightarrow> Inl Panicked
          | Some (ordered, indegree') \<Rightarrow>
              if length ordered \<noteq> length reg
              then Inl (DependencyCycle (map fst (filter (\<lambda>(_, d). d > 0) indegree')))
              else Inr ordered))"

section \<open>The load plan\<close>

datatype ResourceRuntimePhase = PhasePlanned | PhaseValidated | PhaseReady | PhaseSkipped
datatype ResourceEntrypointKind = ServerEntry | ClientEntry

record PlannedEntrypoint =
  ep_kind :: ResourceEntrypointKind
  ep_path :: path

record PlannedResource =
  pl_name :: string
  pl_root_dir :: path
  pl_phase :: ResourceRuntimePhase
  pl_entrypoints :: "PlannedEntrypoint list"
  pl_dependencies :: "string list"

type_synonym ResourceLoadPlan = "PlannedResource list"

definition plan_resource :: "RegisteredResource \<Rightarrow> PlannedResource" where
  "plan_resource r =
     \<lparr>pl_name = rr_name r, pl_root_dir = rr_root_dir r, pl_phase = PhasePlanned,
      pl_entrypoints =
        (case entry_server (rr_manifest r) of
           Some s \<Rightarrow> [\<lparr>ep_kind = ServerEntry, ep_path = path_of_string s\<rparr>] | None \<Rightarrow> []) @
        (case entry_client (rr_manifest r) of
           Some s \<Rightarrow> [\<lparr>ep_kind = ClientEntry, ep_path = path_of_string s\<rparr>] | None \<Rightarrow> []),
      pl_dependencies = deps_of r\<rparr>"

fun build_load_plan :: "ResourceRegistry \<Rightarrow> string list \<Rightarrow> string + ResourceLoadPlan" where
  "build_load_plan reg [] = Inr []"
| "build_load_plan reg (name # order) =
     (case bt_get reg name of
        None \<Rightarrow> Inl (''load order references missing resource: '' @ name)
      | Some r \<Rightarrow> res_bind (build_load_plan reg order) (\<lambda>plan. Inr (plan_resource r # plan)))"

definition build_load_plan_from_root ::
  "(string \<Rightarrow> string + ResourceManifest) \<Rightarrow> (bytes \<Rightarrow> string option) \<Rightarrow> path \<Rightarrow> (string \<times> fs_node) list \<Rightarrow>
   DependencyResolutionError + ResourceLoadPlan" where
  "build_load_plan_from_root from_toml decode root es =
     res_bind (discover_resources from_toml decode root es) (\<lambda>reg.
     res_bind (resolve_load_order reg) (\<lambda>order.
       map_sum DiscoveryError id (build_load_plan reg order)))"

section \<open>The edge maps\<close>

text \<open>The declared dependencies of a name, and its dependents.\<close>

definition depends :: "(string \<times> RegisteredResource) list \<Rightarrow> string \<Rightarrow> string list" where
  "depends reg k = (case map_of reg k of None \<Rightarrow> [] | Some r \<Rightarrow> deps_of r)"

lemma in_depends: "d \<in> set (depends reg k) \<longleftrightarrow> (\<exists>r. map_of reg k = Some r \<and> d \<in> set (deps_of r))"
  by (cases "map_of reg k") (simp_all add: depends_def)

abbreviation children :: "dependents \<Rightarrow> string \<Rightarrow> string list" where
  "children deps d \<equiv> unwrap_or (map_of deps d) []"

lemma add_edge_pair:
  "add_edge name d (ind, deps) =
     (bt_adjust name Suc ind, bt_insert d (insort_insert name (children deps d)) deps)"
  by (simp add: add_edge_def)

lemma add_edges:
  "fold (add_edge name) ds (ind, deps) = (ind', deps') \<Longrightarrow>
   map fst ind' = map fst ind \<and>
   (\<forall>k. map_of ind' k = (if k = name then map_option (\<lambda>n. n + length ds) (map_of ind k) else map_of ind k)) \<and>
   (\<forall>d. set (children deps' d) = set (children deps d) \<union> (if d \<in> set ds then {name} else {})) \<and>
   (\<forall>d. distinct (children deps d) \<longrightarrow> distinct (children deps' d))"
proof (induction ds arbitrary: ind deps)
  case (Cons x ds)
  have "fold (add_edge name) ds
      (bt_adjust name Suc ind, bt_insert x (insort_insert name (children deps x)) deps) = (ind', deps')"
    using Cons.prems by (simp add: add_edge_pair)
  note rest = Cons.IH [OF this]
  have "distinct (children (bt_insert x (insort_insert name (children deps x)) deps) d)"
    if "distinct (children deps d)" for d
    using that by (auto simp: bt_get_insert intro: distinct_insort_insert)
  with rest have "\<forall>d. distinct (children deps d) \<longrightarrow> distinct (children deps' d)"
    by blast
  with rest show ?case
    by (simp add: bt_get_adjust bt_get_insert set_insort_insert option.map_comp comp_def)
qed (auto simp: option.map_ident)

lemma edge_fold:
  "fold (\<lambda>(name, r). fold (add_edge name) (deps_of r)) rs (ind, deps) = (ind', deps') \<Longrightarrow>
   distinct (map fst rs) \<Longrightarrow>
   map fst ind' = map fst ind \<and>
   (\<forall>k. map_of ind' k = map_option (\<lambda>n. n + length (depends rs k)) (map_of ind k)) \<and>
   (\<forall>d. set (children deps' d) = set (children deps d) \<union> {k. d \<in> set (depends rs k)}) \<and>
   (\<forall>d. distinct (children deps d) \<longrightarrow> distinct (children deps' d))"
proof (induction rs arbitrary: ind deps)
  case (Cons nr rs)
  obtain name r where nr: "nr = (name, r)" by fastforce
  obtain ind1 deps1 where one: "fold (add_edge name) (deps_of r) (ind, deps) = (ind1, deps1)"
    by fastforce
  have rest: "fold (\<lambda>(name, r). fold (add_edge name) (deps_of r)) rs (ind1, deps1) = (ind', deps')"
    "distinct (map fst rs)"
    using Cons.prems one by (simp_all add: nr)
  have fresh: "map_of rs name = None"
    using Cons.prems by (simp add: nr map_of_eq_None_iff)
  have self: "depends (nr # rs) k = (if k = name then deps_of r else depends rs k)" for k
    using fresh by (simp add: nr depends_def)
  have "depends rs name = []"
    using fresh by (simp add: depends_def)
  with Cons.IH [OF rest] add_edges [OF one] show ?case
    by (auto simp: self option.map_comp comp_def split: if_splits)
qed (auto simp: depends_def option.map_ident)

lemma edge_maps_spec:
  assumes "bt_invar reg" and "edge_maps reg = (ind, deps)"
  shows "map fst ind = map fst reg"
    and "map_of ind k = map_option (\<lambda>r. length (deps_of r)) (map_of reg k)"
    and "set (children deps d) = {k. d \<in> set (depends reg k)}"
    and "distinct (children deps d)"
proof -
  have "bt_invar (map (\<lambda>(name, r). (name, 0 :: nat)) reg)"
    using assms(1) by (simp add: bt_invar_def comp_def case_prod_beta)
  then have "fold (\<lambda>(name, r). fold (add_edge name) (deps_of r)) reg
      (map (\<lambda>(name, r). (name, 0)) reg, []) = (ind, deps)"
    using assms(2) by (simp add: edge_maps_def bt_collect_ordered)
  note spec = edge_fold [OF this bt.items_distinct [OF assms(1)]]
  have zero: "map_of (map (\<lambda>(name, r). (name, 0 :: nat)) reg) k = map_option (\<lambda>_. 0) (map_of reg k)" for k
    by (induction reg) auto
  show "map fst ind = map fst reg"
    using spec by (simp add: comp_def case_prod_beta)
  show "map_of ind k = map_option (\<lambda>r. length (deps_of r)) (map_of reg k)"
    using spec zero [of k] by (auto simp: depends_def split: option.splits)
  show "set (children deps d) = {k. d \<in> set (depends reg k)}" "distinct (children deps d)"
    using spec by simp_all
qed

section \<open>The loop invariant\<close>

lemma relax_children_spec:
  assumes "distinct cs" and "\<forall>c \<in> set cs. \<exists>n. map_of ind c = Some (Suc n)"
  shows "\<exists>ind'. relax_children cs ind ready = Some (ind', ready @ filter (\<lambda>c. map_of ind c = Some 1) cs) \<and>
    map fst ind' = map fst ind \<and>
    (\<forall>k. map_of ind' k = (if k \<in> set cs then map_option (\<lambda>d. d - 1) (map_of ind k) else map_of ind k))"
  using assms
proof (induction cs arbitrary: ind ready)
  case (Cons c cs)
  then obtain n where n: "map_of ind c = Some (Suc n)" by auto
  let ?ind = "bt_adjust c (\<lambda>_. n) ind" and ?ready = "if n = 0 then ready @ [c] else ready"
  have get: "map_of ?ind k = (if k = c then Some n else map_of ind k)" for k
    using n by (simp add: bt_get_adjust)
  have "filter (\<lambda>c. map_of ?ind c = Some 1) cs = filter (\<lambda>c. map_of ind c = Some 1) cs"
    using Cons.prems by (intro filter_cong) (auto simp: get)
  moreover have "\<forall>c \<in> set cs. \<exists>n. map_of ?ind c = Some (Suc n)"
    using Cons.prems by (auto simp: get)
  ultimately obtain ind' where ind':
    "relax_children cs ?ind ?ready = Some (ind', ?ready @ filter (\<lambda>c. map_of ind c = Some 1) cs)"
    "map fst ind' = map fst ?ind"
    "\<forall>k. map_of ind' k = (if k \<in> set cs then map_option (\<lambda>d. d - 1) (map_of ?ind k) else map_of ?ind k)"
    using Cons.IH [of ?ind ?ready] Cons.prems by auto
  have "relax_children (c # cs) ind ready = relax_children cs ?ind ?ready"
    using n by simp
  moreover have "map_of ind' k =
      (if k \<in> set (c # cs) then map_option (\<lambda>d. d - 1) (map_of ind k) else map_of ind k)" for k
    using ind'(3) Cons.prems n unfolding get by simp
  ultimately show ?case
    using ind'(1,2) n by (intro exI [of _ ind']) auto
qed simp

definition topological :: "ResourceRegistry \<Rightarrow> string list \<Rightarrow> bool" where
  "topological reg ord \<longleftrightarrow> (\<forall>i < length ord. set (depends reg (ord ! i)) \<subseteq> set (take i ord))"

lemma topological_snoc:
  "topological reg (ord @ [k]) \<longleftrightarrow> topological reg ord \<and> set (depends reg k) \<subseteq> set ord"
  by (auto simp: topological_def nth_append less_Suc_eq)

definition kahn_inv :: "ResourceRegistry \<Rightarrow> degrees \<Rightarrow> string list \<Rightarrow> string list \<Rightarrow> bool" where
  "kahn_inv reg ind ready ord \<longleftrightarrow>
     map fst ind = map fst reg \<and> distinct (ord @ ready) \<and> set (ord @ ready) \<subseteq> dom (map_of reg) \<and>
     (\<forall>k d. map_of ind k = Some d \<longrightarrow>
        d + card (set (depends reg k) \<inter> set ord) = length (depends reg k) \<and>
        (d = 0 \<longleftrightarrow> k \<in> set (ord @ ready))) \<and>
     topological reg ord"

lemma kahn_inv_degree:
  assumes "kahn_inv reg ind ready ord" and "map_of reg k \<noteq> None"
  obtains d where "map_of ind k = Some d"
    "d + card (set (depends reg k) \<inter> set ord) = length (depends reg k)"
    "d = 0 \<longleftrightarrow> k \<in> set (ord @ ready)"
proof -
  have "map fst ind = map fst reg"
    using assms(1) by (simp add: kahn_inv_def)
  then have "k \<in> fst ` set ind"
    using assms(2) by (metis list.set_map map_of_eq_None_iff)
  then obtain d where "map_of ind k = Some d"
    by (metis map_of_eq_None_iff not_None_eq)
  with assms(1) that show thesis
    unfolding kahn_inv_def by blast
qed

text \<open>What is ready has all its dependencies in the order; a child of a ready resource has one left.\<close>

lemma kahn_ready_complete:
  assumes "kahn_inv reg ind (name # ready) ord"
  shows "set (depends reg name) \<subseteq> set ord"
proof -
  have "name \<in> dom (map_of reg)" using assms by (auto simp: kahn_inv_def)
  then obtain d where "d + card (set (depends reg name) \<inter> set ord) = length (depends reg name)" "d = 0"
    using kahn_inv_degree [OF assms, of name] by auto
  then have "card (set (depends reg name)) \<le> card (set (depends reg name) \<inter> set ord)"
    using card_length [of "depends reg name"] by simp
  then have "set (depends reg name) \<inter> set ord = set (depends reg name)"
    by (intro card_seteq) auto
  then show ?thesis by blast
qed

lemma kahn_child_open:
  assumes "kahn_inv reg ind (name # ready) ord" and "name \<in> set (depends reg c)"
  shows "\<exists>n. map_of ind c = Some (Suc n)"
proof -
  have "map_of reg c \<noteq> None" using assms(2) by (auto simp: in_depends)
  then obtain d where d: "map_of ind c = Some d" "d + card (set (depends reg c) \<inter> set ord) = length (depends reg c)"
    using kahn_inv_degree [OF assms(1)] by blast
  have "name \<notin> set ord" using assms(1) by (auto simp: kahn_inv_def)
  with assms(2) have "card (set (depends reg c) \<inter> set ord) < card (set (depends reg c))"
    by (intro psubset_card_mono) auto
  also have "\<dots> \<le> length (depends reg c)" by (rule card_length)
  finally show ?thesis using d by (cases d) auto
qed

lemma kahn_inv_step:
  assumes inv: "kahn_inv reg ind (name # ready) ord"
    and kids: "set cs = {k. name \<in> set (depends reg k)}" "distinct cs"
  obtains ind' ready' where "relax_children cs ind ready = Some (ind', ready')"
    "kahn_inv reg ind' ready' (ord @ [name])"
proof -
  have dist: "distinct (ord @ name # ready)" and topo: "topological reg ord"
    and keys: "map fst ind = map fst reg" and sub: "set (ord @ name # ready) \<subseteq> dom (map_of reg)"
    and deg: "\<And>k d. map_of ind k = Some d \<Longrightarrow>
        d + card (set (depends reg k) \<inter> set ord) = length (depends reg k) \<and>
        (d = 0 \<longleftrightarrow> k \<in> set (ord @ name # ready))"
    using inv by (auto simp: kahn_inv_def)
  have grows: "card (set (depends reg k) \<inter> set (ord @ [name])) =
      card (set (depends reg k) \<inter> set ord) + (if k \<in> set cs then 1 else 0)" for k
    using dist by (auto simp: kids)
  have known: "map_of reg k \<noteq> None" if "k \<in> set cs" for k
    using that kids by (auto simp: in_depends)
  have open_child: "\<exists>n. map_of ind c = Some (Suc n)" if "c \<in> set cs" for c
    using kahn_child_open [OF inv] that kids by auto
  then obtain ind' where relax:
    "relax_children cs ind ready = Some (ind', ready @ filter (\<lambda>c. map_of ind c = Some 1) cs)"
    "map fst ind' = map fst ind"
    "\<And>k. map_of ind' k = (if k \<in> set cs then map_option (\<lambda>d. d - 1) (map_of ind k) else map_of ind k)"
    using relax_children_spec [OF kids(2), of ind ready] by blast
  define ready' where "ready' = ready @ filter (\<lambda>c. map_of ind c = Some 1) cs"
  have degree: "d + card (set (depends reg k) \<inter> set (ord @ [name])) = length (depends reg k) \<and>
      (d = 0 \<longleftrightarrow> k \<in> set ((ord @ [name]) @ ready'))" if d: "map_of ind' k = Some d" for k d
  proof (cases "k \<in> set cs")
    case True
    with d relax(3) open_child have "map_of ind k = Some (Suc d)" by fastforce
    with deg [OF this] grows [of k] True show ?thesis
      by (auto simp: ready'_def)
  next
    case False
    with d relax(3) have "map_of ind k = Some d" by simp
    with deg [OF this] grows [of k] False show ?thesis
      by (auto simp: ready'_def)
  qed
  have "c \<notin> set (ord @ name # ready)" if "map_of ind c = Some 1" for c
    using deg [OF that] by simp
  then have "distinct ((ord @ [name]) @ ready')"
    using dist kids(2) by (auto simp: ready'_def)
  then have "kahn_inv reg ind' ready' (ord @ [name])"
    using degree sub keys relax(2) topo known kahn_ready_complete [OF inv]
    unfolding kahn_inv_def topological_snoc by (auto simp: ready'_def dom_def)
  with relax(1) that show thesis
    by (simp add: ready'_def)
qed

lemma kahn_result:
  assumes "kahn_inv reg ind ready ord"
    and "\<forall>d. set (children deps d) = {k. d \<in> set (depends reg k)} \<and> distinct (children deps d)"
  shows "\<exists>ord' ind'. kahn deps ind ready ord = Some (ord', ind') \<and> kahn_inv reg ind' [] ord'"
  using assms
proof (induction deps ind ready ord rule: kahn.induct)
  case (2 deps ind name ready ord)
  obtain ind' ready' where step: "relax_children (children deps name) ind ready = Some (ind', ready')"
    "kahn_inv reg ind' ready' (ord @ [name])"
    using kahn_inv_step [OF "2.prems"(1)] "2.prems"(2) by metis
  with "2.IH" [OF step(1) refl] "2.prems"(2) show ?case
    by simp
qed simp

lemma first_missing_None:
  "first_missing reg rs = None \<longleftrightarrow> (\<forall>(k, r) \<in> set rs. \<forall>d \<in> set (deps_of r). map_of reg d \<noteq> None)"
proof (induction reg rs rule: first_missing.induct)
  case (2 reg name r rest)
  then show ?case
    using find_None_iff [of "\<lambda>d. map_of reg d = None" "deps_of r"]
    by (cases "find (\<lambda>d. map_of reg d = None) (deps_of r)") auto
qed simp

lemma first_missing_Some:
  "first_missing reg rs = Some (k, d) \<Longrightarrow> \<exists>r. (k, r) \<in> set rs \<and> d \<in> set (deps_of r) \<and> map_of reg d = None"
  by (induction reg rs rule: first_missing.induct)
    (auto simp: find_Some_iff split: option.splits intro: nth_mem)

definition closed_registry :: "ResourceRegistry \<Rightarrow> bool" where
  "closed_registry reg \<longleftrightarrow> (\<forall>k. \<forall>d \<in> set (depends reg k). map_of reg d \<noteq> None)"

lemma validate_registry_ok:
  assumes "bt_invar reg"
  shows "validate_registry reg = Inr () \<longleftrightarrow> closed_registry reg"
proof -
  have "(\<forall>(k, r) \<in> set reg. \<forall>d \<in> set (deps_of r). map_of reg d \<noteq> None) \<longleftrightarrow> closed_registry reg"
    unfolding closed_registry_def in_depends Ball_def split_paired_All prod.case bt.in_items_iff [OF assms]
    by blast
  then have "first_missing reg reg = None \<longleftrightarrow> closed_registry reg"
    by (simp only: first_missing_None)
  then show ?thesis
    by (auto simp: validate_registry_def split: option.splits)
qed

lemma filtered_keys:
  "distinct (map fst m) \<Longrightarrow>
   k \<in> set (map fst (filter (\<lambda>(_, d). P d) m)) \<longleftrightarrow> (\<exists>d. map_of m k = Some d \<and> P d)"
  by (induction m) force+

text \<open>What a run on a valid registry establishes.\<close>

lemma kahn_inv_initial:
  assumes "bt_invar reg" and "edge_maps reg = (ind, deps)"
  shows "kahn_inv reg ind (map fst (filter (\<lambda>(_, d). d = 0) ind)) []"
proof -
  note spec = edge_maps_spec [OF assms]
  have dist: "distinct (map fst ind)"
    using spec(1) bt.items_distinct [OF assms(1)] by simp
  have ready: "k \<in> set (map fst (filter (\<lambda>(_, d). d = 0) ind)) \<longleftrightarrow> map_of ind k = Some 0" for k
    using filtered_keys [OF dist, of k "\<lambda>d. d = 0"] by simp
  moreover have "distinct (map fst (filter (\<lambda>(_, d). d = 0) ind))"
    using dist by (rule distinct_map_filter)
  moreover have "map_of ind k = Some d \<Longrightarrow> d = length (depends reg k) \<and> map_of reg k \<noteq> None" for k d
    using spec(2) [of k] by (auto simp: depends_def)
  ultimately show ?thesis
    using spec(1) unfolding kahn_inv_def by (auto simp: topological_def dom_def)
qed

lemma resolve_cases:
  assumes "bt_invar reg" and "closed_registry reg"
  shows "\<exists>ord ind. kahn_inv reg ind [] ord \<and>
    resolve_load_order reg =
      (if length ord \<noteq> length reg then Inl (DependencyCycle (map fst (filter (\<lambda>(_, d). d > 0) ind)))
       else Inr ord)"
proof -
  obtain ind0 deps where maps: "edge_maps reg = (ind0, deps)" by fastforce
  obtain ord ind where run: "kahn deps ind0 (map fst (filter (\<lambda>(_, d). d = 0) ind0)) [] = Some (ord, ind)"
    "kahn_inv reg ind [] ord"
    using kahn_result [OF kahn_inv_initial [OF assms(1) maps]] edge_maps_spec(3,4) [OF assms(1) maps] by blast
  moreover have "resolve_load_order reg =
      (if length ord \<noteq> length reg then Inl (DependencyCycle (map fst (filter (\<lambda>(_, d). d > 0) ind)))
       else Inr ord)"
    using validate_registry_ok [OF assms(1)] assms(2) run(1) by (simp add: resolve_load_order_def maps)
  ultimately show ?thesis by blast
qed

lemma kahn_final_complete:
  assumes "bt_invar reg" and "kahn_inv reg ind [] ord"
  shows "length ord = length reg \<longleftrightarrow> set ord = dom (map_of reg)"
proof -
  have "distinct ord" "set ord \<subseteq> dom (map_of reg)"
    using assms(2) by (auto simp: kahn_inv_def)
  moreover have "card (dom (map_of reg)) = length reg"
    using bt.items_distinct [OF assms(1)] by (simp add: dom_map_of_conv_image_fst distinct_card flip: set_map)
  ultimately show ?thesis
    by (metis card_subset_eq distinct_card finite_dom_map_of)
qed

definition dependency :: "ResourceRegistry \<Rightarrow> (string \<times> string) set" where
  "dependency reg = {(d, k). d \<in> set (depends reg k)}"

lemma topological_acyclic:
  assumes "topological reg ord" and "dom (map_of reg) \<subseteq> set ord" and "distinct ord"
  shows "acyclic (dependency reg)"
proof -
  define pos where "pos k = (LEAST i. i < length ord \<and> ord ! i = k)" for k
  have pos: "pos k < length ord \<and> ord ! pos k = k" if "k \<in> set ord" for k
    unfolding pos_def by (rule LeastI_ex) (use that in \<open>simp add: in_set_conv_nth\<close>)
  have "pos d < pos k" if "(d, k) \<in> dependency reg" for d k
  proof -
    have "d \<in> set (depends reg k)" "k \<in> set ord"
      using that assms(2) by (auto simp: dependency_def in_depends)
    with assms(1) pos [of k] have "d \<in> set (take (pos k) ord)"
      unfolding topological_def by force
    then obtain i where "i < pos k" "i < length ord" "ord ! i = d"
      by (auto simp: in_set_conv_nth)
    moreover from this have "pos d \<le> i"
      unfolding pos_def by (intro Least_le) simp
    ultimately show ?thesis by simp
  qed
  then have "dependency reg \<subseteq> measure pos" by auto
  then show ?thesis
    by (metis acyclic_subset wf_acyclic wf_measure)
qed

lemma stuck_has_predecessor:
  assumes "kahn_inv reg ind [] ord" and "distinct (depends reg k)"
    and "map_of reg k \<noteq> None" and "k \<notin> set ord"
  shows "\<exists>d \<in> set (depends reg k). d \<notin> set ord"
proof (rule ccontr)
  assume "\<not> ?thesis"
  then have "set (depends reg k) \<inter> set ord = set (depends reg k)" by blast
  moreover obtain d where "d + card (set (depends reg k) \<inter> set ord) = length (depends reg k)"
    "d = 0 \<longleftrightarrow> k \<in> set ord"
    using kahn_inv_degree [OF assms(1,3)] by auto
  ultimately show False
    using assms(2,4) by (simp add: distinct_card)
qed

lemma stuck_order_cyclic:
  assumes "kahn_inv reg ind [] ord" and "closed_registry reg" and "\<forall>k. distinct (depends reg k)"
    and "set ord \<noteq> dom (map_of reg)"
  shows "\<not> acyclic (dependency reg)"
proof
  assume acyclic: "acyclic (dependency reg)"
  have "dependency reg \<subseteq> dom (map_of reg) \<times> dom (map_of reg)"
    using assms(2) by (auto simp: dependency_def closed_registry_def in_depends Ball_def)
  then have "finite (dependency reg)"
    by (rule finite_subset) (simp add: finite_dom_map_of)
  with acyclic have "wf (dependency reg)"
    by (rule finite_acyclic_wf [rotated])
  moreover obtain k0 where "k0 \<in> dom (map_of reg) - set ord"
    using assms(1,4) by (auto simp: kahn_inv_def)
  ultimately obtain k where k: "k \<in> dom (map_of reg) - set ord"
    "\<And>d. (d, k) \<in> dependency reg \<Longrightarrow> d \<notin> dom (map_of reg) - set ord"
    by (rule wfE_min) auto
  then obtain d where "d \<in> set (depends reg k)" "d \<notin> set ord"
    using stuck_has_predecessor [OF assms(1)] assms(3) by blast
  moreover from this have "d \<in> dom (map_of reg)"
    using assms(2) by (auto simp: closed_registry_def)
  ultimately show False
    using k(2) by (auto simp: dependency_def)
qed

lemma resolve_ok:
  assumes "bt_invar reg" and "resolve_load_order reg = Inr order"
  shows "closed_registry reg" and "distinct order" and "set order = dom (map_of reg)"
    and "topological reg order"
proof -
  show closed: "closed_registry reg"
    using assms validate_registry_ok by (auto simp: resolve_load_order_def res_bind_Inr_iff)
  obtain ord ind where "kahn_inv reg ind [] ord" "order = ord" "length ord = length reg"
    using resolve_cases [OF assms(1) closed] assms(2) by (auto split: if_splits)
  then show "distinct order" "set order = dom (map_of reg)" "topological reg order"
    using kahn_final_complete [OF assms(1)] by (auto simp: kahn_inv_def)
qed

lemma missing_dependency_genuine:
  "resolve_load_order reg = Inl (MissingDependency k d) \<Longrightarrow>
   \<exists>r. (k, r) \<in> set reg \<and> d \<in> set (deps_of r) \<and> map_of reg d = None"
  by (auto simp: resolve_load_order_def validate_registry_def res_bind_Inl_iff
      split: option.splits prod.splits if_splits intro: first_missing_Some)

definition registry_ok :: "ResourceRegistry \<Rightarrow> bool" where
  "registry_ok reg \<longleftrightarrow> bt_invar reg \<and>
     (\<forall>k r. map_of reg k = Some r \<longrightarrow>
        rr_name r = k \<and> mf_name (rr_manifest r) = k \<and> validate_manifest (rr_manifest r) = Inr ())"

lemma resource_candidate_valid:
  "resource_candidate from_toml decode root folder node = Inr (Some m) \<Longrightarrow>
   mf_name m = folder \<and> validate_manifest m = Inr ()"
  by (auto simp: resource_candidate_def load_manifest_from_path_def parse_manifest_toml_def
      res_bind_Inr_iff split: fs_node.splits option.splits sum.splits if_splits)

lemma insert_registered_ok:
  "insert_registered_resource reg root m = Inr reg' \<Longrightarrow> registry_ok reg \<Longrightarrow> validate_manifest m = Inr () \<Longrightarrow>
   registry_ok reg'"
  by (auto simp: insert_registered_resource_def registry_ok_def bt_get_insert bt_invar_insert
      split: if_splits)

lemma discover_entries_ok:
  "discover_entries from_toml decode root es reg = Inr reg' \<Longrightarrow> registry_ok reg \<Longrightarrow> registry_ok reg'"
proof (induction es arbitrary: reg)
  case (Cons fn es)
  obtain folder node where fn: "fn = (folder, node)" by fastforce
  obtain found where found: "resource_candidate from_toml decode root folder node = Inr found"
    using Cons.prems(1) by (auto simp: fn res_bind_Inr_iff)
  show ?case
  proof (cases found)
    case None
    with Cons found show ?thesis by (simp add: fn)
  next
    case (Some m)
    then obtain reg1 where "insert_registered_resource reg (root @ [Normal folder]) m = Inr reg1"
      "discover_entries from_toml decode root es reg1 = Inr reg'"
      using Cons.prems(1) found by (auto simp: fn res_bind_Inr_iff)
    with Cons.IH Cons.prems(2) insert_registered_ok resource_candidate_valid found Some show ?thesis
      by metis
  qed
qed simp

lemma discover_ok: "discover_resources from_toml decode root es = Inr reg \<Longrightarrow> registry_ok reg"
  using discover_entries_ok [of from_toml decode root es "[]"]
  by (simp add: discover_resources_def registry_ok_def bt_invar_def)

lemma build_load_plan_ok:
  "set order \<subseteq> dom (map_of reg) \<Longrightarrow>
   build_load_plan reg order = Inr (map (\<lambda>k. plan_resource (the (map_of reg k))) order)"
  by (induction order) auto

lemma map_sum_Inr_iff: "map_sum f g r = Inr y \<longleftrightarrow> (\<exists>x. r = Inr x \<and> y = g x)"
  by (cases r) auto

lemma valid_manifest_entrypoints:
  assumes "validate_manifest m = Inr ()" and "entry_server m = Some s \<or> entry_client m = Some s"
  shows "\<not> is_absolute (path_of_string s) \<and> ParentDir \<notin> set (path_of_string s)"
  using assms by (auto simp: validate_manifest_def validate_entrypoint_path_def res_bind_Inr_iff
      split: if_splits option.splits)

section \<open>Sample registries\<close>

definition demo_registered :: "string \<Rightarrow> string list \<Rightarrow> string \<times> RegisteredResource" where
  "demo_registered name ds =
     (name, \<lparr>rr_name = name, rr_root_dir = [Normal name],
             rr_manifest = demo_manifest\<lparr>mf_name := name, mf_dependencies := ds\<rparr>\<rparr>)"

definition demo_registry :: ResourceRegistry where
  "demo_registry = [demo_registered ''a'' [''c''], demo_registered ''b'' [''a''], demo_registered ''c'' []]"

definition cyclic_registry :: ResourceRegistry where
  "cyclic_registry = [demo_registered ''a'' [''b''], demo_registered ''b'' [''a''], demo_registered ''c'' []]"

definition duplicate_registry :: ResourceRegistry where
  "duplicate_registry = [demo_registered ''a'' [], demo_registered ''b'' [''a'', ''a'']]"

lemma demo_runs:
  "bt_invar demo_registry" "resolve_load_order demo_registry = Inr [''c'', ''a'', ''b'']"
  "bt_invar cyclic_registry" "resolve_load_order cyclic_registry = Inl (DependencyCycle [''a'', ''b''])"
  by code_simp+

lemma demo_depends:
  "depends demo_registry k = (if k = ''a'' then [''c''] else if k = ''b'' then [''a''] else [])"
  "depends cyclic_registry k = (if k = ''a'' then [''b''] else if k = ''b'' then [''a''] else [])"
  "map_of demo_registry k \<noteq> None \<longleftrightarrow> k \<in> {''a'', ''b'', ''c''}"
  by (simp_all add: depends_def demo_registry_def cyclic_registry_def demo_registered_def demo_manifest_def)

section \<open>Properties\<close>

text \<open>C1: The load order is a topological order of the whole registry: every registered resource
  occurs exactly once, and each one comes after all resources it depends on.\<close>

theorem load_order_topological:
  assumes "bt_invar reg" and "resolve_load_order reg = Inr order"
  shows "distinct order \<and> set order = dom (map_of reg) \<and>
    (\<forall>i < length order. \<forall>d \<in> set (depends reg (order ! i)). \<exists>j < i. order ! j = d)"
proof -
  have "\<exists>j < i. order ! j = d" if "i < length order" "d \<in> set (depends reg (order ! i))" for i d
  proof -
    have "d \<in> set (take i order)"
      using resolve_ok(4) [OF assms] that unfolding topological_def by blast
    then show ?thesis
      using that(1) by (auto simp: in_set_conv_nth)
  qed
  then show ?thesis
    using resolve_ok(2,3) [OF assms] by blast
qed

theorem load_order_topological_witness:
  "resolve_load_order demo_registry = Inr [''c'', ''a'', ''b''] \<and>
   ''a'' \<in> set (depends demo_registry ''b'') \<and> (\<exists>j < 2. [''c'', ''a'', ''b''] ! j = ''a'')"
proof -
  have "\<forall>i < length [''c'', ''a'', ''b'']. \<forall>d \<in> set (depends demo_registry ([''c'', ''a'', ''b''] ! i)).
      \<exists>j < i. [''c'', ''a'', ''b''] ! j = d"
    using load_order_topological [OF demo_runs(1,2)] by blast
  from this [rule_format, of 2 "''a''"] show ?thesis
    using demo_runs(2) by (simp add: demo_depends)
qed

text \<open>C13: Resolution is complete: for a registry in which every dependency is registered and no
  resource lists a dependency twice, a load order is found exactly when the dependency relation
  has no cycle.\<close>

theorem load_order_iff_acyclic:
  assumes "bt_invar reg" and "\<forall>k. \<forall>d \<in> set (depends reg k). map_of reg d \<noteq> None"
    and "\<forall>k. distinct (depends reg k)"
  shows "(\<exists>order. resolve_load_order reg = Inr order) \<longleftrightarrow> acyclic {(d, k). d \<in> set (depends reg k)}"
proof -
  have closed: "closed_registry reg"
    using assms(2) by (simp add: closed_registry_def)
  obtain ord ind where run: "kahn_inv reg ind [] ord"
    "resolve_load_order reg =
      (if length ord \<noteq> length reg then Inl (DependencyCycle (map fst (filter (\<lambda>(_, d). d > 0) ind)))
       else Inr ord)"
    using resolve_cases [OF assms(1) closed] by blast
  show ?thesis
  proof (cases "set ord = dom (map_of reg)")
    case True
    then have "acyclic (dependency reg)"
      using run(1) topological_acyclic [of reg ord] by (auto simp: kahn_inv_def)
    with True run(2) kahn_final_complete [OF assms(1) run(1)] show ?thesis
      by (simp add: dependency_def)
  next
    case False
    then have "\<not> acyclic (dependency reg)"
      using stuck_order_cyclic [OF run(1) closed assms(3)] by blast
    with False run(2) kahn_final_complete [OF assms(1) run(1)] show ?thesis
      by (simp add: dependency_def)
  qed
qed

theorem load_order_iff_acyclic_witness:
  "acyclic {(d, k). d \<in> set (depends demo_registry k)}"
proof -
  have closed: "\<forall>k. \<forall>d \<in> set (depends demo_registry k). map_of demo_registry d \<noteq> None"
    and distinct: "\<forall>k. distinct (depends demo_registry k)"
    unfolding demo_depends by simp_all
  show ?thesis
    using load_order_iff_acyclic [OF demo_runs(1) closed distinct] demo_runs(2) by blast
qed

text \<open>C38: Resolution never panics: neither an \<^verbatim>\<open>expect\<close> on the in-degree map nor the decrement of an
  in-degree fails, whatever the registry, and every failure is a missing dependency that is
  really missing or a dependency cycle.\<close>

theorem resolve_never_panics:
  assumes "bt_invar reg" and "resolve_load_order reg = Inl err"
  shows "(\<exists>k d r. err = MissingDependency k d \<and> (k, r) \<in> set reg \<and> d \<in> set (deps_of r) \<and> map_of reg d = None) \<or>
    (\<exists>ks. err = DependencyCycle ks)"
proof (cases "closed_registry reg")
  case True
  show ?thesis
    using resolve_cases [OF assms(1) True] assms(2) by (auto split: if_splits)
next
  case False
  then obtain k d where "err = MissingDependency k d"
    using assms validate_registry_ok [OF assms(1)]
    by (auto simp: resolve_load_order_def validate_registry_def res_bind_Inl_iff split: option.splits)
  with assms(2) missing_dependency_genuine show ?thesis
    by metis
qed

theorem resolve_never_panics_witness:
  "\<exists>err ks. resolve_load_order cyclic_registry = Inl err \<and> err = DependencyCycle ks"
  using resolve_never_panics [OF demo_runs(3,4)] demo_runs(4) by blast

text \<open>A reported cycle is one: when no resource lists a dependency twice, the reported resources are
  registered, there is at least one, and each of them depends on another reported one.\<close>

theorem reported_cycle_justified:
  assumes "bt_invar reg" and "\<forall>k. distinct (depends reg k)"
    and "resolve_load_order reg = Inl (DependencyCycle ks)"
  shows "ks \<noteq> [] \<and> set ks \<subseteq> dom (map_of reg) \<and> (\<forall>k \<in> set ks. \<exists>d \<in> set ks. d \<in> set (depends reg k))"
proof -
  have closed: "closed_registry reg"
    using assms(1,3) validate_registry_ok
    by (auto simp: resolve_load_order_def validate_registry_def res_bind_Inl_iff split: option.splits)
  obtain ord ind where run: "kahn_inv reg ind [] ord" "length ord \<noteq> length reg"
    "ks = map fst (filter (\<lambda>(_, d). d > 0) ind)"
    using resolve_cases [OF assms(1) closed] assms(3) by (metis DependencyResolutionError.inject(2) sum.inject(1) sum.distinct(1))
  have keys: "map fst ind = map fst reg" and dist: "distinct (map fst ind)"
    using run(1) bt.items_distinct [OF assms(1)] by (auto simp: kahn_inv_def)
  have mem: "k \<in> set ks \<longleftrightarrow> map_of reg k \<noteq> None \<and> k \<notin> set ord" for k
  proof (cases "map_of reg k = None")
    case True
    then have "k \<notin> fst ` set ind"
      using keys by (metis list.set_map map_of_eq_None_iff)
    with True show ?thesis by (auto simp: run(3))
  next
    case False
    then obtain d where "map_of ind k = Some d" "d = 0 \<longleftrightarrow> k \<in> set ord"
      using kahn_inv_degree [OF run(1)] by auto
    with False filtered_keys [OF dist, of k "\<lambda>d. 0 < d"] show ?thesis
      unfolding run(3) by auto
  qed
  have "set ord \<noteq> dom (map_of reg)"
    using kahn_final_complete [OF assms(1) run(1)] run(2) by blast
  then have "ks \<noteq> []"
    using mem run(1) by (fastforce simp: kahn_inv_def)
  moreover have "\<exists>d \<in> set ks. d \<in> set (depends reg k)" if "k \<in> set ks" for k
    using stuck_has_predecessor [OF run(1), of k] assms(2) that closed mem unfolding closed_registry_def by blast
  ultimately show ?thesis
    using mem by auto
qed

theorem reported_cycle_justified_witness:
  "\<exists>d \<in> set [''a'', ''b'']. d \<in> set (depends cyclic_registry ''a'')"
proof -
  have "\<forall>k. distinct (depends cyclic_registry k)"
    by (simp add: demo_depends)
  from reported_cycle_justified [OF demo_runs(3) this demo_runs(4)]
  have "\<forall>k \<in> set [''a'', ''b'']. \<exists>d \<in> set [''a'', ''b'']. d \<in> set (depends cyclic_registry k)"
    by blast
  from this [rule_format, of "''a''"] show ?thesis
    by simp
qed

text \<open>A resource that lists the same dependency twice is reported as a dependency cycle although
  the dependency relation has none: the in-degree counts both entries, the set of dependents
  only one.\<close>

theorem duplicate_dependency_reported_as_cycle:
  "resolve_load_order duplicate_registry = Inl (DependencyCycle [''b'']) \<and>
   acyclic {(d, k). d \<in> set (depends duplicate_registry k)}"
proof
  show "resolve_load_order duplicate_registry = Inl (DependencyCycle [''b''])"
    by code_simp
  have "{(d, k). d \<in> set (depends duplicate_registry k)} \<subseteq> {(''a'', ''b'')}"
    by (auto simp: in_depends duplicate_registry_def demo_registered_def demo_manifest_def split: if_splits)
  moreover have "acyclic {(''a'', ''b'')}"
    by (rule wf_acyclic, rule wf_subset [OF wf_measure [of "\<lambda>k. if k = ''a'' then 0 else 1"]]) simp
  ultimately show "acyclic {(d, k). d \<in> set (depends duplicate_registry k)}"
    by (meson acyclic_subset)
qed

text \<open>From a directory to a load plan: when discovery and resolution succeed, building the plan
  cannot fail; the plan lists every registered resource once, after its dependencies, and every
  planned entrypoint is a relative path without parent-directory components.\<close>

theorem load_plan_from_root_ok:
  assumes "build_load_plan_from_root from_toml decode root es = Inr plan"
  shows "distinct (map pl_name plan) \<and>
    (\<forall>i < length plan. \<forall>d \<in> set (pl_dependencies (plan ! i)). \<exists>j < i. pl_name (plan ! j) = d) \<and>
    (\<forall>p \<in> set plan. \<forall>e \<in> set (pl_entrypoints p). \<not> is_absolute (ep_path e) \<and> ParentDir \<notin> set (ep_path e))"
proof -
  obtain reg order where reg: "discover_resources from_toml decode root es = Inr reg"
    and order: "resolve_load_order reg = Inr order"
    and plan: "build_load_plan reg order = Inr plan"
    using assms by (auto simp: build_load_plan_from_root_def res_bind_Inr_iff map_sum_Inr_iff)
  have ok: "registry_ok reg" and inv: "bt_invar reg"
    using discover_ok [OF reg] by (simp_all add: registry_ok_def)
  note resolved = resolve_ok [OF inv order]
  have plan_eq: "plan = map (\<lambda>k. plan_resource (the (map_of reg k))) order"
    using build_load_plan_ok [of order reg] plan resolved(3) by simp
  have member: "\<exists>r. map_of reg k = Some r \<and> rr_name r = k \<and> validate_manifest (rr_manifest r) = Inr ()"
    if "k \<in> set order" for k
    using that ok resolved(3) by (auto simp: registry_ok_def)
  have names: "map pl_name plan = order"
    unfolding plan_eq map_map by (intro map_idI) (auto simp: plan_resource_def dest!: member)
  have "\<exists>j < i. pl_name (plan ! j) = d" if i: "i < length plan" "d \<in> set (pl_dependencies (plan ! i))" for i d
  proof -
    have "i < length order" using i(1) by (simp add: plan_eq)
    moreover from this have "d \<in> set (depends reg (order ! i))"
      using i(2) member [of "order ! i"] by (auto simp: plan_eq plan_resource_def depends_def)
    ultimately have "d \<in> set (take i order)"
      using resolved(4) unfolding topological_def by blast
    then obtain j where "j < i" "j < length order" "order ! j = d"
      by (auto simp: in_set_conv_nth)
    with names show ?thesis
      by (metis length_map nth_map)
  qed
  moreover have "\<not> is_absolute (ep_path e) \<and> ParentDir \<notin> set (ep_path e)"
    if p: "p \<in> set plan" "e \<in> set (pl_entrypoints p)" for p e
  proof -
    obtain r where "p = plan_resource r" "validate_manifest (rr_manifest r) = Inr ()"
      using p(1) by (auto simp: plan_eq dest!: member)
    with p(2) valid_manifest_entrypoints show ?thesis
      by (fastforce simp: plan_resource_def split: option.splits)
  qed
  ultimately show ?thesis
    using names resolved(2) by blast
qed

theorem load_plan_from_root_ok_witness:
  "\<exists>plan. build_load_plan_from_root (\<lambda>_. Inr demo_manifest) (\<lambda>_. Some []) []
      [(''chat'', Directory demo_tree), (''notes.txt'', RegularFile [])] = Inr plan \<and>
    (\<forall>p \<in> set plan. \<forall>e \<in> set (pl_entrypoints p). \<not> is_absolute (ep_path e))"
proof -
  have "\<exists>plan. build_load_plan_from_root (\<lambda>_. Inr demo_manifest) (\<lambda>_. Some []) []
      [(''chat'', Directory demo_tree), (''notes.txt'', RegularFile [])] = Inr plan"
    (is "\<exists>plan. ?run = Inr plan")
  proof -
    have "is_ok ?run" by code_simp
    then show ?thesis by (cases ?run) auto
  qed
  with load_plan_from_root_ok show ?thesis by blast
qed

end
