(* ===== verification/Event_Loop.thy ===== *)
theory Event_Loop
  imports Prelude
begin

text \<open>
  The loops of the program as one interface: a loop takes one event after the other, and after each
  either goes on with a new state or ends with a result. The client's message loop and the
  server process are loops of this kind; loops that end with the first error are a special case.
\<close>

section \<open>Loops over events\<close>

text \<open>
  \<open>step\<close> is the reaction to one event, \<open>yield\<close> the result when the events are used up, \<open>run\<close> the loop.
\<close>

locale event_loop =
  fixes step :: "'e \<Rightarrow> 's \<Rightarrow> 's + 'r" and yield :: "'s \<Rightarrow> 'r" and run :: "'e list \<Rightarrow> 's \<Rightarrow> 'r"
  assumes run_Nil: "run [] s = yield s"
    and run_Cons: "run (e # es) s = (case step e s of Inl s' \<Rightarrow> run es s' | Inr r \<Rightarrow> r)"
begin

text \<open>An invariant of the states, with what it gives for the results.\<close>

lemma run_invariant:
  assumes "\<And>e s s'. e \<in> set es \<Longrightarrow> P s \<Longrightarrow> step e s = Inl s' \<Longrightarrow> P s'"
    and "\<And>e s r. e \<in> set es \<Longrightarrow> P s \<Longrightarrow> step e s = Inr r \<Longrightarrow> Q r"
    and "\<And>s. P s \<Longrightarrow> Q (yield s)" and "P s"
  shows "Q (run es s)"
  using assms
proof (induction es arbitrary: s)
  case (Cons e es)
  show ?case
  proof (cases "step e s")
    case (Inl s')
    have "P s'" using Cons.prems(1) [OF _ Cons.prems(4) Inl] by simp
    then have "Q (run es s')"
      using Cons.prems(1-3) by (intro Cons.IH) (simp_all add: disj_commute, blast+)
    with Inl show ?thesis by (simp add: run_Cons)
  next
    case (Inr r)
    with Cons.prems(2) [OF _ Cons.prems(4) Inr] show ?thesis by (simp add: run_Cons)
  qed
qed (simp add: run_Nil)

text \<open>Events without effect can be left out.\<close>

lemma run_skips:
  assumes "\<And>e s. e \<in> set es \<Longrightarrow> idle e \<Longrightarrow> step e s = Inl s"
  shows "run es s = run (filter (\<lambda>e. \<not> idle e) es) s"
  using assms
proof (induction es arbitrary: s)
  case (Cons e es)
  then have "run es s' = run (filter (\<lambda>e. \<not> idle e) es) s'" for s' by simp
  with Cons.prems show ?case by (auto simp: run_Cons split: sum.split)
qed (simp add: run_Nil)

text \<open>Where the events alone decide what ends the loop, it ends with the first such event.\<close>

lemma run_ends_at_first:
  assumes "\<And>e s. (\<exists>r. step e s = Inr r) \<longleftrightarrow> ends e"
  shows "case find ends es of
      None \<Rightarrow> \<exists>s'. run es s = yield s'
    | Some e \<Rightarrow> \<exists>s' r. step e s' = Inr r \<and> run es s = r"
proof (induction es arbitrary: s)
  case (Cons e es)
  show ?case
  proof (cases "step e s")
    case (Inl s')
    then have "\<not> ends e" using assms [of e s] by simp
    with Cons.IH [of s'] Inl show ?thesis by (simp only: find.simps if_False run_Cons sum.case)
  next
    case (Inr r)
    then have "ends e" using assms [of e s] by blast
    with Inr show ?thesis by (auto simp: run_Cons)
  qed
qed (auto simp: run_Nil)

lemma run_append:
  assumes "\<And>e s. e \<in> set es \<Longrightarrow> \<exists>s'. step e s = Inl s'"
  shows "\<exists>s'. run es s = yield s' \<and> run (es @ fs) s = run fs s'"
  using assms
proof (induction es arbitrary: s)
  case (Cons e es)
  then obtain s' where "step e s = Inl s'" by force
  with Cons show ?case by (simp add: run_Cons)
qed (auto simp: run_Nil)

end

section \<open>Loops that stop at the first error\<close>

locale result_loop =
  fixes attempt :: "'e \<Rightarrow> 's \<Rightarrow> 'x + 's" and attempts :: "'e list \<Rightarrow> 's \<Rightarrow> 'x + 's"
  assumes attempts_Nil: "attempts [] s = Inr s"
    and attempts_Cons: "attempts (e # es) s = res_bind (attempt e s) (attempts es)"

sublocale result_loop \<subseteq> event_loop "\<lambda>e s. case attempt e s of Inl x \<Rightarrow> Inr (Inl x) | Inr s' \<Rightarrow> Inl s'" Inr attempts
  by unfold_locales (simp_all add: attempts_Nil attempts_Cons split: sum.split)

context result_loop
begin

lemma attempts_invariant:
  assumes "\<And>e s s'. e \<in> set es \<Longrightarrow> P s \<Longrightarrow> attempt e s = Inr s' \<Longrightarrow> P s'" and "P s" and "attempts es s = Inr s'"
  shows "P s'"
proof -
  have "\<forall>s'. attempts es s = Inr s' \<longrightarrow> P s'"
    by (rule run_invariant [where P = P and Q = "\<lambda>r. \<forall>s'. r = Inr s' \<longrightarrow> P s'"])
      (use assms(1,2) in \<open>auto split: sum.splits\<close>)
  with assms(3) show ?thesis by blast
qed

lemma attempts_append: "attempts (es @ fs) s = res_bind (attempts es s) (attempts fs)"
proof (induction es arbitrary: s)
  case (Cons e es)
  then have "attempts (es @ fs) = (\<lambda>s. res_bind (attempts es s) (attempts fs))"
    by (intro ext)
  then show ?case by (simp add: attempts_Cons res_bind_assoc)
qed (simp add: attempts_Nil)

end

end
