(* ===== verification/Resource_Runtime.thy ===== *)
theory Resource_Runtime
  imports Load_Order Event_Loop
begin

text \<open>
  The resource runtime of \<^verbatim>\<open>crates/resource_manifest/src/lib.rs\<close>: the state machine built from a
  load plan, with one operation per method of \<^verbatim>\<open>ResourceRuntimeStateMachine\<close>. A method that fails
  leaves the machine as it was, so an operation returns the error or the new machine.
\<close>

datatype ResourceRuntimeState = Planned | Validated | Ready | Started | Stopped | Failed

record ResourceRuntimeStatus =
  rs_name :: string
  rs_state :: ResourceRuntimeState
  rs_message :: "string option"

record ResourceRuntimeStateMachine =
  rm_order :: "string list"
  rm_statuses :: "(string, ResourceRuntimeStatus) btree"
  rm_dependencies :: "(string, string list) btree"

datatype ResourceRuntimeError =
    UnknownResource string
  | InvalidTransition string ResourceRuntimeState ResourceRuntimeState
  | DependencyNotReady string string
  | ResourceFailed string "string option"

primrec runtime_state_debug :: "ResourceRuntimeState \<Rightarrow> string" where
  "runtime_state_debug Planned = ''Planned''"
| "runtime_state_debug Validated = ''Validated''"
| "runtime_state_debug Ready = ''Ready''"
| "runtime_state_debug Started = ''Started''"
| "runtime_state_debug Stopped = ''Stopped''"
| "runtime_state_debug Failed = ''Failed''"

fun runtime_error_text :: "ResourceRuntimeError \<Rightarrow> string" where
  "runtime_error_text (UnknownResource n) = ''UnknownResource: '' @ [CHR 0x27] @ n @ [CHR 0x27]"
| "runtime_error_text (InvalidTransition n s t) =
     ''InvalidTransition: '' @ [CHR 0x27] @ n @ [CHR 0x27] @ '' cannot move from '' @
     runtime_state_debug s @ '' to '' @ runtime_state_debug t"
| "runtime_error_text (DependencyNotReady n d) =
     ''DependencyNotReady: '' @ [CHR 0x27] @ n @ [CHR 0x27] @ '' requires '' @ [CHR 0x27] @ d @
     [CHR 0x27] @ '' to be Ready or Started''"
| "runtime_error_text (ResourceFailed n message) =
     ''ResourceFailed: '' @ [CHR 0x27] @ n @ [CHR 0x27] @
     (case message of None \<Rightarrow> [] | Some msg \<Rightarrow> '' ('' @ msg @ '')'')"

section \<open>Operations\<close>

definition from_load_plan :: "ResourceLoadPlan \<Rightarrow> ResourceRuntimeStateMachine" where
  "from_load_plan plan =
     \<lparr>rm_order = map pl_name plan,
      rm_statuses = bt_collect (map (\<lambda>p. (pl_name p,
        \<lparr>rs_name = pl_name p, rs_state = Planned, rs_message = None\<rparr>)) plan),
      rm_dependencies = bt_collect (map (\<lambda>p. (pl_name p, pl_dependencies p)) plan)\<rparr>"

definition status :: "ResourceRuntimeStateMachine \<Rightarrow> string \<Rightarrow> ResourceRuntimeStatus option" where
  "status m n = bt_get (rm_statuses m) n"

definition all_statuses :: "ResourceRuntimeStateMachine \<Rightarrow> ResourceRuntimeStatus list" where
  "all_statuses m = List.map_filter (status m) (rm_order m)"

definition current_state ::
  "ResourceRuntimeStateMachine \<Rightarrow> string \<Rightarrow> ResourceRuntimeError + ResourceRuntimeState" where
  "current_state m n =
     (case status m n of None \<Rightarrow> Inl (UnknownResource n) | Some s \<Rightarrow> Inr (rs_state s))"

definition failed_error :: "ResourceRuntimeStateMachine \<Rightarrow> string \<Rightarrow> ResourceRuntimeError" where
  "failed_error m n =
     (case status m n of None \<Rightarrow> UnknownResource n | Some s \<Rightarrow> ResourceFailed n (rs_message s))"

definition set_state ::
  "ResourceRuntimeStateMachine \<Rightarrow> string \<Rightarrow> ResourceRuntimeState \<Rightarrow> string option \<Rightarrow>
   ResourceRuntimeError + ResourceRuntimeStateMachine" where
  "set_state m n st message =
     (case bt_get (rm_statuses m) n of
        None \<Rightarrow> Inl (UnknownResource n)
      | Some _ \<Rightarrow> Inr (m\<lparr>rm_statuses :=
          bt_adjust n (\<lambda>s. s\<lparr>rs_state := st, rs_message := message\<rparr>) (rm_statuses m)\<rparr>))"

definition transition ::
  "ResourceRuntimeStateMachine \<Rightarrow> string \<Rightarrow> ResourceRuntimeState \<Rightarrow> ResourceRuntimeState \<Rightarrow>
   ResourceRuntimeError + ResourceRuntimeStateMachine" where
  "transition m n from_state to_state =
     res_bind (current_state m n) (\<lambda>current.
       if current = Failed then Inl (failed_error m n)
       else if current \<noteq> from_state then Inl (InvalidTransition n current to_state)
       else set_state m n to_state None)"

definition validate_resource ::
  "ResourceRuntimeStateMachine \<Rightarrow> string \<Rightarrow> ResourceRuntimeError + ResourceRuntimeStateMachine" where
  "validate_resource m n = transition m n Planned Validated"

definition mark_ready ::
  "ResourceRuntimeStateMachine \<Rightarrow> string \<Rightarrow> ResourceRuntimeError + ResourceRuntimeStateMachine" where
  "mark_ready m n =
     res_bind (current_state m n) (\<lambda>current.
       if current \<in> {Validated, Stopped} then set_state m n Ready None
       else Inl (InvalidTransition n current Ready))"

fun check_dependencies ::
  "ResourceRuntimeStateMachine \<Rightarrow> string \<Rightarrow> string list \<Rightarrow> ResourceRuntimeError + unit" where
  "check_dependencies m n [] = Inr ()"
| "check_dependencies m n (d # ds) =
     res_bind (current_state m d) (\<lambda>st.
       if st \<in> {Ready, Started} then check_dependencies m n ds else Inl (DependencyNotReady n d))"

definition start_resource_no_exec ::
  "ResourceRuntimeStateMachine \<Rightarrow> string \<Rightarrow> ResourceRuntimeError + ResourceRuntimeStateMachine" where
  "start_resource_no_exec m n =
     res_bind (current_state m n) (\<lambda>current.
       if current = Failed then Inl (failed_error m n)
       else if current \<noteq> Ready then Inl (InvalidTransition n current Started)
       else res_bind (check_dependencies m n (unwrap_or (bt_get (rm_dependencies m) n) [])) (\<lambda>_.
         set_state m n Started None))"

definition stop_resource ::
  "ResourceRuntimeStateMachine \<Rightarrow> string \<Rightarrow> ResourceRuntimeError + ResourceRuntimeStateMachine" where
  "stop_resource m n = transition m n Started Stopped"

definition fail_resource ::
  "ResourceRuntimeStateMachine \<Rightarrow> string \<Rightarrow> string \<Rightarrow> ResourceRuntimeError + ResourceRuntimeStateMachine" where
  "fail_resource m n message =
     res_bind (current_state m n) (\<lambda>current.
       if current \<in> {Stopped, Failed} then Inl (InvalidTransition n current Failed)
       else set_state m n Failed (Some message))"

section \<open>Runs\<close>

text \<open>The calls a client can make, and the machines reachable from a plan by any of them.\<close>

datatype runtime_op =
    OpValidate string | OpReady string | OpStart string | OpStop string | OpFail string string

fun runtime_apply ::
  "runtime_op \<Rightarrow> ResourceRuntimeStateMachine \<Rightarrow> ResourceRuntimeError + ResourceRuntimeStateMachine" where
  "runtime_apply (OpValidate n) m = validate_resource m n"
| "runtime_apply (OpReady n) m = mark_ready m n"
| "runtime_apply (OpStart n) m = start_resource_no_exec m n"
| "runtime_apply (OpStop n) m = stop_resource m n"
| "runtime_apply (OpFail n msg) m = fail_resource m n msg"

inductive runtime_reachable :: "ResourceLoadPlan \<Rightarrow> ResourceRuntimeStateMachine \<Rightarrow> bool" for plan where
  init: "runtime_reachable plan (from_load_plan plan)"
| step: "runtime_reachable plan m \<Longrightarrow> runtime_apply op m = Inr m' \<Longrightarrow> runtime_reachable plan m'"

text \<open>The edges of the state machine.\<close>

definition allowed_edges :: "(ResourceRuntimeState \<times> ResourceRuntimeState) set" where
  "allowed_edges =
     {(Planned, Validated), (Validated, Ready), (Stopped, Ready), (Ready, Started), (Started, Stopped),
      (Planned, Failed), (Validated, Failed), (Ready, Failed), (Started, Failed)}"

definition state_of :: "ResourceRuntimeStateMachine \<Rightarrow> string \<Rightarrow> ResourceRuntimeState option" where
  "state_of m n = map_option rs_state (status m n)"

lemma current_state_iff: "current_state m n = Inr st \<longleftrightarrow> state_of m n = Some st"
  by (auto simp: current_state_def state_of_def split: option.splits)

lemma current_state_eq:
  "current_state m n = (case state_of m n of None \<Rightarrow> Inl (UnknownResource n) | Some st \<Rightarrow> Inr st)"
  by (simp add: current_state_def state_of_def split: option.splits)

definition with_state ::
  "ResourceRuntimeStateMachine \<Rightarrow> string \<Rightarrow> ResourceRuntimeState \<Rightarrow> string option \<Rightarrow>
   ResourceRuntimeStateMachine" where
  "with_state m n st msg =
     m\<lparr>rm_statuses := bt_adjust n (\<lambda>s. s\<lparr>rs_state := st, rs_message := msg\<rparr>) (rm_statuses m)\<rparr>"

lemma set_state_iff: "set_state m n st msg = Inr m' \<longleftrightarrow> state_of m n \<noteq> None \<and> m' = with_state m n st msg"
  by (auto simp: set_state_def state_of_def status_def with_state_def split: option.splits)

lemma check_dependencies_ok:
  "check_dependencies m n ds = Inr () \<longleftrightarrow> (\<forall>d \<in> set ds. state_of m d \<in> {Some Ready, Some Started})"
  by (induction m n ds rule: check_dependencies.induct)
    (auto simp: res_bind_Inr_iff current_state_iff)

text \<open>When each call succeeds, and with what.\<close>

lemma transition_iff:
  "transition m n f t = Inr m' \<longleftrightarrow> state_of m n = Some f \<and> f \<noteq> Failed \<and> m' = with_state m n t None"
  by (auto simp: transition_def res_bind_Inr_iff current_state_iff set_state_iff split: if_splits)

lemma mark_ready_iff:
  "mark_ready m n = Inr m' \<longleftrightarrow>
     (state_of m n = Some Validated \<or> state_of m n = Some Stopped) \<and> m' = with_state m n Ready None"
  by (auto simp: mark_ready_def res_bind_Inr_iff current_state_iff set_state_iff split: if_splits)

lemma start_iff:
  "start_resource_no_exec m n = Inr m' \<longleftrightarrow>
     state_of m n = Some Ready \<and>
     (\<forall>d \<in> set (unwrap_or (map_of (rm_dependencies m) n) []). state_of m d \<in> {Some Ready, Some Started}) \<and>
     m' = with_state m n Started None"
proof (cases "state_of m n = Some Ready")
  case True
  then have "current_state m n = Inr Ready"
    by (simp add: current_state_iff)
  with True show ?thesis
    by (simp add: start_resource_no_exec_def res_bind_Inr_iff set_state_iff check_dependencies_ok)
next
  case False
  then show ?thesis
    by (cases "state_of m n") (simp_all add: start_resource_no_exec_def current_state_eq)
qed

lemma fail_iff:
  "fail_resource m n msg = Inr m' \<longleftrightarrow>
     state_of m n \<notin> {None, Some Stopped, Some Failed} \<and> m' = with_state m n Failed (Some msg)"
  by (cases "state_of m n") (simp_all add: fail_resource_def current_state_eq set_state_iff)

lemmas runtime_iffs = validate_resource_def stop_resource_def transition_iff mark_ready_iff start_iff fail_iff

text \<open>Every successful call is one update of one status along an edge of the machine.\<close>

definition moved ::
  "string \<Rightarrow> ResourceRuntimeState \<Rightarrow> ResourceRuntimeState \<Rightarrow> string option \<Rightarrow>
   ResourceRuntimeStateMachine \<Rightarrow> ResourceRuntimeStateMachine \<Rightarrow> bool" where
  "moved n s t msg m m' \<longleftrightarrow>
     state_of m n = Some s \<and> (s, t) \<in> allowed_edges \<and> (msg = None \<longleftrightarrow> t \<noteq> Failed) \<and>
     m' = with_state m n t msg"

lemma failable: "(s, Failed) \<in> allowed_edges \<longleftrightarrow> s \<notin> {Stopped, Failed}"
  by (cases s) (simp_all add: allowed_edges_def)

lemma runtime_apply_moves:
  assumes "runtime_apply op m = Inr m'"
  shows "\<exists>n s t msg. moved n s t msg m m'"
proof (cases op)
  case (OpFail n msg)
  with assms obtain s where "state_of m n = Some s" "s \<notin> {Stopped, Failed}"
    "m' = with_state m n Failed (Some msg)"
    by (auto simp: fail_iff)
  then have "moved n s Failed (Some msg) m m'"
    by (simp add: moved_def failable)
  then show ?thesis by blast
qed (use assms in \<open>force simp: runtime_iffs moved_def allowed_edges_def\<close>)+

lemma state_of_with_state:
  "state_of (with_state m n t msg) k = (if k = n then map_option (\<lambda>_. t) (state_of m k) else state_of m k)"
  by (simp add: with_state_def state_of_def status_def bt_get_adjust option.map_comp comp_def)

lemma status_with_state:
  "status (with_state m n t msg) k =
     map_option (\<lambda>st. if k = n then st\<lparr>rs_state := t, rs_message := msg\<rparr> else st) (status m k)"
  by (simp add: with_state_def status_def bt_get_adjust option.map_ident)

lemma with_state_frame [simp]:
  "rm_order (with_state m n t msg) = rm_order m"
  "rm_dependencies (with_state m n t msg) = rm_dependencies m"
  "map fst (rm_statuses (with_state m n t msg)) = map fst (rm_statuses m)"
  by (simp_all add: with_state_def)

text \<open>The invariant of every reachable machine.\<close>

definition runtime_invar :: "ResourceLoadPlan \<Rightarrow> ResourceRuntimeStateMachine \<Rightarrow> bool" where
  "runtime_invar plan m \<longleftrightarrow>
     rm_order m = map pl_name plan \<and>
     rm_dependencies m = bt_collect (map (\<lambda>p. (pl_name p, pl_dependencies p)) plan) \<and>
     {n. status m n \<noteq> None} = set (map pl_name plan) \<and>
     (\<forall>n st. status m n = Some st \<longrightarrow>
        rs_name st = n \<and> (rs_message st = None \<longleftrightarrow> rs_state st \<noteq> Failed))"

lemma from_load_plan_status:
  "status (from_load_plan plan) n =
     (if n \<in> set (map pl_name plan) then Some \<lparr>rs_name = n, rs_state = Planned, rs_message = None\<rparr> else None)"
proof -
  have "map_of (rev (map (\<lambda>p. (pl_name p, \<lparr>rs_name = pl_name p, rs_state = Planned, rs_message = None\<rparr>)) ps)) n =
     (if n \<in> set (map pl_name ps) then Some \<lparr>rs_name = n, rs_state = Planned, rs_message = None\<rparr> else None)"
    for ps :: ResourceLoadPlan
    by (induction ps) (auto simp: map_add_def split: option.splits)
  then show ?thesis
    by (simp add: status_def from_load_plan_def bt_get_collect)
qed

lemma runtime_invar_init: "runtime_invar plan (from_load_plan plan)"
  by (auto simp: runtime_invar_def from_load_plan_status split: if_splits)
    (simp_all add: from_load_plan_def)

lemma runtime_invar_step:
  assumes "runtime_invar plan m" and "moved n s t msg m m'"
  shows "runtime_invar plan m'"
  using assms unfolding runtime_invar_def moved_def
  by (auto simp: status_with_state)

section \<open>Bringing up a plan\<close>

text \<open>The calls that start one resource, and a whole plan in order.\<close>

definition bring_up ::
  "ResourceRuntimeStateMachine \<Rightarrow> string \<Rightarrow> ResourceRuntimeError + ResourceRuntimeStateMachine" where
  "bring_up m n =
     res_bind (validate_resource m n) (\<lambda>m1.
     res_bind (mark_ready m1 n) (\<lambda>m2. start_resource_no_exec m2 n))"

fun bring_up_all ::
  "ResourceRuntimeStateMachine \<Rightarrow> string list \<Rightarrow> ResourceRuntimeError + ResourceRuntimeStateMachine" where
  "bring_up_all m [] = Inr m"
| "bring_up_all m (n # ns) = res_bind (bring_up m n) (\<lambda>m'. bring_up_all m' ns)"

interpretation bringing_up: result_loop "\<lambda>n m. bring_up m n" "\<lambda>ns m. bring_up_all m ns"
  by unfold_locales simp_all

lemma bring_up_ok:
  assumes "state_of m n = Some Planned"
    and "\<forall>d \<in> set (unwrap_or (map_of (rm_dependencies m) n) []). d \<noteq> n \<and> state_of m d = Some Started"
  shows "\<exists>m'. bring_up m n = Inr m' \<and> rm_dependencies m' = rm_dependencies m \<and>
    (\<forall>k. state_of m' k = (if k = n then Some Started else state_of m k))"
proof -
  define m1 m2 where "m1 = with_state m n Validated None" and "m2 = with_state m1 n Ready None"
  have "validate_resource m n = Inr m1" "mark_ready m1 n = Inr m2"
    using assms(1) by (simp_all add: runtime_iffs m1_def m2_def state_of_with_state)
  moreover have "start_resource_no_exec m2 n = Inr (with_state m2 n Started None)"
    using assms by (auto simp: start_iff m1_def m2_def state_of_with_state)
  ultimately have "bring_up m n = Inr (with_state m2 n Started None)"
    by (simp add: bring_up_def)
  then show ?thesis
    using assms(1) by (auto simp: m1_def m2_def state_of_with_state)
qed

lemma bring_up_all_ok:
  assumes "distinct (done @ todo)"
    and "\<forall>k \<in> set done. state_of m k = Some Started" and "\<forall>k \<in> set todo. state_of m k = Some Planned"
    and "\<forall>i < length todo. \<forall>d \<in> set (unwrap_or (map_of (rm_dependencies m) (todo ! i)) []).
           d \<in> set done \<union> set (take i todo)"
  shows "\<exists>m'. bring_up_all m todo = Inr m' \<and> (\<forall>k \<in> set (done @ todo). state_of m' k = Some Started)"
  using assms
proof (induction todo arbitrary: m "done")
  case (Cons n todo)
  have "\<forall>d \<in> set (unwrap_or (map_of (rm_dependencies m) n) []). d \<noteq> n \<and> state_of m d = Some Started"
    using Cons.prems(1,2,4) by force
  then obtain m' where m': "bring_up m n = Inr m'" "rm_dependencies m' = rm_dependencies m"
    "\<forall>k. state_of m' k = (if k = n then Some Started else state_of m k)"
    using bring_up_ok [of m n] Cons.prems(3) by auto
  have "\<forall>i < length todo. \<forall>d \<in> set (unwrap_or (map_of (rm_dependencies m') (todo ! i)) []).
      d \<in> set (done @ [n]) \<union> set (take i todo)"
  proof (intro allI impI ballI)
    fix i d assume "i < length todo" and d: "d \<in> set (unwrap_or (map_of (rm_dependencies m') (todo ! i)) [])"
    then have "Suc i < length (n # todo)" by simp
    with Cons.prems(4) d m'(2) have "d \<in> set done \<union> set (take (Suc i) (n # todo))"
      by (metis nth_Cons_Suc)
    then show "d \<in> set (done @ [n]) \<union> set (take i todo)" by auto
  qed
  moreover have "\<forall>k \<in> set (done @ [n]). state_of m' k = Some Started"
    "\<forall>k \<in> set todo. state_of m' k = Some Planned"
    using Cons.prems m'(3) by auto
  ultimately have "\<exists>m''. bring_up_all m' todo = Inr m'' \<and>
      (\<forall>k \<in> set ((done @ [n]) @ todo). state_of m'' k = Some Started)"
    using Cons.prems(1) by (intro Cons.IH) simp_all
  with m'(1) show ?case by simp
qed simp

lemma resolved_order_starts_all:
  assumes "registry_ok reg" and "resolve_load_order reg = Inr order"
    and "build_load_plan reg order = Inr plan"
  shows "map pl_name plan = order \<and> (\<exists>m. bring_up_all (from_load_plan plan) order = Inr m \<and>
    (\<forall>n \<in> dom (map_of reg). state_of m n = Some Started))"
proof -
  have inv: "bt_invar reg" using assms(1) by (simp add: registry_ok_def)
  note resolved = resolve_ok [OF inv assms(2)]
  have plan: "plan = map (\<lambda>k. plan_resource (the (map_of reg k))) order"
    using build_load_plan_ok [of order reg] assms(3) resolved(3) by simp
  have member: "\<exists>r. map_of reg k = Some r \<and> rr_name r = k" if "k \<in> set order" for k
    using that assms(1) resolved(3) by (auto simp: registry_ok_def)
  have names: "map pl_name plan = order"
    unfolding plan map_map by (intro map_idI) (auto simp: plan_resource_def dest!: member)
  have deps: "unwrap_or (map_of (rm_dependencies (from_load_plan plan)) k) [] = depends reg k"
    if "k \<in> set order" for k
  proof -
    obtain r where r: "map_of reg k = Some r" "rr_name r = k"
      using member [OF \<open>k \<in> set order\<close>] by blast
    have pairs: "map (\<lambda>p. (pl_name p, pl_dependencies p)) plan = map (\<lambda>k. (k, depends reg k)) order"
      unfolding plan map_map by (auto simp: plan_resource_def depends_def dest!: member)
    have "map_of (rev (map (\<lambda>k. (k, depends reg k)) order)) k = Some (depends reg k)"
      using \<open>k \<in> set order\<close> by (simp add: rev_map map_of_map_restrict)
    then show ?thesis
      by (simp add: from_load_plan_def bt_get_collect pairs)
  qed
  have "\<exists>m'. bring_up_all (from_load_plan plan) order = Inr m' \<and>
      (\<forall>k \<in> set ([] @ order). state_of m' k = Some Started)"
  proof (rule bring_up_all_ok)
    show "\<forall>k \<in> set order. state_of (from_load_plan plan) k = Some Planned"
      unfolding names [symmetric] by (simp add: state_of_def from_load_plan_status)
    show "\<forall>i < length order. \<forall>d \<in> set (unwrap_or (map_of (rm_dependencies (from_load_plan plan)) (order ! i)) []).
        d \<in> set [] \<union> set (take i order)"
      using resolved(4) deps by (auto simp: topological_def)
  qed (use resolved(2) in simp_all)
  with names resolved(3) show ?thesis by simp
qed

definition demo_plan :: ResourceLoadPlan where
  "demo_plan = map (\<lambda>k. plan_resource (the (map_of demo_registry k))) [''c'', ''a'', ''b'']"

lemma demo_plan_built: "build_load_plan demo_registry [''c'', ''a'', ''b''] = Inr demo_plan"
  unfolding demo_plan_def using demo_depends(3) by (intro build_load_plan_ok) (auto simp: dom_def)

section \<open>Properties\<close>

text \<open>C37: In every reachable machine the order and the dependencies of each resource are those of the
  plan (the last entry of a name that is planned twice), exactly the planned resources have a status,
  and a status carries a message exactly when it is failed.\<close>

theorem runtime_invariant:
  assumes "runtime_reachable plan m"
  shows "rm_order m = map pl_name plan \<and>
    map_of (rm_dependencies m) = map_of (rev (map (\<lambda>p. (pl_name p, pl_dependencies p)) plan)) \<and>
    {n. status m n \<noteq> None} = set (map pl_name plan) \<and>
    (\<forall>n st. status m n = Some st \<longrightarrow>
       rs_name st = n \<and> (rs_message st = None \<longleftrightarrow> rs_state st \<noteq> Failed))"
proof -
  have "runtime_invar plan m"
    using assms
  proof induction
    case init
    show ?case by (rule runtime_invar_init)
  next
    case (step m op m')
    then show ?case
      using runtime_apply_moves runtime_invar_step by blast
  qed
  then show ?thesis
    by (auto simp: runtime_invar_def bt_get_collect)
qed

theorem runtime_invariant_witness:
  "rm_order (from_load_plan demo_plan) = [''c'', ''a'', ''b''] \<and>
   map_of (rm_dependencies (from_load_plan demo_plan)) ''b'' = Some (pl_dependencies (demo_plan ! 2))"
  using runtime_invariant [OF runtime_reachable.init [of demo_plan]]
  by (simp add: demo_plan_def demo_registry_def demo_registered_def plan_resource_def)

text \<open>A successful call moves exactly one resource along one edge of the state machine and leaves
  every other status as it was; a failed resource is never the one that moves.\<close>

theorem runtime_call_moves_one:
  assumes "runtime_apply op m = Inr m'"
  shows "\<exists>n s t. (s, t) \<in> allowed_edges \<and> s \<noteq> Failed \<and> state_of m n = Some s \<and> state_of m' n = Some t \<and>
    (\<forall>k. k \<noteq> n \<longrightarrow> status m' k = status m k)"
proof -
  obtain n s t msg where "moved n s t msg m m'"
    using runtime_apply_moves [OF assms] by blast
  moreover from this have "s \<noteq> Failed"
    by (auto simp: moved_def allowed_edges_def)
  ultimately show ?thesis
    by (intro exI [of _ n] exI [of _ s] exI [of _ t])
      (simp add: moved_def state_of_with_state status_with_state option.map_ident)
qed

theorem runtime_call_moves_one_witness:
  "\<exists>m' n s t. validate_resource (from_load_plan demo_plan) ''c'' = Inr m' \<and> (s, t) \<in> allowed_edges \<and>
     state_of (from_load_plan demo_plan) n = Some s \<and> state_of m' n = Some t"
proof -
  have "is_ok (runtime_apply (OpValidate ''c'') (from_load_plan demo_plan))"
    by code_simp
  then obtain m' where m': "runtime_apply (OpValidate ''c'') (from_load_plan demo_plan) = Inr m'"
    by (cases "runtime_apply (OpValidate ''c'') (from_load_plan demo_plan)") auto
  from runtime_call_moves_one [OF this] m' show ?thesis
    by fastforce
qed

text \<open>Starting a resource succeeds exactly when it is ready and every declared dependency is ready
  or started; otherwise the error names the reason: an unknown resource, a failed one, an
  illegal transition, or the first dependency that is not ready.\<close>

theorem start_requires_ready_dependencies:
  "(\<exists>m'. start_resource_no_exec m n = Inr m') \<longleftrightarrow>
     state_of m n = Some Ready \<and>
     (\<forall>d \<in> set (unwrap_or (map_of (rm_dependencies m) n) []). state_of m d \<in> {Some Ready, Some Started})"
  unfolding start_iff by blast

theorem start_requires_ready_dependencies_witness:
  "\<not> is_ok (start_resource_no_exec (from_load_plan demo_plan) ''c'') \<and>
   (\<exists>m'. res_bind (validate_resource (from_load_plan demo_plan) ''c'')
     (\<lambda>m. res_bind (mark_ready m ''c'') (\<lambda>m. start_resource_no_exec m ''c'')) = Inr m')"
proof
  show "\<not> is_ok (start_resource_no_exec (from_load_plan demo_plan) ''c'')"
    by code_simp
  define m where "m = projr (res_bind (validate_resource (from_load_plan demo_plan) ''c'') (\<lambda>m. mark_ready m ''c''))"
  have "res_bind (validate_resource (from_load_plan demo_plan) ''c'') (\<lambda>m. mark_ready m ''c'') = Inr m \<and>
      state_of m ''c'' = Some Ready \<and> unwrap_or (map_of (rm_dependencies m) ''c'') [] = []"
    unfolding m_def by code_simp
  moreover from this have "\<exists>m'. start_resource_no_exec m ''c'' = Inr m'"
    unfolding start_requires_ready_dependencies by simp
  ultimately show "\<exists>m'. res_bind (validate_resource (from_load_plan demo_plan) ''c'')
      (\<lambda>m. res_bind (mark_ready m ''c'') (\<lambda>m. start_resource_no_exec m ''c'')) = Inr m'"
    by (auto simp: res_bind_Inr_iff)
qed

text \<open>A resolved load order can be executed: for every registry that resolves, the machine built from
  its load plan accepts validating, readying and starting the resources in that order without
  an error, and at the end every resource is started.\<close>

theorem resolved_order_brings_everything_up:
  assumes "registry_ok reg" and "resolve_load_order reg = Inr order"
    and "build_load_plan reg order = Inr plan"
  shows "\<exists>m. bring_up_all (from_load_plan plan) order = Inr m \<and>
    (\<forall>n \<in> dom (map_of reg). state_of m n = Some Started)"
  using resolved_order_starts_all [OF assms] by simp

theorem resolved_order_brings_everything_up_witness:
  "\<exists>m. bring_up_all (from_load_plan demo_plan) [''c'', ''a'', ''b''] = Inr m \<and>
     state_of m ''b'' = Some Started"
proof -
  have "rr_name r = k \<and> mf_name (rr_manifest r) = k \<and> validate_manifest (rr_manifest r) = Inr ()"
    if "map_of demo_registry k = Some r" for k r
  proof -
    have "list_all (\<lambda>(k, r). rr_name r = k \<and> mf_name (rr_manifest r) = k \<and>
        validate_manifest (rr_manifest r) = Inr ()) demo_registry"
      by code_simp
    with map_of_SomeD [OF that] show ?thesis
      by (auto simp: list_all_iff)
  qed
  then have "registry_ok demo_registry"
    using demo_runs(1) by (simp add: registry_ok_def)
  from resolved_order_brings_everything_up [OF this demo_runs(2) demo_plan_built] show ?thesis
    using demo_depends(3) [of "''b''"] by (auto simp: dom_def)
qed

end
