(* ===== verification/Server_Browser.thy ===== *)
theory Server_Browser
  imports Protocol_Types
begin

text \<open>
  The server list of \<^verbatim>\<open>crates/server_browser/src/lib.rs\<close>: loading with validation, and the filters by
  protocol version and game edition. Reading the file gives its text or fails; the JSON parser is an
  argument. The edition type of this crate has its own constructors, as in the source.
\<close>

datatype BrowserEdition = BrowseLegacy | BrowseEnhanced | BrowseAny | BrowseUnknown

record ServerEntry =
  se_name :: string
  address :: string
  port :: "16 word"
  current_players :: u32
  max_players :: u32
  se_protocol_version :: u32
  tags :: "string list"
  edition_compatibility :: BrowserEdition

fun validate_entries :: "ServerEntry list \<Rightarrow> string + unit" where
  "validate_entries [] = Inr ()"
| "validate_entries (e # es) =
     (if str_trim (se_name e) = [] then Inl ''server entry name cannot be empty''
      else if str_trim (address e) = [] then Inl ''server entry address cannot be empty''
      else if \<not> current_players e \<le> max_players e then Inl ''server entry current_players exceeds max_players''
      else validate_entries es)"

definition load_server_list ::
  "(string \<Rightarrow> ServerEntry list option) \<Rightarrow> string \<Rightarrow> string option \<Rightarrow> string + ServerEntry list" where
  "load_server_list from_json shown file =
     (case file of
        None \<Rightarrow> Inl (''failed to read server list: '' @ shown)
      | Some raw \<Rightarrow>
          (case from_json raw of
             None \<Rightarrow> Inl ''failed to parse server list JSON''
           | Some entries \<Rightarrow> res_bind (validate_entries entries) (\<lambda>_. Inr entries)))"

definition filter_by_protocol_version :: "ServerEntry list \<Rightarrow> u32 \<Rightarrow> ServerEntry list" where
  "filter_by_protocol_version entries version = filter (\<lambda>e. se_protocol_version e = version) entries"

definition edition_matches :: "BrowserEdition \<Rightarrow> ServerEntry \<Rightarrow> bool" where
  "edition_matches edition e =
     (case edition of
        BrowseLegacy \<Rightarrow> edition_compatibility e = BrowseLegacy \<or> edition_compatibility e = BrowseAny
      | BrowseEnhanced \<Rightarrow> edition_compatibility e = BrowseEnhanced \<or> edition_compatibility e = BrowseAny
      | BrowseAny \<Rightarrow> True
      | BrowseUnknown \<Rightarrow> edition_compatibility e = BrowseUnknown \<or> edition_compatibility e = BrowseAny)"

definition filter_by_edition :: "ServerEntry list \<Rightarrow> BrowserEdition \<Rightarrow> ServerEntry list" where
  "filter_by_edition entries edition = filter (edition_matches edition) entries"

definition filter_current_protocol :: "ServerEntry list \<Rightarrow> ServerEntry list" where
  "filter_current_protocol entries = filter_by_protocol_version entries PROTOCOL_VERSION"

text \<open>A list is loaded exactly when it parses and every entry has a name, an address and room for its players.\<close>

lemma validate_entries_ok:
  "validate_entries es = Inr () \<longleftrightarrow>
     (\<forall>e \<in> set es. str_trim (se_name e) \<noteq> [] \<and> str_trim (address e) \<noteq> [] \<and> current_players e \<le> max_players e)"
  by (induction es rule: validate_entries.induct) auto

lemma load_server_list_ok:
  "load_server_list from_json shown (Some raw) = Inr es \<longleftrightarrow>
     from_json raw = Some es \<and>
     (\<forall>e \<in> set es. str_trim (se_name e) \<noteq> [] \<and> str_trim (address e) \<noteq> [] \<and> current_players e \<le> max_players e)"
  using validate_entries_ok [of es]
  by (auto simp: load_server_list_def res_bind_Inr_iff split: option.splits)

text \<open>A server that supports any edition is offered to every edition, and the two filters commute.\<close>

lemma any_edition_offered: "edition_compatibility e = BrowseAny \<Longrightarrow> edition_matches edition e"
  by (cases edition) (simp_all add: edition_matches_def)

lemma filters_commute:
  "filter_by_edition (filter_by_protocol_version es v) ed = filter_by_protocol_version (filter_by_edition es ed) v"
  by (simp add: filter_by_edition_def filter_by_protocol_version_def conj_commute)

end
