(* ===== verification/Command_Line.thy ===== *)
theory Command_Line
  imports Capabilities Client Report_Json Resource_Runtime Server_Browser
begin

text \<open>
  The command line of the client (\<^verbatim>\<open>crates/client/src/main.rs\<close>): flags, configuration, trusted keys and
  the commands that work without a connection. A command yields what it prints and how it ends. Files
  are those of the store of \<open>Fetch_Execution\<close>; what else the process takes from its surroundings is in
  the record \<open>client_env\<close>. An error carries its outermost message, as \<^verbatim>\<open>Display\<close> of an \<^verbatim>\<open>anyhow\<close> error
  shows it. The long dash of some messages is its three bytes of UTF-8.
\<close>

section \<open>Flags\<close>

definition read_flag :: "string list \<Rightarrow> string \<Rightarrow> string option" where
  "read_flag args name = map_option snd (find (\<lambda>w. fst w = name) (zip args (tl args)))"

definition read_pair_flag :: "string list \<Rightarrow> string \<Rightarrow> (string \<times> string) option" where
  "read_pair_flag args name =
     map_option snd (find (\<lambda>w. fst w = name) (zip args (zip (tl args) (tl (tl args)))))"

definition read_flag_exists :: "string list \<Rightarrow> string \<Rightarrow> bool" where
  "read_flag_exists args name = list_ex (\<lambda>a. a = name) args"

definition parse_u64 :: "string \<Rightarrow> u64 option" where
  "parse_u64 s = map_option of_nat (parse_unsigned (2 ^ 64) s)"

definition read_u64_flag :: "string list \<Rightarrow> string \<Rightarrow> u64 \<Rightarrow> u64" where
  "read_u64_flag args name fallback = unwrap_or (Option.bind (read_flag args name) parse_u64) fallback"

definition parse_signature_policy :: "string list \<Rightarrow> SignaturePolicy" where
  "parse_signature_policy args = (if read_flag args ''--signature-policy'' = Some ''strict'' then Strict else ReportOnly)"

definition parse_heartbeat_policy :: "string list \<Rightarrow> ClientHeartbeatPolicy" where
  "parse_heartbeat_policy args =
     (if read_flag args ''--heartbeat-policy'' = Some ''strict'' then ClientStrict else ClientReportOnly)"

section \<open>The surroundings\<close>

record ClientConfig =
  addr :: string
  cfg_name :: string
  cfg_message :: string
  resource_cache :: "string option"
  trusted_keys_file :: "string option"

record TrustedKeyEntry =
  te_key_id :: string
  te_algorithm :: string
  public_key_b64 :: string

text \<open>
  Environment variables, parsers and printers of the external formats, the listing of a directory and
  what \<^verbatim>\<open>symlink_metadata\<close> finds at a path below one, the display of a path, the platform of the build,
  and the error of a connection attempt, if any.
\<close>

record ('k, 's) client_env =
  fetching :: fetch_env
  crypto_of :: "('k, 's) crypto"
  env_var :: "string \<Rightarrow> string option"
  config_from_toml :: "string \<Rightarrow> ClientConfig option"
  keys_from_toml :: "string \<Rightarrow> TrustedKeyEntry list option"
  manifest_from_toml :: "string \<Rightarrow> string + ResourceManifest"
  servers_from_json :: "string \<Rightarrow> Server_Browser.ServerEntry list option"
  announcement_from_json :: "string \<Rightarrow> string + ResourceAnnouncement"
  decode_server_line :: "string \<Rightarrow> string + ServerMessage"
  preflight_to_json :: "ResourceDownloadPreflightPlan \<Rightarrow> string + string"
  to_string_pretty :: "json \<Rightarrow> string + string"
  dir_tree :: "file_store \<Rightarrow> string \<Rightarrow> (string \<times> fs_node) list option"
  stat_below :: "file_store \<Rightarrow> string \<Rightarrow> path \<Rightarrow> cache_stat"
  path_display :: "path \<Rightarrow> string"
  target_platform :: GamePlatform
  workspace_root :: string
  connect_error :: "string \<Rightarrow> string option"

definition read_to_string :: "('k, 's) client_env \<Rightarrow> file_store \<Rightarrow> string \<Rightarrow> string option" where
  "read_to_string env fs p = Option.bind (map_of fs (path_of_string p)) (utf8_decode (fetching env))"

text \<open>\<^verbatim>\<open>std::fs::write\<close>: the file is replaced, or the call fails and leaves it alone.\<close>

definition write_file :: "('k, 's) client_env \<Rightarrow> string \<Rightarrow> string \<Rightarrow> file_store \<Rightarrow> file_store \<times> (string + unit)" where
  "write_file env p text fs =
     (case io_fail (fetching env) WriteFile (path_of_string p) of
        Some err \<Rightarrow> (fs, Inl err)
      | None \<Rightarrow> (AList.update (path_of_string p) (utf8_encode (fetching env) text) fs, Inr ()))"

section \<open>Configuration\<close>

definition default_client_config :: ClientConfig where
  "default_client_config =
     \<lparr>addr = ''127.0.0.1:7000'', cfg_name = ''dummy-client'', cfg_message = ''hello from client'',
      resource_cache = None, trusted_keys_file = None\<rparr>"

definition override :: "'a option \<Rightarrow> ('a \<Rightarrow> 'c \<Rightarrow> 'c) \<Rightarrow> 'c \<Rightarrow> 'c" where
  "override v upd cfg = (case v of None \<Rightarrow> cfg | Some x \<Rightarrow> upd x cfg)"

definition config_path :: "('k, 's) client_env \<Rightarrow> string list \<Rightarrow> string option" where
  "config_path env args =
     or_else (read_flag args ''--config'') (env_var env ''MEOWV_CLIENT_CONFIG'')"

definition base_config :: "('k, 's) client_env \<Rightarrow> file_store \<Rightarrow> string list \<Rightarrow> string + ClientConfig" where
  "base_config env fs args =
     (case config_path env args of
        None \<Rightarrow> Inr default_client_config
      | Some path \<Rightarrow>
          (case read_to_string env fs path of
             None \<Rightarrow> Inl (''failed to read client config file: '' @ path)
           | Some raw \<Rightarrow>
               (case config_from_toml env raw of
                  None \<Rightarrow> Inl ''failed to parse client config TOML''
                | Some cfg \<Rightarrow> Inr cfg)))"

definition load_client_config :: "('k, 's) client_env \<Rightarrow> file_store \<Rightarrow> string list \<Rightarrow> string + ClientConfig" where
  "load_client_config env fs args =
     res_bind (base_config env fs args) (\<lambda>c0.
       let c1 = override (env_var env ''MEOWV_CLIENT_ADDR'') (\<lambda>v c. c\<lparr>addr := v\<rparr>) c0;
           c2 = override (env_var env ''MEOWV_CLIENT_NAME'') (\<lambda>v c. c\<lparr>cfg_name := v\<rparr>) c1;
           c3 = override (env_var env ''MEOWV_CLIENT_MESSAGE'') (\<lambda>v c. c\<lparr>cfg_message := v\<rparr>) c2;
           c4 = override (env_var env ''MEOWV_RESOURCE_CACHE'') (\<lambda>v c. c\<lparr>resource_cache := Some v\<rparr>) c3;
           c5 = override (read_flag args ''--addr'') (\<lambda>v c. c\<lparr>addr := v\<rparr>) c4;
           c6 = override (read_flag args ''--name'') (\<lambda>v c. c\<lparr>cfg_name := v\<rparr>) c5;
           c7 = override (read_flag args ''--message'') (\<lambda>v c. c\<lparr>cfg_message := v\<rparr>) c6;
           c8 = override (read_flag args ''--resource-cache'') (\<lambda>v c. c\<lparr>resource_cache := Some v\<rparr>) c7;
           c9 = override (env_var env ''MEOWV_TRUSTED_KEYS'') (\<lambda>v c. c\<lparr>trusted_keys_file := Some v\<rparr>) c8
       in Inr (override (read_flag args ''--trusted-keys'') (\<lambda>v c. c\<lparr>trusted_keys_file := Some v\<rparr>) c9))"

fun decode_key_entries :: "(string \<Rightarrow> string + bytes) \<Rightarrow> TrustedKeyEntry list \<Rightarrow> string + TrustedPublicKey list" where
  "decode_key_entries decode [] = Inr []"
| "decode_key_entries decode (e # es) =
     (case decode (public_key_b64 e) of
        Inl _ \<Rightarrow> Inl (''failed to decode public_key_b64 for key '' @ [CHR 0x27] @ te_key_id e @ [CHR 0x27] @
                   '': invalid base64'')
      | Inr key_bytes \<Rightarrow>
          res_bind (decode_key_entries decode es) (\<lambda>ks.
            Inr (\<lparr>pk_key_id = te_key_id e, pk_algorithm = te_algorithm e, public_key = key_bytes\<rparr> # ks)))"

definition load_trusted_keys :: "('k, 's) client_env \<Rightarrow> file_store \<Rightarrow> string \<Rightarrow> string + TrustedPublicKey list" where
  "load_trusted_keys env fs path =
     (case read_to_string env fs path of
        None \<Rightarrow> Inl (''failed to read trusted keys file: '' @ path)
      | Some raw \<Rightarrow>
          (case keys_from_toml env raw of
             None \<Rightarrow> Inl ''failed to parse trusted keys TOML''
           | Some entries \<Rightarrow> decode_key_entries (base64_decode (crypto_of env)) entries))"

definition keys_as_identity :: "TrustedPublicKey list \<Rightarrow> TrustedKey list" where
  "keys_as_identity keys = map (\<lambda>k. \<lparr>tk_key_id = pk_key_id k, tk_algorithm = pk_algorithm k\<rparr>) keys"

section \<open>Texts\<close>

primrec format_edition :: "BrowserEdition \<Rightarrow> string" where
  "format_edition BrowseLegacy = ''legacy''"
| "format_edition BrowseEnhanced = ''enhanced''"
| "format_edition BrowseAny = ''any''"
| "format_edition BrowseUnknown = ''unknown''"

definition format_manifest_edition :: "ResourceManifest \<Rightarrow> string" where
  "format_manifest_edition m =
     (case ResourceManifest.edition_compatibility m of
        EdLegacy \<Rightarrow> ''legacy'' | EdEnhanced \<Rightarrow> ''enhanced'' | EdAny \<Rightarrow> ''any'' | EdUnknown \<Rightarrow> ''unknown'')"

primrec format_cache_status :: "CacheFileStatus \<Rightarrow> string" where
  "format_cache_status CacheValid = ''valid''"
| "format_cache_status CacheMissing = ''missing''"
| "format_cache_status CacheSizeMismatch = ''size_mismatch''"
| "format_cache_status CacheHashMismatch = ''hash_mismatch''"

primrec format_runtime_phase :: "ResourceRuntimePhase \<Rightarrow> string" where
  "format_runtime_phase PhasePlanned = ''planned''"
| "format_runtime_phase PhaseValidated = ''validated''"
| "format_runtime_phase PhaseReady = ''ready''"
| "format_runtime_phase PhaseSkipped = ''skipped''"

primrec format_runtime_state :: "ResourceRuntimeState \<Rightarrow> string" where
  "format_runtime_state Planned = ''planned''"
| "format_runtime_state Validated = ''validated''"
| "format_runtime_state Ready = ''ready''"
| "format_runtime_state Started = ''started''"
| "format_runtime_state Stopped = ''stopped''"
| "format_runtime_state Failed = ''failed''"

primrec format_join_gate_mode :: "JoinGateMode \<Rightarrow> string" where
  "format_join_gate_mode Protocol_Types.DryRun = ''dry_run''"
| "format_join_gate_mode Enforced = ''enforced''"

primrec format_join_gate_outcome :: "JoinGateOutcome \<Rightarrow> string" where
  "format_join_gate_outcome WouldAllow = ''would_allow''"
| "format_join_gate_outcome WouldWarn = ''would_warn''"
| "format_join_gate_outcome WouldBlock = ''would_block''"

primrec format_signature_status :: "SignatureVerificationStatus \<Rightarrow> string" where
  "format_signature_status NotProvided = ''not_provided''"
| "format_signature_status StatusUnsupportedAlgorithm = ''unsupported_algorithm''"
| "format_signature_status StatusInvalid = ''invalid''"
| "format_signature_status StatusValid = ''valid''"
| "format_signature_status NotChecked = ''not_checked''"

primrec format_compatibility_status :: "CompatibilityStatus \<Rightarrow> string" where
  "format_compatibility_status Compatible = ''compatible''"
| "format_compatibility_status Manifest.Incompatible = ''incompatible''"
| "format_compatibility_status CompatUnknown = ''unknown''"

definition parse_game_edition :: "string \<Rightarrow> string + GameEdition" where
  "parse_game_edition value =
     (if value = ''legacy'' then Inr GameLegacy
      else if value = ''enhanced'' then Inr GameEnhanced
      else if value = ''unknown'' then Inr GameUnknown
      else Inl (''invalid --game-edition: '' @ value))"

definition parse_game_platform :: "string \<Rightarrow> string + GamePlatform" where
  "parse_game_platform value =
     (if value = ''windows'' then Inr OnWindows
      else if value = ''linux'' then Inr OnLinux
      else if value = ''unknown'' then Inr OnUnknown
      else Inl (''invalid --game-platform: '' @ value))"

definition summarize_list :: "string list \<Rightarrow> string" where
  "summarize_list values = (if values = [] then ''<none>'' else str_join '', '' values)"

definition format_dependencies :: "ResourceManifest \<Rightarrow> string option" where
  "format_dependencies m = (if mf_dependencies m = [] then None else Some (str_join '', '' (mf_dependencies m)))"

definition format_capabilities :: "ProtocolCapability list \<Rightarrow> string" where
  "format_capabilities caps = (if caps = [] then ''<none>'' else str_join '', '' (map cap_debug caps))"

definition login_capability_set :: "LoginCapabilities \<Rightarrow> ProtocolCapability list" where
  "login_capability_set caps = sort_dedup (lc_required caps @ lc_optional caps)"

primrec negotiation_status_debug :: "ProtocolNegotiationStatus \<Rightarrow> string" where
  "negotiation_status_debug ExactMatch = ''ExactMatch''"
| "negotiation_status_debug CompatibleDryRun = ''CompatibleDryRun''"
| "negotiation_status_debug Capabilities.Incompatible = ''Incompatible''"

primrec version_debug :: "u32 option \<Rightarrow> string" where
  "version_debug None = ''None''"
| "version_debug (Some v) = ''Some('' @ show_u32 v @ '')''"

primrec policy_debug :: "SignaturePolicy \<Rightarrow> string" where
  "policy_debug ReportOnly = ''ReportOnly''"
| "policy_debug Strict = ''Strict''"

definition pad_right :: "nat \<Rightarrow> string \<Rightarrow> string" where
  "pad_right n s = s @ replicate (n - length s) CHR '' ''"

definition em_dash :: string where
  "em_dash = [CHR 0xE2, CHR 0x80, CHR 0x94]"

definition or_none :: "string option \<Rightarrow> string" where
  "or_none v = unwrap_or v ''<none>''"

section \<open>Commands\<close>

text \<open>
  A line or text on the standard output, a line on the standard error. A command fails with a message
  or panics; what it printed before stays printed.
\<close>

datatype console = Out string | OutText string | Err string

datatype failure = Fails string | Panics

type_synonym 'a cmd = "console list \<times> (failure + 'a)"

fun cmd_bind :: "'a cmd \<Rightarrow> ('a \<Rightarrow> 'b cmd) \<Rightarrow> 'b cmd" where
  "cmd_bind (out, Inl e) f = (out, Inl e)"
| "cmd_bind (out, Inr x) f = (case f x of (out', r) \<Rightarrow> (out @ out', r))"

definition say :: "string list \<Rightarrow> unit cmd" where
  "say ls = (map Out ls, Inr ())"

definition fails :: "string \<Rightarrow> 'a cmd" where
  "fails msg = ([], Inl (Fails msg))"

definition from_result :: "string + 'a \<Rightarrow> 'a cmd" where
  "from_result r = ([], map_sum Fails id r)"

definition print_server_list :: "('k, 's) client_env \<Rightarrow> file_store \<Rightarrow> string \<Rightarrow> unit cmd" where
  "print_server_list env fs path =
     cmd_bind (from_result (load_server_list (servers_from_json env) path (read_to_string env fs path))) (\<lambda>entries.
       say ((pad_right 24 ''NAME'' @ '' '' @ pad_right 21 ''ADDRESS'' @ '' '' @ pad_right 9 ''PLAYERS'' @ '' '' @
             pad_right 8 ''PROTO'' @ '' '' @ pad_right 10 ''EDITION'' @ '' TAGS'') #
            map (\<lambda>e. pad_right 24 (se_name e) @ '' '' @
                  pad_right 21 (address e @ '':'' @ show_nat (unat (port e))) @ '' '' @
                  pad_right 9 (show_u32 (current_players e) @ ''/'' @ show_u32 (max_players e)) @ '' '' @
                  pad_right 8 (show_u32 (se_protocol_version e)) @ '' '' @
                  pad_right 10 (format_edition (ServerEntry.edition_compatibility e)) @ '' '' @
                  str_join '','' (tags e)) (filter_current_protocol entries)))"

definition manifest_at :: "('k, 's) client_env \<Rightarrow> file_store \<Rightarrow> string \<Rightarrow> string + ResourceManifest" where
  "manifest_at env fs path =
     (case map_of fs (path_of_string path) of
        None \<Rightarrow> Inl (''failed to read resource manifest: '' @ path)
      | Some content \<Rightarrow> load_manifest_from_path (manifest_from_toml env) (utf8_decode (fetching env)) path content)"

definition print_resource_manifest :: "('k, 's) client_env \<Rightarrow> file_store \<Rightarrow> string \<Rightarrow> unit cmd" where
  "print_resource_manifest env fs path =
     cmd_bind (from_result (manifest_at env fs path)) (\<lambda>m.
       say [''Name: '' @ mf_name m, ''Version: '' @ mf_version m, ''Description: '' @ or_none (mf_description m),
            ''Authors: '' @ str_join '', '' (mf_authors m), ''License: '' @ or_none (mf_license m),
            ''Protocol: '' @ show_u32 (mf_protocol_version m), ''Edition: '' @ format_manifest_edition m,
            ''Server Entrypoint: '' @ or_none (entry_server m), ''Client Entrypoint: '' @ or_none (entry_client m),
            ''Dependencies: '' @ or_none (format_dependencies m), ''Tags: '' @ str_join '', '' (mf_tags m)])"

definition pack_index_at :: "('k, 's) client_env \<Rightarrow> file_store \<Rightarrow> string \<Rightarrow> string + ResourcePackIndex" where
  "pack_index_at env fs dir =
     build_pack_index (manifest_from_toml env) (utf8_decode (fetching env)) (file_sha256 (fetching env))
       (join_text dir ''resource.toml'') (unwrap_or (dir_tree env fs dir) [])"

definition print_resource_index :: "('k, 's) client_env \<Rightarrow> file_store \<Rightarrow> string \<Rightarrow> unit cmd" where
  "print_resource_index env fs path =
     cmd_bind (from_result (pack_index_at env fs path)) (\<lambda>index.
       say ([''Name: '' @ mf_name (pk_manifest index), ''Version: '' @ mf_version (pk_manifest index),
             ''Files: '' @ show_nat (length (pk_files index)),
             ''Total Size: '' @ show_u64 (total_size_bytes index) @ '' bytes''] @
            map (\<lambda>f. ''- '' @ path_display env (fe_relative_path f) @ '' | '' @ show_u64 (fe_size_bytes f) @ '' bytes | '' @
                  fe_sha256 f) (pk_files index)))"

definition verify_cache_at ::
  "('k, 's) client_env \<Rightarrow> file_store \<Rightarrow> string \<Rightarrow> string \<Rightarrow> string + CacheVerificationReport" where
  "verify_cache_at env fs resource_dir cache_dir =
     verify_cache_for_resource (manifest_from_toml env) (utf8_decode (fetching env)) (file_sha256 (fetching env))
       (join_text resource_dir ''resource.toml'') (unwrap_or (dir_tree env fs resource_dir) []) (stat_below env fs cache_dir)"

definition print_cache_verification :: "('k, 's) client_env \<Rightarrow> file_store \<Rightarrow> string \<Rightarrow> string \<Rightarrow> unit cmd" where
  "print_cache_verification env fs resource_dir cache_dir =
     cmd_bind (from_result (verify_cache_at env fs resource_dir cache_dir)) (\<lambda>report.
       say ([''Valid: '' @ show_nat (valid_count report), ''Missing: '' @ show_nat (missing_count report),
             ''Size Mismatch: '' @ show_nat (size_mismatch_count report),
             ''Hash Mismatch: '' @ show_nat (hash_mismatch_count report)] @
            map (\<lambda>e. ''- '' @ path_display env (cv_relative_path e) @ '' | '' @ format_cache_status (cv_status e) @
                  '' | expected '' @ show_u64 (expected_size_bytes e) @ '' bytes | actual '' @
                  unwrap_or (map_option show_u64 (actual_size_bytes e)) ''<missing>'' @ '' bytes | expected '' @
                  expected_sha256 e @ '' | actual '' @ unwrap_or (actual_sha256 e) ''<missing>'') (cv_entries report) @
            [''Result: '' @ (if is_fully_valid report then ''OK'' else ''FAILED'')]))"

definition print_cache_repair_plan :: "('k, 's) client_env \<Rightarrow> file_store \<Rightarrow> string \<Rightarrow> string \<Rightarrow> unit cmd" where
  "print_cache_repair_plan env fs resource_dir cache_dir =
     cmd_bind (from_result (verify_cache_at env fs resource_dir cache_dir)) (\<lambda>report.
       let plan = build_cache_repair_plan report
       in say ([cache_repair_plan_to_text (path_display env) plan] @
               (if is_noop plan then [''Cache is fully valid, no repair needed.''] else []) @
               [''No files were downloaded, modified, or executed.'']))"

text \<open>An error of the registry is shown by its message, or is a panic.\<close>

definition registry_failure :: "('k, 's) client_env \<Rightarrow> DependencyResolutionError \<Rightarrow> failure" where
  "registry_failure env e = (if e = Panicked then Panics else Fails (dependency_error_text (path_display env) e))"

definition discover_at ::
  "('k, 's) client_env \<Rightarrow> file_store \<Rightarrow> string \<Rightarrow> DependencyResolutionError + ResourceRegistry" where
  "discover_at env fs root =
     (case dir_tree env fs root of
        None \<Rightarrow> Inl (DiscoveryError (''failed to read resources root: '' @ root))
      | Some es \<Rightarrow> discover_resources (manifest_from_toml env) (utf8_decode (fetching env)) (path_of_string root) es)"

definition print_resource_registry :: "('k, 's) client_env \<Rightarrow> file_store \<Rightarrow> string \<Rightarrow> unit cmd" where
  "print_resource_registry env fs path =
     cmd_bind ([], map_sum (registry_failure env) id
         (res_bind (discover_at env fs path) (\<lambda>reg.
          res_bind (resolve_load_order reg) (\<lambda>order. Inr (reg, order)))))
       (\<lambda>(reg, order).
          say ([''Discovered Resources: '' @ show_nat (length reg)] @
               map (\<lambda>(_, r). ''- '' @ rr_name r @ '' | deps: '' @
                     (if mf_dependencies (rr_manifest r) = [] then ''<none>''
                      else str_join '', '' (mf_dependencies (rr_manifest r)))) reg @
               [''Load Order: '' @ str_join '' -> '' order]))"

definition load_plan_at ::
  "('k, 's) client_env \<Rightarrow> file_store \<Rightarrow> string \<Rightarrow> DependencyResolutionError + ResourceLoadPlan" where
  "load_plan_at env fs root =
     (case dir_tree env fs root of
        None \<Rightarrow> Inl (DiscoveryError (''failed to read resources root: '' @ root))
      | Some es \<Rightarrow>
          build_load_plan_from_root (manifest_from_toml env) (utf8_decode (fetching env)) (path_of_string root) es)"

definition entrypoints_text :: "(path \<Rightarrow> string) \<Rightarrow> ResourceEntrypointKind \<Rightarrow> PlannedResource \<Rightarrow> string" where
  "entrypoints_text path_text kind r =
     (let ps = map (\<lambda>e. path_text (ep_path e)) (filter (\<lambda>e. ep_kind e = kind) (pl_entrypoints r))
      in if ps = [] then ''<none>'' else str_join '', '' ps)"

definition dependencies_line :: "PlannedResource \<Rightarrow> string" where
  "dependencies_line r =
     ''  Dependencies: '' @ (if pl_dependencies r = [] then ''<none>'' else str_join '', '' (pl_dependencies r))"

definition print_resource_load_plan :: "('k, 's) client_env \<Rightarrow> file_store \<Rightarrow> string \<Rightarrow> unit cmd" where
  "print_resource_load_plan env fs path =
     cmd_bind ([], map_sum (registry_failure env) id (load_plan_at env fs path)) (\<lambda>plan.
       say ([''Resource Load Order: '' @ show_nat (length plan)] @
            concat (map (\<lambda>r. [''- '' @ pl_name r, dependencies_line r, ''  Phase: '' @ format_runtime_phase (pl_phase r),
              ''  Server Entrypoints: '' @ entrypoints_text (path_display env) ResourceEntrypointKind.ServerEntry r,
              ''  Client Entrypoints: '' @ entrypoints_text (path_display env) ClientEntry r]) plan) @
            [''No scripts were executed.'']))"

fun run_runtime_plan ::
  "PlannedResource list \<Rightarrow> ResourceRuntimeStateMachine \<Rightarrow> ResourceRuntimeError + ResourceRuntimeStateMachine" where
  "run_runtime_plan [] m = Inr m"
| "run_runtime_plan (r # rs) m =
     res_bind (validate_resource m (pl_name r)) (\<lambda>m1.
     res_bind (mark_ready m1 (pl_name r)) (\<lambda>m2.
     res_bind (start_resource_no_exec m2 (pl_name r)) (run_runtime_plan rs)))"

fun print_runtime_statuses :: "ResourceRuntimeStateMachine \<Rightarrow> PlannedResource list \<Rightarrow> unit cmd" where
  "print_runtime_statuses m [] = say [''No scripts were executed.'']"
| "print_runtime_statuses m (r # rs) =
     (case status m (pl_name r) of
        None \<Rightarrow> ([], Inl Panics)
      | Some st \<Rightarrow>
          cmd_bind (say [''- '' @ pl_name r, dependencies_line r, ''  Final State: '' @ format_runtime_state (rs_state st),
                         ''  Message: '' @ or_none (rs_message st)])
            (\<lambda>_. print_runtime_statuses m rs))"

definition print_resource_runtime_plan :: "('k, 's) client_env \<Rightarrow> file_store \<Rightarrow> string \<Rightarrow> unit cmd" where
  "print_resource_runtime_plan env fs path =
     cmd_bind ([], map_sum (registry_failure env) id (load_plan_at env fs path)) (\<lambda>plan.
     cmd_bind (from_result (map_sum runtime_error_text id (run_runtime_plan plan (from_load_plan plan)))) (\<lambda>m.
       print_runtime_statuses m plan))"

definition compatibility_context ::
  "GamePlatform \<Rightarrow> string list \<Rightarrow> string + CompatibilityContext" where
  "compatibility_context target args =
     res_bind (case read_flag args ''--game-edition'' of
         None \<Rightarrow> Inr (default_compatibility_context target)
       | Some raw \<Rightarrow> res_bind (parse_game_edition raw) (\<lambda>v.
           Inr ((default_compatibility_context target)\<lparr>ctx_game_edition := v\<rparr>))) (\<lambda>ctx.
       case read_flag args ''--game-platform'' of
         None \<Rightarrow> Inr ctx
       | Some raw \<Rightarrow> res_bind (parse_game_platform raw) (\<lambda>v. Inr (ctx\<lparr>ctx_platform := v\<rparr>)))"

definition print_resource_compatibility :: "('k, 's) client_env \<Rightarrow> file_store \<Rightarrow> string list \<Rightarrow> string \<Rightarrow> unit cmd" where
  "print_resource_compatibility env fs args path =
     cmd_bind (from_result (manifest_at env fs path)) (\<lambda>m.
     cmd_bind (from_result (compatibility_context (target_platform env) args)) (\<lambda>ctx.
       let report = evaluate_manifest_compatibility m ctx
       in say ((''Compatibility Status: '' @ format_compatibility_status (compat_status report)) #
            (if compat_issues report = [] then [''Issues: <none>'']
             else map (\<lambda>i. ''- '' @ issue_code i @ '': '' @ issue_message i) (compat_issues report)))))"

definition own_profile :: ProtocolCompatibilityProfile where
  "own_profile = \<lparr>version_range = \<lparr>vr_min = PROTOCOL_VERSION, vr_max = PROTOCOL_VERSION\<rparr>,
     capabilities = login_capability_set current_login_capabilities\<rparr>"

definition print_protocol_negotiation_dry_run :: "unit cmd" where
  "print_protocol_negotiation_dry_run =
     (case negotiate_protocol_dry_run own_profile current_protocol_profile of
        Inl _ \<Rightarrow> ([], Inl Panics)
      | Inr result \<Rightarrow>
          say [''Local Capabilities: '' @ format_capabilities (capabilities current_protocol_profile),
               ''Protocol Negotiation (dry-run): '' @ negotiation_status_debug (neg_status result),
               ''  Selected Version: '' @ version_debug (selected_version result),
               ''  Shared Capabilities: '' @ format_capabilities (neg_shared_capabilities result),
               ''  Reason: '' @ neg_reason result,
               ''  (Active policy: exact version match only)''])"

section \<open>Commands on an announcement file\<close>

definition print_trusted_keys_summary :: "TrustedPublicKey list \<Rightarrow> string" where
  "print_trusted_keys_summary keys =
     ''Trusted keys loaded: '' @ show_nat (length keys) @ '' key(s) '' @ em_dash @ '' ['' @
     str_join '', '' (map pk_key_id keys) @ '']''"

definition announcement_at :: "('k, 's) client_env \<Rightarrow> file_store \<Rightarrow> string \<Rightarrow> string + ResourceAnnouncement" where
  "announcement_at env fs path =
     (case read_to_string env fs path of
        None \<Rightarrow> Inl (''failed to read announcement file: '' @ path)
      | Some raw \<Rightarrow>
          (case announcement_from_json env raw of
             Inl _ \<Rightarrow> Inl ''failed to parse ResourceAnnouncement JSON''
           | Inr ann \<Rightarrow> Inr ann))"

definition keys_for_command ::
  "('k, 's) client_env \<Rightarrow> file_store \<Rightarrow> string \<Rightarrow> string + TrustedPublicKey list" where
  "keys_for_command env fs key_path =
     (case load_trusted_keys env fs key_path of
        Inl _ \<Rightarrow> Inl (''failed to load trusted keys from '' @ [CHR 0x27] @ key_path @ [CHR 0x27])
      | Inr keys \<Rightarrow>
          (case validate_trusted_key_config keys of
             Inl e \<Rightarrow> Inl (''invalid trusted key config in '' @ [CHR 0x27] @ key_path @ [CHR 0x27] @ '': '' @
                        key_config_error_text e)
           | Inr _ \<Rightarrow> Inr keys))"

definition command_keys ::
  "('k, 's) client_env \<Rightarrow> file_store \<Rightarrow> string list \<Rightarrow> SignaturePolicy \<Rightarrow> TrustedPublicKey list cmd" where
  "command_keys env fs args policy =
     (case read_flag args ''--trusted-keys'' of
        Some key_path \<Rightarrow>
          cmd_bind (from_result (keys_for_command env fs key_path)) (\<lambda>keys.
            ([Out (print_trusted_keys_summary keys)], Inr keys))
      | None \<Rightarrow>
          (case policy of
             Strict \<Rightarrow> fails ''--signature-policy strict requires --trusted-keys <path>''
           | ReportOnly \<Rightarrow>
               ([Err (''info: no trusted keys provided '' @ em_dash @ '' using empty set'')], Inr [])))"

definition print_verify_announcement_signature ::
  "('k, 's) client_env \<Rightarrow> file_store \<Rightarrow> string \<Rightarrow> string list \<Rightarrow> SignaturePolicy \<Rightarrow> unit cmd" where
  "print_verify_announcement_signature env fs path args policy =
     cmd_bind (from_result (announcement_at env fs path)) (\<lambda>ann.
     cmd_bind (command_keys env fs args policy) (\<lambda>keys.
       if keys = [] \<and> policy = Strict then fails ''--signature-policy strict requires at least one trusted key''
       else
         let plan = build_signature_verification_plan ann (keys_as_identity keys) (read_flag_exists args ''--reject-unsigned'');
             report = execute_verification_plan (crypto_of env) ann plan keys
         in cmd_bind ([Out ''Verification Plan:'', OutText (signature_plan_to_text plan), Out ''Verification Report:'',
                       OutText (verification_report_to_text report), Out (''  Policy: '' @ policy_debug policy),
                       Out ''  (report-only: no enforcement was applied)''], Inr ()) (\<lambda>_.
              case evaluate_signature_policy report policy of
                Inr _ \<Rightarrow> say [''  Result: announcement accepted under current policy'']
              | Inl msg \<Rightarrow>
                  ([Err ''  RESULT: ANNOUNCEMENT REJECTED'', Err (''  Reason: '' @ msg)],
                   Inl (Fails ''announcement rejected by signature policy'')))))"

definition build_availability_entries ::
  "('k, 's) client_env \<Rightarrow> file_store \<Rightarrow> string option \<Rightarrow> AnnouncedResource \<Rightarrow> string + ResourceAvailabilityEntry list" where
  "build_availability_entries env fs cache r =
     availability_of_resource (\<lambda>name. verify_cache_at env fs (''examples/resources/'' @ name)) (path_display env) cache r"

definition availability_report :: "ResourceAvailabilityEntry list \<Rightarrow> ResourceAvailabilityReport" where
  "availability_report entries =
     \<lparr>avail_resources = entries, is_fully_available = list_all (\<lambda>e. avail_status e = Available) entries\<rparr>"

text \<open>The variant of the preflight text in \<^verbatim>\<open>main.rs\<close>, which also loads and checks the keys.\<close>

definition main_preflight_plan_text ::
  "('k, 's) client_env \<Rightarrow> file_store \<Rightarrow> string \<Rightarrow> string list \<Rightarrow> SignaturePolicy \<Rightarrow> string + string" where
  "main_preflight_plan_text env fs path args policy =
     res_bind (announcement_at env fs path) (\<lambda>ann.
     res_bind (case read_flag args ''--trusted-keys'' of
         Some key_path \<Rightarrow> keys_for_command env fs key_path
       | None \<Rightarrow>
           (case policy of
              Strict \<Rightarrow> Inl ''--signature-policy strict requires --trusted-keys <path>''
            | ReportOnly \<Rightarrow> Inr [])) (\<lambda>_.
     res_bind (collect_availability (build_availability_entries env fs (read_flag args ''--resource-cache''))
         (ann_resources ann)) (\<lambda>entries.
       let report = availability_report entries
       in Inr (preflight_plan_to_text (build_resource_download_preflight_plan ann report
            (check_announcement_signature_stub ann) policy (Some (evaluate_resource_policy ann report)))))))"

definition library_verify ::
  "('k, 's) client_env \<Rightarrow> file_store \<Rightarrow> string \<Rightarrow> string \<Rightarrow> string + CacheVerificationReport" where
  "library_verify env fs name = verify_cache_at env fs (join_text (workspace_root env) (''examples/resources/'' @ name))"

definition library_announcement :: "('k, 's) client_env \<Rightarrow> string \<Rightarrow> ResourceAnnouncement option" where
  "library_announcement env raw = (case announcement_from_json env raw of Inl _ \<Rightarrow> None | Inr ann \<Rightarrow> Some ann)"

definition print_resource_download_preflight ::
  "('k, 's) client_env \<Rightarrow> string \<Rightarrow> string list \<Rightarrow> SignaturePolicy \<Rightarrow> string \<Rightarrow> string option \<Rightarrow> file_store \<Rightarrow>
   file_store \<times> unit cmd" where
  "print_resource_download_preflight env path args policy output_format output_file fs =
     (let finished = (\<lambda>fs1 out. (fs1, cmd_bind out (\<lambda>_. say [''No files were downloaded, modified, or executed.''])))
      in if output_format = ''json'' then
           (case get_resource_download_preflight_plan_json (library_verify env fs) (path_display env)
                   (library_announcement env) (preflight_to_json env) path (read_to_string env fs path) args policy of
              Inl e \<Rightarrow> (fs, fails e)
            | Inr json \<Rightarrow>
                (case output_file of
                   None \<Rightarrow> finished fs (say [json])
                 | Some out_path \<Rightarrow>
                     (case write_file env out_path json fs of
                        (fs1, Inl e) \<Rightarrow> (fs1, fails e)
                      | (fs1, Inr _) \<Rightarrow> finished fs1 (say []))))
         else
           (case get_resource_download_preflight_plan_text (library_verify env fs) (path_display env)
                   (library_announcement env) path (read_to_string env fs path) args policy of
              Inl e \<Rightarrow> (fs, fails e)
            | Inr text \<Rightarrow> finished fs (say [text])))"

text \<open>
  The repair command: the flag for the cache, the announcement, the keys, the trust of the
  announcement, the plan, its execution, and the report on the console or in a file.
\<close>

definition repair_trust ::
  "('k, 's) client_env \<Rightarrow> file_store \<Rightarrow> string \<Rightarrow> string list \<Rightarrow> SignaturePolicy \<Rightarrow> string + string \<times> Trusted Announcement" where
  "repair_trust env fs path args policy =
     (case read_flag args ''--resource-cache'' of
        None \<Rightarrow> Inl ''--execute-cache-repair requires --resource-cache <path>''
      | Some cache \<Rightarrow>
          (case read_to_string env fs path of
             None \<Rightarrow> Inl (''failed to read announcement file: '' @ path)
           | Some raw \<Rightarrow>
               res_bind (case read_flag args ''--trusted-keys'' of
                   None \<Rightarrow> Inr None
                 | Some kpath \<Rightarrow> map_sum id Some (load_trusted_keys env fs kpath)) (\<lambda>keys.
                 map_sum (\<lambda>_. ''announcement trust resolution failed'') (Pair cache)
                   (resolve_announcement_trust (crypto_of env) (announcement_from_json env) raw policy keys))))"

definition print_execute_cache_repair ::
  "('k, 's) client_env \<Rightarrow> string \<Rightarrow> string list \<Rightarrow> SignaturePolicy \<Rightarrow> string \<Rightarrow> string option \<Rightarrow> file_store \<Rightarrow>
   file_store \<times> unit cmd" where
  "print_execute_cache_repair env path args policy output_format output_file fs =
     (case repair_trust env fs path args policy of
        Inl e \<Rightarrow> (fs, fails e)
      | Inr (cache, trusted) \<Rightarrow>
          (let plan = snd (plan_cache_repair (fetching env)
                 (manifest_file_at (fetching env) (cache_manifest_path (path_of_string cache)) fs)
                 (unwrap_or (dir_tree env fs cache) []) trusted)
           in case execute_cache_repair (fetching env) trusted plan
                \<lparr>dry_run = read_flag_exists args ''--dry-run'',
                 allow_manifest_repair = read_flag_exists args ''--allow-manifest-repair'',
                 allow_refetch_repair = read_flag_exists args ''--allow-refetch-repair'',
                 rc_cache_dir = Some cache\<rparr> fs of
                (fs1, report) \<Rightarrow>
                  (case (if output_format = ''json'' then to_string_pretty env (repair_report_json report)
                         else Inr (repair_report_to_text report)) of
                     Inl e \<Rightarrow> (fs1, fails e)
                   | Inr rendered \<Rightarrow>
                       (case output_file of
                          None \<Rightarrow> (fs1, say [rendered])
                        | Some out_path \<Rightarrow>
                            (case write_file env out_path rendered fs1 of
                               (fs2, Inl _) \<Rightarrow> (fs2, fails (''failed to write repair output file: '' @ out_path))
                             | (fs2, Inr _) \<Rightarrow> (fs2, say [''Repair output written to: '' @ out_path]))))))"

section \<open>Lemmas\<close>

text \<open>The two copies of the flag reader, in the library and in the binary, agree.\<close>

lemma read_flag_eq_read_cli_flag: "read_flag args name = read_cli_flag args name"
  by (induction args name rule: read_cli_flag.induct) (simp_all add: read_flag_def)

lemma cmd_bind_say: "cmd_bind (say ls) f = (map Out ls @ fst (f ()), snd (f ()))"
  by (simp add: say_def split: prod.splits)

text \<open>The runtime plan: the loop over the plan is the bring-up of its names, and keeps the invariant.\<close>

lemma run_runtime_plan_bring_up: "run_runtime_plan rs m = bring_up_all m (map pl_name rs)"
proof (induction rs arbitrary: m)
  case (Cons r rs)
  then have "run_runtime_plan rs = (\<lambda>m. bring_up_all m (map pl_name rs))"
    by (intro ext)
  then show ?case by (simp add: bring_up_def res_bind_assoc)
qed simp

lemma runtime_invar_apply:
  "runtime_invar plan m \<Longrightarrow> runtime_apply op m = Inr m' \<Longrightarrow> runtime_invar plan m'"
  using runtime_apply_moves runtime_invar_step by blast

lemma bring_up_invar: "runtime_invar plan m \<Longrightarrow> bring_up m n = Inr m' \<Longrightarrow> runtime_invar plan m'"
  unfolding bring_up_def res_bind_Inr_iff
  by (elim exE conjE) (metis runtime_apply.simps(1,2,3) runtime_invar_apply)

lemma bring_up_all_invar: "runtime_invar plan m \<Longrightarrow> bring_up_all m ns = Inr m' \<Longrightarrow> runtime_invar plan m'"
  using bringing_up.attempts_invariant [where P = "runtime_invar plan"] bring_up_invar by blast

lemma load_plan_at_registry:
  assumes "load_plan_at env fs path = Inr plan"
  shows "\<exists>reg order. registry_ok reg \<and> resolve_load_order reg = Inr order \<and> build_load_plan reg order = Inr plan"
  using assms discover_ok
  by (fastforce simp: load_plan_at_def build_load_plan_from_root_def res_bind_Inr_iff map_sum_Inr_iff
      split: option.splits)

lemma load_plan_at_starts:
  assumes "load_plan_at env fs path = Inr plan"
  shows "\<exists>m. run_runtime_plan plan (from_load_plan plan) = Inr m \<and>
    (\<forall>r \<in> set plan. status m (pl_name r) = Some \<lparr>rs_name = pl_name r, rs_state = Started, rs_message = None\<rparr>)"
proof -
  obtain reg order where reg: "registry_ok reg" "resolve_load_order reg = Inr order" "build_load_plan reg order = Inr plan"
    using load_plan_at_registry [OF assms] by blast
  obtain m where names: "map pl_name plan = order" and m: "bring_up_all (from_load_plan plan) order = Inr m"
    and started: "\<forall>n \<in> dom (map_of reg). state_of m n = Some Started"
    using resolved_order_starts_all [OF reg] by blast
  have invar: "runtime_invar plan m"
    using bring_up_all_invar [OF runtime_invar_init m] .
  have "set order = dom (map_of reg)"
    using resolve_ok(3) [OF _ reg(2)] reg(1) by (simp add: registry_ok_def)
  have "status m (pl_name r) = Some \<lparr>rs_name = pl_name r, rs_state = Started, rs_message = None\<rparr>" if "r \<in> set plan" for r
  proof -
    have "pl_name r \<in> dom (map_of reg)"
      using that names \<open>set order = dom (map_of reg)\<close> by (metis imageI list.set_map)
    with started obtain st where st: "status m (pl_name r) = Some st" "rs_state st = Started"
      by (auto simp: state_of_def)
    with invar have "rs_name st = pl_name r" "rs_message st = None"
      unfolding runtime_invar_def by auto
    with st show ?thesis by (cases st) simp
  qed
  then show ?thesis
    using m names by (auto simp: run_runtime_plan_bring_up)
qed

lemma print_started_statuses:
  assumes "\<forall>r \<in> set rs. status m (pl_name r) = Some \<lparr>rs_name = pl_name r, rs_state = Started, rs_message = None\<rparr>"
  shows "print_runtime_statuses m rs =
    (map Out (concat (map (\<lambda>r. [''- '' @ pl_name r, dependencies_line r, ''  Final State: started'', ''  Message: <none>'']) rs) @
       [''No scripts were executed.'']), Inr ())"
  using assms by (induction rs) (simp_all add: cmd_bind_say or_none_def, simp add: say_def)

text \<open>An override of a setting is an update with the first value given.\<close>

lemma override_setting:
  "override v (\<lambda>x c. c\<lparr>addr := x\<rparr>) c = c\<lparr>addr := unwrap_or v (addr c)\<rparr>"
  "override v (\<lambda>x c. c\<lparr>cfg_name := x\<rparr>) c = c\<lparr>cfg_name := unwrap_or v (cfg_name c)\<rparr>"
  "override v (\<lambda>x c. c\<lparr>cfg_message := x\<rparr>) c = c\<lparr>cfg_message := unwrap_or v (cfg_message c)\<rparr>"
  "override w (\<lambda>x c. c\<lparr>resource_cache := Some x\<rparr>) c = c\<lparr>resource_cache := or_else w (resource_cache c)\<rparr>"
  "override w (\<lambda>x c. c\<lparr>trusted_keys_file := Some x\<rparr>) c = c\<lparr>trusted_keys_file := or_else w (trusted_keys_file c)\<rparr>"
  by (simp_all add: override_def or_else_def split: option.splits)

text \<open>The files after the repair command, when its report goes to the console.\<close>

abbreviation command_config :: "string list \<Rightarrow> string \<Rightarrow> CacheRepairConfig" where
  "command_config args cache \<equiv>
     \<lparr>dry_run = read_flag_exists args ''--dry-run'',
      allow_manifest_repair = read_flag_exists args ''--allow-manifest-repair'',
      allow_refetch_repair = read_flag_exists args ''--allow-refetch-repair'', rc_cache_dir = Some cache\<rparr>"

lemma fst_case_sum: "fst (case r of Inl e \<Rightarrow> (fs, f e) | Inr x \<Rightarrow> (fs, g x)) = fs"
  by (cases r) simp_all

lemma write_file_elsewhere: "path_of_string q \<noteq> p \<Longrightarrow> map_of (fst (write_file env q text fs)) p = map_of fs p"
  by (simp add: write_file_def store_simps split: option.split)

lemma repair_command_untrusted:
  "repair_trust env fs path args policy = Inl e \<Longrightarrow>
   fst (print_execute_cache_repair env path args policy output_format output_file fs) = fs"
  by (simp add: print_execute_cache_repair_def)

text \<open>The report is the only file the command writes beside those of the repair.\<close>

lemma repair_command_files:
  assumes "repair_trust env fs path args policy = Inr (cache, trusted)" and "map_option path_of_string output_file \<noteq> Some p"
  shows "\<exists>plan. map_of (fst (print_execute_cache_repair env path args policy output_format output_file fs)) p =
    map_of (fst (execute_cache_repair (fetching env) trusted plan (command_config args cache) fs)) p"
proof -
  let ?plan = "snd (plan_cache_repair (fetching env)
      (manifest_file_at (fetching env) (cache_manifest_path (path_of_string cache)) fs)
      (unwrap_or (dir_tree env fs cache) []) trusted)"
  obtain fs1 report where run: "execute_cache_repair (fetching env) trusted ?plan (command_config args cache) fs = (fs1, report)"
    by fastforce
  have "map_of (fst (print_execute_cache_repair env path args policy output_format output_file fs)) p = map_of fs1 p"
  proof (cases output_file)
    case None
    then show ?thesis
      unfolding print_execute_cache_repair_def assms(1) Let_def sum.case prod.case run option.case
      by (simp add: fst_case_sum split: sum.split)
  next
    case (Some q)
    have elsewhere: "map_of fs2 p = map_of fs1 p" if "write_file env q t fs1 = (fs2, x)" for t fs2 x
      using write_file_elsewhere [of q p env t fs1] that assms(2) Some by simp
    show ?thesis
      unfolding print_execute_cache_repair_def assms(1) Let_def sum.case prod.case run Some option.case
      by (auto dest: elsewhere split: sum.split prod.split)
  qed
  then show ?thesis using run by (intro exI [of _ ?plan]) simp
qed

lemma repair_trust_strict:
  assumes "repair_trust env fs path args Strict = Inr (cache, trusted)"
  shows "\<exists>key_file keys. read_flag args ''--trusted-keys'' = Some key_file \<and> load_trusted_keys env fs key_file = Inr keys \<and>
    keys \<noteq> [] \<and> (ann_resources (inner trusted) = [] \<or> signature_checks (crypto_of env) (inner trusted) keys)"
proof -
  obtain raw ks where keys: "(case read_flag args ''--trusted-keys'' of None \<Rightarrow> Inr None
        | Some kpath \<Rightarrow> map_sum id Some (load_trusted_keys env fs kpath)) = Inr ks"
    and "resolve_announcement_trust (crypto_of env) (announcement_from_json env) raw Strict ks = Inr trusted"
    using assms by (auto simp: repair_trust_def res_bind_Inr_iff map_sum_Inr_iff split: option.splits)
  then show ?thesis
    unfolding strict_trust_resolved by (auto simp: map_sum_Inr_iff split: option.splits)
qed

lemma repair_trust_source:
  assumes "repair_trust env fs path args policy = Inr (cache, trusted)"
  shows "read_flag args ''--resource-cache'' = Some cache \<and>
    (\<exists>raw. read_to_string env fs path = Some raw \<and> announcement_from_json env raw = Inr (inner trusted))"
  using assms
  by (auto simp: repair_trust_def resolve_announcement_trust_def from_raw_def check_policy_def resolve_trust_def
      Let_def res_bind_Inr_iff map_sum_Inr_iff split: option.splits sum.splits SignaturePolicy.splits list.splits)

section \<open>Properties\<close>

text \<open>
  Where the configuration comes from: for each setting a flag wins over the environment variable,
  which wins over the configuration file (or the built-in defaults when none is named).
\<close>

theorem config_precedence:
  assumes "base_config env fs args = Inr base"
  shows "load_client_config env fs args = Inr
    \<lparr>addr = unwrap_or (read_flag args ''--addr'') (unwrap_or (env_var env ''MEOWV_CLIENT_ADDR'') (addr base)),
     cfg_name = unwrap_or (read_flag args ''--name'') (unwrap_or (env_var env ''MEOWV_CLIENT_NAME'') (cfg_name base)),
     cfg_message =
       unwrap_or (read_flag args ''--message'') (unwrap_or (env_var env ''MEOWV_CLIENT_MESSAGE'') (cfg_message base)),
     resource_cache =
       or_else (read_flag args ''--resource-cache'') (or_else (env_var env ''MEOWV_RESOURCE_CACHE'') (resource_cache base)),
     trusted_keys_file =
       or_else (read_flag args ''--trusted-keys'') (or_else (env_var env ''MEOWV_TRUSTED_KEYS'') (trusted_keys_file base))\<rparr>"
  using assms unfolding load_client_config_def
  by (cases base) (simp add: override_setting Let_def)

text \<open>C25: The runtime-plan command: whenever a load plan can be built from the directory, the command
  succeeds without a panic, and reports every resource of the plan, in load order, as started.
\<close>

theorem runtime_plan_command_starts_all:
  assumes "load_plan_at env fs path = Inr plan"
  shows "print_resource_runtime_plan env fs path =
    (map Out (concat (map (\<lambda>r. [''- '' @ pl_name r, dependencies_line r, ''  Final State: started'', ''  Message: <none>'']) plan) @
       [''No scripts were executed.'']), Inr ())"
proof -
  obtain m where run: "run_runtime_plan plan (from_load_plan plan) = Inr m"
    and started: "\<forall>r \<in> set plan. status m (pl_name r) = Some \<lparr>rs_name = pl_name r, rs_state = Started, rs_message = None\<rparr>"
    using load_plan_at_starts [OF assms] by blast
  show ?thesis
    using assms run print_started_statuses [OF started]
    by (simp add: print_resource_runtime_plan_def from_result_def)
qed

text \<open>C32: The repair command changes no file at all unless the cache directory is named, the announcement was
  read and parsed, and under the strict policy its signature verifies under a key of a non-empty key
  file (or it announces nothing); and it changes no file other than the output file of its report, if one
  is named, unless this is not a dry run and some kind of repair is allowed.
\<close>

theorem repair_command_guarded:
  assumes "map_of (fst (print_execute_cache_repair env path args policy output_format output_file fs)) p \<noteq> map_of fs p"
  shows "\<exists>cache raw ann. read_flag args ''--resource-cache'' = Some cache \<and> read_to_string env fs path = Some raw \<and>
    announcement_from_json env raw = Inr ann \<and>
    (policy = Strict \<longrightarrow> (\<exists>key_file keys. read_flag args ''--trusted-keys'' = Some key_file \<and>
       load_trusted_keys env fs key_file = Inr keys \<and> keys \<noteq> [] \<and>
       (ann_resources ann = [] \<or> signature_checks (crypto_of env) ann keys))) \<and>
    (map_option path_of_string output_file = Some p \<or>
     \<not> read_flag_exists args ''--dry-run'' \<and>
     (read_flag_exists args ''--allow-manifest-repair'' \<or> read_flag_exists args ''--allow-refetch-repair''))"
proof -
  obtain cache trusted where trust: "repair_trust env fs path args policy = Inr (cache, trusted)"
    using assms repair_command_untrusted by (cases "repair_trust env fs path args policy") force+
  have idle: "fst (execute_cache_repair (fetching env) trusted plan (command_config args cache) fs) = fs"
    if "read_flag_exists args ''--dry-run'' \<or> \<not> read_flag_exists args ''--allow-manifest-repair'' \<and>
        \<not> read_flag_exists args ''--allow-refetch-repair''" for plan
    by (rule idle_repair [THEN conjunct1]) (use that in \<open>auto simp: execute_repair_entry_def\<close>)
  have allowed: "map_option path_of_string output_file = Some p \<or> \<not> read_flag_exists args ''--dry-run'' \<and>
      (read_flag_exists args ''--allow-manifest-repair'' \<or> read_flag_exists args ''--allow-refetch-repair'')"
    using repair_command_files [OF trust, of output_file p output_format] idle assms by metis
  have signed: "policy = Strict \<longrightarrow> (\<exists>key_file keys. read_flag args ''--trusted-keys'' = Some key_file \<and>
       load_trusted_keys env fs key_file = Inr keys \<and> keys \<noteq> [] \<and>
       (ann_resources (inner trusted) = [] \<or> signature_checks (crypto_of env) (inner trusted) keys))"
    using repair_trust_strict trust by blast
  from allowed signed repair_trust_source [OF trust] show ?thesis by blast
qed

subsection \<open>Concrete runs\<close>

text \<open>A signed announcement of one file that is in the cache but not in the manifest.\<close>

definition demo_signed :: ResourceAnnouncement where
  "demo_signed = demo_ann\<lparr>ann_signature := Some \<lparr>sig_algorithm = ''ed25519'', sig_key_id = ''k1'', sig_value = ''s''\<rparr>\<rparr>"

definition demo_client_env :: "(bytes, bytes) client_env" where
  "demo_client_env =
     \<lparr>fetching = demo_repair_env, crypto_of = demo_crypto\<lparr>base64_decode := (\<lambda>s. Inr (replicate (if s = ''s'' then 64 else 32) 7))\<rparr>,
      env_var = (\<lambda>v. if v = ''MEOWV_CLIENT_NAME'' then Some ''env'' else None),
      config_from_toml = (\<lambda>_. Some default_client_config),
      keys_from_toml = (\<lambda>_. Some [\<lparr>te_key_id = ''k1'', te_algorithm = ''ed25519'', public_key_b64 = ''p''\<rparr>]),
      manifest_from_toml = (\<lambda>_. Inr Manifest.demo_manifest), servers_from_json = (\<lambda>_. None),
      announcement_from_json = (\<lambda>_. Inr demo_signed), decode_server_line = (\<lambda>_. Inr (AnnouncementMsg demo_signed)),
      preflight_to_json = (\<lambda>_. Inr []), to_string_pretty = (\<lambda>_. Inr []),
      dir_tree = (\<lambda>_ d. if d = ''cache'' then Some [(''chat'', Directory [(''a.lua'', RegularFile [1, 2, 3])])]
                       else Some [(''chat'', Directory demo_tree)]),
      stat_below = (\<lambda>_ _ _. StatNotFound), path_display = (\<lambda>_. []), target_platform = OnLinux,
      workspace_root = [], connect_error = (\<lambda>_. None)\<rparr>"

theorem config_precedence_witness:
  "\<exists>cfg. load_client_config demo_client_env [] [''client'', ''--addr'', ''host:1''] = Inr cfg \<and>
     addr cfg = ''host:1'' \<and> cfg_name cfg = ''env'' \<and> cfg_message cfg = ''hello from client''"
proof -
  have "base_config demo_client_env [] [''client'', ''--addr'', ''host:1''] = Inr default_client_config"
    by (simp add: base_config_def config_path_def or_else_def read_flag_def demo_client_env_def)
  from config_precedence [OF this] show ?thesis
    by (simp add: read_flag_def demo_client_env_def default_client_config_def)
qed

theorem runtime_plan_command_starts_all_witness:
  "\<exists>out. print_resource_runtime_plan demo_client_env [] ''resources'' = (out, Inr ()) \<and> Out ''- chat'' \<in> set out"
proof -
  have "map_sum (\<lambda>_. ()) (map pl_name) (load_plan_at demo_client_env [] ''resources'') = Inr [''chat'']"
    by code_simp
  then obtain plan where plan: "load_plan_at demo_client_env [] ''resources'' = Inr plan" and "map pl_name plan = [''chat'']"
    by (auto simp: map_sum_Inr_iff)
  then show ?thesis
    using runtime_plan_command_starts_all [OF plan] by auto
qed

abbreviation demo_files :: file_store where
  "demo_files \<equiv> [([Normal ''ann.json''], []), ([Normal ''keys.toml''], [])]"

abbreviation demo_args :: "string list" where
  "demo_args \<equiv> [''client'', ''--resource-cache'', ''cache'', ''--trusted-keys'', ''keys.toml'', ''--allow-manifest-repair'']"

theorem repair_command_guarded_witness:
  "\<exists>keys. load_trusted_keys demo_client_env demo_files ''keys.toml'' = Inr keys \<and>
     signature_checks (crypto_of demo_client_env) demo_signed keys"
proof -
  have "map_of (fst (print_execute_cache_repair demo_client_env ''ann.json'' demo_args Strict ''text'' (Some ''report.txt'') demo_files))
      [Normal ''cache'', Normal ''cache_manifest.json''] \<noteq> map_of demo_files [Normal ''cache'', Normal ''cache_manifest.json'']"
    by code_simp
  note guarded = repair_command_guarded [OF this]
  have "announcement_from_json demo_client_env raw = Inr demo_signed" for raw
    by (simp add: demo_client_env_def)
  moreover have "read_flag demo_args ''--trusted-keys'' = Some ''keys.toml''" "ann_resources demo_signed \<noteq> []"
    by (simp_all add: read_flag_def demo_signed_def demo_ann_def)
  ultimately show ?thesis
    using guarded by auto
qed

end
