(* ===== verification/Client_Session.thy ===== *)
theory Client_Session
  imports Command_Line
begin

text \<open>
  The connected client (the rest of \<^verbatim>\<open>main\<close> in \<^verbatim>\<open>crates/client/src/main.rs\<close>): the message loop with its reaction to
  every server message, the manual ping, the heartbeat after the loop, and the dispatch on the
  command line. The lines the server sends are a list, which ends when the server closes the stream;
  \<open>cl_write_fails\<close> says after how many more writes the socket breaks, if it does. Log output is left out.
\<close>

section \<open>State\<close>

record session =
  cl_files :: file_store
  cl_console :: "console list"
  cl_sent :: "ClientMessage list"
  cl_write_fails :: "(nat \<times> string) option"

record session_options =
  so_policy :: SignaturePolicy
  so_keys :: "TrustedPublicKey list option"
  so_cache :: "string option"
  so_allow_fetch :: bool
  so_fetch_report :: "string option"

definition printed :: "console list \<Rightarrow> session \<Rightarrow> session" where
  "printed out st = st\<lparr>cl_console := cl_console st @ out\<rparr>"

definition sent :: "ClientMessage \<Rightarrow> session \<Rightarrow> session" where
  "sent m st = st\<lparr>cl_sent := cl_sent st @ [m]\<rparr>"

text \<open>Go on with the loop, leave it, or leave \<^verbatim>\<open>main\<close> with an error.\<close>

datatype session_flow = KeepReading | StopReading | SessionFails failure

definition go_on :: "session_flow \<times> session \<Rightarrow> (session \<Rightarrow> session_flow \<times> session) \<Rightarrow> session_flow \<times> session" where
  "go_on r f = (case r of (KeepReading, st) \<Rightarrow> f st | _ \<Rightarrow> r)"

text \<open>\<^verbatim>\<open>writer_half.write_all(..).await?\<close>\<close>

definition write_message :: "ClientMessage \<Rightarrow> session \<Rightarrow> session_flow \<times> session" where
  "write_message m st =
     (case cl_write_fails st of
        None \<Rightarrow> (KeepReading, sent m st)
      | Some (0, e) \<Rightarrow> (SessionFails (Fails e), st)
      | Some (Suc n, e) \<Rightarrow> (KeepReading, sent m (st\<lparr>cl_write_fails := Some (n, e)\<rparr>)))"

section \<open>Reaction to an announcement\<close>

definition print_engine_verification ::
  "('k, 's) client_env \<Rightarrow> ResourceAnnouncement \<Rightarrow> TrustedPublicKey list option \<Rightarrow> console list" where
  "print_engine_verification env ann trusted_keys =
     (let stub = check_announcement_signature_stub ann
      in [Out (''Announcement Signature Status (stub): '' @ format_signature_status (sv_status stub)),
          Out (''Stub Reason: '' @ sv_reason stub)] @
         (case trusted_keys of
            Some keys \<Rightarrow>
              [Out ''Signature Verification Report (engine):'',
               OutText (verification_report_to_text (execute_verification_plan (crypto_of env) ann
                 (build_signature_verification_plan ann (keys_as_identity keys) False) keys)),
               Out ''  (report-only: no enforcement was applied)'']
          | None \<Rightarrow> [Out (''  (No trusted keys configured '' @ em_dash @ '' engine verification skipped.)'')]))"

fun announce_resources ::
  "('k, 's) client_env \<Rightarrow> file_store \<Rightarrow> string option \<Rightarrow> AnnouncedResource list \<Rightarrow> ResourceAvailabilityEntry list cmd" where
  "announce_resources env fs cache [] = ([], Inr [])"
| "announce_resources env fs cache (r # rs) =
     cmd_bind (say ((''Announced Resource: '' @ res_name r @ '' '' @ res_version r) #
         map (\<lambda>f. ''- '' @ relative_path f @ '' | '' @ show_u64 (size_bytes f) @ '' bytes | '' @ sha256 f) (res_files r)))
       (\<lambda>_. cmd_bind (from_result (build_availability_entries env fs cache r)) (\<lambda>es.
              cmd_bind (announce_resources env fs cache rs) (\<lambda>rest. ([], Inr (es @ rest)))))"

definition handle_resource_announcement ::
  "('k, 's) client_env \<Rightarrow> file_store \<Rightarrow> ResourceAnnouncement \<Rightarrow> string option \<Rightarrow> ResourceAvailabilityReport cmd" where
  "handle_resource_announcement env fs ann cache =
     cmd_bind (announce_resources env fs cache (ann_resources ann)) (\<lambda>entries.
       let report = availability_report entries
       in ([Out (''Resource Availability: '' @
              (if is_fully_available report then ''all files available'' else ''missing or mismatched files detected''))],
           Inr report))"

text \<open>With \<^verbatim>\<open>--allow-fetch\<close> the missing files are fetched into the staging directory; nothing is committed.\<close>

definition session_fetch_plan ::
  "session_options \<Rightarrow> ResourceAnnouncement \<Rightarrow> ResourceAvailabilityReport \<Rightarrow> ResourceDownloadPreflightPlan" where
  "session_fetch_plan opts ann report =
     build_resource_download_preflight_plan ann report (check_announcement_signature_stub ann) (so_policy opts)
       (Some (evaluate_resource_policy ann report))"

definition session_fetch ::
  "('k, 's) client_env \<Rightarrow> session_options \<Rightarrow> ResourceAnnouncement \<Rightarrow> ResourceAvailabilityReport \<Rightarrow> session \<Rightarrow>
   session_flow \<times> session" where
  "session_fetch env opts ann report st =
     (case execute_fetch_plan (fetching env) ann (session_fetch_plan opts ann report)
             \<lparr>allow_fetch = True, allow_cache_commit = False, fc_cache_dir = so_cache opts,
              fetch_report_path = so_fetch_report opts\<rparr> (cl_files st) of
        (fs1, fetched) \<Rightarrow>
          (let st1 = printed [Out (fetch_report_to_text fetched)] (st\<lparr>cl_files := fs1\<rparr>)
           in case so_fetch_report opts of
                None \<Rightarrow> (KeepReading, st1)
              | Some report_path \<Rightarrow>
                  (case to_string_pretty env (fetch_report_json fetched) of
                     Inl e \<Rightarrow> (SessionFails (Fails e), st1)
                   | Inr json \<Rightarrow>
                       (case write_file env report_path json fs1 of
                          (fs2, Inl _) \<Rightarrow>
                            (SessionFails (Fails (''failed to write fetch report: '' @ report_path)), st1\<lparr>cl_files := fs2\<rparr>)
                        | (fs2, Inr _) \<Rightarrow>
                            (KeepReading,
                             printed [Out (''Fetch report written to: '' @ report_path)] (st1\<lparr>cl_files := fs2\<rparr>))))))"

definition on_announcement ::
  "('k, 's) client_env \<Rightarrow> session_options \<Rightarrow> ResourceAnnouncement \<Rightarrow> session \<Rightarrow> session_flow \<times> session" where
  "on_announcement env opts ann st =
     (let keys = unwrap_or (so_keys opts) [];
          plan = build_signature_verification_plan ann (keys_as_identity keys) False;
          engine_report = execute_verification_plan (crypto_of env) ann plan keys;
          st1 = printed (print_engine_verification env ann (so_keys opts)) st
      in case evaluate_signature_policy engine_report (so_policy opts) of
           Inl message \<Rightarrow>
             (StopReading, printed [Err (''ERROR: '' @ message),
                Err (''  (strict policy '' @ em_dash @ '' announcement rejected, no resources will be processed)'')] st1)
         | Inr _ \<Rightarrow>
             (case handle_resource_announcement env (cl_files st1) ann (so_cache opts) of
                (out, Inl f) \<Rightarrow> (SessionFails f, printed out st1)
              | (out, Inr report) \<Rightarrow>
                  go_on (write_message (AvailabilityReport report) (printed out st1)) (\<lambda>st2.
                    let st3 = printed [Out ''Resource availability report sent.''] st2
                    in if so_allow_fetch opts then session_fetch env opts ann report st3 else (KeepReading, st3))))"

section \<open>The message loop\<close>

definition print_join_gate_decision :: "JoinGateDecision \<Rightarrow> console list" where
  "print_join_gate_decision d =
     map Out [''Join Gate Mode: '' @ format_join_gate_mode (gate_mode d),
       ''Join Gate Outcome: '' @ format_join_gate_outcome (gate_outcome d),
       ''Reason: '' @ gate_reason d,
       ''Missing Required: '' @ summarize_list (missing_required (gate_policy_evaluation d)),
       ''Invalid Required: '' @ summarize_list (invalid_required (gate_policy_evaluation d)),
       ''Missing Optional: '' @ summarize_list (missing_optional (gate_policy_evaluation d)),
       ''Invalid Optional: '' @ summarize_list (invalid_optional (gate_policy_evaluation d)),
       ''Missing Recommended: '' @ summarize_list (missing_recommended (gate_policy_evaluation d)),
       ''Invalid Recommended: '' @ summarize_list (invalid_recommended (gate_policy_evaluation d)),
       ''Dry-run only: no disconnects or enforcement were applied.'']"

fun on_server_message ::
  "('k, 's) client_env \<Rightarrow> session_options \<Rightarrow> ServerMessage \<Rightarrow> session \<Rightarrow> session_flow \<times> session" where
  "on_server_message env opts (AnnouncementMsg ann) st = on_announcement env opts ann st"
| "on_server_message env opts (JoinGateDecisionMsg d) st = (KeepReading, printed (print_join_gate_decision d) st)"
| "on_server_message env opts (ServerPing n) st = write_message (ServerPong n) st"
| "on_server_message env opts _ st = (KeepReading, st)"

datatype stream_read = GotLine string | StreamError string

fun message_loop ::
  "('k, 's) client_env \<Rightarrow> session_options \<Rightarrow> stream_read list \<Rightarrow> session \<Rightarrow> (failure + unit) \<times> session" where
  "message_loop env opts [] st = (Inr (), st)"
| "message_loop env opts (StreamError e # reads) st = (Inl (Fails e), st)"
| "message_loop env opts (GotLine line # reads) st =
     (case decode_server_line env line of
        Inl e \<Rightarrow> (Inl (Fails e), st)
      | Inr m \<Rightarrow>
          (case on_server_message env opts m st of
             (KeepReading, st1) \<Rightarrow> message_loop env opts reads st1
           | (StopReading, st1) \<Rightarrow> (Inr (), st1)
           | (SessionFails f, st1) \<Rightarrow> (Inl f, st1)))"

section \<open>The session\<close>

text \<open>
  From the connection to the loop: the login, the negotiation on the console, the chat message, the
  trusted keys, and the refusal of the strict policy without keys.
\<close>

definition session_keys ::
  "('k, 's) client_env \<Rightarrow> file_store \<Rightarrow> ClientConfig \<Rightarrow> SignaturePolicy \<Rightarrow> TrustedPublicKey list option cmd" where
  "session_keys env fs config policy =
     cmd_bind (case trusted_keys_file config of
         None \<Rightarrow> ([], Inr None)
       | Some path \<Rightarrow>
           cmd_bind (from_result (load_trusted_keys env fs path)) (\<lambda>keys.
             case validate_trusted_key_config keys of
               Inl e \<Rightarrow> fails (''invalid trusted key config: '' @ key_config_error_text e)
             | Inr _ \<Rightarrow> ([Out (print_trusted_keys_summary keys)], Inr (Some keys))))
       (\<lambda>keys.
          case (policy, keys) of
            (Strict, None) \<Rightarrow>
              fails (''--signature-policy strict requires trusted keys. '' @
                     ''Use --trusted-keys <path> or set trusted_keys_file in config.'')
          | (Strict, Some []) \<Rightarrow>
              fails (''--signature-policy strict requires trusted keys. '' @ ''Loaded trusted key file is empty.'')
          | (ReportOnly, None) \<Rightarrow>
              ([Err (''info: no trusted keys configured '' @ em_dash @ '' signature verification will not be available. '' @
                  ''Use --trusted-keys <path> to enable.'')], Inr keys)
          | _ \<Rightarrow> ([], Inr keys))"

definition login_message :: "ClientConfig \<Rightarrow> ClientMessage" where
  "login_message config = Login (cfg_name config) PROTOCOL_VERSION current_login_capabilities"

definition session_start :: "(nat \<times> string) option \<Rightarrow> file_store \<Rightarrow> session" where
  "session_start write_fails fs = \<lparr>cl_files = fs, cl_console = [], cl_sent = [], cl_write_fails = write_fails\<rparr>"

definition greet :: "ClientConfig \<Rightarrow> session \<Rightarrow> session_flow \<times> session" where
  "greet config st =
     go_on (write_message (login_message config) st) (\<lambda>st1.
       write_message (Chat (cfg_message config)) (printed (fst print_protocol_negotiation_dry_run) st1))"

definition run_messages ::
  "('k, 's) client_env \<Rightarrow> string list \<Rightarrow> ClientConfig \<Rightarrow> SignaturePolicy \<Rightarrow> stream_read list \<Rightarrow> session \<Rightarrow>
   (failure + unit) \<times> session" where
  "run_messages env args config policy reads st =
     (case greet config st of
        (SessionFails f, st1) \<Rightarrow> (Inl f, st1)
      | (_, st1) \<Rightarrow>
          (case session_keys env (cl_files st1) config policy of
             (out, Inl f) \<Rightarrow> (Inl f, printed out st1)
           | (out, Inr keys) \<Rightarrow>
               message_loop env
                 \<lparr>so_policy = policy, so_keys = keys, so_cache = resource_cache config,
                  so_allow_fetch = read_flag_exists args ''--allow-fetch'', so_fetch_report = read_flag args ''--fetch-report''\<rparr>
                 reads (printed out st1)))"

text \<open>
  The heartbeat after the loop. \<^verbatim>\<open>main\<close> waits for Ctrl-C, which is the event \<open>StopRequested\<close>, also when the
  loop has ended by itself, and then for the loop; a loop that panicked prints no summary.
  \<open>MainRunning\<close> when the given events are used up before.
\<close>

datatype main_end = MainReturned "failure + unit" | MainRunning

definition run_heartbeat ::
  "('k, 's) client_env \<Rightarrow> string list \<Rightarrow> heartbeat_event list \<Rightarrow> session \<Rightarrow> main_end \<times> session" where
  "run_heartbeat env args events st =
     (let st1 = printed [Out ''heartbeat enabled; press Ctrl-C to stop''] st
      in if StopRequested \<notin> set events then (MainRunning, st1)
         else
           let st2 = printed [Out ''shutdown requested (Ctrl-C)''] st1
           in case heartbeat_loop (decode_server_line env) (parse_heartbeat_policy args) 1 default_metrics events of
                LoopRunning _ _ \<Rightarrow> (MainRunning, st2)
              | LoopPanicked \<Rightarrow> (MainReturned (Inr ()), st2)
              | LoopReturned m \<Rightarrow>
                  (MainReturned (Inr ()),
                   printed ((if enforcement_disconnect m
                             then [Err (''heartbeat enforcement: strict policy disconnected after '' @
                                     show_u64 (timeout_or_error_count m) @ '' missed heartbeats'')] else []) @
                            [Out (''heartbeat summary:'' @ [CHR 0x0A] @ metrics_to_text m)]) st2))"

definition run_session ::
  "('k, 's) client_env \<Rightarrow> string list \<Rightarrow> ClientConfig \<Rightarrow> SignaturePolicy \<Rightarrow> stream_read list \<Rightarrow> heartbeat_event list \<Rightarrow>
   session \<Rightarrow> main_end \<times> session" where
  "run_session env args config policy reads events st0 =
     (case connect_error env (addr config) of
        Some e \<Rightarrow> (MainReturned (Inl (Fails e)), st0)
      | None \<Rightarrow>
          (case run_messages env args config policy reads st0 of
             (Inl f, st) \<Rightarrow> (MainReturned (Inl f), st)
           | (Inr _, st) \<Rightarrow>
               if read_flag_exists args ''--heartbeat-enabled'' then run_heartbeat env args events st
               else (MainReturned (Inr ()), st)))"

definition next_write_error :: "session \<Rightarrow> string option" where
  "next_write_error st = (case cl_write_fails st of Some (0, e) \<Rightarrow> Some e | _ \<Rightarrow> None)"

definition run_ping_once ::
  "('k, 's) client_env \<Rightarrow> string list \<Rightarrow> ClientConfig \<Rightarrow> read_result list \<Rightarrow> session \<Rightarrow> main_end \<times> session" where
  "run_ping_once env args config reads st0 =
     (let seq = read_u64_flag args ''--ping-sequence'' 1
      in case connect_error env (addr config) of
           Some e \<Rightarrow> (MainReturned (Inl (Fails e)), st0)
         | None \<Rightarrow>
             (case write_message (login_message config) st0 of
                (SessionFails f, st1) \<Rightarrow> (MainReturned (Inl f), st1)
              | (_, st1) \<Rightarrow>
                  (case perform_ping_once (decode_server_line env) (next_write_error st1) seq reads of (result, messages) \<Rightarrow>
                     let st = st1\<lparr>cl_sent := cl_sent st1 @ messages\<rparr>
                     in case result of
                          PongReceived \<Rightarrow>
                            (MainReturned (Inr ()), printed [Out (''Ping '' @ show_u64 seq @ '': Pong received'')] st)
                        | PingError e \<Rightarrow>
                            (MainReturned (Inr ()), printed [Err (''Ping '' @ show_u64 seq @ '': failed: '' @ e)] st)
                        | PingPanic \<Rightarrow> (MainReturned (Inl Panics), st)
                        | StillWaiting \<Rightarrow> (MainRunning, st))))"

section \<open>The command line\<close>

text \<open>The first command flag that is present, in the order \<^verbatim>\<open>main\<close> looks for them.\<close>

definition offline_command :: "('k, 's) client_env \<Rightarrow> string list \<Rightarrow> (file_store \<Rightarrow> file_store \<times> unit cmd) option" where
  "offline_command env args =
     (let reading = (\<lambda>c fs. (fs, c fs));
          command = (\<lambda>name f. map_option f (read_flag args name));
          pair_command = (\<lambda>name f. map_option f (read_pair_flag args name));
          policy = parse_signature_policy args
      in or_else (command ''--server-list'' (\<lambda>p. reading (\<lambda>fs. print_server_list env fs p)))
        (or_else (command ''--resource-manifest'' (\<lambda>p. reading (\<lambda>fs. print_resource_manifest env fs p)))
        (or_else (command ''--resource-index'' (\<lambda>p. reading (\<lambda>fs. print_resource_index env fs p)))
        (or_else (pair_command ''--verify-cache'' (\<lambda>(r, c). reading (\<lambda>fs. print_cache_verification env fs r c)))
        (or_else (pair_command ''--plan-cache-repair'' (\<lambda>(r, c). reading (\<lambda>fs. print_cache_repair_plan env fs r c)))
        (or_else (command ''--resource-registry'' (\<lambda>p. reading (\<lambda>fs. print_resource_registry env fs p)))
        (or_else (command ''--resource-load-plan'' (\<lambda>p. reading (\<lambda>fs. print_resource_load_plan env fs p)))
        (or_else (command ''--resource-runtime-plan'' (\<lambda>p. reading (\<lambda>fs. print_resource_runtime_plan env fs p)))
        (or_else (command ''--check-resource-compatibility'' (\<lambda>p. reading (\<lambda>fs. print_resource_compatibility env fs args p)))
        (or_else (if read_flag_exists args ''--protocol-negotiation''
                  then Some (reading (\<lambda>_. print_protocol_negotiation_dry_run)) else None)
        (or_else (command ''--verify-announcement-signature''
                    (\<lambda>p. reading (\<lambda>fs. print_verify_announcement_signature env fs p args policy)))
        (or_else (command ''--plan-resource-downloads''
                    (\<lambda>p. print_resource_download_preflight env p args policy
                       (unwrap_or (read_flag args ''--preflight-output'') ''text'') (read_flag args ''--preflight-output-file'')))
          (command ''--execute-cache-repair''
             (\<lambda>p. print_execute_cache_repair env p args policy
                (unwrap_or (read_flag args ''--repair-output'') ''text'') (read_flag args ''--repair-output-file'')))))))))))))))"

record peer =
  peer_ping_reads :: "read_result list"
  peer_lines :: "stream_read list"
  peer_heartbeat :: "heartbeat_event list"
  peer_write_fails :: "(nat \<times> string) option"

definition client_main :: "('k, 's) client_env \<Rightarrow> peer \<Rightarrow> string list \<Rightarrow> file_store \<Rightarrow> main_end \<times> session" where
  "client_main env peer args fs =
     (let st0 = session_start (peer_write_fails peer) fs
      in case offline_command env args of
           Some command \<Rightarrow>
             (case command fs of (fs1, out, r) \<Rightarrow> (MainReturned r, st0\<lparr>cl_files := fs1, cl_console := out\<rparr>))
         | None \<Rightarrow>
             (case load_client_config env fs args of
                Inl e \<Rightarrow> (MainReturned (Inl (Fails e)), st0)
              | Inr config \<Rightarrow>
                  if read_flag_exists args ''--ping-once'' then run_ping_once env args config (peer_ping_reads peer) st0
                  else run_session env args config (parse_signature_policy args) (peer_lines peer) (peer_heartbeat peer) st0))"

section \<open>Lemmas\<close>

lemma printed_simps [simp]:
  "cl_files (printed out st) = cl_files st" "cl_sent (printed out st) = cl_sent st"
  "cl_console (printed out st) = cl_console st @ out"
  by (simp_all add: printed_def)

lemma sent_simps [simp]:
  "cl_files (sent m st) = cl_files st" "cl_sent (sent m st) = cl_sent st @ [m]" "cl_console (sent m st) = cl_console st"
  by (simp_all add: sent_def)

lemma write_message_cases:
  obtains (written) w where "write_message m st = (KeepReading, sent m (st\<lparr>cl_write_fails := w\<rparr>))"
  | (broken) e where "write_message m st = (SessionFails (Fails e), st)" and "cl_write_fails st = Some (0, e)"
proof (cases "cl_write_fails st")
  case None
  then have same: "st\<lparr>cl_write_fails := None\<rparr> = st" by (cases st) simp
  show thesis by (rule written [of None, unfolded same]) (simp add: None write_message_def)
next
  case (Some w)
  then show thesis using written broken by (cases w; cases "fst w") (auto simp: write_message_def)
qed

lemma write_message_open [simp]: "cl_write_fails st = None \<Longrightarrow> write_message m st = (KeepReading, sent m st)"
  by (simp add: write_message_def)

lemma write_message_kept [simp]:
  "cl_files (snd (write_message m st)) = cl_files st" "cl_console (snd (write_message m st)) = cl_console st"
  by (cases rule: write_message_cases [of m st]; simp)+

lemma write_fails_quiet [simp]:
  "cl_write_fails (printed out st) = cl_write_fails st" "cl_write_fails (sent m st) = cl_write_fails st"
  by (simp_all add: printed_def sent_def)

lemma go_on_simps [simp]:
  "go_on (KeepReading, st) f = f st" "go_on (SessionFails x, st) f = (SessionFails x, st)"
  by (simp_all add: go_on_def)

lemma go_on_files:
  assumes "P (cl_files (snd r))" and "\<And>st. P (cl_files st) \<Longrightarrow> P (cl_files (snd (f st)))"
  shows "P (cl_files (snd (go_on r f)))"
  using assms by (cases r; cases "fst r") (auto simp: go_on_def)

lemma keys_as_identity_refs: "keys_as_identity = trusted_key_refs"
  by (simp add: fun_eq_iff keys_as_identity_def trusted_key_refs_def)

text \<open>
  \<open>acceptable env opts ann\<close>: what lets an announcement pass the signature policy of the session.
\<close>

definition acceptable :: "('k, 's) client_env \<Rightarrow> session_options \<Rightarrow> ResourceAnnouncement \<Rightarrow> bool" where
  "acceptable env opts ann \<longleftrightarrow>
     so_policy opts = ReportOnly \<or> ann_resources ann = [] \<or>
     signature_checks (crypto_of env) ann (unwrap_or (so_keys opts) [])"

lemma policy_accepts_iff:
  "evaluate_signature_policy (execute_verification_plan (crypto_of env) ann
     (build_signature_verification_plan ann (keys_as_identity keys) False) (unwrap_or (so_keys opts) []))
     (so_policy opts) = Inr () \<longleftrightarrow> acceptable env opts ann"
  unfolding acceptable_def
  by (cases "so_policy opts") (simp_all add: strict_policy_iff outcome_valid_iff, simp add: evaluate_signature_policy_def)

lemma on_announcement_rejected:
  assumes "\<not> acceptable env opts ann"
  shows "\<exists>out. on_announcement env opts ann st = (StopReading, printed out st)"
proof -
  obtain e where "evaluate_signature_policy (execute_verification_plan (crypto_of env) ann
      (build_signature_verification_plan ann (keys_as_identity (unwrap_or (so_keys opts) [])) False)
      (unwrap_or (so_keys opts) [])) (so_policy opts) = Inl e"
    using assms policy_accepts_iff by (metis (full_types) old.unit.exhaust sum.exhaust)
  then show ?thesis
    by (auto simp: on_announcement_def Let_def printed_def)
qed

lemma on_announcement_accepted:
  assumes "acceptable env opts ann"
  shows "on_announcement env opts ann st =
    (let st1 = printed (print_engine_verification env ann (so_keys opts)) st in
     case handle_resource_announcement env (cl_files st) ann (so_cache opts) of
       (out, Inl f) \<Rightarrow> (SessionFails f, printed out st1)
     | (out, Inr report) \<Rightarrow>
         go_on (write_message (AvailabilityReport report) (printed out st1)) (\<lambda>st2.
           let st3 = printed [Out ''Resource availability report sent.''] st2
           in if so_allow_fetch opts then session_fetch env opts ann report st3 else (KeepReading, st3)))"
  using assms by (simp add: on_announcement_def Let_def policy_accepts_iff [THEN iffD2])

lemma session_fetch_sent [simp]: "cl_sent (snd (session_fetch env opts ann report st)) = cl_sent st"
  by (simp add: session_fetch_def Let_def split: prod.split option.split sum.split)

text \<open>What the messages of one step can be.\<close>

lemma on_announcement_sends:
  obtains "cl_sent (snd (on_announcement env opts ann st)) = cl_sent st"
  | out report where "acceptable env opts ann"
    and "handle_resource_announcement env (cl_files st) ann (so_cache opts) = (out, Inr report)"
    and "cl_sent (snd (on_announcement env opts ann st)) = cl_sent st @ [AvailabilityReport report]"
proof (cases "acceptable env opts ann")
  case True
  obtain out r where h: "handle_resource_announcement env (cl_files st) ann (so_cache opts) = (out, r)" by fastforce
  show thesis
  proof (cases r)
    case (Inl f)
    have "cl_sent (snd (on_announcement env opts ann st)) = cl_sent st"
      by (simp add: on_announcement_accepted [OF True] h Inl Let_def)
    then show thesis by (rule that(1))
  next
    case (Inr report)
    let ?st1 = "printed out (printed (print_engine_verification env ann (so_keys opts)) st)"
    show thesis
    proof (cases rule: write_message_cases [of "AvailabilityReport report" ?st1])
      case (written w)
      then have "cl_sent (snd (on_announcement env opts ann st)) = cl_sent st @ [AvailabilityReport report]"
        by (simp add: on_announcement_accepted [OF True] h Inr Let_def)
      then show thesis by (rule that(2) [OF True h [unfolded Inr]])
    next
      case (broken e)
      then have "cl_sent (snd (on_announcement env opts ann st)) = cl_sent st"
        by (simp add: on_announcement_accepted [OF True] h Inr Let_def)
      then show thesis by (rule that(1))
    qed
  qed
next
  case False
  then show thesis
    using on_announcement_rejected [OF False, of st] that(1) by auto
qed

lemma on_announcement_reports:
  assumes "AvailabilityReport report \<in> set (cl_sent (snd (on_announcement env opts ann st)))"
  shows "AvailabilityReport report \<in> set (cl_sent st) \<or> acceptable env opts ann \<and>
    (\<exists>out. handle_resource_announcement env (cl_files st) ann (so_cache opts) = (out, Inr report))"
  by (rule on_announcement_sends [of env opts ann st]) (use assms in auto)

lemma on_server_message_reports:
  assumes "AvailabilityReport report \<in> set (cl_sent (snd (on_server_message env opts m st)))"
    and "\<nexists>ann. m = AnnouncementMsg ann"
  shows "AvailabilityReport report \<in> set (cl_sent st)"
proof (cases m)
  case (ServerPing n)
  with assms(1) show ?thesis by (cases rule: write_message_cases [of "ServerPong n" st]) simp_all
qed (use assms in simp_all)

text \<open>The message loop as a loop over events; an invariant of every reaction is an invariant of the loop.\<close>

definition client_step :: "('k, 's) client_env \<Rightarrow> session_options \<Rightarrow> stream_read \<Rightarrow> session \<Rightarrow> session + (failure + unit) \<times> session" where
  "client_step env opts read st =
     (case read of
        StreamError e \<Rightarrow> Inr (Inl (Fails e), st)
      | GotLine line \<Rightarrow>
          (case decode_server_line env line of
             Inl e \<Rightarrow> Inr (Inl (Fails e), st)
           | Inr m \<Rightarrow>
               (case on_server_message env opts m st of
                  (KeepReading, st1) \<Rightarrow> Inl st1
                | (StopReading, st1) \<Rightarrow> Inr (Inr (), st1)
                | (SessionFails f, st1) \<Rightarrow> Inr (Inl f, st1))))"

interpretation reading: event_loop "client_step env opts" "Pair (Inr ())" "message_loop env opts" for env opts
proof unfold_locales
  show "message_loop env opts (read # reads) st =
      (case client_step env opts read st of Inl st1 \<Rightarrow> message_loop env opts reads st1 | Inr r \<Rightarrow> r)" for read reads st
    by (cases read) (auto simp: client_step_def split: sum.split prod.split session_flow.split)
qed simp

lemma message_loop_invariant:
  assumes "\<And>line m st. GotLine line \<in> set reads \<Longrightarrow> decode_server_line env line = Inr m \<Longrightarrow> P st \<Longrightarrow>
      P (snd (on_server_message env opts m st))"
    and "P st"
  shows "P (snd (message_loop env opts reads st))"
proof (rule reading.run_invariant [where P = P and Q = "\<lambda>r. P (snd r)"])
  have reaction: "(case client_step env opts read s of Inl s' \<Rightarrow> P s' | Inr r \<Rightarrow> P (snd r))"
    if read: "read \<in> set reads" and ok: "P s" for read s
  proof (cases read)
    case (GotLine line)
    show ?thesis
    proof (cases "decode_server_line env line")
      case (Inr m)
      obtain fl st1 where step: "on_server_message env opts m s = (fl, st1)" by fastforce
      then have "P st1" using assms(1) [OF _ Inr ok] read GotLine by simp
      with GotLine Inr step show ?thesis by (cases fl) (simp_all add: client_step_def)
    qed (simp add: GotLine client_step_def ok)
  qed (simp add: client_step_def ok)
  show "P s'" if "read \<in> set reads" "P s" "client_step env opts read s = Inl s'" for read s s'
    using reaction [OF that(1,2)] that(3) by simp
  show "P (snd r)" if "read \<in> set reads" "P s" "client_step env opts read s = Inr r" for read s r
    using reaction [OF that(1,2)] that(3) by simp
qed (simp_all add: assms(2))

text \<open>Only the staging directory of the cache changes while files are staged.\<close>

definition staged_only :: "string option \<Rightarrow> file_store \<Rightarrow> file_store \<Rightarrow> bool" where
  "staged_only cache fs fs' \<longleftrightarrow>
     (\<forall>p. (\<forall>d. cache = Some d \<longrightarrow> dir_entry (staging_dir d) p = None) \<longrightarrow> map_of fs' p = map_of fs p)"

lemma staged_only_refl [simp]: "staged_only cache fs fs"
  by (simp add: staged_only_def)

lemma staged_only_trans: "staged_only cache fs fs1 \<Longrightarrow> staged_only cache fs1 fs2 \<Longrightarrow> staged_only cache fs fs2"
  by (simp add: staged_only_def)

lemma fetch_staged_only:
  "staged_only (Some d) fs (fst (fetch_and_verify_single_file env n fp src sz sha d fs))"
proof -
  obtain fs1 out where run: "fetch_and_verify_single_file env n fp src sz sha d fs = (fs1, out)" by fastforce
  from fetch_effect [OF run] obtain v where
    "map_of fs1 = (map_of fs)(staging_dir d @ [Normal (temp_name env n fp)] := v)" by blast
  then show ?thesis
    by (auto simp: run staged_only_def dir_entry_def)
qed

lemma entry_staged_only:
  "staged_only (Some d) fs (fst (execute_entry env ann preflight False d n key fs))"
proof (cases "chosen_source preflight key")
  case (Some src)
  obtain sz sha where exp: "expected_file ann key = (sz, sha)" by fastforce
  obtain fs1 out where run: "fetch_and_verify_single_file env n (snd key) src sz sha d fs = (fs1, out)" by fastforce
  have "out \<noteq> CommittedToCache" "out \<noteq> ReplaceInvalidCommitted"
    using fetch_effect [OF run] by auto
  with Some exp run fetch_staged_only [of d fs env n "snd key" src sz sha] show ?thesis
    by (simp add: execute_entry_def record_commit_def)
qed (simp add: execute_entry_def split: prod.split)

lemma entries_staged_only:
  "staged_only (Some d) fs (fst (execute_entries (execute_entry env ann preflight False d) n xs fs))"
proof (induction xs arbitrary: n fs)
  case (Cons x xs)
  obtain fs1 r where run: "execute_entry env ann preflight False d n (fx_resource_name x, fx_file_path x) fs = (fs1, r)"
    by fastforce
  have "staged_only (Some d) fs fs1"
    using entry_staged_only [of d fs env ann preflight n "(fx_resource_name x, fx_file_path x)"] run by simp
  with Cons.IH [of fs1 "Suc n"] Cons.IH [of fs "Suc n"] run show ?case
    by (auto intro: staged_only_trans split: prod.splits)
qed simp

lemma fetch_plan_staged_only:
  assumes "\<not> allow_cache_commit config"
  shows "staged_only (fc_cache_dir config) fs (fst (execute_fetch_plan env ann preflight config fs))"
  using assms entries_staged_only by (simp add: execute_fetch_plan_def split: option.split)

text \<open>\<open>untouched opts p\<close>: the path is neither in the staging directory nor the file of the fetch report.\<close>

definition untouched :: "session_options \<Rightarrow> path \<Rightarrow> bool" where
  "untouched opts p \<longleftrightarrow>
     (\<forall>d. so_cache opts = Some d \<longrightarrow> dir_entry (staging_dir d) p = None) \<and>
     (\<forall>q. so_fetch_report opts = Some q \<longrightarrow> path_of_string q \<noteq> p)"

lemma write_file_other: "path_of_string q \<noteq> p \<Longrightarrow> map_of (fst (write_file env q text fs)) p = map_of fs p"
  by (simp add: write_file_def store_simps split: option.split)

lemma session_fetch_untouched:
  assumes "untouched opts p"
  shows "map_of (cl_files (snd (session_fetch env opts ann report st))) p = map_of (cl_files st) p"
proof -
  obtain fs1 fetched where run: "execute_fetch_plan (fetching env) ann (session_fetch_plan opts ann report)
      \<lparr>allow_fetch = True, allow_cache_commit = False, fc_cache_dir = so_cache opts,
       fetch_report_path = so_fetch_report opts\<rparr> (cl_files st) = (fs1, fetched)" by fastforce
  have same: "map_of fs1 p = map_of (cl_files st) p"
    using fetch_plan_staged_only [of "\<lparr>allow_fetch = True, allow_cache_commit = False, fc_cache_dir = so_cache opts,
       fetch_report_path = so_fetch_report opts\<rparr>"] run assms
    unfolding staged_only_def untouched_def by (metis FetchConfig.select_convs(2,3) fst_conv)
  have written: "map_of fs2 p = map_of fs1 p" if "so_fetch_report opts = Some q" "write_file env q t fs1 = (fs2, r)" for q t fs2 r
    using write_file_other [of q p env t fs1] assms that by (simp add: untouched_def)
  show ?thesis
    using same written by (simp add: session_fetch_def run Let_def split: option.split sum.split prod.split)
qed

lemma on_announcement_untouched:
  assumes "untouched opts p"
  shows "map_of (cl_files (snd (on_announcement env opts ann st))) p = map_of (cl_files st) p"
proof (cases "acceptable env opts ann")
  case True
  let ?same = "\<lambda>fs. map_of fs p = map_of (cl_files st) p"
  have "?same (cl_files (snd (go_on (write_message m (printed out st')) (\<lambda>st2.
      let st3 = printed out' st2 in if so_allow_fetch opts then session_fetch env opts ann rep st3 else (KeepReading, st3)))))"
    if "?same (cl_files st')" for m out out' rep st'
    using that by (intro go_on_files [where P = ?same]) (simp_all add: Let_def session_fetch_untouched [OF assms])
  then show ?thesis
    by (simp add: on_announcement_accepted [OF True] Let_def split: prod.split sum.split)
next
  case False
  then show ?thesis
    using on_announcement_rejected [OF False, of st] by auto
qed

lemma message_loop_untouched:
  assumes "untouched opts p"
  shows "map_of (cl_files (snd (message_loop env opts reads st))) p = map_of (cl_files st) p"
proof (rule message_loop_invariant)
  fix m and st' :: session assume "map_of (cl_files st') p = map_of (cl_files st) p"
  then show "map_of (cl_files (snd (on_server_message env opts m st'))) p = map_of (cl_files st) p"
    by (cases m) (simp_all add: on_announcement_untouched [OF assms])
qed simp

text \<open>Files after a session and after a manual ping.\<close>

lemma run_heartbeat_files [simp]: "cl_files (snd (run_heartbeat env args events st)) = cl_files st"
  by (simp add: run_heartbeat_def Let_def split: loop_result.split)

lemma greet_files [simp]: "cl_files (snd (greet config st)) = cl_files st"
  unfolding greet_def by (rule go_on_files) simp_all

lemma run_session_files:
  "cl_files (snd (run_session env args config policy reads events st)) =
     (if connect_error env (addr config) = None then cl_files (snd (run_messages env args config policy reads st)) else cl_files st)"
  by (cases "run_messages env args config policy reads st")
    (simp add: run_session_def split: option.split sum.split)

lemma run_ping_once_files: "cl_files (snd (run_ping_once env args config reads st)) = cl_files st"
proof (cases rule: write_message_cases [of "login_message config" st])
  case (written w)
  then show ?thesis by (simp add: run_ping_once_def Let_def split: option.split prod.split ping_result.split)
next
  case (broken e)
  then show ?thesis by (simp add: run_ping_once_def Let_def split: option.split)
qed

text \<open>A client whose first write fails ends with that error and has sent nothing.\<close>

lemma broken_login_fails:
  "connect_error env (addr config) = None \<Longrightarrow>
   run_session env args config policy reads events (session_start (Some (0, e)) fs) =
     (MainReturned (Inl (Fails e)), session_start (Some (0, e)) fs)"
  by (simp add: run_session_def run_messages_def greet_def write_message_def session_start_def)

text \<open>The commands without a connection: unless they repair, they write no file but the output file of the plan.\<close>

definition leaves :: "path \<Rightarrow> (file_store \<Rightarrow> file_store \<times> unit cmd) option \<Rightarrow> bool" where
  "leaves p c \<longleftrightarrow> (\<forall>f fs. c = Some f \<longrightarrow> map_of (fst (f fs)) p = map_of fs p)"

lemma leaves_simps:
  "leaves p None" "leaves p (Some f) \<longleftrightarrow> (\<forall>fs. map_of (fst (f fs)) p = map_of fs p)"
  "leaves p (map_option g v) \<longleftrightarrow> (\<forall>x fs. v = Some x \<longrightarrow> map_of (fst (g x fs)) p = map_of fs p)"
  by (auto simp: leaves_def)

lemma leaves_or_else: "leaves p a \<Longrightarrow> leaves p b \<Longrightarrow> leaves p (or_else a b)"
  by (cases a) (simp_all add: or_else_def)

lemma preflight_leaves:
  assumes "\<forall>q. output_file = Some q \<longrightarrow> path_of_string q \<noteq> p"
  shows "map_of (fst (print_resource_download_preflight env path args policy output_format output_file fs)) p = map_of fs p"
proof -
  have "map_of fs1 p = map_of fs p" if "write_file env q t fs = (fs1, x)" "output_file = Some q" for q t fs1 x
    using write_file_elsewhere [of q p env t fs] that assms by simp
  then show ?thesis
    by (auto simp: print_resource_download_preflight_def Let_def split: sum.split option.split prod.split)
qed

lemma offline_leaves:
  assumes "read_flag args ''--execute-cache-repair'' = None"
    and "\<forall>q. read_flag args ''--preflight-output-file'' = Some q \<longrightarrow> path_of_string q \<noteq> p"
  shows "leaves p (offline_command env args)"
  unfolding offline_command_def Let_def
  by (intro leaves_or_else) (simp_all add: leaves_simps assms(1) preflight_leaves [OF assms(2)] split: prod.split)

section \<open>Properties\<close>

text \<open>C10: A strict client acts on verified announcements only: every availability report it sends in the
  message loop answers an announcement of the server that is empty or whose signature verifies under
  the configured keys, and is the report computed for it.
\<close>

theorem strict_session_reports_verified:
  assumes "so_policy opts = Strict" and "AvailabilityReport report \<in> set (cl_sent (snd (message_loop env opts reads st)))"
  shows "AvailabilityReport report \<in> set (cl_sent st) \<or>
    (\<exists>line ann fs out. GotLine line \<in> set reads \<and> decode_server_line env line = Inr (AnnouncementMsg ann) \<and>
       (ann_resources ann = [] \<or> signature_checks (crypto_of env) ann (unwrap_or (so_keys opts) [])) \<and>
       handle_resource_announcement env fs ann (so_cache opts) = (out, Inr report))"
proof -
  let ?answered = "\<exists>line ann fs out. GotLine line \<in> set reads \<and> decode_server_line env line = Inr (AnnouncementMsg ann) \<and>
       (ann_resources ann = [] \<or> signature_checks (crypto_of env) ann (unwrap_or (so_keys opts) [])) \<and>
       handle_resource_announcement env fs ann (so_cache opts) = (out, Inr report)"
  let ?ok = "\<lambda>s. AvailabilityReport report \<in> set (cl_sent s) \<longrightarrow> AvailabilityReport report \<in> set (cl_sent st) \<or> ?answered"
  have "?ok (snd (message_loop env opts reads st))"
  proof (rule message_loop_invariant)
    fix line m and st' :: session
    assume line: "GotLine line \<in> set reads" "decode_server_line env line = Inr m" and ok: "?ok st'"
    show "?ok (snd (on_server_message env opts m st'))"
    proof (cases "\<exists>ann. m = AnnouncementMsg ann")
      case True
      then obtain ann where m: "m = AnnouncementMsg ann" by blast
      have "?answered" if "acceptable env opts ann"
        "handle_resource_announcement env (cl_files st') ann (so_cache opts) = (out, Inr report)" for out
      proof -
        have "ann_resources ann = [] \<or> signature_checks (crypto_of env) ann (unwrap_or (so_keys opts) [])"
          using that(1) assms(1) by (simp add: acceptable_def)
        with line m that(2) show ?thesis by blast
      qed
      with ok on_announcement_reports [of report env opts ann st'] m show ?thesis
        by (metis on_server_message.simps(1))
    next
      case False
      with ok on_server_message_reports [of report env opts m st'] show ?thesis by blast
    qed
  qed simp
  with assms(2) show ?thesis by simp
qed

text \<open>
  A strict client stops at the first announcement that names resources and does not verify: the loop
  ends there without an error, nothing is sent any more and no file is changed, whatever follows.
\<close>

theorem strict_session_stops_at_unverified:
  assumes "so_policy opts = Strict" and "decode_server_line env line = Inr (AnnouncementMsg ann)"
    and "ann_resources ann \<noteq> []" and "\<not> signature_checks (crypto_of env) ann (unwrap_or (so_keys opts) [])"
  shows "\<exists>out. message_loop env opts (GotLine line # reads) st = (Inr (), printed out st)"
proof -
  have "\<not> acceptable env opts ann"
    using assms(1,3,4) by (simp add: acceptable_def)
  from on_announcement_rejected [OF this, of st] assms(2) show ?thesis by auto
qed


subsection \<open>Concrete runs\<close>

definition demo_options :: "TrustedPublicKey list \<Rightarrow> session_options" where
  "demo_options keys = \<lparr>so_policy = Strict, so_keys = Some keys, so_cache = None, so_allow_fetch = False, so_fetch_report = None\<rparr>"

definition demo_key :: TrustedPublicKey where
  "demo_key = \<lparr>pk_key_id = ''k1'', pk_algorithm = ''ed25519'', public_key = replicate 32 7\<rparr>"

definition demo_start :: session where
  "demo_start = session_start None []"

definition demo_report :: ResourceAvailabilityReport where
  "demo_report = availability_report
     [\<lparr>avail_resource_name = ''chat'', avail_file_path = ''a.lua'', avail_status = Missing\<rparr>]"

theorem strict_session_reports_verified_witness:
  "cl_sent (snd (message_loop demo_client_env (demo_options [demo_key]) [GotLine ''x''] demo_start)) =
     [AvailabilityReport demo_report] \<and> signature_checks (crypto_of demo_client_env) demo_signed [demo_key]"
proof -
  have run: "cl_sent (snd (message_loop demo_client_env (demo_options [demo_key]) [GotLine ''x''] demo_start)) =
      [AvailabilityReport demo_report]"
    by code_simp
  have "so_policy (demo_options [demo_key]) = Strict"
    "AvailabilityReport demo_report \<in> set (cl_sent (snd (message_loop demo_client_env (demo_options [demo_key]) [GotLine ''x''] demo_start)))"
    by (simp_all only: run) (simp_all add: demo_options_def)
  from strict_session_reports_verified [OF this]
  have "signature_checks (crypto_of demo_client_env) demo_signed [demo_key]"
    by (auto simp: demo_start_def session_start_def demo_client_env_def demo_signed_def demo_ann_def demo_options_def)
  with run show ?thesis by blast
qed

theorem strict_session_stops_at_unverified_witness:
  "fst (message_loop demo_client_env (demo_options []) [GotLine ''x'', GotLine ''y''] demo_start) = Inr () \<and>
   cl_sent (snd (message_loop demo_client_env (demo_options []) [GotLine ''x'', GotLine ''y''] demo_start)) = []"
proof -
  have "so_policy (demo_options []) = Strict" "decode_server_line demo_client_env ''x'' = Inr (AnnouncementMsg demo_signed)"
    "ann_resources demo_signed \<noteq> []"
    "\<not> signature_checks (crypto_of demo_client_env) demo_signed (unwrap_or (so_keys (demo_options [])) [])"
    by (simp_all add: demo_options_def demo_client_env_def demo_signed_def demo_ann_def signature_checks_def)
  from strict_session_stops_at_unverified [OF this, of "[GotLine ''y'']" demo_start] show ?thesis
    by (auto simp: demo_start_def session_start_def)
qed


section \<open>The heartbeat after the loop\<close>

text \<open>
  The message loop of a session that is not rejected ends only with the stream, so the heartbeat
  then finds it closed: the first ping panics, and no summary is ever printed.
\<close>

lemma heartbeat_after_close_prints_no_summary:
  "StopRequested \<in> set events \<Longrightarrow>
   run_heartbeat env args (IntervalElapsed None (StreamClosed # reads) # events) st =
     (MainReturned (Inr ()), printed [Out ''shutdown requested (Ctrl-C)''] (printed [Out ''heartbeat enabled; press Ctrl-C to stop''] st))"
  by (simp add: run_heartbeat_def closed_stream_panics Let_def)

text \<open>A loop that the strict policy has ended is not reported before Ctrl-C; until then the client only waits.\<close>

lemma enforced_heartbeat_waits_for_ctrl_c:
  "StopRequested \<notin> set events \<Longrightarrow>
   run_heartbeat env args events st = (MainRunning, printed [Out ''heartbeat enabled; press Ctrl-C to stop''] st)"
  by (simp add: run_heartbeat_def)

end
