(* ===== verification/Writer.thy ===== *)
theory Writer
  imports Server
begin

text \<open>
  The writer task of a connection (\<^verbatim>\<open>handle_client\<close> of \<^verbatim>\<open>crates/server/src/lib.rs\<close>): it forwards what the
  handler queues for the client and what is broadcast to everyone. A turn of its loop is what the two
  receives have to offer at that moment; the \<^verbatim>\<open>biased\<close> select takes the queue of the connection first.
\<close>

section \<open>The task\<close>

text \<open>
  \<open>queued\<close> is \<^const>\<open>None\<close> while the queue is empty and \<open>Some None\<close> once the handler has dropped it;
  \<open>broadcast_item\<close> is \<^const>\<open>None\<close> while there is no broadcast, and an error when the receiver has
  fallen behind or the channel is closed.
\<close>

record turn =
  queued :: "ServerMessage option option"
  broadcast_item :: "(string + ServerMessage) option"

datatype turn_result = Forward ServerMessage | Idle | Quit

definition select_turn :: "turn \<Rightarrow> turn_result" where
  "select_turn t =
     (case queued t of
        Some (Some message) \<Rightarrow> Forward message
      | Some None \<Rightarrow> Quit
      | None \<Rightarrow>
          (case broadcast_item t of
             Some (Inr message) \<Rightarrow> Forward message
           | Some (Inl _) \<Rightarrow> Quit
           | None \<Rightarrow> Idle))"

text \<open>What is written to the socket, and whether the task still runs; \<open>send_ok\<close> tells which writes succeed.\<close>

fun writer_task :: "(ServerMessage \<Rightarrow> bool) \<Rightarrow> turn list \<Rightarrow> ServerMessage list \<times> bool" where
  "writer_task send_ok [] = ([], True)"
| "writer_task send_ok (t # ts) =
     (case select_turn t of
        Forward m \<Rightarrow>
          if send_ok m then (case writer_task send_ok ts of (ms, running) \<Rightarrow> (m # ms, running)) else ([], False)
      | Idle \<Rightarrow> writer_task send_ok ts
      | Quit \<Rightarrow> ([], False))"

section \<open>Lemmas\<close>

text \<open>The messages the server broadcasts, as opposed to those for one client.\<close>

fun is_broadcast :: "ServerMessage \<Rightarrow> bool" where
  "is_broadcast (Pong _) = True"
| "is_broadcast (ChatBroadcast _ _) = True"
| "is_broadcast (EntitySnapshot _) = True"
| "is_broadcast _ = False"

lemma queue_comes_first: "queued t = Some (Some m) \<Longrightarrow> select_turn t = Forward m"
  by (simp add: select_turn_def)

definition queue_items :: "turn list \<Rightarrow> ServerMessage list" where
  "queue_items ts = List.map_filter (\<lambda>t. Option.bind (queued t) id) ts"

definition broadcasts_only :: "turn list \<Rightarrow> bool" where
  "broadcasts_only ts \<longleftrightarrow>
     list_all (\<lambda>t. (\<forall>m. queued t = Some (Some m) \<longrightarrow> \<not> is_broadcast m) \<and>
       (\<forall>m. broadcast_item t = Some (Inr m) \<longrightarrow> is_broadcast m)) ts"

text \<open>
  While the task runs, the messages for this client are written completely and in the order in which
  they were queued, whatever is broadcast in between.
\<close>

lemma writer_keeps_queue_order:
  assumes "broadcasts_only ts" and "snd (writer_task send_ok ts)"
  shows "filter (\<lambda>m. \<not> is_broadcast m) (fst (writer_task send_ok ts)) = queue_items ts"
  using assms
proof (induction ts)
  case (Cons t ts)
  then have tail: "snd (writer_task send_ok ts) \<Longrightarrow>
      filter (\<lambda>m. \<not> is_broadcast m) (fst (writer_task send_ok ts)) = queue_items ts"
    by (simp add: broadcasts_only_def)
  show ?case
  proof (cases "queued t")
    case None
    with Cons.prems tail show ?thesis
      by (auto simp: select_turn_def queue_items_def map_filter_simps broadcasts_only_def
          split: option.splits sum.splits if_splits prod.splits)
  next
    case (Some q)
    with Cons.prems tail show ?thesis
      by (cases q) (simp_all add: select_turn_def queue_items_def map_filter_simps broadcasts_only_def
          split: if_splits prod.splits)
  qed
qed (simp add: queue_items_def map_filter_simps)

text \<open>
  A receiver that falls behind ends the task for good: nothing that is queued later is written any
  more, although the handler of the connection goes on.
\<close>

lemma lagging_receiver_mutes_the_connection:
  assumes "snd (writer_task send_ok ts)" and "queued t = None" and "broadcast_item t = Some (Inl err)"
  shows "writer_task send_ok (ts @ t # later) = (fst (writer_task send_ok ts), False)"
  using assms(1)
proof (induction ts)
  case Nil
  with assms(2,3) show ?case by (simp add: select_turn_def)
next
  case (Cons u ts)
  then show ?case
    by (auto split: turn_result.splits prod.splits if_splits)
qed

end
