(* ===== verification/Handshake.thy ===== *)
theory Handshake
  imports Connections Client_Session Writer
begin

text \<open>
  Client and server together: what the client of \<open>Client_Session\<close> sends is what the handler of \<open>Server\<close>
  reads, and what the handler queues reaches the client through \<open>Writer\<close>. The JSON lines in between are
  two printers, of which only is assumed that the other side reads back what was printed.
\<close>

section \<open>The wire\<close>

definition wire_ok :: "ClientMessage set \<Rightarrow> (ClientMessage \<Rightarrow> string) \<Rightarrow> (string \<Rightarrow> string + ClientMessage) \<Rightarrow>
    ServerMessage set \<Rightarrow> (ServerMessage \<Rightarrow> string) \<Rightarrow> (string \<Rightarrow> string + ServerMessage) \<Rightarrow> bool" where
  "wire_ok up to_server from_str down to_peer decode \<longleftrightarrow>
     (\<forall>m\<in>up. from_str (to_server m) = Inr m) \<and> (\<forall>m\<in>down. decode (to_peer m) = Inr m)"

text \<open>What the writer task may have put on the wire when exactly \<open>queue\<close> was queued for the client.\<close>

definition delivered :: "ServerMessage set \<Rightarrow> ServerMessage list \<Rightarrow> ServerMessage list \<Rightarrow> bool" where
  "delivered down queue ms \<longleftrightarrow> set ms \<subseteq> down \<and>
     (\<exists>send_ok ts. broadcasts_only ts \<and> queue_items ts = queue \<and> writer_task send_ok ts = (ms, True))"

lemma delivered_filter: "delivered down queue ms \<Longrightarrow> filter (\<lambda>m. \<not> is_broadcast m) ms = queue"
  unfolding delivered_def by (metis fst_conv snd_conv writer_keeps_queue_order)

text \<open>The handler after the lines of some client messages.\<close>

definition server_reads ::
  "ServerConfig \<Rightarrow> (string \<Rightarrow> string + ClientMessage) \<Rightarrow> ResourceAnnouncement option \<Rightarrow> (ClientMessage \<Rightarrow> string) \<Rightarrow>
   ClientMessage list \<Rightarrow> conn_phase \<times> handler \<Rightarrow> conn_phase \<times> handler" where
  "server_reads cfg from_str ann to_server ms = fold (\<lambda>m. conn_step cfg from_str ann (LineRead (to_server m))) ms"

section \<open>The server's side\<close>

definition row_kept :: "handler \<Rightarrow> handler \<Rightarrow> bool" where
  "row_kept h h' \<longleftrightarrow>
     client_id h' = client_id h \<and> clients (shared h') = clients (shared h) \<and> to_client h' = to_client h \<and>
     write_fails h' = write_fails h"

lemma row_kept_simps [simp]:
  "row_kept h (publish g) \<longleftrightarrow> row_kept h g" "row_kept h (record_event k st t g) \<longleftrightarrow> row_kept h g"
  "row_kept h (with_registry f g) \<longleftrightarrow> row_kept h g" "row_kept h (g\<lparr>session := m\<rparr>) \<longleftrightarrow> row_kept h g" "row_kept h h"
  by (simp_all add: row_kept_def publish_def primitive_defs)

lemma login_hello_row:
  "fst (login_hello name caps h) = Proceed \<Longrightarrow> row_kept h (snd (login_hello name caps h))"
  by (auto simp: login_hello_def split: prod.splits sum.splits)

lemma login_version_row:
  "fst (login_version v caps h) = Proceed \<Longrightarrow> row_kept h (snd (login_version v caps h))"
  by (auto simp: login_version_def Let_def split: prod.splits sum.splits)

lemma login_negotiate_row:
  assumes "sm_state (session h) = VersionChecked" and "\<not> policy_rejects cfg caps"
  shows "row_kept h (snd (login_negotiate cfg name v caps h))"
proof -
  obtain n where "negotiate_protocol_dry_run (client_profile v caps) current_protocol_profile = Inr n"
    using login_negotiation_no_panic by blast
  then show ?thesis
    using assms
    by (auto simp: policy_rejects_def login_negotiate_def on_negotiation_logged_def transition_to_def is_valid_transition_def Let_def)
qed

lemma to_client_broadcast: "to_client (broadcast y x) = to_client x"
  by (simp add: broadcast_def)

lemma row_kept_trans: "row_kept a b \<Longrightarrow> row_kept b c \<Longrightarrow> row_kept a c"
  by (simp add: row_kept_def)

text \<open>The row of an admitted client, and what it is sent.\<close>

lemma login_announces:
  fixes name cfg a v caps h
  assumes "sm_state (session h) = NegotiationDryRunLogged" and "write_fails h = None"
  defines "g \<equiv> snd (login_joined name (snd (login_announce cfg (snd (login_welcome cfg (Some a) name v caps h)))))"
  shows "sm_state (session g) = ResourceAnnouncementSent"
    and "to_client g = to_client h @ [Welcome (client_id h) (motd (cfg_server cfg)) PROTOCOL_VERSION, AnnouncementMsg a]"
    and "client_id g = client_id h"
    and "\<exists>info. bt_get (clients (shared g)) (client_id h) = Some info \<and> last_announcement info = Some a"
  using assms(1,2) unfolding g_def
  by (simp_all add: login_joined_def login_announce_def announcement_sent_def login_welcome_def send_direct_def on_resource_announcement_sent_def transition_to_def
      is_valid_transition_def Let_def to_client_quiet to_client_broadcast bt_get_insert)

lemma login_completes:
  fixes name cfg a caps h
  assumes "sm_state (session h) = Connected"
    and "\<not> policy_rejects cfg caps" and "write_fails h = None"
  defines "r \<equiv> handle_login cfg (Some a) name PROTOCOL_VERSION caps h"
  shows "fst r = Proceed" and "sm_state (session (snd r)) = ResourceAnnouncementSent"
    and "to_client (snd r) = to_client h @ [Welcome (client_id h) (motd (cfg_server cfg)) PROTOCOL_VERSION, AnnouncementMsg a]"
    and "client_id (snd r) = client_id h"
    and "\<exists>info. bt_get (clients (shared (snd r))) (client_id h) = Some info \<and> last_announcement info = Some a"
proof -
  let ?v = PROTOCOL_VERSION
  define h1 h2 h3 where "h1 = snd (login_hello name caps h)" and "h2 = snd (login_version ?v caps h1)"
    and "h3 = snd (login_negotiate cfg name ?v caps h2)"
  have hello: "login_hello name caps h = (Proceed, h1)" "sm_state (session h1) = HelloReceived" "row_kept h h1"
    using login_hello_connected [OF assms(1), of name caps] login_hello_row [of name caps h]
    by (simp_all add: h1_def prod_eq_iff)
  have version: "login_version ?v caps h1 = (Proceed, h2)" "sm_state (session h2) = VersionChecked" "row_kept h1 h2"
    using login_version_hello(1) [OF hello(2), of ?v caps] login_version_row [of ?v caps h1]
    by (simp_all add: h2_def prod_eq_iff)
  have negotiate: "login_negotiate cfg name ?v caps h2 = (Proceed, h3)" "sm_state (session h3) = NegotiationDryRunLogged"
    "row_kept h2 h3"
    using login_negotiate_checked(1) [OF version(2), where cfg = cfg and name = name and v = ?v and caps = caps]
      login_negotiate_row [OF version(2) assms(2), of name ?v] assms(2)
    by (simp_all add: h3_def prod_eq_iff)
  have kept: "row_kept h h3"
    using hello(3) version(3) negotiate(3) by (blast intro: row_kept_trans)
  then have open3: "write_fails h3 = None"
    using assms(3) by (simp add: row_kept_def)
  define h4 where "h4 = snd (login_welcome cfg (Some a) name ?v caps h3)"
  have welcomed: "login_welcome cfg (Some a) name ?v caps h3 = (Proceed, h4)"
    using open3 by (simp add: h4_def prod_eq_iff login_welcome_result writable_def)
  obtain info where "bt_get (clients (shared h4)) (client_id h4) = Some info"
    using login_welcome_result(3,4) [of cfg "Some a" name ?v caps h3] by (auto simp: h4_def)
  moreover have "sm_state (session h4) = NegotiationDryRunLogged" "writable 1 h4"
    using negotiate(2) open3 login_welcome_result(5) [of h3 1] by (simp_all add: h4_def login_welcome_result(2) writable_def)
  ultimately have "fst (login_announce cfg h4) = Proceed"
    using login_announce_negotiated by simp
  then have "r = login_joined name (snd (login_announce cfg h4))"
    unfolding r_def handle_login_def hello(1) and_then_Proceed version(1) negotiate(1) welcomed
    by (simp add: snd_and_then)
  with kept show "fst r = Proceed" and "sm_state (session (snd r)) = ResourceAnnouncementSent"
    and "to_client (snd r) = to_client h @ [Welcome (client_id h) (motd (cfg_server cfg)) PROTOCOL_VERSION, AnnouncementMsg a]"
    and "client_id (snd r) = client_id h"
    and "\<exists>info. bt_get (clients (shared (snd r))) (client_id h) = Some info \<and> last_announcement info = Some a"
    using login_announces [OF negotiate(2) open3, of name cfg a ?v caps]
    by (simp_all add: h4_def row_kept_def) (simp add: login_joined_def)
qed

text \<open>The capabilities the client announces are never rejected.\<close>

lemma own_capabilities_accepted:
  "cn_decision (login_negotiation (normalize_login current_login_capabilities)) = Accepted"
  by code_simp

lemma fresh_handler:
  "sm_state (session (handle_connect u sh)) = Connected" "client_id (handle_connect u sh) = u"
  "to_client (handle_connect u sh) = []" "write_fails (handle_connect u sh) = None"
  by (simp_all add: handle_connect_simps sm_new_def) (simp add: handle_connect_def create_session_def Let_def record_event_def)

text \<open>The three lines of the handshake, each on any handler in the right phase.\<close>

lemma login_line:
  assumes "wire_ok up to_server from_str down to_peer decode" and "login_message config \<in> up"
    and "sm_state (session h) = Connected" and "write_fails h = None"
  obtains h1 where "conn_step cfg from_str (Some a) (LineRead (to_server (login_message config))) (AwaitLogin, h) = (InLoop, h1)"
    and "sm_state (session h1) = ResourceAnnouncementSent"
    and "to_client h1 = to_client h @ [Welcome (client_id h) (motd (cfg_server cfg)) PROTOCOL_VERSION, AnnouncementMsg a]"
    and "client_id h1 = client_id h"
    and "\<exists>info. bt_get (clients (shared h1)) (client_id h) = Some info \<and> last_announcement info = Some a"
proof -
  let ?caps = "normalize_login current_login_capabilities"
  have "decode_client_line from_str (to_server (login_message config)) = Inr (Login (cfg_name config) PROTOCOL_VERSION ?caps)"
    using assms(1,2) by (auto simp: wire_ok_def decode_client_line_def login_message_def)
  then have "handle_first_line cfg from_str (Some a) (to_server (login_message config)) h =
      handle_login cfg (Some a) (cfg_name config) PROTOCOL_VERSION ?caps h"
    by (simp add: handle_first_line_def)
  moreover note login_completes [where caps = ?caps and a = a and cfg = cfg and name = "cfg_name config",
      OF assms(3) _ assms(4), unfolded policy_rejects_def own_capabilities_accepted, simplified]
  ultimately show thesis
    using that by (cases "handle_login cfg (Some a) (cfg_name config) PROTOCOL_VERSION ?caps h") (simp add: finish_def)
qed

lemma chat_line:
  assumes "wire_ok up to_server from_str down to_peer decode" and "Chat message \<in> up"
  obtains g where "conn_step cfg from_str ann (LineRead (to_server (Chat message))) (InLoop, h) = (InLoop, g)"
    and "session g = session h" and "shared g = shared h" and "client_id g = client_id h" and "to_client g = to_client h"
proof -
  have "decode_client_line from_str (to_server (Chat message)) = Inr (Chat message)"
    using assms by (simp add: wire_ok_def decode_client_line_def)
  then show thesis
    using that by (simp add: handle_line_def finish_def on_chat_def Let_def broadcast_def)
qed

lemma report_line:
  assumes "wire_ok up to_server from_str down to_peer decode" and "AvailabilityReport report \<in> up"
    and "sm_state (session h) = ResourceAnnouncementSent"
    and "bt_get (clients (shared h)) (client_id h) = Some info" and "last_announcement info = Some a"
  obtains h2 where "conn_step cfg from_str ann (LineRead (to_server (AvailabilityReport report))) (InLoop, h) = (InLoop, h2)"
    and "sm_state (session h2) = ReadyDryRun"
    and "to_client h2 = to_client h @ [JoinGateDecisionMsg (build_join_gate_decision (evaluate_resource_policy a report))]"
proof -
  have "decode_client_line from_str (to_server (AvailabilityReport report)) = Inr (AvailabilityReport report)"
    using assms(1,2) by (simp add: wire_ok_def decode_client_line_def)
  with that report_completes_handshake [OF assms(3-5), of cfg report] show thesis
    by (cases "on_report cfg report h") (simp add: handle_line_def finish_def)
qed

lemma server_reads_login:
  assumes "wire_ok up to_server from_str down to_peer decode" and "login_message config \<in> up"
  obtains h1 where "server_reads cfg from_str (Some a) to_server [login_message config] (AwaitLogin, handle_connect u sh) = (InLoop, h1)"
    and "sm_state (session h1) = ResourceAnnouncementSent"
    and "to_client h1 = [Welcome u (motd (cfg_server cfg)) PROTOCOL_VERSION, AnnouncementMsg a]"
    and "client_id h1 = u"
    and "\<exists>info. bt_get (clients (shared h1)) u = Some info \<and> last_announcement info = Some a"
proof -
  obtain h1 where "conn_step cfg from_str (Some a) (LineRead (to_server (login_message config))) (AwaitLogin, handle_connect u sh) = (InLoop, h1)"
    "sm_state (session h1) = ResourceAnnouncementSent" "client_id h1 = u"
    "to_client h1 = [Welcome u (motd (cfg_server cfg)) PROTOCOL_VERSION, AnnouncementMsg a]"
    "\<exists>info. bt_get (clients (shared h1)) u = Some info \<and> last_announcement info = Some a"
    by (rule login_line [OF assms fresh_handler(1,4) [of u sh], of cfg a]) (simp only: fresh_handler append_Nil)
  with that show thesis by (simp add: server_reads_def)
qed

lemma server_reads_report:
  assumes "wire_ok up to_server from_str down to_peer decode" and "{Chat message, AvailabilityReport report} \<subseteq> up"
    and "sm_state (session h) = ResourceAnnouncementSent"
    and "bt_get (clients (shared h)) (client_id h) = Some info" and "last_announcement info = Some a"
  obtains h2 where "server_reads cfg from_str ann to_server [Chat message, AvailabilityReport report] (InLoop, h) = (InLoop, h2)"
    and "sm_state (session h2) = ReadyDryRun"
    and "to_client h2 = to_client h @ [JoinGateDecisionMsg (build_join_gate_decision (evaluate_resource_policy a report))]"
proof -
  obtain g where g: "conn_step cfg from_str ann (LineRead (to_server (Chat message))) (InLoop, h) = (InLoop, g)"
    "session g = session h" "shared g = shared h" "client_id g = client_id h" "to_client g = to_client h"
    using chat_line [OF assms(1), of message cfg ann h] assms(2) by auto
  have "AvailabilityReport report \<in> up" "sm_state (session g) = ResourceAnnouncementSent"
    "bt_get (clients (shared g)) (client_id g) = Some info"
    using assms(2-4) by (simp_all add: g)
  then obtain h2 where "conn_step cfg from_str ann (LineRead (to_server (AvailabilityReport report))) (InLoop, g) = (InLoop, h2)"
    "sm_state (session h2) = ReadyDryRun"
    "to_client h2 = to_client g @ [JoinGateDecisionMsg (build_join_gate_decision (evaluate_resource_policy a report))]"
    using report_line [OF assms(1) _ _ _ assms(5)] by metis
  with that g show thesis by (simp add: server_reads_def)
qed

section \<open>The client's side\<close>

lemma client_skips_broadcasts:
  assumes "\<forall>m\<in>set ms. decode_server_line env (to_peer m) = Inr m"
  shows "message_loop env opts (map (\<lambda>m. GotLine (to_peer m)) ms) st =
    message_loop env opts (map (\<lambda>m. GotLine (to_peer m)) (filter (\<lambda>m. \<not> is_broadcast m) ms)) st"
proof -
  let ?idle = "\<lambda>read. \<exists>m. is_broadcast m \<and> m \<in> set ms \<and> read = GotLine (to_peer m)"
  have idle: "client_step env opts read st = Inl st" if known: "?idle read" for read st
  proof -
    obtain m where m: "is_broadcast m" "m \<in> set ms" "read = GotLine (to_peer m)" using known by blast
    then have "on_server_message env opts m st = (KeepReading, st)" by (cases m) simp_all
    with m assms show ?thesis by (simp add: client_step_def)
  qed
  have same: "?idle (GotLine (to_peer m)) \<longleftrightarrow> is_broadcast m" if "m \<in> set ms" for m
    using assms that by (metis Inr_inject stream_read.inject(1))
  have "filter (\<lambda>read. \<not> ?idle read) (map (\<lambda>m. GotLine (to_peer m)) ms) =
      map (\<lambda>m. GotLine (to_peer m)) (filter (\<lambda>m. \<not> is_broadcast m) ms)"
    unfolding filter_map o_def by (rule arg_cong [where f = "map _"], rule filter_cong) (simp_all only: same)
  then show ?thesis
    using reading.run_skips [of "map (\<lambda>m. GotLine (to_peer m)) ms" ?idle env opts st] idle by simp
qed

lemma client_reads_delivered:
  assumes "wire_ok up to_server from_str down to_peer (decode_server_line env)" and "delivered down queue ms"
  shows "message_loop env opts (map (\<lambda>m. GotLine (to_peer m)) ms) st =
    message_loop env opts (map (\<lambda>m. GotLine (to_peer m)) queue) st"
    and "\<forall>m\<in>set queue. decode_server_line env (to_peer m) = Inr m"
proof -
  have "\<forall>m\<in>set ms. decode_server_line env (to_peer m) = Inr m"
    using assms by (auto simp: wire_ok_def delivered_def)
  then show "message_loop env opts (map (\<lambda>m. GotLine (to_peer m)) ms) st =
      message_loop env opts (map (\<lambda>m. GotLine (to_peer m)) queue) st"
    and "\<forall>m\<in>set queue. decode_server_line env (to_peer m) = Inr m"
    using client_skips_broadcasts [of ms env to_peer opts st] delivered_filter [OF assms(2)] by auto
qed

text \<open>
  The client after the announcement: it has checked it, computed its availability and sent it, and
  fetched if it may. A client that fetches and is to write a report of that goes on only if it can.
\<close>

definition fetch_report_writable :: "('k, 's) client_env \<Rightarrow> session_options \<Rightarrow> bool" where
  "fetch_report_writable env opts \<longleftrightarrow> (\<forall>q. so_allow_fetch opts \<longrightarrow> so_fetch_report opts = Some q \<longrightarrow>
     (\<forall>j. \<exists>json. to_string_pretty env j = Inr json) \<and> io_fail (fetching env) WriteFile (path_of_string q) = None)"

lemma session_fetch_goes_on:
  assumes "fetch_report_writable env opts" and "so_allow_fetch opts"
  shows "fst (session_fetch env opts a report st) = KeepReading"
proof -
  have json: "\<exists>json. to_string_pretty env j = Inr json" "io_fail (fetching env) WriteFile (path_of_string q) = None"
    if "so_fetch_report opts = Some q" for q j
    using assms that by (simp_all add: fetch_report_writable_def)
  obtain fs1 fetched where run: "execute_fetch_plan (fetching env) a (session_fetch_plan opts a report)
      \<lparr>allow_fetch = True, allow_cache_commit = False, fc_cache_dir = so_cache opts,
       fetch_report_path = so_fetch_report opts\<rparr> (cl_files st) = (fs1, fetched)" by fastforce
  show ?thesis
    using json(1) [of _ "fetch_report_json fetched"] json(2)
    by (auto simp: session_fetch_def run Let_def write_file_def split: option.split)
qed

definition reported :: "('k, 's) client_env \<Rightarrow> session_options \<Rightarrow> ResourceAnnouncement \<Rightarrow> console list \<Rightarrow>
    ResourceAvailabilityReport \<Rightarrow> session \<Rightarrow> session" where
  "reported env opts a out report st =
     (let st1 = printed [Out ''Resource availability report sent.''] (sent (AvailabilityReport report)
            (printed out (printed (print_engine_verification env a (so_keys opts)) st)))
      in if so_allow_fetch opts then snd (session_fetch env opts a report st1) else st1)"

lemma reported_sent: "cl_sent (reported env opts a out report st) = cl_sent st @ [AvailabilityReport report]"
  by (simp add: reported_def Let_def)

lemma client_reads_announcement:
  assumes "acceptable env opts a" and "fetch_report_writable env opts"
    and "handle_resource_announcement env (cl_files st) a (so_cache opts) = (out, Inr report)"
    and "\<forall>m\<in>{Welcome u hello v, AnnouncementMsg a}. decode_server_line env (to_peer m) = Inr m"
    and "cl_write_fails st = None"
  shows "message_loop env opts (map (\<lambda>m. GotLine (to_peer m)) [Welcome u hello v, AnnouncementMsg a]) st =
    (Inr (), reported env opts a out report st)"
  using assms(3-5) session_fetch_goes_on [OF assms(2)]
  by (auto simp: on_announcement_accepted [OF assms(1)] Let_def reported_def case_prod_beta)

section \<open>The heartbeat of the server\<close>

text \<open>
  One round: the ping timer of the connection fires, the client reads what this queued for it, and the
  server reads what the client sent in return.
\<close>

definition ping_round ::
  "ServerConfig \<Rightarrow> (string \<Rightarrow> string + ClientMessage) \<Rightarrow> ResourceAnnouncement option \<Rightarrow> (ClientMessage \<Rightarrow> string) \<Rightarrow>
   (ServerMessage \<Rightarrow> string) \<Rightarrow> ('k, 's) client_env \<Rightarrow> session_options \<Rightarrow>
   (conn_phase \<times> handler) \<times> session \<Rightarrow> (conn_phase \<times> handler) \<times> session" where
  "ping_round cfg from_str ann to_server to_peer env opts s =
     (case s of (conn, st) \<Rightarrow>
        let conn1 = conn_step cfg from_str ann PingTick conn;
            queue = drop (length (to_client (snd conn))) (to_client (snd conn1));
            st1 = snd (message_loop env opts (map (\<lambda>m. GotLine (to_peer m)) queue) st)
        in (server_reads cfg from_str ann to_server (drop (length (cl_sent st)) (cl_sent st1)) conn1, st1))"

text \<open>No ping of the connection is open.\<close>

definition all_answered :: "handler \<Rightarrow> bool" where
  "all_answered h \<longleftrightarrow>
     count_kind EvServerPingSent (event_log h) = count_kind EvServerPongReceived (event_log h)"

definition pings_wired :: "(ClientMessage \<Rightarrow> string) \<Rightarrow> (string \<Rightarrow> string + ClientMessage) \<Rightarrow>
    (ServerMessage \<Rightarrow> string) \<Rightarrow> (string \<Rightarrow> string + ServerMessage) \<Rightarrow> bool" where
  "pings_wired to_server from_str to_peer decode \<longleftrightarrow>
     wire_ok (range ServerPong) to_server from_str (range ServerPing) to_peer decode"

lemma tick_with_all_answered:
  assumes "all_answered h" and "log_len (event_log h) < 2 ^ 64 - 1"
  obtains h1 where "on_ping_tick cfg h = (Proceed, h1)"
    and "to_client h1 = to_client h @ [ServerPing (srv_ping_sequence h)]"
    and "event_log h1 = log_record EvServerPingSent (sm_state (session h))
      (''server heartbeat: sent ServerPing '' @ show_u64 (srv_ping_sequence h)) (event_log h)"
    and "session h1 = session h"
proof -
  have "fst (on_ping_tick cfg h) \<noteq> BreakLoop"
    using heartbeat_tick_flow [OF assms(2), of cfg] assms(1) by (simp add: all_answered_def)
  then show thesis
    using that by (auto simp: on_ping_tick_def Let_def record_event_def with_registry_def send_to_client_def split: if_splits)
qed

lemma pong_answers:
  assumes "pings_wired to_server from_str to_peer decode"
  shows "server_reads cfg from_str ann to_server [ServerPong n] (InLoop, h) = (InLoop, snd (on_server_pong n h))"
  using assms
  by (simp add: server_reads_def pings_wired_def wire_ok_def handle_line_def decode_client_line_def finish_def on_server_pong_def Let_def)

lemma ping_round_answered:
  assumes "pings_wired to_server from_str to_peer (decode_server_line env)"
    and "server_ping_interval_ms (cfg_heartbeat cfg) > 0" and "all_answered h" and "log_len (event_log h) < 2 ^ 64 - 1"
    and "cl_write_fails st = None"
  shows "\<exists>h'. ping_round cfg from_str ann to_server to_peer env opts ((InLoop, h), st) =
      ((InLoop, h'), sent (ServerPong (srv_ping_sequence h)) st) \<and>
      all_answered h' \<and> log_len (event_log h') = log_len (event_log h) + 2 \<and> session h' = session h"
proof -
  obtain h1 where h1: "on_ping_tick cfg h = (Proceed, h1)" "to_client h1 = to_client h @ [ServerPing (srv_ping_sequence h)]"
    "event_log h1 = log_record EvServerPingSent (sm_state (session h))
      (''server heartbeat: sent ServerPing '' @ show_u64 (srv_ping_sequence h)) (event_log h)" "session h1 = session h"
    using tick_with_all_answered [OF assms(3,4)] .
  have "decode_server_line env (to_peer (ServerPing n)) = Inr (ServerPing n)" for n
    using assms(1) by (simp add: pings_wired_def wire_ok_def)
  then have "ping_round cfg from_str ann to_server to_peer env opts ((InLoop, h), st) =
      ((InLoop, snd (on_server_pong (srv_ping_sequence h) h1)), sent (ServerPong (srv_ping_sequence h)) st)"
    using assms(2,5) h1 by (simp add: ping_round_def Let_def finish_def pong_answers [OF assms(1)])
  moreover have "all_answered (snd (on_server_pong n h1))" "session (snd (on_server_pong n h1)) = session h"
    "log_len (event_log (snd (on_server_pong n h1))) = log_len (event_log h) + 2" for n
    using assms(3) h1 by (simp_all add: all_answered_def on_server_pong_def Let_def record_event_def with_registry_def)
  ultimately show ?thesis by blast
qed

section \<open>Properties\<close>

text \<open>C4: The handshake completes. Take a connection that was just accepted by a server with an announcement,
  under any configuration, and a client that accepts that announcement and can compute its
  availability. The client's login is admitted; whatever broadcasts the writer task mixes into what
  the server then sends, the client answers with exactly its report; on the client's chat message and
  report the server's session becomes ready and sends the join-gate decision for that announcement and
  report; and the client prints it. The client may fetch in between; if it is to write a report of that,
  the report must be writable. Beside this, only the messages that are exchanged need to survive the
  wire, and the client's writes to succeed.
\<close>

theorem handshake_completes:
  assumes "wire_ok up to_server from_str down to_peer (decode_server_line env)"
    and "{login_message config, Chat (cfg_message config), AvailabilityReport report} \<subseteq> up"
    and "acceptable env opts a" and "fetch_report_writable env opts"
    and "handle_resource_announcement env (cl_files st) a (so_cache opts) = (out, Inr report)"
    and "cl_write_fails st = None"
  shows "\<exists>h1 h2 st1 decision.
    server_reads cfg from_str (Some a) to_server [login_message config] (AwaitLogin, handle_connect u sh) = (InLoop, h1) \<and>
    (\<forall>ms. delivered down (to_client h1) ms \<longrightarrow>
       message_loop env opts (map (\<lambda>m. GotLine (to_peer m)) ms) st = (Inr (), st1)) \<and>
    cl_sent st1 = cl_sent st @ [AvailabilityReport report] \<and>
    server_reads cfg from_str (Some a) to_server [Chat (cfg_message config), AvailabilityReport report] (InLoop, h1) = (InLoop, h2) \<and>
    sm_state (session h2) = ReadyDryRun \<and>
    decision = build_join_gate_decision (evaluate_resource_policy a report) \<and>
    to_client h2 = to_client h1 @ [JoinGateDecisionMsg decision] \<and>
    (\<forall>ms. delivered down [JoinGateDecisionMsg decision] ms \<longrightarrow>
       cl_console (snd (message_loop env opts (map (\<lambda>m. GotLine (to_peer m)) ms) st1)) =
         cl_console st1 @ print_join_gate_decision decision)"
proof -
  obtain h1 info where h1: "server_reads cfg from_str (Some a) to_server [login_message config] (AwaitLogin, handle_connect u sh) = (InLoop, h1)"
    "sm_state (session h1) = ResourceAnnouncementSent" "client_id h1 = u"
    "to_client h1 = [Welcome u (motd (cfg_server cfg)) PROTOCOL_VERSION, AnnouncementMsg a]"
    "bt_get (clients (shared h1)) (client_id h1) = Some info" "last_announcement info = Some a"
    using server_reads_login [OF assms(1)] assms(2) by (metis insert_subset)
  let ?decision = "build_join_gate_decision (evaluate_resource_policy a report)"
  obtain h2 where h2: "server_reads cfg from_str (Some a) to_server [Chat (cfg_message config), AvailabilityReport report] (InLoop, h1) = (InLoop, h2)"
    "sm_state (session h2) = ReadyDryRun" "to_client h2 = to_client h1 @ [JoinGateDecisionMsg ?decision]"
    using server_reads_report [OF assms(1) _ h1(2,5,6)] assms(2) by (metis insert_subset)
  let ?st1 = "reported env opts a out report st"
  have reads: "message_loop env opts (map (\<lambda>m. GotLine (to_peer m)) ms) st = (Inr (), ?st1)"
    if "delivered down (to_client h1) ms" for ms
    using client_reads_delivered [OF assms(1) that] client_reads_announcement [OF assms(3-5) _ assms(6)] by (simp add: h1(4))
  have prints: "cl_console (snd (message_loop env opts (map (\<lambda>m. GotLine (to_peer m)) ms) ?st1)) =
      cl_console ?st1 @ print_join_gate_decision ?decision"
    if "delivered down [JoinGateDecisionMsg ?decision] ms" for ms
    using client_reads_delivered(1) [OF assms(1) that, of opts ?st1] client_reads_delivered(2) [OF assms(1) that] by simp
  have "cl_sent ?st1 = cl_sent st @ [AvailabilityReport report]"
    by (rule reported_sent)
  with h1(1) h2 reads prints show ?thesis by blast
qed

text \<open>C20: A client that reads its messages is never disconnected by the heartbeat of the server. However many
  times the ping timer of a ready connection fires, if the client reads each ping before the next
  one, the connection stays open with its session unchanged, also under the strict heartbeat policy,
  and the client, whose writes succeed, has answered every ping.
\<close>

theorem answered_heartbeat_keeps_connection:
  assumes "pings_wired to_server from_str to_peer (decode_server_line env)"
    and "server_ping_interval_ms (cfg_heartbeat cfg) > 0" and "all_answered h"
    and "log_len (event_log h) + 2 * rounds < 2 ^ 64" and "cl_write_fails st = None"
  shows "\<exists>h' st'. (ping_round cfg from_str ann to_server to_peer env opts ^^ rounds) ((InLoop, h), st) = ((InLoop, h'), st') \<and>
    all_answered h' \<and> session h' = session h \<and> length (cl_sent st') = length (cl_sent st) + rounds \<and>
    log_len (event_log h') = log_len (event_log h) + 2 * rounds \<and> cl_write_fails st' = None"
  using assms(4)
proof (induction rounds)
  case 0
  with assms(3,5) show ?case by simp
next
  case (Suc n)
  then obtain h' st' where step: "(ping_round cfg from_str ann to_server to_peer env opts ^^ n) ((InLoop, h), st) = ((InLoop, h'), st')"
    "all_answered h'" "session h' = session h" "length (cl_sent st') = length (cl_sent st) + n"
    "log_len (event_log h') = log_len (event_log h) + 2 * n" "cl_write_fails st' = None"
    by auto
  with ping_round_answered [OF assms(1,2) step(2) _ step(6), of ann opts] Suc.prems show ?case by auto
qed

subsection \<open>A concrete handshake\<close>

definition demo_config :: ClientConfig where
  "demo_config = default_client_config"

definition demo_decision :: JoinGateDecision where
  "demo_decision = build_join_gate_decision (evaluate_resource_policy demo_signed demo_report)"

definition demo_welcome :: ServerMessage where
  "demo_welcome = Welcome [7] (motd (cfg_server strict_config)) PROTOCOL_VERSION"

fun demo_to_server :: "ClientMessage \<Rightarrow> string" where
  "demo_to_server (Login _ _ _) = ''login''"
| "demo_to_server (Chat _) = ''chat''"
| "demo_to_server _ = ''report''"

definition demo_from_str :: "string \<Rightarrow> string + ClientMessage" where
  "demo_from_str s = Inr (if s = ''login'' then login_message demo_config
     else if s = ''chat'' then Chat (cfg_message demo_config) else AvailabilityReport demo_report)"

fun demo_to_peer :: "ServerMessage \<Rightarrow> string" where
  "demo_to_peer (Welcome _ _ _) = ''welcome''"
| "demo_to_peer (AnnouncementMsg _) = ''announcement''"
| "demo_to_peer _ = ''decision''"

definition demo_peer_env :: "(bytes, bytes) client_env" where
  "demo_peer_env = demo_client_env\<lparr>decode_server_line := (\<lambda>s. Inr (if s = ''welcome'' then demo_welcome
     else if s = ''announcement'' then AnnouncementMsg demo_signed else JoinGateDecisionMsg demo_decision))\<rparr>"

lemma demo_wire:
  "wire_ok {login_message demo_config, Chat (cfg_message demo_config), AvailabilityReport demo_report} demo_to_server demo_from_str
     {demo_welcome, AnnouncementMsg demo_signed, JoinGateDecisionMsg demo_decision} demo_to_peer (decode_server_line demo_peer_env)"
  by (simp add: wire_ok_def demo_from_str_def demo_peer_env_def demo_welcome_def login_message_def)

theorem handshake_completes_witness:
  "\<exists>h1 h2.
    server_reads strict_config demo_from_str (Some demo_signed) demo_to_server [login_message demo_config]
      (AwaitLogin, handle_connect [7] default_shared) = (InLoop, h1) \<and>
    server_reads strict_config demo_from_str (Some demo_signed) demo_to_server
      [Chat (cfg_message demo_config), AvailabilityReport demo_report] (InLoop, h1) = (InLoop, h2) \<and>
    sm_state (session h2) = ReadyDryRun"
proof -
  have accepted: "acceptable demo_peer_env (demo_options [demo_key]) demo_signed"
    unfolding policy_accepts_iff [where keys = "[]", symmetric] by code_simp
  have "fetch_report_writable demo_peer_env (demo_options [demo_key])"
    by (simp add: fetch_report_writable_def demo_options_def)
  moreover have "snd (handle_resource_announcement demo_peer_env (cl_files demo_start) demo_signed (so_cache (demo_options [demo_key])))
      = Inr demo_report"
    by code_simp
  then obtain out where "handle_resource_announcement demo_peer_env (cl_files demo_start) demo_signed
      (so_cache (demo_options [demo_key])) = (out, Inr demo_report)"
    by (metis prod.collapse)
  ultimately show ?thesis
    using handshake_completes [OF demo_wire _ accepted, where cfg = strict_config and u = "[7]" and sh = default_shared
        and config = demo_config and report = demo_report and st = demo_start and out = out]
    by (auto simp: demo_start_def session_start_def)
qed

definition ping_env :: "(bytes, bytes) client_env" where
  "ping_env = demo_client_env\<lparr>decode_server_line := (\<lambda>s. Inr (ServerPing (of_nat (length s))))\<rparr>"

lemma ping_wire:
  "pings_wired (\<lambda>m. case m of ServerPong n \<Rightarrow> replicate (unat n) CHR ''x'' | _ \<Rightarrow> []) (\<lambda>s. Inr (ServerPong (of_nat (length s))))
     (\<lambda>m. case m of ServerPing n \<Rightarrow> replicate (unat n) CHR ''x'' | _ \<Rightarrow> []) (decode_server_line ping_env)"
  by (simp add: pings_wired_def wire_ok_def ping_env_def)

theorem answered_heartbeat_keeps_connection_witness:
  "\<exists>h' st'. (ping_round strict_config (\<lambda>s. Inr (ServerPong (of_nat (length s)))) None
      (\<lambda>m. case m of ServerPong n \<Rightarrow> replicate (unat n) CHR ''x'' | _ \<Rightarrow> [])
      (\<lambda>m. case m of ServerPing n \<Rightarrow> replicate (unat n) CHR ''x'' | _ \<Rightarrow> []) ping_env (demo_options []) ^^ 1000)
      ((InLoop, handle_connect [7] default_shared), demo_start) = ((InLoop, h'), st') \<and> length (cl_sent st') = 1000"
proof -
  have "all_answered (handle_connect [7] default_shared)" "log_len (event_log (handle_connect [7] default_shared)) + 2 * 1000 < 2 ^ 64"
    by (simp_all add: all_answered_def handle_connect_def create_session_def Let_def record_event_def)
  from answered_heartbeat_keeps_connection [OF ping_wire _ this, where cfg = strict_config and ann = None
      and opts = "demo_options []" and st = demo_start]
  show ?thesis by (auto simp: strict_config_def demo_start_def session_start_def)
qed

end
