(* ===== verification/Interleaving.thy ===== *)
theory Interleaving
  imports Handshake
begin

text \<open>
  A handshake among other connections: between any two lines of a client the server may accept other
  clients and react to anything they send. Their events leave the connection alone, so the handshake
  completes as it does alone.
\<close>

section \<open>What the others do\<close>

text \<open>\<open>meanwhile cfg from_str u (n, s) (n', s')\<close>: from \<open>s\<close> with \<open>n\<close> accepted connections to \<open>s'\<close> with \<open>n'\<close>, without an event of \<open>u\<close>.\<close>

inductive meanwhile ::
  "ServerConfig \<Rightarrow> (string \<Rightarrow> string + ClientMessage) \<Rightarrow> Uuid \<Rightarrow> nat \<times> server \<Rightarrow> nat \<times> server \<Rightarrow> bool"
  for cfg from_str u where
  nothing: "meanwhile cfg from_str u (n, s) (n, s)"
| accepts: "meanwhile cfg from_str u (n, s) (n', s') \<Longrightarrow> w \<noteq> u \<Longrightarrow> sv_conns s' w = None \<Longrightarrow>
    meanwhile cfg from_str u (n, s) (Suc n', accept_connection w s')"
| reacts: "meanwhile cfg from_str u (n, s) (n', s') \<Longrightarrow> w \<noteq> u \<Longrightarrow>
    meanwhile cfg from_str u (n, s) (n', deliver cfg from_str ann ev w s')"

lemma meanwhile_count: "meanwhile cfg from_str u (n, s) (n', s') \<Longrightarrow> n \<le> n'"
  by (induction "(n, s)" "(n', s')" arbitrary: n' s' rule: meanwhile.induct) auto

lemma meanwhile_keeps:
  assumes "meanwhile cfg from_str u (n, s) (n', s')" and "server_reachable cfg from_str n s" and "n' < 2 ^ 64"
    and "sv_conns s u = Some d"
  shows "server_reachable cfg from_str n' s'" and "sv_conns s' u = Some d"
    and "bt_get (clients (sv_shared s')) u = bt_get (clients (sv_shared s)) u"
proof -
  have "server_reachable cfg from_str n' s' \<and> sv_conns s' u = Some d \<and>
      bt_get (clients (sv_shared s')) u = bt_get (clients (sv_shared s)) u"
    using assms(1,3)
  proof (induction "(n, s)" "(n', s')" arbitrary: n' s' rule: meanwhile.induct)
    case nothing
    with assms show ?case by simp
  next
    case (accepts m t w)
    have "sv_conns (accept_connection w t) u = sv_conns t u" "clients (sv_shared (accept_connection w t)) = clients (sv_shared t)"
      using accepts.hyps(3) by (simp_all add: accept_connection_def Let_def handle_connect_simps)
    with accepts show ?case by (auto intro: server_reachable.accept)
  next
    case (reacts m t w ann ev)
    then have t: "server_reachable cfg from_str m t" "sv_conns t u = Some d"
      "bt_get (clients (sv_shared t)) u = bt_get (clients (sv_shared s)) u" by auto
    with deliver_isolated [OF server_reachable_invar [OF t(1) reacts.prems] t(2)] reacts.hyps(3) show ?case
      by (auto intro: server_reachable.event)
  qed
  then show "server_reachable cfg from_str n' s'" "sv_conns s' u = Some d"
    "bt_get (clients (sv_shared s')) u = bt_get (clients (sv_shared s)) u" by simp_all
qed

section \<open>A handshake among others\<close>

text \<open>The connection of \<open>u\<close> was announced \<open>a\<close>, its session is in \<open>st\<close>, and \<open>queue\<close> is what it was sent so far.\<close>

definition announced :: "Uuid \<Rightarrow> ResourceAnnouncement \<Rightarrow> SessionState \<Rightarrow> ServerMessage list \<Rightarrow> server \<Rightarrow> bool" where
  "announced u a st queue s \<longleftrightarrow>
     (\<exists>h info. sv_conns s u = Some (InLoop, h) \<and> sm_state (session h) = st \<and> client_id h = u \<and> to_client h = queue \<and>
        bt_get (clients (sv_shared s)) u = Some info \<and> last_announcement info = Some a)"

lemma meanwhile_announced:
  assumes "announced u a st queue s" and "meanwhile cfg from_str u (n, s) (n', s')" and "server_reachable cfg from_str n s"
    and "n' < 2 ^ 64"
  shows "announced u a st queue s'" and "server_reachable cfg from_str n' s'"
  using assms(1) meanwhile_keeps [OF assms(2,3,4)] by (auto simp: announced_def)

lemma deliver_login:
  assumes "wire_ok up to_server from_str down to_peer decode" and "login_message config \<in> up"
    and "sv_conns s u = Some (AwaitLogin, h)" and "sm_state (session h) = Connected" and "client_id h = u" and "to_client h = []"
    and "write_fails h = None"
  shows "announced u a ResourceAnnouncementSent [Welcome u (motd (cfg_server cfg)) PROTOCOL_VERSION, AnnouncementMsg a]
    (deliver cfg from_str (Some a) (LineRead (to_server (login_message config))) u s)"
proof -
  let ?g = "h\<lparr>shared := sv_shared s\<rparr>"
  have g: "sm_state (session ?g) = Connected" "write_fails ?g = None" "client_id ?g = u" "to_client ?g = []"
    using assms(4-7) by simp_all
  obtain h1 where "conn_step cfg from_str (Some a) (LineRead (to_server (login_message config))) (AwaitLogin, ?g) = (InLoop, h1)"
    "sm_state (session h1) = ResourceAnnouncementSent" "client_id h1 = u"
    "to_client h1 = [Welcome u (motd (cfg_server cfg)) PROTOCOL_VERSION, AnnouncementMsg a]"
    "\<exists>info. bt_get (clients (shared h1)) u = Some info \<and> last_announcement info = Some a"
    by (rule login_line [OF assms(1,2) g(1,2), of cfg a]) (simp only: g append_Nil)
  then show ?thesis by (simp add: announced_def deliver_def assms(3))
qed

lemma deliver_chat:
  assumes "wire_ok up to_server from_str down to_peer decode" and "Chat message \<in> up" and "announced u a st queue s"
  shows "announced u a st queue (deliver cfg from_str ann (LineRead (to_server (Chat message))) u s)"
proof -
  obtain h info where h: "sv_conns s u = Some (InLoop, h)" "sm_state (session h) = st" "client_id h = u" "to_client h = queue"
    "bt_get (clients (sv_shared s)) u = Some info" "last_announcement info = Some a"
    using assms(3) by (auto simp: announced_def)
  obtain g where "conn_step cfg from_str ann (LineRead (to_server (Chat message))) (InLoop, h\<lparr>shared := sv_shared s\<rparr>) = (InLoop, g)"
    "session g = session h" "shared g = sv_shared s" "client_id g = client_id h" "to_client g = to_client h"
    by (rule chat_line [OF assms(1,2), of cfg ann "h\<lparr>shared := sv_shared s\<rparr>"]) simp
  with h show ?thesis by (simp add: announced_def deliver_def)
qed

lemma deliver_report:
  assumes "wire_ok up to_server from_str down to_peer decode" and "AvailabilityReport report \<in> up"
    and "announced u a ResourceAnnouncementSent queue s"
  shows "\<exists>h. sv_conns (deliver cfg from_str ann (LineRead (to_server (AvailabilityReport report))) u s) u = Some (InLoop, h) \<and>
    sm_state (session h) = ReadyDryRun \<and>
    to_client h = queue @ [JoinGateDecisionMsg (build_join_gate_decision (evaluate_resource_policy a report))]"
proof -
  obtain h info where h: "sv_conns s u = Some (InLoop, h)" "sm_state (session h) = ResourceAnnouncementSent" "client_id h = u"
    "to_client h = queue" "bt_get (clients (sv_shared s)) u = Some info" "last_announcement info = Some a"
    using assms(3) by (auto simp: announced_def)
  let ?g = "h\<lparr>shared := sv_shared s\<rparr>"
  have g: "sm_state (session ?g) = ResourceAnnouncementSent" "bt_get (clients (shared ?g)) (client_id ?g) = Some info"
    using h by simp_all
  obtain h2 where "conn_step cfg from_str ann (LineRead (to_server (AvailabilityReport report))) (InLoop, ?g) = (InLoop, h2)"
    "sm_state (session h2) = ReadyDryRun"
    "to_client h2 = queue @ [JoinGateDecisionMsg (build_join_gate_decision (evaluate_resource_policy a report))]"
    by (rule report_line [OF assms(1,2) g h(6), of cfg ann]) (simp add: h(4))
  with h(1) show ?thesis by (simp add: deliver_def)
qed

section \<open>Properties\<close>

text \<open>C6: No client can disturb the handshake of another. On a server that accepted any clients before, a new
  client is accepted and sends its login, its chat message and its availability report; in between,
  and in any order, other clients are accepted, send anything, fail and leave. The connection of the
  new client is then in its message loop with a ready session, and what it was sent is exactly the
  welcome, the announcement and the decision for that announcement and report.
\<close>

theorem handshake_undisturbed:
  assumes "wire_ok up to_server from_str down to_peer decode"
    and "{login_message config, Chat message, AvailabilityReport report} \<subseteq> up"
    and "server_reachable cfg from_str n s" and "sv_conns s u = None"
    and "meanwhile cfg from_str u (Suc n, accept_connection u s) (n1, s1)"
    and "meanwhile cfg from_str u (n1, deliver cfg from_str (Some a) (LineRead (to_server (login_message config))) u s1) (n2, s2)"
    and "meanwhile cfg from_str u (n2, deliver cfg from_str ann (LineRead (to_server (Chat message))) u s2) (n3, s3)"
    and "n3 < 2 ^ 64"
  shows "\<exists>h. sv_conns (deliver cfg from_str ann' (LineRead (to_server (AvailabilityReport report))) u s3) u = Some (InLoop, h) \<and>
    sm_state (session h) = ReadyDryRun \<and>
    to_client h = [Welcome u (motd (cfg_server cfg)) PROTOCOL_VERSION, AnnouncementMsg a,
      JoinGateDecisionMsg (build_join_gate_decision (evaluate_resource_policy a report))]"
proof -
  have bounds: "n1 < 2 ^ 64" "n2 < 2 ^ 64"
    using meanwhile_count [OF assms(6)] meanwhile_count [OF assms(7)] assms(8) by simp_all
  let ?h = "handle_connect u (sv_shared s)"
  have "sv_conns (accept_connection u s) u = Some (AwaitLogin, ?h)"
    by (simp add: accept_connection_def Let_def)
  note start = meanwhile_keeps [OF assms(5) server_reachable.accept [OF assms(3,4)] bounds(1) this]
  let ?queue = "[Welcome u (motd (cfg_server cfg)) PROTOCOL_VERSION, AnnouncementMsg a]"
  have "announced u a ResourceAnnouncementSent ?queue (deliver cfg from_str (Some a) (LineRead (to_server (login_message config))) u s1)"
    using assms(2) by (intro deliver_login [OF assms(1) _ start(2)]) (simp_all add: fresh_handler)
  note login = meanwhile_announced [OF this assms(6) server_reachable.event [OF start(1)] bounds(2)]
  have "announced u a ResourceAnnouncementSent ?queue (deliver cfg from_str ann (LineRead (to_server (Chat message))) u s2)"
    using assms(2) by (intro deliver_chat [OF assms(1) _ login(1)]) simp
  note chat = meanwhile_announced [OF this assms(7) server_reachable.event [OF login(2)] assms(8)]
  show ?thesis
    using deliver_report [OF assms(1) _ chat(1), of report cfg ann'] assms(2) by simp
qed

theorem handshake_undisturbed_witness:
  "\<exists>h. sv_conns (deliver strict_config demo_from_str None (LineRead ''report'') [7]
      (deliver strict_config demo_from_str None (LineRead ''chat'') [7]
      (deliver strict_config demo_from_str None ReadEof [8]
      (deliver strict_config demo_from_str (Some demo_signed) (LineRead ''login'') [7]
      (accept_connection [8] (accept_connection [7] (server_start strict_config))))))) [7] = Some (InLoop, h) \<and>
   sm_state (session h) = ReadyDryRun"
proof -
  let ?s = "server_start strict_config"
  let ?s1 = "accept_connection [8] (accept_connection [7] ?s)"
  let ?l1 = "deliver strict_config demo_from_str (Some demo_signed) (LineRead (demo_to_server (login_message demo_config))) [7] ?s1"
  let ?s2 = "deliver strict_config demo_from_str None ReadEof [8] ?l1"
  let ?l2 = "deliver strict_config demo_from_str None (LineRead (demo_to_server (Chat (cfg_message demo_config)))) [7] ?s2"
  have empty: "sv_conns ?s [7] = None" by (simp add: server_start_def)
  have m1: "meanwhile strict_config demo_from_str [7] (Suc 0, accept_connection [7] ?s) (Suc (Suc 0), ?s1)"
    by (rule meanwhile.accepts [OF meanwhile.nothing]) (simp_all add: server_start_def accept_connection_def Let_def)
  have m2: "meanwhile strict_config demo_from_str [7] (Suc (Suc 0), ?l1) (Suc (Suc 0), ?s2)"
    by (rule meanwhile.reacts [OF meanwhile.nothing]) simp
  have m3: "meanwhile strict_config demo_from_str [7] (Suc (Suc 0), ?l2) (Suc (Suc 0), ?l2)"
    by (rule meanwhile.nothing)
  have "demo_to_server (login_message demo_config) = ''login''" by (simp add: login_message_def)
  with handshake_undisturbed [OF demo_wire order_refl server_reachable.start empty m1 m2 m3, of None] show ?thesis
    by auto
qed

end
