(* ===== verification/Server_Run.thy ===== *)
theory Server_Run
  imports Connections Event_Loop
begin

text \<open>
  The server process (\<^verbatim>\<open>main.rs\<close> and \<^verbatim>\<open>run_with_listener_and_state\<close> of \<^verbatim>\<open>lib.rs\<close> under \<^verbatim>\<open>crates/server/src\<close>):
  configuration, listener, the accept loop beside the admin console, and the final summary. What
  happens to the process is a list of events in the order in which they happen.
\<close>

section \<open>Events\<close>

text \<open>\<open>StdinEnd\<close> is the end of the standard input or an error of reading it.\<close>

datatype server_event =
    ConnAccepted Uuid
  | AcceptFailed string
  | ClientEvent Uuid client_event "ResourceAnnouncement option"
  | StdinLine string
  | StdinEnd

record run_state =
  rn_server :: server
  rn_log :: "string list"

datatype run_result = Serving run_state | Finished "string + unit" "ShutdownSummary option" run_state

definition run_start :: "ServerConfig \<Rightarrow> run_state" where
  "run_start cfg = \<lparr>rn_server = server_start cfg, rn_log = []\<rparr>"

text \<open>The end of \<^verbatim>\<open>run_with_listener_and_state\<close>: a summary only where the admin console is enabled.\<close>

definition finish_run :: "ServerConfig \<Rightarrow> string + unit \<Rightarrow> run_state \<Rightarrow> run_result" where
  "finish_run cfg result r =
     Finished result
       (if local_stdin_enabled (cfg_admin cfg)
        then Some (final_summary cfg (registry (sv_shared (rn_server r))) (shutdown (sv_shared (rn_server r)))) else None) r"

text \<open>One line of the console, with the registry and the shutdown state of that moment.\<close>

definition console_step :: "ServerConfig \<Rightarrow> string \<Rightarrow> run_state \<Rightarrow> run_result" where
  "console_step cfg line r =
     (let s = rn_server r; sh = sv_shared s
      in case admin_stdin_loop cfg [(line, registry sh)] (shutdown sh) of
           (out, sd, quit) \<Rightarrow>
             let r1 = \<lparr>rn_server = s\<lparr>sv_shared := sh\<lparr>shutdown := sd\<rparr>\<rparr>, rn_log = rn_log r @ out\<rparr>
             in if quit then finish_run cfg (Inr ()) r1 else Serving r1)"

text \<open>
  The \<^verbatim>\<open>select\<close> ends when the accept loop fails or when the quit channel resolves. The console loop
  sends on the channel after a quit command; when it ends otherwise it drops the sender, and the
  receiver resolves as well.
\<close>

fun serve_step ::
  "ServerConfig \<Rightarrow> (string \<Rightarrow> string + ClientMessage) \<Rightarrow> server_event \<Rightarrow> run_state \<Rightarrow> run_result" where
  "serve_step cfg from_str (ConnAccepted u) r = Serving (r\<lparr>rn_server := accept_connection u (rn_server r)\<rparr>)"
| "serve_step cfg from_str (AcceptFailed e) r = finish_run cfg (Inl e) r"
| "serve_step cfg from_str (ClientEvent u ev ann) r =
     Serving (r\<lparr>rn_server := deliver cfg from_str ann ev u (rn_server r)\<rparr>)"
| "serve_step cfg from_str (StdinLine line) r =
     (if local_stdin_enabled (cfg_admin cfg) then console_step cfg line r else Serving r)"
| "serve_step cfg from_str StdinEnd r =
     (if local_stdin_enabled (cfg_admin cfg) then finish_run cfg (Inr ()) r else Serving r)"

fun serve ::
  "ServerConfig \<Rightarrow> (string \<Rightarrow> string + ClientMessage) \<Rightarrow> server_event list \<Rightarrow> run_state \<Rightarrow> run_result" where
  "serve cfg from_str [] r = Serving r"
| "serve cfg from_str (ev # evs) r =
     (case serve_step cfg from_str ev r of Serving r1 \<Rightarrow> serve cfg from_str evs r1 | ended \<Rightarrow> ended)"

section \<open>The process\<close>

text \<open>The surroundings of the process: address syntax, files, TOML, environment, what binding an address does.\<close>

record host =
  is_socket_addr :: "string \<Rightarrow> bool"
  read_config :: "string \<Rightarrow> string option"
  server_from_toml :: "string \<Rightarrow> ServerConfig option"
  host_var :: "string \<Rightarrow> string option"
  bind_error :: "string \<Rightarrow> string option"

datatype process_end = StartFailed string | Started ServerConfig run_result

definition server_main ::
  "host \<Rightarrow> (string \<Rightarrow> string + ClientMessage) \<Rightarrow> string list \<Rightarrow> server_event list \<Rightarrow> process_end" where
  "server_main host from_str args evs =
     (case load_with_env (is_socket_addr host) (read_config host) (server_from_toml host) (host_var host)
             (parse_config_flag (drop 1 args)) of
        Inl e \<Rightarrow> StartFailed e
      | Inr cfg \<Rightarrow>
          (case bind_error host (bind_addr (cfg_server cfg)) of
             Some e \<Rightarrow> StartFailed e
           | None \<Rightarrow> Started cfg (serve cfg from_str evs (run_start cfg))))"

section \<open>Lemmas\<close>

definition accepted_ids :: "server_event list \<Rightarrow> Uuid list" where
  "accepted_ids evs = List.map_filter (\<lambda>e. case e of ConnAccepted u \<Rightarrow> Some u | _ \<Rightarrow> None) evs"

lemma accepted_ids_simps [simp]:
  "accepted_ids [] = []" "accepted_ids (ConnAccepted u # evs) = u # accepted_ids evs"
  "accepted_ids (AcceptFailed e # evs) = accepted_ids evs" "accepted_ids (ClientEvent v ev ann # evs) = accepted_ids evs"
  "accepted_ids (StdinLine l # evs) = accepted_ids evs" "accepted_ids (StdinEnd # evs) = accepted_ids evs"
  by (simp_all add: accepted_ids_def map_filter_simps)

text \<open>The events that end the process.\<close>

primrec stops :: "ServerConfig \<Rightarrow> server_event \<Rightarrow> bool" where
  "stops cfg (ConnAccepted u) = False"
| "stops cfg (AcceptFailed e) = True"
| "stops cfg (ClientEvent u ev ann) = False"
| "stops cfg (StdinLine l) = (local_stdin_enabled (cfg_admin cfg) \<and> map to_ascii_lower (str_trim l) = ''quit'')"
| "stops cfg StdinEnd = local_stdin_enabled (cfg_admin cfg)"

lemma console_step_result:
  "\<exists>r'. sv_conns (rn_server r') = sv_conns (rn_server r) \<and>
     registry (sv_shared (rn_server r')) = registry (sv_shared (rn_server r)) \<and>
     clients (sv_shared (rn_server r')) = clients (sv_shared (rn_server r)) \<and>
     console_step cfg line r =
       (if map to_ascii_lower (str_trim line) = ''quit'' then finish_run cfg (Inr ()) r' else Serving r')"
proof -
  let ?s = "rn_server r"
  let ?sh = "sv_shared ?s"
  obtain out sd quit where loop: "admin_stdin_loop cfg [(line, registry ?sh)] (shutdown ?sh) = (out, sd, quit)"
    using prod_cases3 by blast
  have "quit = snd (snd (admin_stdin_loop cfg [(line, registry ?sh)] (shutdown ?sh)))"
    by (simp only: loop snd_conv)
  then have "quit \<longleftrightarrow> map to_ascii_lower (str_trim line) = ''quit''"
    by (simp only: admin_loop_result) (simp add: Let_def parse_quit_iff)
  then show ?thesis
    using loop
    by (intro exI [of _ "\<lparr>rn_server = ?s\<lparr>sv_shared := ?sh\<lparr>shutdown := sd\<rparr>\<rparr>, rn_log = rn_log r @ out\<rparr>"])
      (simp del: admin_stdin_loop.simps add: console_step_def Let_def)
qed

lemma serve_step_stops: "(\<exists>res summary r'. serve_step cfg from_str ev r = Finished res summary r') \<longleftrightarrow> stops cfg ev"
proof (cases ev)
  case (StdinLine l)
  with console_step_result [of r cfg l] show ?thesis
    by (auto simp: finish_run_def split: if_splits)
qed (simp_all add: finish_run_def)

text \<open>The state after an event, whether it ends the process or not.\<close>

primrec state_of :: "run_result \<Rightarrow> run_state" where
  "state_of (Serving r) = r"
| "state_of (Finished res summary r) = r"

lemma server_invar_cong:
  assumes "server_invar n s" and "sv_conns s' = sv_conns s" and "registry (sv_shared s') = registry (sv_shared s)"
    and "clients (sv_shared s') = clients (sv_shared s)"
  shows "server_invar n s'"
  using assms(1) unfolding server_invar_def conn_ok_def assms(2-4) .

lemma deliver_dom: "dom (sv_conns (deliver cfg from_str ann ev u s)) \<subseteq> dom (sv_conns s)"
  by (auto simp: deliver_def split: option.splits prod.splits if_splits)

text \<open>Every event keeps the invariant of the server, as long as client ids are not used twice.\<close>

definition run_ok :: "nat \<Rightarrow> Uuid set \<Rightarrow> run_state \<Rightarrow> bool" where
  "run_ok n used r \<longleftrightarrow> server_invar n (rn_server r) \<and> dom (sv_conns (rn_server r)) \<subseteq> used"

lemma serve_step_ok:
  assumes "run_ok n used r" and "set (accepted_ids [ev]) \<inter> used = {}" and "Suc n < 2 ^ 64"
  shows "run_ok (n + length (accepted_ids [ev])) (used \<union> set (accepted_ids [ev])) (state_of (serve_step cfg from_str ev r))"
proof (cases ev)
  case (ConnAccepted u)
  then have "sv_conns (rn_server r) u = None" using assms(1,2) by (auto simp: run_ok_def)
  with ConnAccepted assms(1,3) server_invar_accept [of n "rn_server r" u] show ?thesis
    by (auto simp: run_ok_def accept_connection_def Let_def)
next
  case (ClientEvent u e ann)
  with assms(1) show ?thesis
    using server_invar_deliver deliver_dom by (simp add: run_ok_def) (meson order_trans)
next
  case (StdinLine l)
  obtain r' where r': "sv_conns (rn_server r') = sv_conns (rn_server r)"
    "registry (sv_shared (rn_server r')) = registry (sv_shared (rn_server r))"
    "clients (sv_shared (rn_server r')) = clients (sv_shared (rn_server r))"
    "state_of (console_step cfg l r) = r'"
    using console_step_result [of r cfg l] by (force simp: finish_run_def)
  have "run_ok n used r'"
    using assms(1) server_invar_cong [OF _ r'(1-3)] r'(1) by (simp add: run_ok_def)
  with StdinLine assms(1) r'(4) show ?thesis by simp
qed (use assms(1) in \<open>simp_all add: run_ok_def finish_run_def\<close>)

lemma serve_ok:
  assumes "run_ok n used r" and "distinct (accepted_ids evs)" and "set (accepted_ids evs) \<inter> used = {}"
    and "n + length evs < 2 ^ 64"
  shows "\<exists>n'. server_invar n' (rn_server (state_of (serve cfg from_str evs r)))"
  using assms
proof (induction evs arbitrary: n used r)
  case Nil
  then show ?case by (auto simp: run_ok_def)
next
  case (Cons ev evs)
  have ids: "accepted_ids (ev # evs) = accepted_ids [ev] @ accepted_ids evs"
    by (simp add: accepted_ids_def map_filter_simps split: option.splits)
  have short: "length (accepted_ids [ev]) \<le> 1"
    by (simp add: accepted_ids_def map_filter_simps split: option.splits)
  have step: "run_ok (n + length (accepted_ids [ev])) (used \<union> set (accepted_ids [ev])) (state_of (serve_step cfg from_str ev r))"
    using serve_step_ok [OF Cons.prems(1)] Cons.prems(3,4) unfolding ids by auto
  show ?case
  proof (cases "serve_step cfg from_str ev r")
    case (Serving r1)
    with Cons.IH [OF step] Cons.prems(2-4) short show ?thesis unfolding ids by auto
  next
    case (Finished res summary r1)
    with step show ?thesis by (auto simp: run_ok_def)
  qed
qed

text \<open>Sessions of the registry and live connections in the same state are equally many.\<close>

lemma live_counts:
  assumes "server_invar n s"
  shows "card {sid. \<exists>e. reg_get (registry (sv_shared s)) sid = Some e \<and> P (re_state e)} =
    card {u. \<exists>ph h. sv_conns s u = Some (ph, h) \<and> P (sm_state (session h))}" (is "card ?S = card ?U")
proof -
  let ?f = "\<lambda>u. session_id (snd (the (sv_conns s u)))"
  note inv = server_invarD [OF assms]
  have entry: "\<exists>e. reg_get (registry (sv_shared s)) (session_id h) = Some e \<and> re_state e = sm_state (session h)"
    if "sv_conns s u = Some (ph, h)" for u ph h
    using inv(2) [OF that] by (auto simp: conn_ok_def)
  have inj: "inj_on ?f ?U"
    using inv(3) by (intro inj_onI) fastforce
  have image: "?f ` ?U = ?S"
  proof (intro equalityI subsetI)
    fix sid assume "sid \<in> ?f ` ?U"
    then show "sid \<in> ?S" using entry by fastforce
  next
    fix sid assume "sid \<in> ?S"
    then obtain e where e: "reg_get (registry (sv_shared s)) sid = Some e" "P (re_state e)" by blast
    then obtain u ph h where u: "sv_conns s u = Some (ph, h)" "session_id h = sid"
      using inv(4) [of sid] by auto
    with entry [OF u(1)] e have "u \<in> ?U" by auto
    with u show "sid \<in> ?f ` ?U" by (force simp: image_iff)
  qed
  show ?thesis
    using card_image [OF inj] unfolding image .
qed

lemma run_start_ok: "run_ok 0 {} (run_start cfg)"
  using server_invar_start by (simp add: run_ok_def run_start_def server_start_def)

lemma serve_step_ending:
  assumes "stops cfg ev"
  shows "\<exists>summary r'. serve_step cfg from_str ev r =
      Finished (case ev of AcceptFailed e \<Rightarrow> Inl e | _ \<Rightarrow> Inr ()) summary r' \<and>
    (summary = None \<longleftrightarrow> \<not> local_stdin_enabled (cfg_admin cfg))"
proof (cases ev)
  case (StdinLine l)
  with assms console_step_result [of r cfg l] show ?thesis by (auto simp: finish_run_def)
qed (use assms in \<open>simp_all add: finish_run_def\<close>)

lemma serve_step_summary:
  assumes "serve_step cfg from_str ev r = Finished res summary r'"
  shows "summary = (if local_stdin_enabled (cfg_admin cfg)
      then Some (final_summary cfg (registry (sv_shared (rn_server r'))) (shutdown (sv_shared (rn_server r')))) else None)"
proof (cases ev)
  case (StdinLine l)
  obtain q where q: "console_step cfg l r = (if map to_ascii_lower (str_trim l) = ''quit'' then finish_run cfg (Inr ()) q else Serving q)"
    using console_step_result [of r cfg l] by blast
  show ?thesis
    using assms StdinLine by (auto simp: q finish_run_def split: if_splits)
qed (use assms in \<open>auto simp: finish_run_def split: if_splits\<close>)

text \<open>The process as a loop over its events.\<close>

interpretation serving: event_loop
  "\<lambda>ev r. case serve_step cfg from_str ev r of Serving r1 \<Rightarrow> Inl r1 | Finished res summary r1 \<Rightarrow> Inr (Finished res summary r1)"
  Serving "serve cfg from_str" for cfg from_str
  by unfold_locales (auto split: run_result.split)

lemma serve_summary:
  assumes "serve cfg from_str evs r = Finished res summary r'"
  shows "summary = (if local_stdin_enabled (cfg_admin cfg)
      then Some (final_summary cfg (registry (sv_shared (rn_server r'))) (shutdown (sv_shared (rn_server r')))) else None)"
    (is "?ok summary r'")
proof -
  have "\<forall>res summary r'. serve cfg from_str evs r = Finished res summary r' \<longrightarrow> ?ok summary r'"
    by (rule serving.run_invariant [where P = "\<lambda>_. True" and Q = "\<lambda>x. \<forall>res summary r'. x = Finished res summary r' \<longrightarrow> ?ok summary r'"])
      (auto dest: serve_step_summary split: run_result.splits)
  with assms show ?thesis by blast
qed

section \<open>Properties\<close>

text \<open>C28: When the server stops. The process serves until the first event that stops it: the listener fails,
  or, with the admin console enabled, a line of the console is the quit command or the standard input
  ends. It then returns the listener's error or success, and has a final summary exactly if the
  console is enabled. No message, error or disconnect of a client ever stops it.
\<close>

theorem server_stops_at_first_stop:
  "case find (stops cfg) evs of
     None \<Rightarrow> \<exists>r'. serve cfg from_str evs r = Serving r'
   | Some ev \<Rightarrow> \<exists>summary r'. serve cfg from_str evs r =
       Finished (case ev of AcceptFailed e \<Rightarrow> Inl e | _ \<Rightarrow> Inr ()) summary r' \<and>
       (summary = None \<longleftrightarrow> \<not> local_stdin_enabled (cfg_admin cfg))"
proof -
  have ends: "(\<exists>x. (case serve_step cfg from_str ev r of Serving r1 \<Rightarrow> Inl r1 | Finished res summary r1 \<Rightarrow> Inr (Finished res summary r1))
      = Inr x) \<longleftrightarrow> stops cfg ev" for ev r
    using serve_step_stops [of cfg from_str ev r] by (auto split: run_result.split)
  show ?thesis
  proof (cases "find (stops cfg) evs")
    case None
    with serving.run_ends_at_first [OF ends, of evs r] show ?thesis by simp
  next
    case (Some ev)
    with serving.run_ends_at_first [OF ends, of evs r] obtain s where
      "serve cfg from_str evs r = serve_step cfg from_str ev s"
      by (auto split: run_result.splits) (metis run_result.exhaust)
    moreover have "stops cfg ev" using Some by (auto simp: find_Some_iff)
    ultimately show ?thesis using Some serve_step_ending by simp
  qed
qed

text \<open>What a snapshot of the registry says about the live connections.\<close>

lemma snapshot_live_counts:
  assumes "server_invar n s"
  shows "connected_sessions (snapshot (registry (sv_shared s))) =
      card {u. \<exists>ph h. sv_conns s u = Some (ph, h) \<and> True}"
    and "ready_dry_run_sessions (snapshot (registry (sv_shared s))) =
      card {u. \<exists>ph h. sv_conns s u = Some (ph, h) \<and> sm_state (session h) = ReadyDryRun}"
    and "failed_sessions (snapshot (registry (sv_shared s))) =
      card {u. \<exists>ph h. sv_conns s u = Some (ph, h) \<and> sm_state (session h) = Failed}"
  using snapshot_counts [OF server_invarD(1) [OF assms]] live_counts [OF assms, of "\<lambda>_. True"]
    live_counts [OF assms, of "\<lambda>st. st = ReadyDryRun"] live_counts [OF assms, of "\<lambda>st. st = Failed"]
  by simp_all

lemma snapshot_live_sessions:
  assumes "server_invar n s"
  shows "sorted_wrt (<) (map re_id (snap_sessions (snapshot (registry (sv_shared s)))))"
    and "(\<lambda>e. (re_id e, re_state e)) ` set (snap_sessions (snapshot (registry (sv_shared s)))) =
      {(session_id h, sm_state (session h)) |h. \<exists>u ph. sv_conns s u = Some (ph, h)}" (is "?f ` ?E = ?C")
proof -
  let ?reg = "registry (sv_shared s)"
  note inv = server_invarD [OF assms]
  have entry: "e \<in> ?E \<longleftrightarrow> reg_get ?reg (re_id e) = Some e" for e
    using snapshot_counts [OF inv(1)] by blast
  have id: "re_id e = sid" if "reg_get ?reg sid = Some e" for sid e
    using reg_history_invar [OF inv(1)] that by (auto simp: reg_invar_def entry_ok_def)
  have live: "\<exists>e. reg_get ?reg (session_id h) = Some e \<and> re_state e = sm_state (session h)"
    if "sv_conns s u = Some (ph, h)" for u ph h
    using inv(2) [OF that] by (auto simp: conn_ok_def)
  show "sorted_wrt (<) (map re_id (snap_sessions (snapshot ?reg)))"
    using snapshot_counts [OF inv(1)] by blast
  show "?f ` ?E = ?C"
  proof (intro equalityI subsetI)
    fix x assume "x \<in> ?f ` ?E"
    then obtain e where e: "reg_get ?reg (re_id e) = Some e" "x = (re_id e, re_state e)"
      using entry by blast
    then obtain u ph h where u: "sv_conns s u = Some (ph, h)" "session_id h = re_id e"
      using inv(4) [of "re_id e"] by force
    with live [OF u(1)] e have "x = (session_id h, sm_state (session h))" by auto
    with u(1) show "x \<in> ?C" by blast
  next
    fix x assume "x \<in> ?C"
    then obtain u ph h where u: "sv_conns s u = Some (ph, h)" "x = (session_id h, sm_state (session h))" by blast
    from live [OF u(1)] obtain e where e: "reg_get ?reg (session_id h) = Some e" "re_state e = sm_state (session h)" by blast
    have "e \<in> ?E" using entry [of e] e(1) id [OF e(1)] by simp
    moreover have "x = (re_id e, re_state e)" using u(2) e(2) id [OF e(1)] by simp
    ultimately show "x \<in> ?f ` ?E" by (rule rev_image_eqI)
  qed
qed


definition console_config :: ServerConfig where
  "console_config = default_config\<lparr>cfg_admin := \<lparr>local_stdin_enabled = True\<rparr>\<rparr>"


text \<open>
  Two consequences of how the process ends: the end of the standard input stops a server whose
  console is enabled, and both this and a failed listener are reported as a quit by the admin.
\<close>

lemma end_of_input_stops_the_server:
  assumes "local_stdin_enabled (cfg_admin cfg)"
  shows "\<exists>summary r. serve cfg from_str (StdinEnd # evs) (run_start cfg) = Finished (Inr ()) (Some summary) r \<and>
    summary_reason summary = AdminQuit"
  using assms by (simp add: finish_run_def final_summary_def build_shutdown_summary_def run_start_def server_start_def
      default_shared_def shutdown_new_def)

lemma listener_failure_reported_as_quit:
  assumes "local_stdin_enabled (cfg_admin cfg)"
  shows "\<exists>summary r. serve cfg from_str (AcceptFailed e # evs) (run_start cfg) = Finished (Inl e) (Some summary) r \<and>
    summary_reason summary = AdminQuit"
  using assms by (simp add: finish_run_def final_summary_def build_shutdown_summary_def run_start_def server_start_def
      default_shared_def shutdown_new_def)

end
