(* ===== verification/Tick_Loop.thy ===== *)
theory Tick_Loop
  imports Interleaving Server_Run Rounding
begin

text \<open>
  The tick task of the server (\<^verbatim>\<open>spawn_tick_loop\<close> of \<^verbatim>\<open>crates/server/src/lib.rs\<close>): at every tick of its
  timer it broadcasts a snapshot with one entity for each row of the client table. The table is a
  \<^verbatim>\<open>HashMap\<close>, so the order of its rows in a snapshot is an argument \<open>iter\<close>, of which only is assumed that
  it goes through every row once.
\<close>

section \<open>The task\<close>

definition tick_ms :: "ServerConfig \<Rightarrow> u64" where
  "tick_ms cfg = max (1000 div max (tick_rate (cfg_server cfg)) 1) 1"

definition as_f32 :: "nat \<Rightarrow> f32" where
  "as_f32 n = round_bits 24 n"

definition tick_entity :: "u64 \<Rightarrow> Uuid \<times> ClientInfo \<Rightarrow> EntityState" where
  "tick_entity tick row =
     (case row of (owner, client) \<Rightarrow>
        \<lparr>entity_id = ci_entity_id client, owner_id = owner,
         position = \<lparr>pos_x = as_f32 (unat tick), pos_y = as_f32 (unat (ci_entity_id client)), pos_z = 0\<rparr>,
         entity_tick = tick\<rparr>)"

type_synonym row_order = "(Uuid, ClientInfo) btree \<Rightarrow> (Uuid \<times> ClientInfo) list"

definition tick_step :: "row_order \<Rightarrow> u64 \<Rightarrow> SharedState \<Rightarrow> u64 \<times> ServerMessage option" where
  "tick_step iter tick sh =
     (let tick1 = tick + 1
      in (tick1, if clients sh = [] then None else Some (EntitySnapshot (map (tick_entity tick1) (iter (clients sh))))))"

text \<open>The task over the shared states it finds at its ticks, and what it broadcasts.\<close>

fun tick_loop :: "row_order \<Rightarrow> u64 \<Rightarrow> SharedState list \<Rightarrow> ServerMessage list" where
  "tick_loop iter tick [] = []"
| "tick_loop iter tick (sh # shs) =
     (case tick_step iter tick sh of
        (tick1, None) \<Rightarrow> tick_loop iter tick1 shs
      | (tick1, Some message) \<Rightarrow> message # tick_loop iter tick1 shs)"

section \<open>Lemmas\<close>

definition visits_rows :: "row_order \<Rightarrow> bool" where
  "visits_rows iter \<longleftrightarrow> (\<forall>cs. mset (iter cs) = mset cs)"

lemma visits_rows_id: "visits_rows (\<lambda>cs. cs)" and visits_rows_rev: "visits_rows rev"
  by (simp_all add: visits_rows_def)

lemma filter_key_single:
  "distinct (map fst kvs) \<Longrightarrow> map_of kvs k = Some v \<Longrightarrow> filter (\<lambda>kv. fst kv = k) kvs = [(k, v)]"
proof (induction kvs)
  case (Cons kv kvs)
  show ?case
  proof (cases "fst kv = k")
    case True
    then have "filter (\<lambda>kv. fst kv = k) kvs = []"
      using Cons.prems(1) unfolding filter_empty_conv by (metis distinct.simps(2) image_eqI list.simps(9) list.set_map)
    with True Cons.prems(2) show ?thesis by (cases kv) simp
  qed (use Cons in auto)
qed simp

lemma tick_step_row:
  assumes "visits_rows iter" and "rows_ok (clients sh)" and "bt_get (clients sh) u = Some c"
  shows "\<exists>es. tick_step iter tick sh = (tick + 1, Some (EntitySnapshot es)) \<and>
    filter (\<lambda>e. owner_id e = u) es = [tick_entity (tick + 1) (u, c)]"
proof -
  let ?rows = "iter (clients sh)"
  have own: "owner_id (tick_entity t kv) = fst kv" for t kv
    by (simp add: tick_entity_def split: prod.splits)
  have "distinct (map fst (clients sh))"
    using assms(2) bt.items_distinct by (auto simp: rows_ok_def)
  then have "mset (filter (\<lambda>kv. fst kv = u) (clients sh)) = {#(u, c)#}"
    using filter_key_single [OF _ assms(3)] by simp
  then have "mset (filter (\<lambda>kv. fst kv = u) ?rows) = {#(u, c)#}"
    using assms(1) unfolding visits_rows_def mset_filter by simp
  then have "filter (\<lambda>kv. fst kv = u) ?rows = [(u, c)]" by (simp only: mset_single_iff)
  then have "filter (\<lambda>e. owner_id e = u) (map (tick_entity (tick + 1)) ?rows) = [tick_entity (tick + 1) (u, c)]"
    by (simp add: filter_map o_def own)
  moreover have "clients sh \<noteq> []" using assms(3) by auto
  ultimately show ?thesis by (simp add: tick_step_def Let_def)
qed

text \<open>The snapshots are numbered by the ticks of the timer, those without clients included.\<close>

lemma tick_loop_numbered:
  "tick_loop iter tick shs =
     map (\<lambda>(i, sh). EntitySnapshot (map (tick_entity (tick + 1 + of_nat i)) (iter (clients sh))))
       (filter (\<lambda>(i, sh). clients sh \<noteq> []) (enumerate 0 shs))"
proof (induction shs arbitrary: tick)
  case (Cons sh shs)
  have shift: "enumerate (Suc 0) shs = map (\<lambda>(i, sh). (Suc i, sh)) (enumerate 0 shs)"
    by (simp add: enumerate_eq_zip zip_map1 map_Suc_upt [symmetric] del: upt_Suc)
  show ?case
    using Cons.IH [of "tick + 1"]
    by (simp add: tick_step_def Let_def shift filter_map o_def case_prod_unfold algebra_simps)
qed simp

text \<open>The row of a client that is not served changes with no event of another.\<close>

lemma deliver_row:
  assumes "server_invar n s" and "v \<noteq> u"
  shows "bt_get (clients (sv_shared (deliver cfg from_str ann ev u s))) v = bt_get (clients (sv_shared s)) v"
proof (cases "sv_conns s u")
  case (Some c)
  obtain ph h where c: "c = (ph, h)" by fastforce
  obtain ph' h' where step: "conn_step cfg from_str ann ev (ph, h\<lparr>shared := sv_shared s\<rparr>) = (ph', h')" by fastforce
  note old = conn_ok_resume [OF server_invarD(2) [OF assms(1) Some, unfolded c]]
  show ?thesis
    using conn_step_effect [OF old(1,2), of cfg from_str ann ev] assms(2) old(3)
    unfolding step by (simp add: deliver_def Some c step step_effect_def)
qed (simp add: deliver_def)

lemma meanwhile_row:
  assumes "meanwhile cfg from_str u (n, s) (n', s')" and "server_reachable cfg from_str n s" and "n' < 2 ^ 64"
  shows "server_reachable cfg from_str n' s'"
    and "bt_get (clients (sv_shared s')) u = bt_get (clients (sv_shared s)) u"
proof -
  have "server_reachable cfg from_str n' s' \<and> bt_get (clients (sv_shared s')) u = bt_get (clients (sv_shared s)) u"
    using assms(1,3)
  proof (induction "(n, s)" "(n', s')" arbitrary: n' s' rule: meanwhile.induct)
    case nothing
    with assms show ?case by simp
  next
    case (accepts m t w)
    then have "clients (sv_shared (accept_connection w t)) = clients (sv_shared t)"
      by (simp add: accept_connection_def Let_def handle_connect_simps)
    with accepts show ?case by (auto intro: server_reachable.accept)
  next
    case (reacts m t w ann ev)
    then have "server_reachable cfg from_str m t" "bt_get (clients (sv_shared t)) u = bt_get (clients (sv_shared s)) u" by auto
    with deliver_row [OF server_reachable_invar, of cfg from_str m t u w] reacts.hyps(3) reacts.prems show ?case
      by (auto intro: server_reachable.event)
  qed
  then show "server_reachable cfg from_str n' s'" "bt_get (clients (sv_shared s')) u = bt_get (clients (sv_shared s)) u"
    by simp_all
qed

section \<open>Properties\<close>

text \<open>C15: Every client in the game is in every snapshot. At any tick, on a server that was reached by any
  interleaving of connections, a snapshot is broadcast as soon as one connection is in its message
  loop; and each such connection has exactly one entity in it, with the entity id of the client and
  the number of the tick, in whatever order the rows of the table are visited.
\<close>

theorem snapshot_lists_connections:
  assumes "server_reachable cfg from_str n s" and "n < 2 ^ 64" and "visits_rows iter"
    and "sv_conns s u = Some (InLoop, h)"
  shows "\<exists>es e. tick_step iter tick (sv_shared s) = (tick + 1, Some (EntitySnapshot es)) \<and>
    filter (\<lambda>e. owner_id e = u) es = [e] \<and> entity_id e = next_entity_id u \<and> entity_tick e = tick + 1"
proof -
  note inv = server_reachable_invar [OF assms(1,2)]
  obtain c where c: "bt_get (clients (sv_shared s)) u = Some c"
    using server_invarD(2) [OF inv assms(4)] by (auto simp: conn_ok_def)
  note rows = server_invarD(5) [OF inv]
  from rows c have "ci_entity_id c = next_entity_id u" by (simp add: rows_ok_def)
  with tick_step_row [OF assms(3) rows c, of tick] show ?thesis
    by (auto simp: tick_entity_def)
qed

definition tick_from_str :: "string \<Rightarrow> string + ClientMessage" where
  "tick_from_str line = (if line = ''login'' then Inr (Login ''cat'' 2 current_login_capabilities) else Inl ''bad'')"

definition tick_server :: server where
  "tick_server = deliver default_config tick_from_str None (LineRead ''login'') [7, 0, 0, 0]
     (accept_connection [7, 0, 0, 0] (server_start default_config))"

lemma tick_server_reachable: "server_reachable default_config tick_from_str 1 tick_server"
  unfolding tick_server_def One_nat_def by (intro server_reachable.intros) (simp add: server_start_def)

lemma tick_server_serves: "\<exists>h. sv_conns tick_server [7, 0, 0, 0] = Some (InLoop, h)"
proof -
  let ?h = "handle_connect [7, 0, 0, 0] (sv_shared (server_start default_config))"
  have "accepted_login default_config tick_from_str ''login''"
    by (simp add: accepted_login_def tick_from_str_def decode_client_line_def PROTOCOL_VERSION_def policy_rejects_def
        default_config_def default_protocol_def)
  then have "fst (handle_first_line default_config tick_from_str None ''login'' ?h) = Proceed"
    using handle_first_line_flow [of ?h default_config tick_from_str "''login''" None]
    by (simp add: handle_connect_simps sm_new_def writable_def)
  then obtain g where "handle_first_line default_config tick_from_str None ''login'' ?h = (Proceed, g)"
    by (metis prod.collapse)
  moreover have "?h\<lparr>shared := shared ?h\<rparr> = ?h" by simp
  ultimately show ?thesis
    by (simp add: tick_server_def deliver_def accept_connection_def Let_def finish_def)
qed

theorem snapshot_lists_connections_witness:
  "\<exists>es e. tick_step rev 41 (sv_shared tick_server) = (42, Some (EntitySnapshot es)) \<and>
    filter (\<lambda>e. owner_id e = [7, 0, 0, 0]) es = [e] \<and> entity_id e = 7 \<and> entity_tick e = 42"
proof -
  obtain h where "sv_conns tick_server [7, 0, 0, 0] = Some (InLoop, h)" using tick_server_serves by blast
  from snapshot_lists_connections [OF tick_server_reachable _ visits_rows_rev this, of 41] show ?thesis
    by (simp add: next_entity_id_def)
qed

text \<open>C24: A client that sends one line that does not decode stays in the game for ever. The server closes its
  connection, but its row is not removed: whatever the other clients do afterwards, as long as no
  connection gets the same client id, every snapshot still has its entity.
\<close>

theorem undecodable_client_stays:
  assumes "server_reachable cfg from_str n s" and "sv_conns s u = Some (InLoop, h)"
    and "decode_client_line from_str line = Inl e"
    and "meanwhile cfg from_str u (n, deliver cfg from_str ann (LineRead line) u s) (n', s')" and "n' < 2 ^ 64"
    and "visits_rows iter"
  shows "sv_conns (deliver cfg from_str ann (LineRead line) u s) u = None \<and>
    (\<exists>es. tick_step iter tick (sv_shared s') = (tick + 1, Some (EntitySnapshot es)) \<and> u \<in> owner_id ` set es)"
proof
  let ?t = "deliver cfg from_str ann (LineRead line) u s"
  have "n < 2 ^ 64" using meanwhile_count [OF assms(4)] assms(5) by simp
  note inv = server_reachable_invar [OF assms(1) this]
  have closed: "conn_step cfg from_str ann (LineRead line) (InLoop, g) = (Closed, drop_guard g)" for g
    using assms(3) by (simp add: handle_line_def finish_def)
  then have t: "?t = \<lparr>sv_shared = shared (drop_guard (h\<lparr>shared := sv_shared s\<rparr>)), sv_conns = (sv_conns s)(u := None)\<rparr>"
    using assms(2) by (simp only: deliver_def option.case prod.case simp_thms if_True)
  then show "sv_conns ?t u = None" by simp
  note there = meanwhile_row [OF assms(4) server_reachable.event [OF assms(1)] assms(5)]
  obtain c where "bt_get (clients (sv_shared s)) u = Some c"
    using server_invarD(2) [OF inv assms(2)] by (auto simp: conn_ok_def)
  then have "bt_get (clients (sv_shared s')) u = Some c"
    using there(2) by (simp add: t)
  from tick_step_row [OF assms(6) server_invarD(5) [OF server_reachable_invar [OF there(1) assms(5)]] this, of tick]
  obtain es where es: "tick_step iter tick (sv_shared s') = (tick + 1, Some (EntitySnapshot es))"
    "filter (\<lambda>e. owner_id e = u) es = [tick_entity (tick + 1) (u, c)]" by blast
  from es(2) have "u \<in> owner_id ` set es"
    by (metis (mono_tags, lifting) image_iff list.set_intros(1) mem_Collect_eq set_filter)
  with es(1) show "\<exists>es. tick_step iter tick (sv_shared s') = (tick + 1, Some (EntitySnapshot es)) \<and> u \<in> owner_id ` set es"
    by blast
qed

theorem undecodable_client_stays_witness:
  "\<exists>es. tick_step rev 41 (sv_shared (deliver default_config tick_from_str None ReadEof [8]
      (accept_connection [8] (deliver default_config tick_from_str None (LineRead ''x'') [7, 0, 0, 0] tick_server)))) =
    (42, Some (EntitySnapshot es)) \<and> [7, 0, 0, 0] \<in> owner_id ` set es"
proof -
  let ?t = "deliver default_config tick_from_str None (LineRead ''x'') [7, 0, 0, 0] tick_server"
  obtain h where h: "sv_conns tick_server [7, 0, 0, 0] = Some (InLoop, h)" using tick_server_serves by blast
  have bad: "decode_client_line tick_from_str ''x'' = Inl ''bad''"
    by (simp add: tick_from_str_def decode_client_line_def)
  have "sv_conns ?t [8] = None"
    using deliver_dom [of default_config tick_from_str None "LineRead ''x''" "[7, 0, 0, 0]" tick_server]
      deliver_dom [of default_config tick_from_str None "LineRead ''login''" "[7, 0, 0, 0]"
        "accept_connection [7, 0, 0, 0] (server_start default_config)"]
    by (fastforce simp: tick_server_def accept_connection_def Let_def server_start_def)
  then have "meanwhile default_config tick_from_str [7, 0, 0, 0] (1, ?t)
      (Suc 1, deliver default_config tick_from_str None ReadEof [8] (accept_connection [8] ?t))"
    by (intro meanwhile.intros) simp_all
  from undecodable_client_stays [OF tick_server_reachable h bad this _ visits_rows_rev, of 41] show ?thesis by simp
qed

text \<open>Positions follow the ticks within the precision of \<^verbatim>\<open>f32\<close>. The x coordinate of an entity is the tick of
  its snapshot exactly up to tick 16777216, and off by at most one part in 16777216 later.
\<close>

theorem position_follows_tick:
  assumes "tick_step iter tick sh = (tick1, Some (EntitySnapshot es))" and "e \<in> set es"
  shows "let k = unat (entity_tick e); x = pos_x (position e)
    in (k \<le> 2 ^ 24 \<longrightarrow> x = k) \<and> (k - x) * 2 ^ 24 \<le> k \<and> (x - k) * 2 ^ 24 \<le> k"
proof -
  have "pos_x (position e) = round_bits 24 (unat (entity_tick e))"
    using assms by (auto simp: tick_step_def Let_def tick_entity_def as_f32_def split: if_splits)
  then show ?thesis
    using round_bits_close [of 24 "unat (entity_tick e)"] round_bits_exact [of 24 "unat (entity_tick e)"]
    by (simp add: Let_def)
qed

text \<open>At tick 16777217 the coordinate is still 16777216.\<close>

definition one_client :: SharedState where
  "one_client = default_shared\<lparr>clients := [([7, 0, 0, 0], \<lparr>ci_name = ''cat'', ci_entity_id = 7, last_announcement = None, shared_caps = []\<rparr>)]\<rparr>"

theorem position_follows_tick_witness:
  "pos_x (position (tick_entity 16777216 (hd (clients one_client)))) = 16777216 \<and>
   pos_x (position (tick_entity 16777217 (hd (clients one_client)))) = 16777216"
proof -
  have "tick_step rev 16777215 one_client = (16777216, Some (EntitySnapshot [tick_entity 16777216 (hd (clients one_client))]))"
    by (simp add: tick_step_def one_client_def)
  from position_follows_tick [OF this, of "tick_entity 16777216 (hd (clients one_client))"]
  have "pos_x (position (tick_entity 16777216 (hd (clients one_client)))) = 16777216"
    by (simp add: one_client_def tick_entity_def Let_def)
  moreover have "bit_length 16777217 \<le> 25" "\<not> bit_length 16777217 \<le> 24"
    by (simp_all add: bit_length_le_iff)
  then have "bit_length 16777217 = 25" by simp
  then have "pos_x (position (tick_entity 16777217 (hd (clients one_client)))) = 16777216"
    by (simp add: one_client_def tick_entity_def as_f32_def round_bits_def round_quotient_def Let_def)
  ultimately show ?thesis by blast
qed

end
