(* ===== verification/Commuting.thy ===== *)
theory Commuting
  imports Connections
begin

text \<open>
  Events of different connections commute. What a handler does depends on its own fields, its own
  registry entry and its own row of the client table only (\<open>same_view\<close>), and it changes nothing else of the
  shared state; so the order in which two connections are served does not matter.
\<close>

section \<open>What a handler sees\<close>

definition same_view :: "handler \<Rightarrow> handler \<Rightarrow> bool" where
  "same_view h g \<longleftrightarrow>
     client_id h = client_id g \<and> session_id h = session_id g \<and> session h = session g \<and> event_log h = event_log g \<and>
     peer_name h = peer_name g \<and> srv_ping_sequence h = srv_ping_sequence g \<and> to_client h = to_client g \<and>
     broadcasts h = broadcasts g \<and> write_fails h = write_fails g \<and>
     bt_get (clients (shared h)) (client_id g) = bt_get (clients (shared g)) (client_id g) \<and>
     reg_get (registry (shared h)) (session_id g) = reg_get (registry (shared g)) (session_id g)"

lemma same_viewD:
  assumes "same_view h g"
  shows "client_id h = client_id g" "session_id h = session_id g" "session h = session g" "event_log h = event_log g"
    "peer_name h = peer_name g" "srv_ping_sequence h = srv_ping_sequence g" "write_fails h = write_fails g"
    "bt_get (clients (shared h)) (client_id g) = bt_get (clients (shared g)) (client_id g)"
  using assms by (simp_all add: same_view_def)

text \<open>The primitives.\<close>

lemma same_view_primitives:
  assumes "same_view h g"
  shows "same_view (record_event k st t h) (record_event k st t g)"
    and "same_view (send_to_client m h) (send_to_client m g)"
    and "same_view (broadcast m h) (broadcast m g)"
    and "same_view (h\<lparr>session := x\<rparr>) (g\<lparr>session := x\<rparr>)"
    and "same_view (h\<lparr>srv_ping_sequence := q\<rparr>) (g\<lparr>srv_ping_sequence := q\<rparr>)"
    and "same_view (h\<lparr>write_fails := w\<rparr>) (g\<lparr>write_fails := w\<rparr>)"
  using assms by (simp_all add: same_view_def primitive_defs)

lemma same_view_registry:
  assumes "same_view h g" and "sid = session_id g"
  shows "same_view (with_registry (reg_adjust sid f) h) (with_registry (reg_adjust sid f) g)"
    and "same_view (with_registry (remove_session sid) h) (with_registry (remove_session sid) g)"
  using assms by (simp_all add: same_view_def with_registry_def reg.get_adjust reg.get_discard)

lemma same_view_publish: "same_view h g \<Longrightarrow> same_view (publish h) (publish g)"
  unfolding publish_def reg_setters by (simp add: same_view_registry(1) same_viewD)

lemma same_view_row:
  assumes "same_view h g" and "u = client_id g"
  shows "same_view (h\<lparr>shared := (shared h)\<lparr>clients := bt_insert u info (clients (shared h))\<rparr>, peer_name := name\<rparr>)
      (g\<lparr>shared := (shared g)\<lparr>clients := bt_insert u info (clients (shared g))\<rparr>, peer_name := name\<rparr>)"
    and "same_view (h\<lparr>shared := (shared h)\<lparr>clients := bt_remove u (clients (shared h))\<rparr>\<rparr>)
      (g\<lparr>shared := (shared g)\<lparr>clients := bt_remove u (clients (shared g))\<rparr>\<rparr>)"
  using assms by (simp_all add: same_view_def bt_get_insert bt_get_remove)

lemmas same_view_rules = same_view_primitives same_view_registry same_view_publish

section \<open>Pieces that see nothing else\<close>

definition agree :: "flow \<times> handler \<Rightarrow> flow \<times> handler \<Rightarrow> bool" where
  "agree r r' \<longleftrightarrow> fst r = fst r' \<and> same_view (snd r) (snd r')"

lemma agree_pair [simp]: "agree (fl, h) (fl', g) \<longleftrightarrow> fl = fl' \<and> same_view h g"
  by (simp add: agree_def)

definition local_piece :: "(handler \<Rightarrow> flow \<times> handler) \<Rightarrow> bool" where
  "local_piece f \<longleftrightarrow> (\<forall>h g. same_view h g \<longrightarrow> agree (f h) (f g))"

lemma local_pieceI: "(\<And>h g. same_view h g \<Longrightarrow> agree (f h) (f g)) \<Longrightarrow> local_piece f"
  unfolding local_piece_def by blast

lemma local_pieceD: "local_piece f \<Longrightarrow> same_view h g \<Longrightarrow> agree (f h) (f g)"
  unfolding local_piece_def by blast

lemma agree_and_then:
  assumes "agree r r'" and "local_piece f"
  shows "agree (and_then r f) (and_then r' f)"
proof -
  obtain fl h fl' g where r: "r = (fl, h)" "r' = (fl', g)" by fastforce
  show ?thesis
    using assms local_pieceD [OF assms(2), of h g] by (cases "fl = Proceed") (auto simp: r and_then_other)
qed

lemma local_and_then: "local_piece f \<Longrightarrow> local_piece f' \<Longrightarrow> local_piece (\<lambda>h. and_then (f h) f')"
  by (rule local_pieceI, rule agree_and_then [OF local_pieceD])

lemma local_send_direct: "local_piece (send_direct msg)"
proof (rule local_pieceI)
  fix h g assume v: "same_view h g"
  show "agree (send_direct msg h) (send_direct msg g)"
    using same_view_primitives(2) [OF v] same_view_primitives(2) [OF same_view_primitives(6) [OF v]]
    by (simp add: send_direct_def same_viewD [OF v] split: option.split prod.split nat.split) (use v in blast)
qed

lemma local_send_and_return: "local_piece (send_and_return msg)"
  unfolding send_and_return_def by (intro local_and_then local_send_direct) (simp add: local_piece_def)

lemma same_view_fail_session: "same_view h g \<Longrightarrow> same_view (fail_session reason t h) (fail_session reason t g)"
  unfolding fail_session_def by (simp add: same_view_rules same_viewD(3))

lemma local_handle_enforcement: "local_piece (handle_enforcement cfg)"
proof (rule local_pieceI)
  fix h g assume v: "same_view h g"
  let ?h2 = "\<lambda>t h. with_registry (update_session (session_id h) Failed (log_len (event_log (record_event EvFailed Failed t h))))
      (record_event EvFailed Failed t h)"
  have failed: "same_view (?h2 t h) (?h2 t g)" for t
    unfolding same_viewD [OF v] same_viewD(4) [OF same_view_primitives(1) [OF v]] reg_setters
    by (intro same_view_rules v) simp
  show "agree (handle_enforcement cfg h) (handle_enforcement cfg g)"
    using v failed local_pieceD [OF local_send_and_return failed]
    by (simp add: handle_enforcement_def Let_def same_viewD(2-4) [OF v] split: option.split)
qed

text \<open>The login.\<close>

lemma local_login_hello: "local_piece (login_hello name caps)"
proof (rule local_pieceI)
  fix h g assume v: "same_view h g"
  obtain m r where mr: "on_hello_received (session g) = (m, r)" by fastforce
  note moved = same_view_primitives(4) [OF v, of m]
  show "agree (login_hello name caps h) (login_hello name caps g)"
    using local_pieceD [OF local_send_and_return same_view_fail_session [OF moved]]
    by (simp add: login_hello_def same_viewD(3) [OF v] mr same_view_rules moved split: sum.split)
qed

lemma local_login_version: "local_piece (login_version v caps)"
proof (rule local_pieceI)
  fix h g assume v: "same_view h g"
  obtain m r where mr: "on_version_checked (session g) v = (m, r)" by fastforce
  note moved = same_view_primitives(4) [OF v, of m]
  have stored: "same_view (publish (with_registry (set_login_capabilities (session_id g) caps)
        (with_registry (set_protocol_version (session_id g) v) (record_event k st t (h\<lparr>session := m\<rparr>)))))
      (publish (with_registry (set_login_capabilities (session_id g) caps)
        (with_registry (set_protocol_version (session_id g) v) (record_event k st t (g\<lparr>session := m\<rparr>)))))" for k st t
    unfolding reg_setters by (intro same_view_rules moved) simp_all
  have away: "same_view (publish (record_event k st t (h\<lparr>session := m\<rparr>))) (publish (record_event k st t (g\<lparr>session := m\<rparr>)))" for k st t
    by (intro same_view_rules moved)
  show "agree (login_version v caps h) (login_version v caps g)"
    using local_pieceD [OF local_send_and_return away] stored
    by (simp add: login_version_def same_viewD(2,3) [OF v] mr Let_def split: sum.split)
qed

lemma local_login_negotiate: "local_piece (login_negotiate cfg name v caps)"
proof (rule local_pieceI)
  fix h g assume v: "same_view h g"
  obtain m r where mr: "on_negotiation_logged (session g) = (m, r)" by fastforce
  have logged: "same_view (publish (with_registry (set_capability_negotiation (session_id g) rep) (record_event k st t (h\<lparr>session := x\<rparr>))))
      (publish (with_registry (set_capability_negotiation (session_id g) rep) (record_event k st t (g\<lparr>session := x\<rparr>))))" for rep k st t x
    unfolding reg_setters by (intro same_view_rules v) simp
  note moved = same_view_primitives(4) [OF v]
  show "agree (login_negotiate cfg name v caps h) (login_negotiate cfg name v caps g)"
    using local_pieceD [OF local_send_and_return logged] local_pieceD [OF local_handle_enforcement moved] v moved logged
    by (simp add: login_negotiate_def same_viewD(2,3) [OF v] mr Let_def split: sum.split)
qed

lemma local_login_welcome: "local_piece (login_welcome cfg ann name v caps)"
proof (rule local_pieceI)
  fix h g assume v: "same_view h g"
  show "agree (login_welcome cfg ann name v caps h) (login_welcome cfg ann name v caps g)"
    unfolding login_welcome_def Let_def same_viewD(1) [OF v]
    by (rule local_pieceD [OF local_send_direct], rule same_view_row(1) [OF v refl])
qed

lemma local_announcement_sent: "local_piece (announcement_sent cfg)"
proof (rule local_pieceI)
  fix h g assume v: "same_view h g"
  obtain m r where mr: "on_resource_announcement_sent (session g) = (m, r)" by fastforce
  note moved = same_view_primitives(4) [OF v]
  show "agree (announcement_sent cfg h) (announcement_sent cfg g)"
    using local_pieceD [OF local_handle_enforcement moved] moved
    by (simp add: announcement_sent_def same_viewD(3) [OF v] mr same_view_rules split: sum.split)
qed

lemma local_login_announce: "local_piece (login_announce cfg)"
proof (rule local_pieceI)
  fix h g assume v: "same_view h g"
  show "agree (login_announce cfg h) (login_announce cfg g)"
    using v
    by (simp add: login_announce_def same_viewD(1,3,8) [OF v] Let_def split: option.split)
      (intro allI impI agree_and_then local_announcement_sent local_pieceD [OF local_send_direct] same_view_rules v)
qed

lemma local_login_joined: "local_piece (login_joined name)"
  by (rule local_pieceI) (simp add: login_joined_def same_view_rules)

lemma local_handle_login: "local_piece (handle_login cfg ann name v caps)"
  unfolding handle_login_def
  by (intro local_and_then local_login_hello local_login_version local_login_negotiate local_login_welcome
      local_login_announce local_login_joined)

lemma local_handle_first_line: "local_piece (handle_first_line cfg from_str ann line)"
  by (rule local_pieceI)
    (auto simp: handle_first_line_def intro: local_pieceD [OF local_handle_login] local_pieceD [OF local_send_and_return]
      split: sum.split ClientMessage.split)

text \<open>The message loop.\<close>

lemma local_on_ping: "local_piece (on_ping seq)"
proof (rule local_pieceI)
  fix h g assume v: "same_view h g"
  let ?h1 = "\<lambda>h. record_event EvPongSent (sm_state (session g)) (''heartbeat: sent pong '' @ show_u64 seq) (broadcast (Pong seq)
      (record_event EvPingReceived (sm_state (session g)) (''heartbeat: received ping '' @ show_u64 seq) h))"
  have h1: "same_view (?h1 h) (?h1 g)" by (intro same_view_rules v)
  have counted: "same_view (with_registry (update_session_heartbeat_counts (session_id g) p q) (?h1 h))
      (with_registry (update_session_heartbeat_counts (session_id g) p q) (?h1 g))" for p q
    unfolding reg_setters by (rule same_view_registry(1) [OF h1]) simp
  show "agree (on_ping seq h) (on_ping seq g)"
    unfolding on_ping_def Let_def same_viewD(3) [OF v] same_viewD(2,4) [OF h1] agree_pair
    using counted by simp
qed

lemma local_on_server_pong: "local_piece (on_server_pong seq)"
proof (rule local_pieceI)
  fix h g assume v: "same_view h g"
  let ?h1 = "\<lambda>h. record_event EvServerPongReceived (sm_state (session g)) (''server heartbeat: received ServerPong '' @ show_u64 seq) h"
  have h1: "same_view (?h1 h) (?h1 g)" by (intro same_view_rules v)
  have counted: "same_view (with_registry (update_server_heartbeat_counts (session_id g) p q) (?h1 h))
      (with_registry (update_server_heartbeat_counts (session_id g) p q) (?h1 g))" for p q
    unfolding reg_setters by (rule same_view_registry(1) [OF h1]) simp
  show "agree (on_server_pong seq h) (on_server_pong seq g)"
    unfolding on_server_pong_def Let_def same_viewD(3) [OF v] same_viewD(2,4) [OF h1] agree_pair
    using counted by simp
qed

lemma local_on_chat: "local_piece (on_chat msg)"
  by (rule local_pieceI) (simp add: on_chat_def Let_def same_viewD same_view_rules)

lemma agree_enforced_transition:
  assumes "same_view h g"
  shows "agree (enforced_transition cfg label kind st msg res h) (enforced_transition cfg label kind st msg res g)"
proof -
  obtain m r where res: "res = (m, r)" by fastforce
  note moved = same_view_primitives(4) [OF assms, of m]
  show ?thesis
    using moved by (simp add: enforced_transition_def res Let_def same_view_rules same_view_fail_session split: sum.split)
qed

lemma local_report_policy: "local_piece (report_policy cfg decision)"
proof (rule local_pieceI)
  fix h g assume v: "same_view h g"
  obtain m r where mr: "on_policy_evaluated (session g) decision = (m, r)" by fastforce
  show "agree (report_policy cfg decision h) (report_policy cfg decision g)"
    using agree_enforced_transition [OF v] same_view_primitives(4) [OF v, of m]
    by (simp add: report_policy_def same_viewD(3) [OF v] mr same_view_rules split: sum.split SessionStateError.split)
qed

lemma local_report_steps:
  "local_piece (report_received cfg)" "local_piece (report_gate cfg decision caps)" "local_piece (report_ready cfg)"
  unfolding report_received_def report_gate_def report_ready_def Let_def
  by (rule local_pieceI; simp add: same_viewD(3) agree_enforced_transition same_view_rules)+

lemma local_on_report: "local_piece (on_report cfg report)"
proof (rule local_pieceI)
  fix h g assume v: "same_view h g"
  have "local_piece (\<lambda>h. and_then (and_then (and_then (report_received cfg h) (report_policy cfg d))
      (report_gate cfg gate caps)) (report_ready cfg))" for d gate caps
    by (intro local_and_then local_report_steps local_report_policy)
  from local_pieceD [OF this v] v show "agree (on_report cfg report h) (on_report cfg report g)"
    by (simp add: on_report_def same_viewD(1,8) [OF v] Let_def split: option.split)
qed

lemma local_handle_line: "local_piece (handle_line cfg from_str line)"
  by (rule local_pieceI)
    (auto simp: handle_line_def intro: local_pieceD [OF local_on_ping] local_pieceD [OF local_on_server_pong]
      local_pieceD [OF local_on_chat] local_pieceD [OF local_on_report] split: sum.split ClientMessage.split)

lemma local_on_ping_tick: "local_piece (on_ping_tick cfg)"
proof (rule local_pieceI)
  fix h g assume v: "same_view h g"
  let ?h1 = "\<lambda>h. record_event EvServerPingSent (sm_state (session g))
      (''server heartbeat: sent ServerPing '' @ show_u64 (srv_ping_sequence g)) (send_to_client (ServerPing (srv_ping_sequence g)) h)"
  have h1: "same_view (?h1 h) (?h1 g)" by (intro same_view_rules v)
  let ?h2 = "\<lambda>h. (with_registry (update_server_heartbeat_counts (session_id (?h1 g)) (count_kind EvServerPingSent (event_log (?h1 g)))
      (count_kind EvServerPongReceived (event_log (?h1 g)))) (?h1 h))\<lparr>srv_ping_sequence := saturating_add (srv_ping_sequence g) 1\<rparr>"
  have h2: "same_view (?h2 h) (?h2 g)"
    unfolding reg_setters by (intro same_view_rules v) simp
  show "agree (on_ping_tick cfg h) (on_ping_tick cfg g)"
    unfolding on_ping_tick_def Let_def same_viewD(3,6) [OF v] same_viewD(2,4) [OF h1]
    using h2 same_view_primitives(2) [OF same_view_fail_session [OF h2]] by auto
qed

section \<open>Steps that see nothing else\<close>

lemma finish_agrees:
  assumes "agree r r'"
  shows "fst (finish r) = fst (finish r')" and "same_view (snd (finish r)) (snd (finish r'))"
proof -
  obtain fl h g where r: "r = (fl, h)" "r' = (fl, g)" and v: "same_view h g"
    using assms by (cases r; cases r') (auto simp: agree_def)
  have dropped: "same_view (drop_guard h) (drop_guard g)"
    unfolding drop_guard_def same_viewD(2) [OF v] by (intro same_view_rules v) simp
  let ?h1 = "\<lambda>h. broadcast (ChatBroadcast ''server'' (peer_name g @ '' left''))
      (h\<lparr>shared := (shared h)\<lparr>clients := bt_remove (client_id g) (clients (shared h))\<rparr>\<rparr>)"
  have h1: "same_view (?h1 h) (?h1 g)"
    by (intro same_view_primitives same_view_row(2) [OF v refl])
  have left: "same_view (leave_loop h) (leave_loop g)"
    unfolding leave_loop_def Let_def drop_guard_def same_viewD(1,5) [OF v] reg_setters
    using h1 same_viewD(2,4) [OF h1]
    by (simp add: same_view_registry)
  show "fst (finish r) = fst (finish r')" and "same_view (snd (finish r)) (snd (finish r'))"
    using v dropped left by (cases fl; simp add: r finish_def)+
qed

lemma conn_step_agrees:
  assumes "same_view h g"
  shows "fst (conn_step cfg from_str ann ev (ph, h)) = fst (conn_step cfg from_str ann ev (ph, g)) \<and>
    same_view (snd (conn_step cfg from_str ann ev (ph, h))) (snd (conn_step cfg from_str ann ev (ph, g)))"
proof -
  note pieces = local_pieceD [OF local_handle_first_line assms] local_pieceD [OF local_handle_line assms]
    local_pieceD [OF local_on_ping_tick assms]
  have stop: "agree (fl, h) (fl, g)" for fl using assms by simp
  show ?thesis
    using assms finish_agrees [OF stop] finish_agrees [OF pieces(1)] finish_agrees [OF pieces(2)] finish_agrees [OF pieces(3)]
    by (cases ph; cases ev) (simp_all add: same_view_primitives)
qed

lemma finish_ids:
  "evolves h (snd r) \<Longrightarrow> client_id (snd (finish r)) = client_id h \<and> session_id (snd (finish r)) = session_id h"
  by (cases r; cases "fst r") (auto simp: finish_def drop_guard_def leave_loop_def Let_def evolves_def)

lemma conn_step_ids:
  assumes "synced h"
  shows "client_id (snd (conn_step cfg from_str ann ev (ph, h))) = client_id h \<and>
    session_id (snd (conn_step cfg from_str ann ev (ph, h))) = session_id h"
proof -
  note pieces = handle_first_line_ok handle_line_ok on_ping_tick_ok
  show ?thesis
    using assms pieces [unfolded piece_ok_def] finish_ids [of h "(_, h)"]
    by (cases ph; cases ev) (simp_all add: finish_ids)
qed

section \<open>Servers\<close>

text \<open>
  The server without the copies of the shared state inside its handlers, which are replaced by the
  current one whenever a handler runs.
\<close>

definition settled :: "server \<Rightarrow> server" where
  "settled s = s\<lparr>sv_conns := (\<lambda>u. map_option (\<lambda>(ph, h). (ph, h\<lparr>shared := default_shared\<rparr>)) (sv_conns s u))\<rparr>"

lemma same_view_settled: "same_view h g \<Longrightarrow> h\<lparr>shared := sh\<rparr> = g\<lparr>shared := sh\<rparr>"
  by (cases h; cases g) (simp add: same_view_def)

lemma btree_ext:
  assumes "bt_invar m" and "bt_invar m'" and "\<And>k. bt_get m k = bt_get m' k"
  shows "m = m'"
proof -
  have sets: "set m = set m'"
    using assms(3) by (auto simp: bt.in_items_iff [OF assms(1)] bt.in_items_iff [OF assms(2)])
  have "distinct (map fst m)" "distinct (map fst m')" "sorted (map fst m)" "sorted (map fst m')"
    using assms(1,2) by (simp_all add: bt_invar_def strict_sorted_iff)
  moreover from this have "inj_on fst (set m \<union> set m')"
    by (simp add: sets distinct_map)
  ultimately show ?thesis
    using sets by (intro map_sorted_distinct_set_unique) simp_all
qed

lemma shared_ext:
  assumes "reg_history n (registry a)" "reg_history n' (registry b)" "rows_ok (clients a)" "rows_ok (clients b)"
    and "globals a = globals b" and "\<And>j. reg_get (registry a) j = reg_get (registry b) j"
    and "\<And>u. bt_get (clients a) u = bt_get (clients b) u"
  shows "a = b"
proof -
  have "reg_entries (registry a) = reg_entries (registry b)"
    using assms(1,2,6) reg_history_invar by (intro btree_ext) (auto simp: reg_invar_def reg_get_def)
  moreover have "clients a = clients b"
    using assms(3,4,7) by (intro btree_ext) (auto simp: rows_ok_def)
  ultimately show ?thesis
    using assms(5) by (cases a; cases b; cases "registry a"; cases "registry b") (simp add: globals_def)
qed

text \<open>One step of a live connection, and the same step after a step of another.\<close>

lemma step_after_other:
  assumes inv: "server_invar n s" and u: "sv_conns s u = Some (ph, h)" and w: "sv_conns s w = Some (qh, k)" and "u \<noteq> w"
    and first: "conn_step cfg from_str ann ev (ph, h\<lparr>shared := sv_shared s\<rparr>) = (ph1, h1)"
    and alone: "conn_step cfg from_str ann' ev' (qh, k\<lparr>shared := sv_shared s\<rparr>) = (qh1, k1)"
    and after: "conn_step cfg from_str ann' ev' (qh, k\<lparr>shared := shared h1\<rparr>) = (qh2, k2)"
  shows "qh2 = qh1" and "same_view k2 k1"
    and "reg_history n (registry (shared k2)) \<and> rows_ok (clients (shared k2)) \<and> globals (shared k2) = globals (sv_shared s)"
    and "reg_get (registry (shared k2)) j =
      (if j = session_id k then reg_get (registry (shared k1)) j
       else if j = session_id h then reg_get (registry (shared h1)) j else reg_get (registry (sv_shared s)) j)"
    and "bt_get (clients (shared k2)) x =
      (if x = w then bt_get (clients (shared k1)) x
       else if x = u then bt_get (clients (shared h1)) x else bt_get (clients (sv_shared s)) x)"
proof -
  note ok = server_invarD [OF inv]
  note hu = conn_ok_resume [OF ok(2) [OF u]] and kw = conn_ok_resume [OF ok(2) [OF w]]
  have sids: "session_id k \<noteq> session_id h"
    using ok(3) [OF u w] assms(4) by auto
  have eff1: "step_effect (h\<lparr>shared := sv_shared s\<rparr>) (ph1, h1)"
    using conn_step_effect [OF hu(1,2), of cfg from_str ann ev] unfolding first .
  have same: "same_view (k\<lparr>shared := shared h1\<rparr>) (k\<lparr>shared := sv_shared s\<rparr>)"
    using eff1 sids hu(3) kw(3) assms(4) by (simp add: same_view_def step_effect_def)
  show flow: "qh2 = qh1" and v: "same_view k2 k1"
    using conn_step_agrees [OF same, of cfg from_str ann' ev' qh] by (simp_all add: after alone)
  have ids: "session_id k1 = session_id k" "client_id k1 = w"
    using conn_step_ids [OF kw(1), of cfg from_str ann' ev' qh] kw(3) by (simp_all add: alone)
  have "synced (k\<lparr>shared := shared h1\<rparr>)"
    using kw(1) same by (simp add: synced_def same_view_def)
  from conn_step_effect [OF this kw(2), of cfg from_str ann' ev'] have eff2: "step_effect (k\<lparr>shared := shared h1\<rparr>) (qh2, k2)"
    unfolding after .
  show "reg_history n (registry (shared k2)) \<and> rows_ok (clients (shared k2)) \<and> globals (shared k2) = globals (sv_shared s)"
    using eff1 eff2 ok(1,5) by (simp add: step_effect_def)
  show "reg_get (registry (shared k2)) j =
      (if j = session_id k then reg_get (registry (shared k1)) j
       else if j = session_id h then reg_get (registry (shared h1)) j else reg_get (registry (sv_shared s)) j)"
    using eff1 eff2 v ids(1) by (simp add: step_effect_def same_view_def)
  show "bt_get (clients (shared k2)) x =
      (if x = w then bt_get (clients (shared k1)) x
       else if x = u then bt_get (clients (shared h1)) x else bt_get (clients (sv_shared s)) x)"
    using eff1 eff2 v ids(2) hu(3) kw(3) by (simp add: step_effect_def same_view_def)
qed

lemma deliver_result:
  assumes "sv_conns s u = Some (ph, h)" and "conn_step cfg from_str ann ev (ph, h\<lparr>shared := sv_shared s\<rparr>) = (ph', h')"
  shows "deliver cfg from_str ann ev u s =
    \<lparr>sv_shared = shared h', sv_conns = (sv_conns s)(u := if ph' = Closed then None else Some (ph', h'))\<rparr>"
  using assms by (simp add: deliver_def)

lemma deliver_absent: "sv_conns s u = None \<Longrightarrow> deliver cfg from_str ann ev u s = s"
  by (simp add: deliver_def)

lemma deliver_keeps_other: "w \<noteq> u \<Longrightarrow> sv_conns (deliver cfg from_str ann ev u s) w = sv_conns s w"
  by (simp add: deliver_def split: option.split prod.split)

lemma deliver_commutes:
  assumes inv: "server_invar n s" and ne: "u \<noteq> w"
  shows "settled (deliver cfg from_str ann' ev' w (deliver cfg from_str ann ev u s)) =
    settled (deliver cfg from_str ann ev u (deliver cfg from_str ann' ev' w s))"
proof (cases "sv_conns s u = None \<or> sv_conns s w = None")
  case True
  then show ?thesis
    using ne by (auto simp: deliver_absent deliver_keeps_other)
next
  case False
  then obtain ph h qh k where u: "sv_conns s u = Some (ph, h)" and w: "sv_conns s w = Some (qh, k)" by auto
  obtain ph1 h1 where h1: "conn_step cfg from_str ann ev (ph, h\<lparr>shared := sv_shared s\<rparr>) = (ph1, h1)" by fastforce
  obtain qh1 k1 where k1: "conn_step cfg from_str ann' ev' (qh, k\<lparr>shared := sv_shared s\<rparr>) = (qh1, k1)" by fastforce
  obtain ph2 h2 where h2: "conn_step cfg from_str ann ev (ph, h\<lparr>shared := shared k1\<rparr>) = (ph2, h2)" by fastforce
  obtain qh2 k2 where k2: "conn_step cfg from_str ann' ev' (qh, k\<lparr>shared := shared h1\<rparr>) = (qh2, k2)" by fastforce
  note uw = step_after_other [OF inv u w ne h1 k1 k2]
  note wu = step_after_other [OF inv w u ne [symmetric] k1 h1 h2]
  have sids: "session_id k \<noteq> session_id h"
    using server_invarD(3) [OF inv u w] ne by auto
  have "shared k2 = shared h2"
    using uw(3) wu(3) ne sids by (intro shared_ext) (auto simp: uw(4,5) wu(4,5))
  moreover have "deliver cfg from_str ann' ev' w (deliver cfg from_str ann ev u s) = \<lparr>sv_shared = shared k2,
      sv_conns = (sv_conns s)(u := if ph1 = Closed then None else Some (ph1, h1), w := if qh2 = Closed then None else Some (qh2, k2))\<rparr>"
    by (subst deliver_result [where ph = qh and h = k and ph' = qh2 and h' = k2])
      (use ne w k2 in \<open>simp_all add: deliver_result [OF u h1]\<close>)
  moreover have "deliver cfg from_str ann ev u (deliver cfg from_str ann' ev' w s) = \<lparr>sv_shared = shared h2,
      sv_conns = (sv_conns s)(w := if qh1 = Closed then None else Some (qh1, k1), u := if ph2 = Closed then None else Some (ph2, h2))\<rparr>"
    by (subst deliver_result [where ph = ph and h = h and ph' = ph2 and h' = h2])
      (use ne u h2 in \<open>simp_all add: deliver_result [OF w k1]\<close>)
  ultimately show ?thesis
    using same_view_settled [OF uw(2)] same_view_settled [OF wu(2)] uw(1) wu(1) ne
    by (auto simp: settled_def fun_eq_iff)
qed

section \<open>Interleavings\<close>

type_synonym conn_event = "Uuid \<times> client_event \<times> ResourceAnnouncement option"

definition run_events ::
  "ServerConfig \<Rightarrow> (string \<Rightarrow> string + ClientMessage) \<Rightarrow> conn_event list \<Rightarrow> server \<Rightarrow> server" where
  "run_events cfg from_str evs = fold (\<lambda>(u, ev, ann). deliver cfg from_str ann ev u) evs"

lemma run_events_simps [simp]:
  "run_events cfg from_str [] s = s"
  "run_events cfg from_str ((u, ev, ann) # evs) s = run_events cfg from_str evs (deliver cfg from_str ann ev u s)"
  "run_events cfg from_str (evs @ evs') s = run_events cfg from_str evs' (run_events cfg from_str evs s)"
  by (simp_all add: run_events_def)

lemma settledD:
  assumes "settled s = settled t"
  shows "sv_shared s = sv_shared t"
    and "map_option (\<lambda>(ph, h). (ph, h\<lparr>shared := default_shared\<rparr>)) (sv_conns s u) =
      map_option (\<lambda>(ph, h). (ph, h\<lparr>shared := default_shared\<rparr>)) (sv_conns t u)"
  using arg_cong [OF assms, of sv_shared] arg_cong [OF assms, of "\<lambda>x. sv_conns x u"] by (simp_all add: settled_def)

lemma settled_deliver:
  assumes "settled s = settled t"
  shows "settled (deliver cfg from_str ann ev u s) = settled (deliver cfg from_str ann ev u t)"
proof (cases "sv_conns s u")
  case None
  with settledD(2) [OF assms, of u] have "sv_conns t u = None" by simp
  with None assms show ?thesis by (simp add: deliver_absent)
next
  case (Some c)
  obtain ph h where s: "sv_conns s u = Some (ph, h)" using Some by (cases c) simp
  then have "map_option (\<lambda>(ph, h). (ph, h\<lparr>shared := default_shared\<rparr>)) (sv_conns t u) = Some (ph, h\<lparr>shared := default_shared\<rparr>)"
    using settledD(2) [OF assms, of u] by simp
  then obtain g where t: "sv_conns t u = Some (ph, g)"
    and same: "h\<lparr>shared := default_shared\<rparr> = g\<lparr>shared := default_shared\<rparr>" by auto
  from arg_cong [OF same, of "shared_update (\<lambda>_. sv_shared t)"]
  have "h\<lparr>shared := sv_shared s\<rparr> = g\<lparr>shared := sv_shared t\<rparr>"
    by (simp add: settledD(1) [OF assms])
  moreover obtain ph' h' where "conn_step cfg from_str ann ev (ph, g\<lparr>shared := sv_shared t\<rparr>) = (ph', h')" by fastforce
  ultimately have "deliver cfg from_str ann ev u s =
        \<lparr>sv_shared = shared h', sv_conns = (sv_conns s)(u := if ph' = Closed then None else Some (ph', h'))\<rparr>"
      "deliver cfg from_str ann ev u t =
        \<lparr>sv_shared = shared h', sv_conns = (sv_conns t)(u := if ph' = Closed then None else Some (ph', h'))\<rparr>"
    using deliver_result [OF s] deliver_result [OF t] by simp_all
  then show ?thesis
    using settledD(2) [OF assms] by (simp add: settled_def fun_eq_iff)
qed

lemma settled_run_events:
  "settled s = settled t \<Longrightarrow> settled (run_events cfg from_str evs s) = settled (run_events cfg from_str evs t)"
proof (induction evs arbitrary: s t)
  case (Cons e evs)
  obtain u ev ann where e: "e = (u, ev, ann)" using prod_cases3 by blast
  show ?case
    unfolding e run_events_simps by (rule Cons.IH, rule settled_deliver, rule Cons.prems)
qed simp

text \<open>An event can be moved in front of the events of other connections.\<close>

lemma run_events_move:
  assumes "server_invar n s" and "\<forall>e \<in> set pre. fst e \<noteq> u"
  shows "settled (run_events cfg from_str (pre @ (u, ev, ann) # post) s) =
    settled (run_events cfg from_str ((u, ev, ann) # pre @ post) s)"
  using assms
proof (induction pre arbitrary: s)
  case (Cons x pre)
  obtain w ev' ann' where x: "x = (w, ev', ann')" using prod_cases3 by blast
  let ?d = "\<lambda>s. deliver cfg from_str ann' ev' w s" and ?e = "\<lambda>s. deliver cfg from_str ann ev u s"
  have "settled (run_events cfg from_str (pre @ (u, ev, ann) # post) (?d s)) = settled (run_events cfg from_str (pre @ post) (?e (?d s)))"
    using Cons.IH [OF server_invar_deliver [OF Cons.prems(1)]] Cons.prems(2) by simp
  also have "\<dots> = settled (run_events cfg from_str (pre @ post) (?d (?e s)))"
    using Cons.prems(2) deliver_commutes [OF Cons.prems(1), of w u] by (intro settled_run_events) (simp add: x)
  finally show ?case by (simp add: x)
qed simp

lemma interleavings_settle:
  assumes "server_invar n s" and "\<And>u. filter (\<lambda>e. fst e = u) evs = filter (\<lambda>e. fst e = u) evs'"
  shows "settled (run_events cfg from_str evs s) = settled (run_events cfg from_str evs' s)"
  using assms
proof (induction evs arbitrary: evs' s)
  case Nil
  show ?case
  proof (cases evs')
    case (Cons e es)
    with Nil(2) [of "fst e"] show ?thesis by simp
  qed simp
next
  case (Cons x evs)
  obtain u ev ann where x: "x = (u, ev, ann)" using prod_cases3 by blast
  have "filter (\<lambda>e. fst e = u) evs' = x # filter (\<lambda>e. fst e = u) evs"
    using Cons.prems(2) [of u] by (simp add: x)
  then obtain pre post where evs': "evs' = pre @ x # post" and pre: "\<forall>e \<in> set pre. fst e \<noteq> u"
    by (auto dest!: filter_eq_ConsD)
  have "filter (\<lambda>e. fst e = w) evs = filter (\<lambda>e. fst e = w) (pre @ post)" for w
    using Cons.prems(2) [of w] pre by (cases "w = u") (auto simp: evs' x)
  then have "settled (run_events cfg from_str evs (deliver cfg from_str ann ev u s)) =
      settled (run_events cfg from_str (pre @ post) (deliver cfg from_str ann ev u s))"
    by (intro Cons.IH server_invar_deliver [OF Cons.prems(1)])
  with run_events_move [OF Cons.prems(1) pre, of cfg from_str ev ann post] show ?case
    by (simp add: x evs')
qed

section \<open>Properties\<close>

text \<open>C7: How connections are interleaved does not matter. From every server that can be reached, two
  sequences of events with the same events of each connection in the same order, however they are
  interleaved, lead to the same server: the same registry, client table and shutdown state, and the
  same handlers, with what they sent and queued, apart from the copies of the shared state they hold
  between their events.
\<close>

theorem interleavings_agree:
  assumes "server_reachable cfg from_str n s" and "n < 2 ^ 64"
    and "\<And>u. filter (\<lambda>e. fst e = u) evs = filter (\<lambda>e. fst e = u) evs'"
  shows "settled (run_events cfg from_str evs s) = settled (run_events cfg from_str evs' s)"
  using interleavings_settle [OF server_reachable_invar [OF assms(1,2)] assms(3)] .

theorem interleavings_agree_witness:
  "settled (run_events default_config Inl [([7], LineRead ''x'', None), ([8], PingTick, None), ([8], ReadEof, None)]
      (accept_connection [8] (accept_connection [7] (server_start default_config)))) =
   settled (run_events default_config Inl [([8], PingTick, None), ([8], ReadEof, None), ([7], LineRead ''x'', None)]
      (accept_connection [8] (accept_connection [7] (server_start default_config))))"
proof -
  have "server_reachable default_config Inl (Suc (Suc 0)) (accept_connection [8] (accept_connection [7] (server_start default_config)))"
    by (intro server_reachable.intros) (simp_all add: server_start_def accept_connection_def Let_def)
  then show ?thesis
    by (rule interleavings_agree) auto
qed

end
