(* ===== verification/Spec2Isabelle.thy ===== *)
theory Spec2Isabelle
  imports Tick_Loop Commuting
begin

text \<open>
  \<^bold>\<open>MeowV\<close> is a client and a server that speak a line protocol of JSON messages. The server keeps a
  session per connection, walks it through a handshake and announces resources; the client checks
  the announcement's signature, plans and executes downloads into a cache, keeps a manifest of what
  it committed, and reconciles, repairs and replays that manifest. This development models the
  crates under \<^verbatim>\<open>src/crates\<close> and proves what they rely on and promise.

  \<^bold>\<open>Parts and theories.\<close>

  \<^item> \<^verbatim>\<open>protocol/src/lib.rs\<close>: \<open>Protocol_Types\<close> (messages and shared records, one record or datatype per
    struct or enum), \<open>Capabilities\<close> (login capabilities, negotiation policy, version dry run, capability
    gate), \<open>Resource_Policy\<close> (availability report, join gate), \<open>Signatures\<close> (metadata, canonical payload,
    verification plan; with \<^verbatim>\<open>signature_engine.rs\<close> and the typestate of \<^verbatim>\<open>client/src/trust.rs\<close>),
    \<open>Fetch_Planning\<close> (sources, source policy, preflight and execution plan).
  \<^item> \<^verbatim>\<open>server/src\<close>: \<open>Session\<close> (state machine and event log), \<open>Enforcement\<close>, \<open>Heartbeat\<close>, \<open>Registry\<close> (sessions
    in id order), \<open>Config\<close>, \<open>Diagnostics\<close>, \<open>Admin\<close> (status, shutdown, admin commands), \<open>Server\<close> (one
    connection handler as a function per piece of \<^verbatim>\<open>handle_client\<close>), \<open>Handler\<close> (what each piece changes
    and how it ends), \<open>Writer\<close> (the writer task), \<open>Connections\<close> (the server as an inductive relation that
    interleaves accepts and events of all connections on the shared state), \<open>Commuting\<close> (events of
    different connections commute), \<open>Server_Run\<close> (the process: \<^verbatim>\<open>main\<close>, the accept loop beside the
    admin console, the final summary), \<open>Tick_Loop\<close> (the entity snapshots of \<^verbatim>\<open>spawn_tick_loop\<close>).
  \<^item> \<^verbatim>\<open>resource_manifest/src/lib.rs\<close>: \<open>Manifest\<close> (manifest validation, pack index, cache verification,
    compatibility; with \<^verbatim>\<open>game_edition\<close>), \<open>Load_Order\<close> (registry, dependency resolution, load plan),
    \<open>Resource_Runtime\<close> (runtime state machine).
  \<^item> \<^verbatim>\<open>client/src\<close>: \<open>Hash_Chain\<close> (hashes and mutation journal), \<open>Replay\<close> (snapshots, state view, replay,
    leases), \<open>Reconciliation\<close> (cache manifest, scan, join of manifest, cache and announcement),
    \<open>Fetch_Execution\<close> (staging, download, verification, commit, manifest update on one store of files),
    \<open>Repair\<close> (repair plan and execution), \<open>Report_Json\<close> (the hand-written serialisers of the reports),
    \<open>Client\<close> (ping exchange, heartbeat loop, preflight), \<open>Command_Line\<close> (flags, configuration, keys and
    the commands of \<^verbatim>\<open>main.rs\<close> that need no connection), \<open>Client_Session\<close> (the connected client and \<^verbatim>\<open>main\<close>).
  \<^item> \<^verbatim>\<open>server_browser/src/lib.rs\<close>: \<open>Server_Browser\<close>.
  \<^item> \<open>Handshake\<close> puts client, writer task and server together over a wire of lines; \<open>Interleaving\<close> does so
    among the events of other connections.
  \<^item> \<open>Prelude\<close> holds the lemmas on lists, results and decimal text that the parts share; \<open>Rounding\<close> is
    rounding to nearest, ties to even, for a given number of significant bits; \<open>Ordered_Map\<close> is
    the interface of the standard library's ordered map as a locale, interpreted on a sorted list;
    \<open>Event_Loop\<close> is the interface of a loop that takes events until one ends it, interpreted on the
    message loop of the client and the server process, and of a loop that ends with the first error,
    interpreted on the bring-up of resources.

  \<^bold>\<open>Correspondence.\<close> A definition carries the name of the function it models; constructors and fields
  that would clash carry a prefix (\<open>EvConnected\<close>, \<open>ce_sha256\<close>). Machine integers are words: sequence
  numbers, sizes and counters wrap or saturate where the source does. A \<^verbatim>\<open>Result\<close> is a sum with the
  error on the left, a panic is a value of its own, a mutating method returns the new state. A
  \<^verbatim>\<open>BTreeMap\<close> is the list of \<open>Ordered_Map\<close>; a \<^verbatim>\<open>HashMap\<close> is one too where its order cannot be seen, and
  where it can (the entities of a snapshot) the order of iteration is an argument. Strings are
  character lists. Floating point occurs on natural numbers only: the limit of a download is computed
  as the double arithmetic of the source does, with values rounded to 53 bits, and the coordinates of
  an entity are integers rounded to the 24 bits of an \<^verbatim>\<open>f32\<close>.

  \<^bold>\<open>Arguments.\<close> What the crates take from elsewhere is an argument: the JSON and TOML codecs, SHA-256,
  ed25519, fresh ids, the clock, what the network answers, which file operations fail, the tree of a
  directory, what a socket delivers, and after how many writes it breaks: every write of the client, the
  writes of the server's login and those of its writer task may fail. Where a property needs a law of
  such an argument (what is written reads back, file operations succeed), the law is a named hypothesis
  and a witness shows a function that satisfies it.

  \<^bold>\<open>What is shown.\<close>

  \<^item> Load order: a resolved order is a topological order of the whole registry; for a registry that is
    closed and lists no dependency twice one is found exactly when there is no cycle; resolution ends
    and never panics; the order can be executed by the runtime machine, whose invariant every call keeps.
  \<^item> Trust: strict trust is exactly a verifying signature under a configured key (or no resources);
    the canonical payload determines the contents and, where names and paths are distinct and there is
    one protocol version, does not depend on their order.
  \<^item> Sessions: a session that has not failed went through the phases once and in order; enforcement
    recovers the cause from the printed reason; the registry and its snapshot are accurate. In every
    interleaving the registry has exactly the open connections with their states; who is admitted, how
    a report completes the handshake, when a tick disconnects, what each way out of a connection cleans
    up and what it leaves behind. Interleavings that deliver the same events to each connection end in
    the same states. An entity snapshot lists every open connection that was welcomed, and also the
    row that a connection left behind which ended early.
  \<^item> Journal: a verified journal is tamper evident up to collisions; appending keeps it verified;
    replay applies linked entries only, refines map updates and is idempotent; when a lease is reclaimed.
  \<^item> Cache: every planned fetch selects the first acceptable source and is verified before its commit;
    every committed file has the announced size and digest unless a later commit to the same target
    replaced it; a source that delivers the content is committed and found in the manifest that is read
    again; the limit admits the announced size; reconciliation accounts for every file and is healthy
    exactly when the manifest matches the cache and its files are announced; repair stays
    within its permissions, heals exactly the entry it repairs, and never repairs a corrupted manifest.
  \<^item> Client: a strict session answers verified announcements only and stops at any other; a run without
    the repair command changes nothing but staging, report and output files; the repair command is guarded by
    its flags and the trust of the announcement; flags, environment and file override in that order;
    the runtime-plan command starts every resource; the strict heartbeat loop ends.
  \<^item> Together: the handshake between client and server completes and ends in the join-gate decision,
    whatever is broadcast in between and whatever other clients do; answered pings keep a connection open for ever; the server
    process stops at the first event that stops it, and its final summary prints how many connections are live, ready and failed.
  \<^item> The rest: negotiation, resource policy, configuration, diagnostics text, heartbeat metrics, the
    JSON form of reports, the type of parsed hashes.

  \<^bold>\<open>Bounds.\<close> No fuel is used: the loops recurse on the list of events, entries or tree nodes, or have
  a measure (Kahn's algorithm: queue length and remaining in-degrees). Statements about counters
  assume fewer events than the counter has values.

  \<^bold>\<open>Not modelled.\<close> Sockets and log output. The instances of \<^verbatim>\<open>Serialize\<close> and \<^verbatim>\<open>Deserialize\<close> that the
  compiler derives are left to the codec arguments, and so are the texts of their errors. Test
  helpers and tests, more than half of the lines of the crates, are left out.
\<close>

end
